(* ===== verification/Clip_Prelude.thy ===== *)
theory Clip_Prelude
  imports
    Main
    "HOL-Library.Char_ord"
    "HOL-Library.List_Lexorder"
    "HOL-Library.Multiset"
    "HOL-Library.Product_Lexorder"
    "HOL-Library.Sublist"
    "HOL-Library.Word"
begin

text \<open>
  Shared material of the clip-daemon development: the result type that stands for Rust's
  \<open>Result\<close>, the numeric limits of the machine integers, the byte and string types, the
  parts of the Rust standard library that several components call, and list lemmas on
  sorting, prefixes and running totals.

  A Rust \<open>String\<close> or \<open>&str\<close> is its UTF-8 byte sequence, a \<^typ>\<open>string\<close> (an Isabelle
  character is one byte), so \<open>len()\<close> is \<^const>\<open>length\<close> and comparison of TEXT columns is
  the bytewise lexicographic order.  A \<open>Vec<u8>\<close> or \<open>&[u8]\<close> has the same representation.
\<close>

named_theorems clip_defs \<open>definitions the component proofs unfold\<close>
named_theorems clip_bounds \<open>size and capacity facts\<close>

type_synonym str = string
type_synonym bytes = string

section \<open>Results\<close>

text \<open>\<open>Result<T, E>\<close> is the sum type with the error on the left; \<open>rbind\<close> is the \<open>?\<close> operator.\<close>

type_synonym ('e, 'a) result = "'e + 'a"

fun rbind :: "('e, 'a) result \<Rightarrow> ('a \<Rightarrow> ('e, 'b) result) \<Rightarrow> ('e, 'b) result" where
  "rbind (Inl e) f = Inl e"
| "rbind (Inr x) f = f x"

fun is_ok :: "('e, 'a) result \<Rightarrow> bool" where
  "is_ok (Inl e) = False"
| "is_ok (Inr x) = True"

definition ok_or :: "'a option \<Rightarrow> 'e \<Rightarrow> ('e, 'a) result" where
  "ok_or opt e = (case opt of None \<Rightarrow> Inl e | Some x \<Rightarrow> Inr x)"

lemma rbind_Inr_iff [simp]: "rbind r f = Inr y \<longleftrightarrow> (\<exists>x. r = Inr x \<and> f x = Inr y)"
  by (cases r) auto

lemma rbind_Inl_iff: "rbind r f = Inl e \<longleftrightarrow> r = Inl e \<or> (\<exists>x. r = Inr x \<and> f x = Inl e)"
  by (cases r) auto

lemma rbind_assoc: "rbind (rbind r f) g = rbind r (\<lambda>x. rbind (f x) g)"
  by (cases r) auto

lemma ok_or_Inr [simp]: "ok_or opt e = Inr x \<longleftrightarrow> opt = Some x"
  by (cases opt) (auto simp: ok_or_def)

lemma ok_or_Inl [simp]: "ok_or opt e = Inl e' \<longleftrightarrow> opt = None \<and> e' = e"
  by (cases opt) (auto simp: ok_or_def)

lemma is_ok_iff: "is_ok r \<longleftrightarrow> (\<exists>x. r = Inr x)"
  by (cases r) auto

section \<open>Machine integers\<close>

text \<open>
  Unsigned sizes are natural numbers; the operations that can leave the machine range name
  their bound.  Counters that wrap (\<open>fetch_add\<close>) are \<open>64 word\<close> in the components that use them.
\<close>

definition u64_max :: nat where "u64_max = 18446744073709551615"
definition i64_max :: nat where "i64_max = 9223372036854775807"

definition checked_add :: "nat \<Rightarrow> nat \<Rightarrow> nat option" where
  "checked_add a b = (if a + b \<le> u64_max then Some (a + b) else None)"

definition saturating_add :: "nat \<Rightarrow> nat \<Rightarrow> nat" where
  "saturating_add a b = min (a + b) u64_max"

text \<open>Truncated subtraction on \<^typ>\<open>nat\<close> is \<open>saturating_sub\<close>.\<close>

lemma checked_add_Some [simp]: "checked_add a b = Some c \<longleftrightarrow> c = a + b \<and> a + b \<le> u64_max"
  by (auto simp: checked_add_def)

lemma saturating_add_le [clip_bounds]: "saturating_add a b \<le> u64_max"
  by (simp add: saturating_add_def)

section \<open>Lists: sorting, prefixes, running totals\<close>

text \<open>\<open>ORDER BY k LIMIT n\<close> keeps a prefix of the rows sorted by \<open>k\<close>.\<close>

definition top_n :: "nat \<Rightarrow> ('a \<Rightarrow> 'k::linorder) \<Rightarrow> 'a list \<Rightarrow> 'a list" where
  "top_n n k xs = take n (sort_key k xs)"

definition beyond_n :: "nat \<Rightarrow> ('a \<Rightarrow> 'k::linorder) \<Rightarrow> 'a list \<Rightarrow> 'a list" where
  "beyond_n n k xs = drop n (sort_key k xs)"

lemma top_beyond: "set (top_n n k xs) \<union> set (beyond_n n k xs) = set xs"
  by (simp add: top_n_def beyond_n_def del: set_append flip: set_append)

lemma top_n_length [clip_bounds]: "length (top_n n k xs) \<le> n"
  by (simp add: top_n_def)

lemma take_drop_disjoint: "distinct xs \<Longrightarrow> set (take n xs) \<inter> set (drop n xs) = {}"
  by (metis append_take_drop_id distinct_append)

lemma sorted_take_drop:
  assumes "sorted (map k xs)" and "x \<in> set (take n xs)" and "y \<in> set (drop n xs)"
  shows "k x \<le> k y"
proof -
  have "sorted (map k (take n xs) @ map k (drop n xs))"
    using assms(1) by (simp flip: map_append)
  with assms(2,3) show ?thesis by (auto simp: sorted_append)
qed

lemma top_le_beyond: "x \<in> set (top_n n k xs) \<Longrightarrow> y \<in> set (beyond_n n k xs) \<Longrightarrow> k x \<le> k y"
  unfolding top_n_def beyond_n_def by (rule sorted_take_drop) simp_all

lemma length_filter_filter_le: "length (filter q (filter p xs)) \<le> length (filter q xs)"
  by (induction xs) auto

lemma sum_list_filter_le: "sum_list (map v (filter q xs)) \<le> sum_list (map v xs)" for v :: "'a \<Rightarrow> nat"
  by (induction xs) auto

lemma sum_list_filter_sorted:
  "sum_list (map v (filter q (sort_key k xs))) = sum_list (map v (filter q xs))" for v :: "'a \<Rightarrow> nat"
  by (metis mset_filter mset_map mset_sort sum_mset_sum_list)

lemma distinct_map_sort_key: "distinct (map f (sort_key k xs)) = distinct (map f xs)"
  by (metis mset_eq_imp_distinct_iff mset_map mset_sort)

text \<open>
  \<open>sum(v) OVER (ORDER BY \<dots> ROWS UNBOUNDED PRECEDING)\<close>: each row with the total of the
  values up to and including it.
\<close>

fun running :: "('a \<Rightarrow> nat) \<Rightarrow> nat \<Rightarrow> 'a list \<Rightarrow> ('a \<times> nat) list" where
  "running v acc [] = []"
| "running v acc (x # xs) = (x, acc + v x) # running v (acc + v x) xs"

lemma map_fst_running [simp]: "map fst (running v acc xs) = xs"
  by (induction xs arbitrary: acc) auto

lemma running_ge: "(x, r) \<in> set (running v acc xs) \<Longrightarrow> acc + v x \<le> r"
proof (induction xs arbitrary: acc)
  case Nil
  then show ?case by simp
next
  case (Cons y ys)
  from Cons.prems Cons.IH[of "acc + v y"] show ?case by fastforce
qed

lemma running_mem: "(x, r) \<in> set (running v acc xs) \<Longrightarrow> x \<in> set xs"
  by (metis fst_conv imageI list.set_map map_fst_running)

text \<open>Along a sorted list a smaller running total means an earlier row.\<close>

lemma running_sorted:
  fixes k :: "'a \<Rightarrow> 'k::linorder"
  shows "sorted (map k xs) \<Longrightarrow> (x, r) \<in> set (running v acc xs) \<Longrightarrow> (y, s) \<in> set (running v acc xs) \<Longrightarrow>
    r < s \<Longrightarrow> k x \<le> k y"
proof (induction xs arbitrary: acc)
  case Nil
  then show ?case by simp
next
  case (Cons z zs)
  have tail: "(a, b) \<in> set (running v (acc + v z) zs) \<Longrightarrow> acc + v z \<le> b \<and> k z \<le> k a" for a b
    using running_ge[of a b v "acc + v z" zs] running_mem[of a b v "acc + v z" zs] Cons.prems(1) by auto
  show ?case
  proof (cases "(x, r) \<in> set (running v (acc + v z) zs) \<and> (y, s) \<in> set (running v (acc + v z) zs)")
    case True
    with Cons show ?thesis by auto
  next
    case False
    with Cons.prems tail show ?thesis by fastforce
  qed
qed

text \<open>Rows whose running total stays within the budget have a total within the budget.\<close>

lemma running_filter_sum:
  "acc \<le> m \<Longrightarrow> acc + sum_list (map (v \<circ> fst) (filter (\<lambda>(x, r). r \<le> m) (running v acc xs))) \<le> m"
proof (induction xs arbitrary: acc)
  case Nil
  then show ?case by simp
next
  case (Cons x xs)
  show ?case
  proof (cases "acc + v x \<le> m")
    case True
    with Cons.IH[of "acc + v x"] show ?thesis by (simp add: add.assoc)
  next
    case False
    have "filter (\<lambda>(x, r). r \<le> m) (running v (acc + v x) xs) = []"
      using False running_ge[of _ _ v "acc + v x" xs] by (fastforce simp: filter_empty_conv)
    with False Cons.prems show ?thesis by simp
  qed
qed

section \<open>Keyed lists\<close>

text \<open>A \<open>HashMap\<close> as an association list: \<open>map_of\<close> looks up, \<open>without\<close> removes, consing after it inserts.\<close>

definition without :: "'k \<Rightarrow> ('k \<times> 'v) list \<Rightarrow> ('k \<times> 'v) list" where
  "without k xs = filter (\<lambda>e. fst e \<noteq> k) xs"

lemma without_mem [simp]: "(j, v) \<in> set (without i xs) \<longleftrightarrow> (j, v) \<in> set xs \<and> j \<noteq> i"
  by (auto simp: without_def)

lemma without_fst [simp]: "fst ` set (without i xs) = fst ` set xs - {i}"
  by (force simp: without_def)

lemma without_distinct: "distinct (map fst xs) \<Longrightarrow> distinct (map fst (without i xs))"
  by (simp add: without_def distinct_map_filter)

lemma without_absent: "i \<notin> fst ` set xs \<Longrightarrow> without i xs = xs"
  by (force simp: without_def filter_id_conv)

lemma map_of_without [simp]: "map_of (without i xs) j = (if j = i then None else map_of xs j)"
  by (induction xs) (auto simp: without_def)

end
