(* ===== verification/Rust_Str.thy ===== *)
theory Rust_Str
  imports Clip_Prelude
begin

text \<open>
  The parts of Rust's \<open>str\<close>, \<open>char\<close> and slice library the daemon calls, on byte sequences.
  UTF-8 is decoded chunk by chunk the way \<open>core::str\<close> does it: a chunk is a scalar value with
  its bytes, or a maximal ill-formed prefix.  \<open>from_utf8\<close> accepts the sequences all of whose
  chunks are scalar values, \<open>from_utf8_lossy\<close> replaces every ill-formed chunk by U+FFFD.
  The lemmas show that chunking loses no byte, that every chunk has one to four bytes, and
  that the lossy decoder is the identity on valid input.
\<close>

section \<open>UTF-8\<close>

definition byte_at :: "bytes \<Rightarrow> nat \<Rightarrow> nat" where
  "byte_at bs i = (if i < length bs then of_char (bs ! i) else 0)"

definition utf8_cont :: "nat \<Rightarrow> bool" where
  "utf8_cont b \<longleftrightarrow> 128 \<le> b \<and> b \<le> 191"

definition utf8_second3 :: "nat \<Rightarrow> nat \<Rightarrow> bool" where
  "utf8_second3 a b \<longleftrightarrow>
     (if a = 224 then 160 \<le> b \<and> b \<le> 191
      else if a = 237 then 128 \<le> b \<and> b \<le> 159 else utf8_cont b)"

definition utf8_second4 :: "nat \<Rightarrow> nat \<Rightarrow> bool" where
  "utf8_second4 a b \<longleftrightarrow>
     (if a = 240 then 144 \<le> b \<and> b \<le> 191
      else if a = 244 then 128 \<le> b \<and> b \<le> 143 else utf8_cont b)"

text \<open>The first chunk of a non-empty sequence: its scalar value, if well formed, and its length.\<close>

definition utf8_step :: "bytes \<Rightarrow> nat option \<times> nat" where
  "utf8_step bs =
    (let a = byte_at bs 0; b = byte_at bs 1; c = byte_at bs 2; d = byte_at bs 3 in
     if a < 128 then (Some a, 1)
     else if 194 \<le> a \<and> a \<le> 223 then
       (if utf8_cont b then (Some ((a - 192) * 64 + (b - 128)), 2) else (None, 1))
     else if 224 \<le> a \<and> a \<le> 239 then
       (if \<not> utf8_second3 a b then (None, 1)
        else if \<not> utf8_cont c then (None, 2)
        else (Some ((a - 224) * 4096 + (b - 128) * 64 + (c - 128)), 3))
     else if 240 \<le> a \<and> a \<le> 244 then
       (if \<not> utf8_second4 a b then (None, 1)
        else if \<not> utf8_cont c then (None, 2)
        else if \<not> utf8_cont d then (None, 3)
        else (Some ((a - 240) * 262144 + (b - 128) * 4096 + (c - 128) * 64 + (d - 128)), 4))
     else (None, 1))"

lemma utf8_step_pos: "0 < snd (utf8_step bs)"
  by (simp add: utf8_step_def Let_def)

lemma utf8_step_le4: "snd (utf8_step bs) \<le> 4"
  by (simp add: utf8_step_def Let_def)

function utf8_chunks :: "bytes \<Rightarrow> (nat option \<times> bytes) list" where
  "utf8_chunks [] = []"
| "utf8_chunks (c # cs) =
    (let (v, n) = utf8_step (c # cs) in (v, take n (c # cs)) # utf8_chunks (drop n (c # cs)))"
  by pat_completeness auto
termination
proof (relation "measure length")
  fix c :: char and cs :: bytes and x v n
  assume "x = utf8_step (c # cs)" and "(v, n) = x"
  then have "n = snd (utf8_step (c # cs))" by (metis snd_conv)
  with utf8_step_pos[of "c # cs"] show "(drop n (c # cs), c # cs) \<in> measure length" by simp
qed simp

text \<open>A decoded character: its scalar value and its bytes.\<close>

type_synonym rchar = "nat \<times> bytes"

definition replacement_char :: rchar where
  "replacement_char = (65533, [char_of (239::nat), char_of (191::nat), char_of (189::nat)])"

definition valid_utf8 :: "bytes \<Rightarrow> bool" where
  "valid_utf8 bs = list_all (\<lambda>(v, _). v \<noteq> None) (utf8_chunks bs)"

definition from_utf8 :: "bytes \<Rightarrow> str option" where
  "from_utf8 bs = (if valid_utf8 bs then Some bs else None)"

definition chars :: "bytes \<Rightarrow> rchar list" where
  "chars bs = map (\<lambda>(v, b). case v of None \<Rightarrow> replacement_char | Some c \<Rightarrow> (c, b)) (utf8_chunks bs)"

definition of_chars :: "rchar list \<Rightarrow> str" where
  "of_chars cs = concat (map snd cs)"

definition from_utf8_lossy :: "bytes \<Rightarrow> str" where
  "from_utf8_lossy bs = of_chars (chars bs)"

lemma utf8_chunks_concat: "concat (map snd (utf8_chunks bs)) = bs"
  by (induction bs rule: utf8_chunks.induct) (auto simp: Let_def split: prod.splits)

lemma utf8_chunks_size: "(v, b) \<in> set (utf8_chunks bs) \<Longrightarrow> 0 < length b \<and> length b \<le> 4"
proof (induction bs rule: utf8_chunks.induct)
  case 1
  then show ?case by simp
next
  case (2 c cs)
  obtain w n where wn: "utf8_step (c # cs) = (w, n)" by force
  then have n: "0 < n" "n \<le> 4"
    using utf8_step_pos[of "c # cs"] utf8_step_le4[of "c # cs"] by simp_all
  from 2 wn n show ?case by (auto simp: Let_def)
qed

lemma chars_size: "c \<in> set (chars bs) \<Longrightarrow> 0 < length (snd c) \<and> length (snd c) \<le> 4"
  by (auto simp: chars_def replacement_char_def dest!: utf8_chunks_size split: option.splits)

lemma chars_valid: "valid_utf8 bs \<Longrightarrow> of_chars (chars bs) = bs"
proof -
  assume v: "valid_utf8 bs"
  have "map snd (chars bs) = map snd (utf8_chunks bs)"
    using v by (auto simp: chars_def valid_utf8_def list_all_iff split: option.splits)
  then show ?thesis by (simp add: of_chars_def utf8_chunks_concat)
qed

lemma from_utf8_lossy_valid: "valid_utf8 bs \<Longrightarrow> from_utf8_lossy bs = bs"
  by (simp add: from_utf8_lossy_def chars_valid)

lemma of_chars_append [simp]: "of_chars (xs @ ys) = of_chars xs @ of_chars ys"
  by (simp add: of_chars_def)

lemma of_chars_simps [simp]: "of_chars [] = []" "of_chars (x # xs) = snd x @ of_chars xs"
  by (simp_all add: of_chars_def)

section \<open>Character classes\<close>

text \<open>\<open>char::is_whitespace\<close> (the White\_Space property) and \<open>char::is_control\<close> (category Cc).\<close>

definition is_whitespace :: "nat \<Rightarrow> bool" where
  "is_whitespace c \<longleftrightarrow>
     (9 \<le> c \<and> c \<le> 13) \<or> c = 32 \<or> c = 133 \<or> c = 160 \<or> c = 5760 \<or> (8192 \<le> c \<and> c \<le> 8202) \<or>
     c = 8232 \<or> c = 8233 \<or> c = 8239 \<or> c = 8287 \<or> c = 12288"

definition is_control :: "nat \<Rightarrow> bool" where
  "is_control c \<longleftrightarrow> c < 32 \<or> (127 \<le> c \<and> c < 160)"

definition is_ascii_whitespace :: "char \<Rightarrow> bool" where
  "is_ascii_whitespace b \<longleftrightarrow> of_char b \<in> {9, 10, 12, 13, 32 :: nat}"

definition is_ascii_hexdigit :: "char \<Rightarrow> bool" where
  "is_ascii_hexdigit b \<longleftrightarrow>
     (let n = (of_char b :: nat) in
      (48 \<le> n \<and> n \<le> 57) \<or> (65 \<le> n \<and> n \<le> 70) \<or> (97 \<le> n \<and> n \<le> 102))"

definition is_ascii_alphanumeric :: "char \<Rightarrow> bool" where
  "is_ascii_alphanumeric b \<longleftrightarrow>
     (let n = (of_char b :: nat) in
      (48 \<le> n \<and> n \<le> 57) \<or> (65 \<le> n \<and> n \<le> 90) \<or> (97 \<le> n \<and> n \<le> 122))"

definition is_ascii_lowercase :: "char \<Rightarrow> bool" where
  "is_ascii_lowercase b \<longleftrightarrow> (let n = (of_char b :: nat) in 97 \<le> n \<and> n \<le> 122)"

definition to_ascii_lowercase :: "str \<Rightarrow> str" where
  "to_ascii_lowercase s =
     map (\<lambda>b. let n = (of_char b :: nat) in if 65 \<le> n \<and> n \<le> 90 then char_of (n + 32) else b) s"

definition eq_ignore_ascii_case :: "str \<Rightarrow> str \<Rightarrow> bool" where
  "eq_ignore_ascii_case a b \<longleftrightarrow> to_ascii_lowercase a = to_ascii_lowercase b"

section \<open>Searching and splitting\<close>

fun contains :: "str \<Rightarrow> str \<Rightarrow> bool" where
  "contains [] n \<longleftrightarrow> n = []"
| "contains (c # cs) n \<longleftrightarrow> take (length n) (c # cs) = n \<or> contains cs n"

lemma contains_iff: "contains h n \<longleftrightarrow> (\<exists>a b. h = a @ n @ b)"
proof (induction h)
  case Nil
  then show ?case by simp
next
  case (Cons c cs)
  note IH = Cons.IH
  show ?case
  proof
    assume "contains (c # cs) n"
    then consider "take (length n) (c # cs) = n" | "\<exists>a b. cs = a @ n @ b"
      using Cons.IH by auto
    then show "\<exists>a b. c # cs = a @ n @ b"
    proof cases
      case 1
      then have "c # cs = [] @ n @ drop (length n) (c # cs)" by (metis append_Nil append_take_drop_id)
      then show ?thesis by blast
    next
      case 2
      then show ?thesis by (metis append_Cons)
    qed
  next
    assume "\<exists>a b. c # cs = a @ n @ b"
    then obtain a b where ab: "c # cs = a @ n @ b" by blast
    show "contains (c # cs) n"
    proof (cases a)
      case Nil
      with ab have "take (length n) (c # cs) = n" by simp
      then show ?thesis by simp
    next
      case (Cons d ds)
      with ab have "\<exists>a b. cs = a @ n @ b" by auto
      with IH show ?thesis by simp
    qed
  qed
qed

lemma contains_trans: "contains a b \<Longrightarrow> contains b c \<Longrightarrow> contains a c"
  unfolding contains_iff by (metis append.assoc)

definition starts_with :: "str \<Rightarrow> str \<Rightarrow> bool" where
  "starts_with s p \<longleftrightarrow> take (length p) s = p"

definition strip_prefix :: "str \<Rightarrow> str \<Rightarrow> str option" where
  "strip_prefix s p = (if starts_with s p then Some (drop (length p) s) else None)"

lemma strip_prefix_Some [simp]: "strip_prefix s p = Some r \<longleftrightarrow> s = p @ r"
  by (auto simp: strip_prefix_def starts_with_def) (metis append_take_drop_id)

text \<open>\<open>split_once(sep)\<close> at the first occurrence, \<open>rsplit_once(c)\<close> at the last one.\<close>

fun split_once :: "str \<Rightarrow> str \<Rightarrow> (str \<times> str) option" where
  "split_once sep [] = (if sep = [] then Some ([], []) else None)"
| "split_once sep (c # cs) =
     (if starts_with (c # cs) sep then Some ([], drop (length sep) (c # cs))
      else map_option (\<lambda>(a, b). (c # a, b)) (split_once sep cs))"

lemma split_once_Some: "split_once sep s = Some (a, b) \<Longrightarrow> s = a @ sep @ b"
  by (induction sep s arbitrary: a rule: split_once.induct)
    (auto simp: starts_with_def split: if_splits, metis append_take_drop_id)

definition rsplit_once :: "char \<Rightarrow> str \<Rightarrow> (str \<times> str) option" where
  "rsplit_once c s = map_option (\<lambda>(a, b). (rev b, rev a)) (split_once [c] (rev s))"

lemma rsplit_once_Some: "rsplit_once c s = Some (a, b) \<Longrightarrow> s = a @ c # b"
proof -
  assume "rsplit_once c s = Some (a, b)"
  then have "split_once [c] (rev s) = Some (rev b, rev a)"
    by (auto simp: rsplit_once_def)
  then have "rev s = rev b @ [c] @ rev a" by (rule split_once_Some)
  then show ?thesis by (metis append_Cons append_Nil append_assoc rev_append rev_rev_ident rev.simps)
qed

text \<open>\<open>split(p)\<close>: the segments between separators, empty ones included.\<close>

fun split_on :: "('a \<Rightarrow> bool) \<Rightarrow> 'a list \<Rightarrow> 'a list list" where
  "split_on p [] = [[]]"
| "split_on p (c # cs) =
     (if p c then [] # split_on p cs
      else (case split_on p cs of [] \<Rightarrow> [[c]] | w # ws \<Rightarrow> (c # w) # ws))"

lemma split_on_nonempty [simp]: "split_on p cs \<noteq> []"
  by (cases cs) (auto split: list.splits)

text \<open>Every segment is an infix of the input, free of separators.\<close>

lemma split_on_sep: "w \<in> set (split_on p cs) \<Longrightarrow> c \<in> set w \<Longrightarrow> \<not> p c"
proof (induction cs arbitrary: w)
  case Nil
  then show ?case by simp
next
  case (Cons d ds)
  obtain v vs where v: "split_on p ds = v # vs" by (cases "split_on p ds") auto
  from Cons.prems v Cons.IH[of v] Cons.IH[of w] show ?case by (auto split: if_splits)
qed

lemma split_on_prefix: "split_on p cs = w # ws \<Longrightarrow> prefix w cs"
  by (induction cs arbitrary: w ws) (auto split: if_splits list.splits)

lemma split_on_infix: "w \<in> set (split_on p cs) \<Longrightarrow> sublist w cs"
proof (induction cs)
  case Nil
  then show ?case by simp
next
  case (Cons c cs)
  show ?case
  proof (cases "p c")
    case True
    with Cons show ?thesis by (auto intro: sublist_Cons_right[THEN iffD2])
  next
    case False
    obtain v vs where v: "split_on p cs = v # vs" by (cases "split_on p cs") auto
    with False Cons.prems consider "w = c # v" | "w \<in> set (split_on p cs)" by auto
    then show ?thesis
    proof cases
      case 1
      then show ?thesis using split_on_prefix[OF v] by (simp add: sublist_Cons_right)
    next
      case 2
      then show ?thesis using Cons.IH by (simp add: sublist_Cons_right)
    qed
  qed
qed

definition before_semicolon :: "str \<Rightarrow> str" where
  "before_semicolon s = takeWhile (\<lambda>c. c \<noteq> CHR '';'') s"

text \<open>\<open>str::trim\<close> and \<open>str::split_whitespace\<close> work on characters.\<close>

definition trim_chars :: "rchar list \<Rightarrow> rchar list" where
  "trim_chars cs =
     rev (dropWhile (is_whitespace \<circ> fst) (rev (dropWhile (is_whitespace \<circ> fst) cs)))"

definition trim :: "str \<Rightarrow> str" where
  "trim s = of_chars (trim_chars (chars s))"

definition split_whitespace :: "rchar list \<Rightarrow> rchar list list" where
  "split_whitespace cs = filter (\<lambda>w. w \<noteq> []) (split_on (is_whitespace \<circ> fst) cs)"

text \<open>\<open>str::lines\<close>: segments between newlines, without a trailing carriage return; a final
  newline ends the last line.\<close>

definition strip_cr :: "str \<Rightarrow> str" where
  "strip_cr s = (if s \<noteq> [] \<and> last s = CHR 0x0D then butlast s else s)"

definition str_lines :: "str \<Rightarrow> str list" where
  "str_lines s =
     (let segs = split_on (\<lambda>c. c = CHR 0x0A) s in
      map strip_cr (butlast segs) @ (if last segs = [] then [] else [last segs]))"

text \<open>\<open>floor_char_boundary(limit)\<close> and \<open>truncate\<close>: the longest run of whole characters within the limit.\<close>

fun take_chars :: "nat \<Rightarrow> rchar list \<Rightarrow> rchar list" where
  "take_chars n [] = []"
| "take_chars n (c # cs) =
     (if length (snd c) \<le> n then c # take_chars (n - length (snd c)) cs else [])"

lemma take_chars_length [clip_bounds]: "length (of_chars (take_chars n cs)) \<le> n"
  by (induction n cs rule: take_chars.induct) auto

lemma take_chars_prefix: "prefix (take_chars n cs) cs"
  by (induction n cs rule: take_chars.induct) auto

lemma take_chars_all: "length (of_chars cs) \<le> n \<Longrightarrow> take_chars n cs = cs"
  by (induction n cs rule: take_chars.induct) auto

definition join_strs :: "str \<Rightarrow> str list \<Rightarrow> str" where
  "join_strs sep ws = (case ws of [] \<Rightarrow> [] | w # ws' \<Rightarrow> w @ concat (map (\<lambda>x. sep @ x) ws'))"

text \<open>\<open>Display\<close> of an unsigned integer.\<close>

fun nat_str :: "nat \<Rightarrow> str" where
  "nat_str n =
     (if n < 10 then [char_of (48 + n)] else nat_str (n div 10) @ [char_of (48 + n mod 10)])"

declare nat_str.simps [simp del]

end
