(* ===== verification/Classification.thy ===== *)
theory Classification
  imports Backend_Types
begin

text \<open>
  Content classification and previews (\<open>src/src/classification.rs\<close>): the MIME type decides
  where it is authoritative, the bounded text prefix otherwise; the preview is one bounded line
  without control or spoofing characters.  The JSON parser is an argument (\<open>serde_json\<close> is an
  external crate).  The lemmas show that a preview has at most 256 bytes, holds no control,
  bidirectional-override or zero-width character, and that an authoritative MIME type fixes
  the kind whatever the bytes are.
\<close>

definition INSPECTION_LIMIT :: nat where "INSPECTION_LIMIT = 64 * 1024"
definition PREVIEW_LIMIT :: nat where "PREVIEW_LIMIT = 256"

definition preview_character_is_visible :: "nat \<Rightarrow> bool" where
  "preview_character_is_visible c \<longleftrightarrow>
     \<not> is_control c \<and>
     \<not> (c = 173 \<or> c = 847 \<or> c = 1564 \<or> c = 6158 \<or>
        (8203 \<le> c \<and> c \<le> 8207) \<or> (8234 \<le> c \<and> c \<le> 8238) \<or> (8288 \<le> c \<and> c \<le> 8303) \<or> c = 65279)"

definition truncate_utf8 :: "rchar list \<Rightarrow> nat \<Rightarrow> rchar list" where
  "truncate_utf8 value limit = take_chars limit value"

text \<open>\<open>join(" ")\<close> on words kept as characters.\<close>

definition join_words :: "rchar list list \<Rightarrow> rchar list" where
  "join_words ws =
     (case ws of [] \<Rightarrow> [] | w # ws' \<Rightarrow> w @ concat (map (\<lambda>x. (32, '' '') # x) ws'))"

definition preview_chars :: "bytes \<Rightarrow> nat \<Rightarrow> rchar list" where
  "preview_chars bs max_bytes =
    (let text = chars (take max_bytes bs);
         visible = map (filter (preview_character_is_visible \<circ> fst)) (split_whitespace text);
         normalized = join_words (filter (\<lambda>w. w \<noteq> []) visible)
     in truncate_utf8 normalized PREVIEW_LIMIT)"

definition bounded_preview :: "bytes \<Rightarrow> nat \<Rightarrow> str" where
  "bounded_preview bs max_bytes = of_chars (preview_chars bs max_bytes)"

definition authoritative_kind :: "str \<Rightarrow> entry_kind option" where
  "authoritative_kind mime =
    (let value = to_ascii_lowercase mime in
     if value = [] \<or> value = ''text/plain'' then None
     else if value = ''text/uri-list'' \<or> value = ''x-special/gnome-copied-files'' then Some Files
     else if value = ''text/html'' \<or> value = ''application/xhtml+xml'' then Some Html
     else if value = ''application/json'' \<or> value = ''application/ld+json'' then Some Json
     else if starts_with value ''image/'' then Some Image
     else if starts_with value ''text/'' then None
     else Some Binary)"

definition looks_like_url :: "str \<Rightarrow> bool" where
  "looks_like_url value =
    (case split_once ''://'' value of
       None \<Rightarrow> False
     | Some (scheme, rest) \<Rightarrow>
         (to_ascii_lowercase scheme = ''http'' \<or> to_ascii_lowercase scheme = ''https'') \<and>
         rest \<noteq> [] \<and> \<not> list_ex (is_whitespace \<circ> fst) (chars value))"

definition looks_like_json :: "(str \<Rightarrow> bool) \<Rightarrow> str \<Rightarrow> bool" where
  "looks_like_json json_ok value \<longleftrightarrow>
     2 \<le> length value \<and>
     ((hd value = CHR ''{'' \<and> last value = CHR ''}'') \<or> (hd value = CHR ''['' \<and> last value = CHR '']'')) \<and>
     json_ok value"

definition looks_like_color :: "str \<Rightarrow> bool" where
  "looks_like_color value =
    (case strip_prefix value ''#'' of
       None \<Rightarrow> False
     | Some hex \<Rightarrow> length hex \<in> {3, 4, 6, 8} \<and> list_all is_ascii_hexdigit hex)"

definition semantic_text_kind :: "(str \<Rightarrow> bool) \<Rightarrow> bytes \<Rightarrow> entry_kind" where
  "semantic_text_kind json_ok bs =
    (case from_utf8 bs of
       None \<Rightarrow> Binary
     | Some text \<Rightarrow>
         (let value = trim text in
          if looks_like_url value then Link
          else if looks_like_json json_ok value then Json
          else if looks_like_color value then Color
          else Text))"

definition classify :: "(str \<Rightarrow> bool) \<Rightarrow> str \<Rightarrow> bytes \<Rightarrow> entry_kind" where
  "classify json_ok mime bs =
    (let normalized = trim (before_semicolon mime) in
     case authoritative_kind normalized of
       Some k \<Rightarrow> k
     | None \<Rightarrow> semantic_text_kind json_ok (take INSPECTION_LIMIT bs))"

section \<open>Lemmas\<close>

lemma bounded_preview_length [clip_bounds]: "length (bounded_preview bs n) \<le> PREVIEW_LIMIT"
  by (simp add: bounded_preview_def preview_chars_def truncate_utf8_def Let_def take_chars_length)

lemma join_words_set:
  "set (join_words ws) \<subseteq> insert (32, '' '') (\<Union>w \<in> set ws. set w)"
  by (cases ws) (auto simp: join_words_def)

lemma split_whitespace_chars:
  "w \<in> set (split_whitespace cs) \<Longrightarrow> c \<in> set w \<Longrightarrow> c \<in> set cs \<and> \<not> is_whitespace (fst c)"
proof -
  assume w: "w \<in> set (split_whitespace cs)" and c: "c \<in> set w"
  then have s: "w \<in> set (split_on (is_whitespace \<circ> fst) cs)" by (simp add: split_whitespace_def)
  have "c \<in> set cs" using split_on_infix[OF s] c by (meson set_mono_sublist subsetD)
  moreover have "\<not> is_whitespace (fst c)" using split_on_sep[OF s c] by simp
  ultimately show ?thesis by simp
qed

lemma preview_chars_visible:
  assumes "c \<in> set (preview_chars bs n)"
  shows "c = (32, '' '') \<or>
    (c \<in> set (chars (take n bs)) \<and> preview_character_is_visible (fst c) \<and> \<not> is_whitespace (fst c))"
proof -
  let ?ws = "filter (\<lambda>w. w \<noteq> []) (map (filter (preview_character_is_visible \<circ> fst))
               (split_whitespace (chars (take n bs))))"
  from assms have "c \<in> set (join_words ?ws)"
    by (auto simp: preview_chars_def truncate_utf8_def Let_def
        dest!: set_mono_prefix[OF take_chars_prefix, THEN subsetD])
  then have "c = (32, '' '') \<or> (\<exists>w \<in> set ?ws. c \<in> set w)"
    using join_words_set[of ?ws] by blast
  then show ?thesis by (auto dest: split_whitespace_chars)
qed

lemma classify_authoritative:
  "authoritative_kind (trim (before_semicolon mime)) = Some k \<Longrightarrow> classify j mime bs = k"
  by (simp add: classify_def)

end
