(* ===== verification/Platform.thy ===== *)
theory Platform
  imports Backend_Types
begin

text \<open>
  What the daemon reads from code that is not part of the repository and from the operating
  system, gathered as one record that is an argument of every definition that needs it: the
  hash, URL, JSON and image crates, the Unicode tables behind \<open>to_lowercase\<close> and
  \<open>is_alphanumeric\<close>, and a snapshot of the file system.  Nothing is assumed about its fields
  here; a theorem that relies on one of them states so.
\<close>

record url =
  url_string :: str
  url_file_path :: "str option"
  url_last_segment :: "str option"
  url_scheme :: str

record file_meta =
  fm_is_file :: bool
  fm_is_dir :: bool
  fm_len :: nat
  fm_dev :: nat
  fm_ino :: nat
  fm_uid :: nat
  fm_nlink :: nat
  fm_mode :: nat

datatype lstat_result = LstatOk file_meta | LstatNotFound | LstatError str

record platform =
  pf_sha256 :: "bytes \<Rightarrow> bytes"
  pf_lowercase :: "str \<Rightarrow> str"
  pf_alphanumeric :: "nat \<Rightarrow> bool"
  pf_json_ok :: "str \<Rightarrow> bool"
  pf_url_parse :: "str \<Rightarrow> url option"
  pf_guess_format :: "bytes \<Rightarrow> str option"
  pf_dimensions :: "bytes \<Rightarrow> image_metadata option"
  pf_decodes :: "bytes \<Rightarrow> bool"
  pf_lstat :: "str \<Rightarrow> lstat_result"
  pf_exists :: "str \<Rightarrow> bool"
  pf_open :: "str \<Rightarrow> (str, nat \<times> bytes) result"
  pf_canonicalize :: "str \<Rightarrow> str option"
  pf_uuid_ok :: "str \<Rightarrow> bool"
  pf_euid :: nat
  pf_home :: "str option"
  pf_file_url :: "str \<Rightarrow> str option"
  pf_runtime_dir :: str

text \<open>\<open>Url::parse(s).to_file_path()\<close> as UTF-8.\<close>

definition url_path :: "platform \<Rightarrow> str \<Rightarrow> str option" where
  "url_path pf s = Option.bind (pf_url_parse pf s) url_file_path"

definition lstat_ok :: "platform \<Rightarrow> str \<Rightarrow> file_meta option" where
  "lstat_ok pf p = (case pf_lstat pf p of LstatOk m \<Rightarrow> Some m | _ \<Rightarrow> None)"

text \<open>\<open>Path::file_name\<close> and \<open>Path::parent\<close> on slash-separated paths.\<close>

definition path_components :: "str \<Rightarrow> str list" where
  "path_components p = filter (\<lambda>c. c \<noteq> [] \<and> c \<noteq> ''.'') (split_on (\<lambda>c. c = CHR ''/'') p)"

definition file_name :: "str \<Rightarrow> str option" where
  "file_name p =
    (let cs = path_components p in
     if cs = [] \<or> last cs = ''..'' then None else Some (last cs))"

definition path_parent :: "str \<Rightarrow> str option" where
  "path_parent p =
    (let cs = path_components p; root = (if path_is_absolute p then ''/'' else []) in
     if cs = [] then None else Some (root @ join_strs ''/'' (butlast cs)))"

text \<open>A platform on which nothing exists; witnesses update the fields they need.\<close>

definition bare_platform :: platform where
  "bare_platform =
    \<lparr>pf_sha256 = (\<lambda>bs. replicate 32 (CHR ''h'')), pf_lowercase = to_ascii_lowercase,
     pf_alphanumeric = (\<lambda>c. (48 \<le> c \<and> c \<le> 57) \<or> (65 \<le> c \<and> c \<le> 90) \<or> (97 \<le> c \<and> c \<le> 122)),
     pf_json_ok = (\<lambda>_. True), pf_url_parse = (\<lambda>_. None), pf_guess_format = (\<lambda>_. None),
     pf_dimensions = (\<lambda>_. None), pf_decodes = (\<lambda>_. False), pf_lstat = (\<lambda>_. LstatNotFound),
     pf_exists = (\<lambda>_. False), pf_open = (\<lambda>_. Inl ''not found''), pf_canonicalize = (\<lambda>_. None),
     pf_uuid_ok = (\<lambda>_. True), pf_euid = 1000, pf_home = None,
     pf_file_url = (\<lambda>_. None), pf_runtime_dir = ''/run/user/1000''\<rparr>"

end
