(* ===== verification/Selection.thy ===== *)
theory Selection
  imports Platform
begin

text \<open>
  Publication to the Wayland selection (\<open>src/src/selection.rs\<close>).  What the daemon hands to the
  external \<open>wl-clipboard\<close> crate is an offer; whether the compositor accepts it is the argument
  \<open>own\<close>.  Every publication validates the MIME type and the size first, so the lemmas say
  that an offer leaves the daemon only when both checks pass, that the bytes offered are exactly
  the bytes given, and that bounded reads never return more than the limit.
\<close>

record selection_offer =
  so_omit_text_aliases :: bool
  so_sources :: "(str \<times> bytes) list"

datatype published = Published selection_offer | PublishedSensitive bytes nat

type_synonym owner_oracle = "published \<Rightarrow> (str, unit) result"

definition selection_error :: "str \<Rightarrow> backend_error" where
  "selection_error m = operation_error (''Could not own the Wayland clipboard selection: '' @ m)"

definition hand_over :: "owner_oracle \<Rightarrow> published \<Rightarrow> published bresult" where
  "hand_over own off =
     (case own off of Inl m \<Rightarrow> Inl (selection_error m) | Inr _ \<Rightarrow> Inr off)"

text \<open>The publisher; \<open>MimeType::Text\<close> is the pseudo type \<open>text\<close> of the crate.\<close>

definition supports_text_aliases :: "str \<Rightarrow> bytes \<Rightarrow> bool" where
  "supports_text_aliases mime bs \<longleftrightarrow>
     (mime = ''text/plain'' \<or> mime = ''text/plain;charset=utf-8'') \<and> valid_utf8 bs"

definition wl_publish :: "owner_oracle \<Rightarrow> str \<Rightarrow> bytes \<Rightarrow> published bresult" where
  "wl_publish own mime bs =
     hand_over own (Published \<lparr>so_omit_text_aliases = \<not> supports_text_aliases mime bs,
                              so_sources = [(mime, bs)]\<rparr>)"

definition strip_crlf :: "bytes \<Rightarrow> bytes" where
  "strip_crlf bs =
     (if 2 \<le> length bs \<and> drop (length bs - 2) bs = [CHR 0x0D, CHR 0x0A]
      then take (length bs - 2) bs else bs)"

definition wl_publish_file_link :: "owner_oracle \<Rightarrow> bytes \<Rightarrow> published bresult" where
  "wl_publish_file_link own uri =
     hand_over own (Published \<lparr>so_omit_text_aliases = False,
       so_sources = [(''text/uri-list'', uri), (''text'', strip_crlf uri)]\<rparr>)"

definition wl_publish_files :: "owner_oracle \<Rightarrow> bytes \<Rightarrow> bytes \<Rightarrow> published bresult" where
  "wl_publish_files own gnome_payload uri_list =
     hand_over own (Published \<lparr>so_omit_text_aliases = True,
       so_sources = [(''x-special/gnome-copied-files'', gnome_payload), (''text/uri-list'', uri_list)]\<rparr>)"

section \<open>Validation\<close>

definition effective_limit :: "nat \<Rightarrow> nat" where
  "effective_limit configured = min configured MAX_WAYLAND_SELECTION_BYTES"

definition validate_size :: "nat \<Rightarrow> nat \<Rightarrow> unit bresult" where
  "validate_size sz configured =
    (let limit = effective_limit configured in
     if sz > limit
     then Inl (invalid_data (''Clipboard entry is '' @ nat_str sz @
            '' bytes; Wayland publishing is limited to '' @ nat_str limit @ '' bytes''))
     else Inr ())"

definition valid_mime_ascii :: "str \<Rightarrow> bool" where
  "valid_mime_ascii mime \<longleftrightarrow>
     mime \<noteq> [] \<and> length mime \<le> 255 \<and>
     list_all (\<lambda>b. let n = (of_char b :: nat) in n < 128 \<and> \<not> (n < 32 \<or> n = 127)) mime"

definition valid_mime_token :: "str \<Rightarrow> bool" where
  "valid_mime_token v \<longleftrightarrow>
     v \<noteq> [] \<and> list_all (\<lambda>b. is_ascii_alphanumeric b \<or> b \<in> set ''!#$&^_.+-'') v"

definition valid_mime_essence :: "str \<Rightarrow> bool" where
  "valid_mime_essence mime =
    (case split_on (\<lambda>c. c = CHR ''/'') (trim (before_semicolon mime)) of
       [a, b] \<Rightarrow> valid_mime_token a \<and> valid_mime_token b
     | _ \<Rightarrow> False)"

definition validate_mime :: "str \<Rightarrow> unit bresult" where
  "validate_mime mime =
    (if valid_mime_ascii mime \<and> valid_mime_essence mime then Inr ()
     else Inl (invalid_data ''Clipboard MIME type is invalid for Wayland publishing''))"

definition sensitive_message :: str where
  "sensitive_message =
    (let dash = [CHR 0xE2, CHR 0x80, CHR 0x93] in
     ''Sensitive text must be 1'' @ dash @ ''256 UTF-8 bytes; expiry must be 0 or 10'' @ dash @ ''300 seconds'')"

definition validate_sensitive :: "bytes \<Rightarrow> nat \<Rightarrow> (str, unit) result" where
  "validate_sensitive bs seconds =
    (if \<not> (1 \<le> length bs \<and> length bs \<le> 256) \<or> \<not> valid_utf8 bs \<or>
        (seconds \<noteq> 0 \<and> \<not> (10 \<le> seconds \<and> seconds \<le> 300))
     then Inl sensitive_message else Inr ())"

text \<open>The source is read up to one byte beyond the limit; files may have grown since \<open>size\<close>.\<close>

definition read_selection :: "bytes \<Rightarrow> nat \<Rightarrow> nat \<Rightarrow> bytes bresult" where
  "read_selection source sz configured =
     rbind (validate_size sz configured) (\<lambda>_.
       let bs = take (effective_limit configured + 1) source in
       rbind (validate_size (length bs) configured) (\<lambda>_. Inr bs))"

definition read_path :: "platform \<Rightarrow> str \<Rightarrow> nat \<Rightarrow> bytes bresult" where
  "read_path pf path max_bytes =
    (case pf_open pf path of
       Inl m \<Rightarrow> Inl (operation_error m)
     | Inr (sz, content) \<Rightarrow> read_selection content sz max_bytes)"

section \<open>The selection service\<close>

definition publish :: "owner_oracle \<Rightarrow> str \<Rightarrow> bytes \<Rightarrow> nat \<Rightarrow> published bresult" where
  "publish own mime bs limit =
     rbind (validate_mime mime) (\<lambda>_. rbind (validate_size (length bs) limit) (\<lambda>_. wl_publish own mime bs))"

definition publish_sensitive :: "owner_oracle \<Rightarrow> bytes \<Rightarrow> nat \<Rightarrow> published bresult" where
  "publish_sensitive own bs seconds =
    (case validate_sensitive bs seconds of
       Inl m \<Rightarrow> Inl (invalid_data m)
     | Inr _ \<Rightarrow> hand_over own (PublishedSensitive bs seconds))"

definition publish_file_link :: "owner_oracle \<Rightarrow> bytes \<Rightarrow> nat \<Rightarrow> published bresult" where
  "publish_file_link own uri limit =
     rbind (validate_size (length uri) limit) (\<lambda>_. wl_publish_file_link own uri)"

definition publish_files :: "owner_oracle \<Rightarrow> str \<Rightarrow> bytes \<Rightarrow> nat \<Rightarrow> published bresult" where
  "publish_files own operation uri_list limit =
    (if \<not> (operation = ''copy'' \<or> operation = ''cut'')
     then Inl (invalid_data ''File selection operation must be copy or cut'')
     else rbind (validate_size (length uri_list + length operation + 1) limit) (\<lambda>_.
            wl_publish_files own (operation @ [CHR 0x0A] @ uri_list) uri_list))"

definition publish_file :: "platform \<Rightarrow> owner_oracle \<Rightarrow> str \<Rightarrow> str \<Rightarrow> nat \<Rightarrow> published bresult" where
  "publish_file pf own mime path limit =
     rbind (validate_mime mime) (\<lambda>_. rbind (read_path pf path limit) (\<lambda>bs. wl_publish own mime bs))"

section \<open>Lemmas\<close>

lemma validate_size_ok [simp]:
  "validate_size n c = Inr u \<longleftrightarrow> n \<le> c \<and> n \<le> MAX_WAYLAND_SELECTION_BYTES"
  by (auto simp: validate_size_def effective_limit_def Let_def)

lemma hand_over_ok [simp]: "hand_over own off = Inr x \<longleftrightarrow> x = off \<and> own off = Inr ()"
  by (auto simp: hand_over_def split: sum.splits)

lemma read_selection_ok:
  "read_selection src sz c = Inr bs \<longleftrightarrow>
     bs = src \<and> length src \<le> c \<and> length src \<le> MAX_WAYLAND_SELECTION_BYTES \<and>
     sz \<le> c \<and> sz \<le> MAX_WAYLAND_SELECTION_BYTES"
proof -
  let ?L = "effective_limit c"
  have L: "n \<le> ?L \<longleftrightarrow> n \<le> c \<and> n \<le> MAX_WAYLAND_SELECTION_BYTES" for n
    by (simp add: effective_limit_def)
  have "length (take (?L + 1) src) \<le> ?L \<longleftrightarrow> length src \<le> ?L" by (simp add: min_def)
  moreover have "length src \<le> ?L \<Longrightarrow> take (?L + 1) src = src" by simp
  ultimately show ?thesis
    unfolding read_selection_def Let_def rbind_Inr_iff validate_size_ok L[symmetric]
    using L[of "length src"] by auto
qed

lemma read_path_bounded [clip_bounds]:
  "read_path pf p c = Inr bs \<Longrightarrow> length bs \<le> c \<and> length bs \<le> MAX_WAYLAND_SELECTION_BYTES"
  by (auto simp: read_path_def read_selection_ok split: sum.splits prod.splits)

lemma publish_ok:
  "publish own mime bs limit = Inr off \<Longrightarrow>
     off = Published \<lparr>so_omit_text_aliases = \<not> supports_text_aliases mime bs, so_sources = [(mime, bs)]\<rparr> \<and>
     validate_mime mime = Inr () \<and> length bs \<le> limit \<and> length bs \<le> MAX_WAYLAND_SELECTION_BYTES"
  by (auto simp: publish_def wl_publish_def)

lemma publish_sensitive_ok:
  "publish_sensitive own bs s = Inr off \<Longrightarrow>
     off = PublishedSensitive bs s \<and> 1 \<le> length bs \<and> length bs \<le> 256 \<and> valid_utf8 bs \<and>
     (s = 0 \<or> (10 \<le> s \<and> s \<le> 300))"
  unfolding publish_sensitive_def validate_sensitive_def
  by (simp split: if_splits)

lemma publish_files_ok:
  "publish_files own op us limit = Inr off \<Longrightarrow>
     off = Published \<lparr>so_omit_text_aliases = True,
       so_sources = [(''x-special/gnome-copied-files'', op @ [CHR 0x0A] @ us), (''text/uri-list'', us)]\<rparr> \<and>
     length (op @ [CHR 0x0A] @ us) \<le> limit"
  by (auto simp: publish_files_def wl_publish_files_def split: if_splits)

end
