(* ===== verification/Content.thy ===== *)
theory Content
  imports Classification Selection
begin

text \<open>
  Semantic interpretation of stored bytes (\<open>src/src/history/content.rs\<close>): inline images are
  recognised from their bytes, URI lists become file previews, a selection of exactly one local
  image file resolves to that file, and everything else is classified.  The lemmas show that
  the resolved kind and image agree, that an image file source is always a regular file within
  the limit whose path comes from the single URI of the selection, and that details never
  carry more than the requested prefix nor more than 100 files.
\<close>

definition MAX_THUMBNAIL_BYTES :: nat where "MAX_THUMBNAIL_BYTES = 32 * 1024 * 1024"
definition MAX_DETAILS_BYTES :: nat where "MAX_DETAILS_BYTES = 256 * 1024"

record local_image_source =
  li_path :: str
  li_mime :: str
  li_dimensions :: image_metadata

datatype resolved_image =
    Inline str "image_metadata option"
  | LocalFile local_image_source

record resolved_content =
  rc_stored_mime :: str
  rc_kind :: entry_kind
  rc_files :: "file_preview list"
  rc_image :: "resolved_image option"

definition canonical_mime :: "str \<Rightarrow> str" where
  "canonical_mime mime =
    (let aliases =
       [(''image/x-png'', ''image/png''), (''image/jpg'', ''image/jpeg''),
        (''image/pjpeg'', ''image/jpeg''),
        (''application/x-gnome-copied-files'', ''x-special/gnome-copied-files''),
        (''text/x-uri'', ''text/uri-list''), (''text/x-uri-list'', ''text/uri-list'')];
       essence = trim (before_semicolon mime)
     in case find (\<lambda>(alias, canonical). eq_ignore_ascii_case essence alias) aliases of
          Some (alias, canonical) \<Rightarrow> canonical
        | None \<Rightarrow> essence)"

definition detected_image_mime :: "platform \<Rightarrow> bytes \<Rightarrow> str option" where
  "detected_image_mime pf bs = pf_guess_format pf bs"

definition image_dimensions :: "platform \<Rightarrow> bytes \<Rightarrow> image_metadata option" where
  "image_dimensions pf bs = pf_dimensions pf bs"

definition file_preview_of :: "platform \<Rightarrow> str \<Rightarrow> str \<Rightarrow> file_preview option" where
  "file_preview_of pf uri operation =
    (case pf_url_parse pf uri of
       None \<Rightarrow> None
     | Some url \<Rightarrow>
         (let local_path = url_file_path url;
              segment = (case url_last_segment url of
                           Some n \<Rightarrow> if n \<noteq> [] then n else ''File''
                         | None \<Rightarrow> ''File'');
              display = (case Option.bind local_path file_name of
                           Some n \<Rightarrow> from_utf8_lossy n
                         | None \<Rightarrow> segment)
          in Some \<lparr>fp_display_name = display, fp_uri = url_string url,
                   fp_exists = (case local_path of None \<Rightarrow> False | Some p \<Rightarrow> pf_exists pf p),
                   fp_operation = operation\<rparr>))"

definition parse_files :: "platform \<Rightarrow> str \<Rightarrow> bytes \<Rightarrow> file_preview list" where
  "parse_files pf mime bs =
    (case from_utf8 bs of
       None \<Rightarrow> []
     | Some text \<Rightarrow>
         (let lines = filter (\<lambda>l. l \<noteq> [] \<and> \<not> starts_with l ''#'') (str_lines text);
              (operation, rest) =
                (if mime = ''x-special/gnome-copied-files''
                 then (case lines of
                         [] \<Rightarrow> (''copy'', [])
                       | l # ls \<Rightarrow> (if l = ''copy'' \<or> l = ''cut'' then l else ''copy'', ls))
                 else (''copy'', lines))
          in take (MAX_FILES + 1) (List.map_filter (\<lambda>uri. file_preview_of pf uri operation) rest)))"

definition local_image_source_from_files ::
    "platform \<Rightarrow> file_preview list \<Rightarrow> nat \<Rightarrow> local_image_source option" where
  "local_image_source_from_files pf files max_bytes =
    (case files of
       [file] \<Rightarrow>
         (case url_path pf (fp_uri file) of
            None \<Rightarrow> None
          | Some path \<Rightarrow>
              (case lstat_ok pf path of
                 None \<Rightarrow> None
               | Some m \<Rightarrow>
                   if \<not> fm_is_file m \<or> fm_len m > max_bytes then None
                   else (case pf_open pf path of
                           Inl e \<Rightarrow> None
                         | Inr (len, content) \<Rightarrow>
                             (case (pf_guess_format pf content, pf_dimensions pf content) of
                                (Some mime, Some d) \<Rightarrow>
                                  Some \<lparr>li_path = path, li_mime = mime, li_dimensions = d\<rparr>
                              | _ \<Rightarrow> None))))
     | _ \<Rightarrow> None)"

definition resolve :: "platform \<Rightarrow> str \<Rightarrow> bytes \<Rightarrow> nat \<Rightarrow> resolved_content" where
  "resolve pf mime bs max_file_bytes =
    (let stored_mime = (if mime = [] then ''text/plain'' else mime) in
     case detected_image_mime pf bs of
       Some m \<Rightarrow>
         \<lparr>rc_stored_mime = stored_mime, rc_kind = Image, rc_files = [],
          rc_image = Some (Inline m (image_dimensions pf bs))\<rparr>
     | None \<Rightarrow>
         (let semantic_mime = canonical_mime stored_mime;
              files = (if semantic_mime = ''text/uri-list'' \<or>
                          semantic_mime = ''x-special/gnome-copied-files'' \<or>
                          semantic_mime = ''text/plain''
                       then parse_files pf semantic_mime bs else []);
              local_image = local_image_source_from_files pf files max_file_bytes;
              kind = (if local_image \<noteq> None then Image
                      else classify (pf_json_ok pf) semantic_mime bs)
          in \<lparr>rc_stored_mime = stored_mime, rc_kind = kind, rc_files = files,
              rc_image = map_option LocalFile local_image\<rparr>))"

definition rc_mime :: "resolved_content \<Rightarrow> str" where
  "rc_mime c =
    (case rc_image c of
       Some (Inline mime _) \<Rightarrow> mime
     | Some (LocalFile source) \<Rightarrow> li_mime source
     | None \<Rightarrow> rc_stored_mime c)"

definition into_files :: "resolved_content \<Rightarrow> file_preview list" where
  "into_files c = take MAX_FILES (rc_files c)"

definition image_metadata_of :: "resolved_content \<Rightarrow> image_metadata option" where
  "image_metadata_of c =
    (case rc_image c of
       Some (Inline _ dimensions) \<Rightarrow> dimensions
     | Some (LocalFile source) \<Rightarrow> Some (li_dimensions source)
     | None \<Rightarrow> None)"

definition local_image :: "resolved_content \<Rightarrow> local_image_source option" where
  "local_image c = (case rc_image c of Some (LocalFile source) \<Rightarrow> Some source | _ \<Rightarrow> None)"

section \<open>Image identity\<close>

definition hex_digit :: "nat \<Rightarrow> char" where
  "hex_digit n = (if n < 10 then char_of (48 + n) else char_of (87 + n))"

definition hex_encode :: "bytes \<Rightarrow> str" where
  "hex_encode bs =
     concat (map (\<lambda>b. let n = (of_char b :: nat) in [hex_digit (n div 16), hex_digit (n mod 16)]) bs)"

definition le_bytes8 :: "nat \<Rightarrow> bytes" where
  "le_bytes8 n = map (\<lambda>i. char_of ((n div 256 ^ i) mod 256)) [0..<8]"

definition image_identity :: "platform \<Rightarrow> str \<Rightarrow> bytes \<Rightarrow> str" where
  "image_identity pf mime bs =
     hex_encode (pf_sha256 pf
       (''clip-daemon:resolved-image:v1:'' @ canonical_mime mime @ le_bytes8 (length bs) @ bs))"

definition source_identity :: "platform \<Rightarrow> local_image_source \<Rightarrow> str option" where
  "source_identity pf source =
    (case lstat_ok pf (li_path source) of
       None \<Rightarrow> None
     | Some m \<Rightarrow>
         if \<not> fm_is_file m then None
         else (case read_path pf (li_path source) MAX_WAYLAND_SELECTION_BYTES of
                 Inl e \<Rightarrow> None
               | Inr bs \<Rightarrow> Some (image_identity pf (li_mime source) bs)))"

section \<open>Details and edited images\<close>

record stored_entry =
  se_summary :: entry_summary
  se_mime :: str
  se_bytes :: bytes

definition entry_details :: "platform \<Rightarrow> stored_entry \<Rightarrow> nat \<Rightarrow> entry_details" where
  "entry_details pf stored max_text_bytes =
    (let limit = min max_text_bytes MAX_DETAILS_BYTES;
         bs = take limit (se_bytes stored);
         content = resolve pf (se_mime stored) bs MAX_THUMBNAIL_BYTES
     in \<lparr>ed_entry = se_summary stored, ed_text = from_utf8 bs,
         ed_files = into_files content, ed_image = image_metadata_of content,
         ed_preview_truncated = (length (se_bytes stored) > limit)\<rparr>)"

definition read_edited_image :: "platform \<Rightarrow> str \<Rightarrow> nat \<Rightarrow> bytes option" where
  "read_edited_image pf path max_bytes =
    (let limit = min max_bytes MAX_THUMBNAIL_BYTES in
     case lstat_ok pf path of
       None \<Rightarrow> None
     | Some m \<Rightarrow>
         if \<not> (fm_is_file m \<and> fm_len m \<le> limit) then None
         else (case read_path pf path limit of
                 Inl e \<Rightarrow> None
               | Inr bs \<Rightarrow>
                   if pf_guess_format pf bs = Some ''image/png'' \<and> pf_decodes pf bs
                   then Some bs else None))"

section \<open>Lemmas\<close>

lemma parse_files_length [clip_bounds]: "length (parse_files pf m bs) \<le> MAX_FILES + 1"
  by (simp add: parse_files_def Let_def split: option.splits prod.splits)

lemma local_image_source_ok:
  assumes "local_image_source_from_files pf files n = Some s"
  shows "\<exists>f m. files = [f] \<and> url_path pf (fp_uri f) = Some (li_path s) \<and>
           lstat_ok pf (li_path s) = Some m \<and> fm_is_file m \<and> fm_len m \<le> n"
proof -
  obtain f where f: "files = [f]"
    using assms by (cases files rule: remdups_adj.cases) (auto simp: local_image_source_from_files_def)
  with assms show ?thesis
    by (auto simp: local_image_source_from_files_def split: option.splits if_splits sum.splits)
qed

lemma resolve_image_kind: "rc_image (resolve pf mime bs n) \<noteq> None \<Longrightarrow> rc_kind (resolve pf mime bs n) = Image"
  by (cases "detected_image_mime pf bs") (simp_all add: resolve_def Let_def split del: if_split)

lemma resolve_local_image:
  "local_image (resolve pf mime bs n) = Some s \<Longrightarrow>
     local_image_source_from_files pf (rc_files (resolve pf mime bs n)) n = Some s"
  by (cases "detected_image_mime pf bs")
    (simp_all add: resolve_def local_image_def Let_def split del: if_split split: option.splits resolved_image.splits)

lemma entry_details_bounds [clip_bounds]:
  "length (ed_files (entry_details pf st n)) \<le> MAX_FILES"
  "ed_text (entry_details pf st n) = Some t \<Longrightarrow> length t \<le> n \<and> length t \<le> MAX_DETAILS_BYTES"
  by (auto simp: entry_details_def into_files_def from_utf8_def Let_def split: if_splits)

lemma entry_details_complete:
  "\<not> ed_preview_truncated (entry_details pf st n) \<Longrightarrow> ed_text (entry_details pf st n) = from_utf8 (se_bytes st)"
  by (simp add: entry_details_def Let_def not_less)

end
