(* ===== verification/History_Tables.thy ===== *)
theory History_Tables
  imports Content
begin

text \<open>
  The relational state of the history store (\<open>src/src/history_store/schema.rs\<close>) and the SQL
  statements of \<open>src/src/history_store/database.rs\<close> that read or write one table: a table is a
  list of rows, a CHECK or key violation is the engine's error, and deleting entries cascades as
  the foreign keys say (payload, search and reference rows go, echo links become NULL).
  \<open>store_ok\<close> is the integrity invariant; the lemmas show that deleting rows preserves it,
  whatever the condition.
\<close>

section \<open>Rows and tables\<close>

record store_policy =
  sp_admission :: bool
  sp_max_entries :: nat
  sp_max_favorites :: nat
  sp_max_entry_bytes :: nat
  sp_max_total_bytes :: nat

definition default_policy :: store_policy where
  "default_policy =
     \<lparr>sp_admission = False, sp_max_entries = 1000, sp_max_favorites = 100,
      sp_max_entry_bytes = 16 * 1024 * 1024, sp_max_total_bytes = 256 * 1024 * 1024\<rparr>"

definition MAX_ENTRY_BYTES :: nat where "MAX_ENTRY_BYTES = 64 * 1024 * 1024"

record entry_row =
  er_id :: str
  er_revision :: nat
  er_favorite :: bool
  er_recency :: nat
  er_mime :: str
  er_resolved_mime :: str
  er_echo_source :: "str option"
  er_byte_size :: nat
  er_digest :: bytes
  er_preview :: str
  er_kind :: str

record search_row =
  sr_entry_id :: str
  sr_content :: str
  sr_indexed_content :: str
  sr_indexed_complete :: bool

record artifact_record =
  ar_path :: str
  ar_source_entry_id :: str
  ar_image_identity :: str
  ar_created_at :: nat
  ar_device :: nat
  ar_inode :: nat
  ar_owner :: nat

record inline_echo_record =
  ie_source_entry_id :: str
  ie_image_identity :: str
  ie_created_at :: nat

record tables =
  t_revision :: nat
  t_sequence :: nat
  t_policy :: store_policy
  t_entries :: "entry_row list"
  t_payloads :: "(str \<times> bytes) list"
  t_search :: "search_row list"
  t_artifacts :: "artifact_record list"
  t_entry_artifacts :: "(str \<times> str) list"
  t_inline_echoes :: "inline_echo_record list"

text \<open>The rows a freshly created schema holds.\<close>

definition fresh_tables :: tables where
  "fresh_tables =
     \<lparr>t_revision = 0, t_sequence = 0, t_policy = default_policy, t_entries = [], t_payloads = [],
      t_search = [], t_artifacts = [], t_entry_artifacts = [], t_inline_echoes = []\<rparr>"

definition entry_ids :: "tables \<Rightarrow> str set" where
  "entry_ids t = er_id ` set (t_entries t)"

section \<open>Constraints\<close>

definition engine_error :: backend_error where
  "engine_error = operation_error ''constraint failed''"

definition kind_labels :: "str list" where
  "kind_labels = map label [Text, Link, Image, Files, Html, Json, Color, Binary]"

definition entry_check :: "entry_row \<Rightarrow> bool" where
  "entry_check e \<longleftrightarrow>
     0 < er_revision e \<and> 0 < er_recency e \<and> length (chars (er_mime e)) \<le> 255 \<and>
     length (chars (er_resolved_mime e)) \<le> 255 \<and> er_byte_size e \<le> 67108864 \<and>
     length (er_digest e) = 32 \<and> er_kind e \<in> set kind_labels"

definition policy_check :: "store_policy \<Rightarrow> bool" where
  "policy_check p \<longleftrightarrow>
     sp_max_entries p \<le> 100000 \<and> sp_max_favorites p \<le> 10000 \<and>
     1 \<le> sp_max_entry_bytes p \<and> sp_max_entry_bytes p \<le> 67108864 \<and> 0 < sp_max_total_bytes p"

section \<open>Statements on store_meta\<close>

definition bump :: "tables \<Rightarrow> (nat \<times> tables) bresult" where
  "bump t =
    (let r = t_revision t + 1 in
     if r < 9007199254740991 then Inr (r, t\<lparr>t_revision := r\<rparr>) else Inl engine_error)"

definition sequence :: "tables \<Rightarrow> (nat \<times> tables) bresult" where
  "sequence t =
    (let s = t_sequence t + 1 in
     if s \<le> i64_max then Inr (s, t\<lparr>t_sequence := s\<rparr>) else Inl engine_error)"

section \<open>Statements on entries\<close>

text \<open>\<open>DELETE FROM entries WHERE p\<close> with the cascades of the schema.\<close>

definition unlink_echo :: "str list \<Rightarrow> entry_row \<Rightarrow> entry_row" where
  "unlink_echo gone e =
    (case er_echo_source e of
       None \<Rightarrow> e
     | Some s \<Rightarrow> if s \<in> set gone then e\<lparr>er_echo_source := None\<rparr> else e)"

definition delete_entries :: "(entry_row \<Rightarrow> bool) \<Rightarrow> tables \<Rightarrow> tables" where
  "delete_entries p t =
    (let gone = map er_id (filter p (t_entries t)) in
     t\<lparr>t_entries := map (unlink_echo gone) (filter (\<lambda>e. \<not> p e) (t_entries t)),
       t_payloads := filter (\<lambda>r. fst r \<notin> set gone) (t_payloads t),
       t_search := filter (\<lambda>r. sr_entry_id r \<notin> set gone) (t_search t),
       t_entry_artifacts := filter (\<lambda>r. fst r \<notin> set gone) (t_entry_artifacts t)\<rparr>)"

text \<open>\<open>UPDATE entries SET f WHERE p\<close>, checked.\<close>

definition update_entries ::
    "(entry_row \<Rightarrow> bool) \<Rightarrow> (entry_row \<Rightarrow> entry_row) \<Rightarrow> tables \<Rightarrow> tables bresult" where
  "update_entries p f t =
    (if list_all (\<lambda>e. p e \<longrightarrow> entry_check (f e)) (t_entries t)
     then Inr (t\<lparr>t_entries := map (\<lambda>e. if p e then f e else e) (t_entries t)\<rparr>)
     else Inl engine_error)"

definition insert_entry :: "entry_row \<Rightarrow> tables \<Rightarrow> tables bresult" where
  "insert_entry e t =
    (if er_id e \<notin> set (map er_id (t_entries t)) \<and> entry_check e
     then Inr (t\<lparr>t_entries := t_entries t @ [e]\<rparr>) else Inl engine_error)"

section \<open>Reads\<close>

definition max_recency :: "entry_row list \<Rightarrow> nat" where
  "max_recency es = foldr (\<lambda>e m. max (er_recency e) m) es 0"

definition decode_kind :: "str \<Rightarrow> entry_kind bresult" where
  "decode_kind s =
    (if s = ''Text'' then Inr Text else if s = ''Link'' then Inr Link
     else if s = ''Image'' then Inr Image else if s = ''Files'' then Inr Files
     else if s = ''Html'' then Inr Html else if s = ''Json'' then Inr Json
     else if s = ''Color'' then Inr Color else if s = ''Binary'' then Inr Binary
     else Inl (invalid_data ''Invalid stored entry kind''))"

text \<open>The columns of one entry, with \<open>recency = (SELECT max(recency) FROM entries)\<close>.\<close>

definition decode_summary :: "tables \<Rightarrow> entry_row \<Rightarrow> entry_summary bresult" where
  "decode_summary t e =
     rbind (decode_kind (er_kind e)) (\<lambda>kind.
       Inr \<lparr>es_id = er_id e, es_revision = er_revision e, es_kind = kind,
            es_mime = er_resolved_mime e, es_byte_size = er_byte_size e,
            es_favorite = er_favorite e,
            es_current = (er_recency e = max_recency (t_entries t)),
            es_preview = er_preview e\<rparr>)"

definition find_entry :: "str \<Rightarrow> tables \<Rightarrow> entry_row option" where
  "find_entry i t = find (\<lambda>e. er_id e = i) (t_entries t)"

definition summary :: "str \<Rightarrow> nat option \<Rightarrow> tables \<Rightarrow> entry_summary bresult" where
  "summary i expected t =
     rbind (ok_or (find_entry i t) (not_found ''Clipboard entry does not exist'')) (\<lambda>e.
     rbind (decode_summary t e) (\<lambda>s.
       case expected of
         Some r \<Rightarrow> if r \<noteq> es_revision s
                   then Inl (stale_error ''Clipboard entry revision changed'') else Inr s
       | None \<Rightarrow> Inr s))"

definition db_get :: "str \<Rightarrow> nat option \<Rightarrow> tables \<Rightarrow> stored_entry bresult" where
  "db_get i expected t =
     rbind (summary i expected t) (\<lambda>s.
     rbind (ok_or (map_of (t_payloads t) i) (invalid_data ''Clipboard payload is missing'')) (\<lambda>bs.
       if length bs \<noteq> es_byte_size s
       then Inl (invalid_data ''Clipboard payload length mismatch'')
       else rbind (ok_or (find_entry i t) (invalid_data ''Clipboard payload is missing'')) (\<lambda>e.
              Inr \<lparr>se_summary = s, se_mime = er_mime e, se_bytes = bs\<rparr>)))"

section \<open>The search row of an entry\<close>

text \<open>Invalid UTF-8 is not searchable, the MIME type always is; documents over 64 KiB stay out of
  the native index and are marked so.\<close>

definition search_text :: "platform \<Rightarrow> str \<Rightarrow> bytes \<Rightarrow> str" where
  "search_text pf mime bs =
     pf_lowercase pf (mime @ [CHR 0x0A] @ (case from_utf8 bs of Some s \<Rightarrow> s | None \<Rightarrow> []))"

definition search_row_of :: "platform \<Rightarrow> str \<Rightarrow> str \<Rightarrow> bytes \<Rightarrow> search_row" where
  "search_row_of pf i mime bs =
    (let content = search_text pf mime bs;
         indexed_complete = (length content \<le> 64 * 1024);
         indexed_content = (if indexed_complete then content else [])
     in \<lparr>sr_entry_id = i, sr_content = content, sr_indexed_content = indexed_content,
         sr_indexed_complete = indexed_complete\<rparr>)"

section \<open>The integrity invariant\<close>

definition payload_ok :: "platform \<Rightarrow> tables \<Rightarrow> entry_row \<Rightarrow> bool" where
  "payload_ok pf t e =
    (case map_of (t_payloads t) (er_id e) of
       None \<Rightarrow> False
     | Some bs \<Rightarrow>
         length bs = er_byte_size e \<and> pf_sha256 pf bs = er_digest e \<and>
         find (\<lambda>r. sr_entry_id r = er_id e) (t_search t) = Some (search_row_of pf (er_id e) (er_mime e) bs))"

definition entry_ok :: "platform \<Rightarrow> tables \<Rightarrow> entry_row \<Rightarrow> bool" where
  "entry_ok pf t e \<longleftrightarrow>
     entry_check e \<and> er_revision e \<le> t_revision t \<and> er_recency e \<le> t_sequence t \<and>
     payload_ok pf t e \<and>
     (case er_echo_source e of None \<Rightarrow> True | Some s \<Rightarrow> s \<in> entry_ids t \<and> s \<noteq> er_id e)"

lemma payload_ok_alt:
  "payload_ok pf t e \<longleftrightarrow>
     (\<exists>bs. map_of (t_payloads t) (er_id e) = Some bs \<and> length bs = er_byte_size e \<and> pf_sha256 pf bs = er_digest e \<and>
       find (\<lambda>r. sr_entry_id r = er_id e) (t_search t) = Some (search_row_of pf (er_id e) (er_mime e) bs))"
  by (simp add: payload_ok_def split: option.splits)

lemma entry_ok_alt:
  "entry_ok pf t e \<longleftrightarrow>
     entry_check e \<and> er_revision e \<le> t_revision t \<and> er_recency e \<le> t_sequence t \<and> payload_ok pf t e \<and>
     (\<forall>s. er_echo_source e = Some s \<longrightarrow> s \<in> entry_ids t \<and> s \<noteq> er_id e)"
  by (simp add: entry_ok_def split: option.splits)

definition rows_ok :: "tables \<Rightarrow> bool" where
  "rows_ok t \<longleftrightarrow>
     distinct (map er_id (t_entries t)) \<and> distinct (map er_recency (t_entries t)) \<and>
     distinct (map fst (t_payloads t)) \<and> fst ` set (t_payloads t) \<subseteq> entry_ids t \<and>
     distinct (map sr_entry_id (t_search t)) \<and> sr_entry_id ` set (t_search t) \<subseteq> entry_ids t \<and>
     distinct (t_entry_artifacts t) \<and> fst ` set (t_entry_artifacts t) \<subseteq> entry_ids t"

definition registry_ok :: "tables \<Rightarrow> bool" where
  "registry_ok t \<longleftrightarrow>
     distinct (map ar_path (t_artifacts t)) \<and> length (t_artifacts t) \<le> 4096 \<and>
     distinct (map ie_image_identity (t_inline_echoes t)) \<and> length (t_inline_echoes t) \<le> 4096"

definition meta_ok :: "tables \<Rightarrow> bool" where
  "meta_ok t \<longleftrightarrow>
     policy_check (t_policy t) \<and> t_sequence t \<le> t_revision t \<and> t_revision t < 9007199254740991"

definition store_ok :: "platform \<Rightarrow> tables \<Rightarrow> bool" where
  "store_ok pf t \<longleftrightarrow>
     rows_ok t \<and> registry_ok t \<and> meta_ok t \<and> list_all (entry_ok pf t) (t_entries t)"

lemma store_ok_fresh: "store_ok pf fresh_tables"
  by (simp add: store_ok_def rows_ok_def registry_ok_def meta_ok_def policy_check_def
      fresh_tables_def default_policy_def)

section \<open>Deletion preserves integrity\<close>

lemma unlink_echo_simps [simp]:
  "er_id (unlink_echo g e) = er_id e" "er_revision (unlink_echo g e) = er_revision e"
  "er_favorite (unlink_echo g e) = er_favorite e" "er_recency (unlink_echo g e) = er_recency e"
  "er_mime (unlink_echo g e) = er_mime e" "er_byte_size (unlink_echo g e) = er_byte_size e"
  "er_digest (unlink_echo g e) = er_digest e" "er_kind (unlink_echo g e) = er_kind e"
  "er_resolved_mime (unlink_echo g e) = er_resolved_mime e"
  "er_preview (unlink_echo g e) = er_preview e"
  "entry_check (unlink_echo g e) = entry_check e"
  by (auto simp: unlink_echo_def entry_check_def split: option.splits)

lemma delete_entries_simps [simp]:
  "t_revision (delete_entries p t) = t_revision t" "t_sequence (delete_entries p t) = t_sequence t"
  "t_policy (delete_entries p t) = t_policy t" "t_artifacts (delete_entries p t) = t_artifacts t"
  "t_inline_echoes (delete_entries p t) = t_inline_echoes t"
  "map er_id (t_entries (delete_entries p t)) = map er_id (filter (\<lambda>e. \<not> p e) (t_entries t))"
  "map er_recency (t_entries (delete_entries p t)) = map er_recency (filter (\<lambda>e. \<not> p e) (t_entries t))"
  "map er_byte_size (t_entries (delete_entries p t)) = map er_byte_size (filter (\<lambda>e. \<not> p e) (t_entries t))"
  by (simp_all add: delete_entries_def Let_def)

lemma entry_ids_delete: "entry_ids (delete_entries p t) = er_id ` {e \<in> set (t_entries t). \<not> p e}"
  by (auto simp: entry_ids_def delete_entries_def Let_def image_image)

lemma entry_ids_kept:
  "k \<in> entry_ids t \<Longrightarrow> k \<notin> er_id ` {x \<in> set (t_entries t). p x} \<Longrightarrow> k \<in> entry_ids (delete_entries p t)"
  unfolding entry_ids_delete by (auto simp: entry_ids_def)

lemma t_entries_delete:
  "t_entries (delete_entries p t) =
     map (unlink_echo (map er_id (filter p (t_entries t)))) (filter (\<lambda>e. \<not> p e) (t_entries t))"
  by (simp add: delete_entries_def Let_def)

lemma t_search_delete:
  "t_search (delete_entries p t) =
     filter (\<lambda>r. sr_entry_id r \<notin> set (map er_id (filter p (t_entries t)))) (t_search t)"
  by (simp add: delete_entries_def Let_def)

lemma map_of_filter_key: "map_of (filter (\<lambda>r. fst r \<notin> A) xs) k = (if k \<in> A then None else map_of xs k)"
  by (induction xs) auto

lemma find_filter: "(\<And>x. P x \<Longrightarrow> Q x) \<Longrightarrow> find P (filter Q xs) = find P xs"
  by (induction xs) auto

text \<open>With distinct ids, a kept row never shares its id with a deleted one.\<close>

lemma distinct_ids_inj:
  "distinct (map er_id es) \<Longrightarrow> e \<in> set es \<Longrightarrow> e' \<in> set es \<Longrightarrow> er_id e = er_id e' \<Longrightarrow> e = e'"
  by (metis distinct_map inj_onD)

lemma kept_id_not_gone:
  "distinct (map er_id es) \<Longrightarrow> e \<in> set es \<Longrightarrow> \<not> p e \<Longrightarrow> er_id e \<notin> er_id ` {x \<in> set es. p x}"
  by (auto dest: distinct_ids_inj)

lemma rows_ok_delete: "rows_ok t \<Longrightarrow> rows_ok (delete_entries p t)"
proof -
  assume r: "rows_ok t"
  let ?g = "er_id ` {x \<in> set (t_entries t). p x}"
  have g: "set (map er_id (filter p (t_entries t))) = ?g" by auto
  have rel: "t_payloads (delete_entries p t) = filter (\<lambda>r. fst r \<notin> ?g) (t_payloads t)"
    "t_search (delete_entries p t) = filter (\<lambda>r. sr_entry_id r \<notin> ?g) (t_search t)"
    "t_entry_artifacts (delete_entries p t) = filter (\<lambda>r. fst r \<notin> ?g) (t_entry_artifacts t)"
    by (simp_all add: delete_entries_def Let_def g)
  have sub: "A \<subseteq> entry_ids t \<Longrightarrow> {k \<in> A. k \<notin> ?g} \<subseteq> entry_ids (delete_entries p t)" for A
    using entry_ids_kept by blast
  from r show ?thesis
    unfolding rows_ok_def rel delete_entries_simps
    by (auto simp: distinct_map_filter intro: entry_ids_kept)
qed

lemma payload_ok_delete:
  assumes "distinct (map er_id (t_entries t))" "e \<in> set (t_entries t)" "\<not> p e" "payload_ok pf t e"
  shows "payload_ok pf (delete_entries p t) (unlink_echo g e)"
proof -
  let ?g = "set (map er_id (filter p (t_entries t)))"
  have k: "er_id e \<notin> ?g"
    using kept_id_not_gone[of "t_entries t" e p, OF assms(1-3)] by auto
  then have "map_of (t_payloads (delete_entries p t)) (er_id e) = map_of (t_payloads t) (er_id e)"
    by (simp add: delete_entries_def Let_def map_of_filter_key)
  moreover have "find (\<lambda>r. sr_entry_id r = er_id e) (t_search (delete_entries p t)) =
      find (\<lambda>r. sr_entry_id r = er_id e) (t_search t)"
    unfolding t_search_delete by (rule find_filter) (use k in simp)
  ultimately show ?thesis using assms(4) by (simp add: payload_ok_def split: option.splits)
qed

lemma entry_ok_delete:
  assumes "distinct (map er_id (t_entries t))" "e \<in> set (t_entries t)" "\<not> p e" "entry_ok pf t e"
  shows "entry_ok pf (delete_entries p t) (unlink_echo (map er_id (filter p (t_entries t))) e)"
proof -
  let ?g = "map er_id (filter p (t_entries t))"
  have "payload_ok pf (delete_entries p t) (unlink_echo ?g e)"
    using assms payload_ok_delete by (simp add: entry_ok_def)
  moreover have "case er_echo_source (unlink_echo ?g e) of None \<Rightarrow> True
      | Some s \<Rightarrow> s \<in> entry_ids (delete_entries p t) \<and> s \<noteq> er_id (unlink_echo ?g e)"
  proof (cases "er_echo_source (unlink_echo ?g e)")
    case (Some s)
    then have s: "er_echo_source e = Some s" "s \<notin> set ?g"
      by (auto simp: unlink_echo_def split: option.splits if_splits)
    then have "s \<in> entry_ids t" "s \<noteq> er_id e" using assms(4) by (simp_all add: entry_ok_def)
    moreover have "s \<in> entry_ids (delete_entries p t)"
      using calculation(1) s(2) by (intro entry_ids_kept) auto
    ultimately show ?thesis using Some by simp
  qed simp
  ultimately show ?thesis using assms(4) by (simp add: entry_ok_def)
qed

lemma store_ok_delete:
  assumes "store_ok pf t"
  shows "store_ok pf (delete_entries p t)"
proof -
  have d: "distinct (map er_id (t_entries t))" using assms by (simp add: store_ok_def rows_ok_def)
  have "\<forall>e \<in> set (t_entries (delete_entries p t)). entry_ok pf (delete_entries p t) e"
    unfolding t_entries_delete
    using assms entry_ok_delete[OF d] by (auto simp: store_ok_def list_all_iff)
  then show ?thesis
    using assms rows_ok_delete by (auto simp: store_ok_def registry_ok_def meta_ok_def list_all_iff)
qed

end
