(* ===== verification/History_Retention.thy ===== *)
theory History_Retention
  imports History_Tables
begin

text \<open>
  Set-based retention (\<open>Database::retain\<close> of \<open>src/src/history_store/database.rs\<close>): entries over
  the size limit go first, then each category beyond its count, then the tail of the running
  byte total; the target of the mutation is protected, and losing it fails the transaction.
  \<open>within_policy\<close> states what a committed state promises.  The lemmas show that every pass
  establishes its own bound and keeps the others, that a category never loses an entry while a
  less recent one of it stays, and that the byte budget takes a favorite only when no
  unprotected regular entry is left.
\<close>

definition recency_key :: "str \<Rightarrow> entry_row \<Rightarrow> bool \<times> int \<times> str" where
  "recency_key protected e = (er_id e \<noteq> protected, - int (er_recency e), er_id e)"

definition total_key :: "str \<Rightarrow> entry_row \<Rightarrow> bool \<times> bool \<times> int \<times> str" where
  "total_key protected e =
     (er_id e \<noteq> protected, \<not> er_favorite e, - int (er_recency e), er_id e)"

definition retain_oversize :: "store_policy \<Rightarrow> str \<Rightarrow> tables \<Rightarrow> tables" where
  "retain_oversize policy protected t =
     delete_entries (\<lambda>e. er_byte_size e > sp_max_entry_bytes policy \<and> er_id e \<noteq> protected) t"

definition retain_category :: "bool \<Rightarrow> nat \<Rightarrow> str \<Rightarrow> tables \<Rightarrow> tables" where
  "retain_category favorite limit protected t =
    (let evicted = map er_id (beyond_n limit (recency_key protected)
                     (filter (\<lambda>e. er_favorite e = favorite) (t_entries t)))
     in delete_entries (\<lambda>e. er_id e \<in> set evicted) t)"

definition retain_total :: "store_policy \<Rightarrow> str \<Rightarrow> tables \<Rightarrow> tables" where
  "retain_total policy protected t =
    (let rows = running er_byte_size 0 (sort_key (total_key protected) (t_entries t));
         evicted = map (er_id \<circ> fst) (filter (\<lambda>(e, r). r > sp_max_total_bytes policy) rows)
     in delete_entries (\<lambda>e. er_id e \<in> set evicted) t)"

definition retain :: "store_policy \<Rightarrow> str option \<Rightarrow> tables \<Rightarrow> tables bresult" where
  "retain policy protected t =
    (let p = (case protected of None \<Rightarrow> [] | Some i \<Rightarrow> i);
         t1 = retain_oversize policy p t;
         t2 = retain_category False (sp_max_entries policy) p t1;
         t3 = retain_category True (sp_max_favorites policy) p t2;
         t4 = retain_total policy p t3
     in if p \<noteq> [] then rbind (summary p None t4) (\<lambda>_. Inr t4) else Inr t4)"

section \<open>What retention promises\<close>

definition category :: "bool \<Rightarrow> tables \<Rightarrow> entry_row list" where
  "category favorite t = filter (\<lambda>e. er_favorite e = favorite) (t_entries t)"

definition total_bytes :: "tables \<Rightarrow> nat" where
  "total_bytes t = sum_list (map er_byte_size (t_entries t))"

definition counts_ok :: "store_policy \<Rightarrow> tables \<Rightarrow> bool" where
  "counts_ok policy t \<longleftrightarrow>
     length (category False t) \<le> sp_max_entries policy \<and>
     length (category True t) \<le> sp_max_favorites policy \<and>
     total_bytes t \<le> sp_max_total_bytes policy"

definition within_policy :: "store_policy \<Rightarrow> tables \<Rightarrow> bool" where
  "within_policy policy t \<longleftrightarrow>
     counts_ok policy t \<and> list_all (\<lambda>e. er_byte_size e \<le> sp_max_entry_bytes policy) (t_entries t)"

section \<open>Deletion only shrinks\<close>

lemma category_delete_length:
  "length (category f (delete_entries p t)) \<le> length (category f t)"
proof -
  have "category f (delete_entries p t) =
      map (unlink_echo (map er_id (filter p (t_entries t))))
        (filter (\<lambda>e. er_favorite e = f) (filter (\<lambda>e. \<not> p e) (t_entries t)))"
    by (simp add: category_def t_entries_delete filter_map o_def)
  then show ?thesis
    by (simp add: category_def length_filter_filter_le del: filter_filter)
qed

lemma total_bytes_delete: "total_bytes (delete_entries p t) = sum_list (map er_byte_size (filter (\<lambda>e. \<not> p e) (t_entries t)))"
  by (simp add: total_bytes_def)

lemma total_bytes_delete_le: "total_bytes (delete_entries p t) \<le> total_bytes t"
  unfolding total_bytes_delete by (simp add: total_bytes_def sum_list_filter_le)

lemma counts_ok_delete: "counts_ok pol t \<Longrightarrow> counts_ok pol (delete_entries p t)"
  using category_delete_length total_bytes_delete_le
  by (fastforce simp: counts_ok_def intro: le_trans)

lemma within_policy_delete: "within_policy pol t \<Longrightarrow> within_policy pol (delete_entries p t)"
  by (auto simp: within_policy_def counts_ok_delete list_all_iff t_entries_delete)

lemma rows_ok_distinct: "rows_ok t \<Longrightarrow> distinct (map er_id (t_entries t))"
  by (simp add: rows_ok_def)

section \<open>Each pass establishes its bound\<close>

lemma kept_in_top:
  assumes "distinct (map er_id F)" "e \<in> set F" "er_id e \<notin> set (map er_id (beyond_n n k F))"
  shows "e \<in> set (top_n n k F)"
  using assms top_beyond[of n k F] by (metis Un_iff imageI list.set_map)

lemma category_retained:
  assumes "distinct (map er_id F)"
  shows "length (filter (\<lambda>e. er_id e \<notin> set (map er_id (beyond_n n k F))) F) \<le> n"
proof -
  let ?K = "filter (\<lambda>e. er_id e \<notin> set (map er_id (beyond_n n k F))) F"
  have "distinct ?K" using assms by (simp add: distinct_map)
  then have "length ?K = card (set ?K)" by (rule distinct_card[symmetric])
  also have "\<dots> \<le> card (set (top_n n k F))"
    using kept_in_top[OF assms] by (intro card_mono) auto
  also have "\<dots> \<le> length (top_n n k F)" by (rule card_length)
  also have "\<dots> \<le> n" by (rule top_n_length)
  finally show ?thesis .
qed

lemma retain_category_count:
  assumes "rows_ok t"
  shows "length (category f (retain_category f n p t)) \<le> n"
proof -
  let ?F = "category f t"
  let ?ev = "map er_id (beyond_n n (recency_key p) ?F)"
  have F: "distinct (map er_id ?F)"
    using assms by (simp add: category_def rows_ok_def distinct_map_filter)
  have "length (category f (retain_category f n p t)) =
      length (filter (\<lambda>e. er_id e \<notin> set ?ev) ?F)"
    by (simp add: category_def retain_category_def Let_def t_entries_delete filter_map o_def conj_commute)
  with category_retained[OF F] show ?thesis by simp
qed

lemma running_kept:
  fixes m :: nat
  assumes "distinct (map (g \<circ> fst) xs)"
  shows "filter (\<lambda>e. g e \<notin> (g \<circ> fst) ` set (filter (\<lambda>(e, r). r > m) xs)) (map fst xs) =
         map fst (filter (\<lambda>(e, r). r \<le> m) xs)"
proof -
  have "(g \<circ> fst) x \<in> (g \<circ> fst) ` set (filter (\<lambda>(e, r). r > m) xs) \<longleftrightarrow> snd x > m"
    if x: "x \<in> set xs" for x
  proof
    assume "(g \<circ> fst) x \<in> (g \<circ> fst) ` set (filter (\<lambda>(e, r). r > m) xs)"
    then obtain y where "y \<in> set xs" "snd y > m" "(g \<circ> fst) x = (g \<circ> fst) y" by auto
    moreover from this have "x = y" using assms x by (metis distinct_map inj_onD)
    ultimately show "snd x > m" by simp
  next
    assume "snd x > m"
    with x show "(g \<circ> fst) x \<in> (g \<circ> fst) ` set (filter (\<lambda>(e, r). r > m) xs)"
      by (intro imageI) (simp add: case_prod_beta)
  qed
  then show ?thesis by (auto simp: filter_map case_prod_beta not_less intro!: arg_cong[where f = "map fst"] filter_cong)
qed

lemma retain_total_bytes:
  assumes "rows_ok t"
  shows "total_bytes (retain_total pol p t) \<le> sp_max_total_bytes pol"
proof -
  let ?m = "sp_max_total_bytes pol"
  let ?S = "sort_key (total_key p) (t_entries t)"
  let ?R = "running er_byte_size 0 ?S"
  let ?ev = "(er_id \<circ> fst) ` set (filter (\<lambda>(e, r). r > ?m) ?R)"
  have d: "distinct (map er_id ?S)"
    using rows_ok_distinct[OF assms] by (simp add: distinct_map_sort_key)
  then have d': "distinct (map (er_id \<circ> fst) ?R)" by (simp flip: map_map)
  have "total_bytes (retain_total pol p t) =
      sum_list (map er_byte_size (filter (\<lambda>e. er_id e \<notin> ?ev) (t_entries t)))"
    by (simp add: retain_total_def Let_def total_bytes_delete)
  also have "\<dots> = sum_list (map er_byte_size (filter (\<lambda>e. er_id e \<notin> ?ev) ?S))"
    by (rule sum_list_filter_sorted[symmetric])
  also have "filter (\<lambda>e. er_id e \<notin> ?ev) ?S = map fst (filter (\<lambda>(e, r). r \<le> ?m) ?R)"
    using running_kept[OF d', of ?m] by simp
  also have "sum_list (map er_byte_size \<dots>) \<le> ?m"
    using running_filter_sum[of 0 ?m er_byte_size ?S] by (simp add: o_def)
  finally show ?thesis .
qed

section \<open>The whole pass\<close>

text \<open>Retention is a chain of deletions, so what every deletion keeps, retention keeps.\<close>

definition retain_chain :: "store_policy \<Rightarrow> str \<Rightarrow> tables \<Rightarrow> tables" where
  "retain_chain policy p t =
     retain_total policy p (retain_category True (sp_max_favorites policy) p
       (retain_category False (sp_max_entries policy) p (retain_oversize policy p t)))"

lemma retain_eq:
  "retain policy protected t =
    (case protected of
       None \<Rightarrow> Inr (retain_chain policy [] t)
     | Some i \<Rightarrow> if i = [] then Inr (retain_chain policy [] t)
                 else rbind (summary i None (retain_chain policy i t)) (\<lambda>_. Inr (retain_chain policy i t)))"
  by (simp add: retain_def retain_chain_def Let_def split: option.splits)

lemma retain_result:
  "retain policy protected t = Inr t' \<Longrightarrow>
     t' = retain_chain policy (case protected of None \<Rightarrow> [] | Some i \<Rightarrow> i) t"
  by (auto simp: retain_eq split: option.splits if_splits)

lemma retain_protected:
  "retain policy (Some i) t = Inr t' \<Longrightarrow> i \<noteq> [] \<Longrightarrow> \<exists>s. summary i None t' = Inr s"
  by (auto simp: retain_eq)

lemmas retain_pass_defs =
  retain_oversize_def retain_category_def retain_total_def Let_def

text \<open>An induction principle: a property every \<open>delete_entries\<close> keeps survives the chain.\<close>

lemma retain_chain_preserves:
  assumes "\<And>p t. P t \<Longrightarrow> P (delete_entries p t)" and "P t"
  shows "P (retain_chain policy i t)"
  unfolding retain_chain_def retain_pass_defs by (intro assms)

lemma store_ok_retain: "store_ok pf t \<Longrightarrow> store_ok pf (retain_chain policy i t)"
  by (rule retain_chain_preserves) (auto intro: store_ok_delete)

lemma retain_chain_frame [simp]:
  "t_policy (retain_chain policy i t) = t_policy t"
  "t_revision (retain_chain policy i t) = t_revision t"
  "t_sequence (retain_chain policy i t) = t_sequence t"
  "t_artifacts (retain_chain policy i t) = t_artifacts t"
  "t_inline_echoes (retain_chain policy i t) = t_inline_echoes t"
  by (simp_all add: retain_chain_def retain_pass_defs)

text \<open>A surviving row is an old row, up to its echo link.\<close>

definition same_row :: "entry_row \<Rightarrow> entry_row \<Rightarrow> bool" where
  "same_row e e' \<longleftrightarrow>
     e' = e \<or> e' = e\<lparr>er_echo_source := None\<rparr>"

lemma delete_rows: "e' \<in> set (t_entries (delete_entries p t)) \<Longrightarrow> \<exists>e \<in> set (t_entries t). same_row e e'"
  by (auto simp: t_entries_delete same_row_def unlink_echo_def split: option.splits)

lemma same_row_refl: "same_row e e"
  by (simp add: same_row_def)

lemma same_row_trans: "same_row a b \<Longrightarrow> same_row b c \<Longrightarrow> same_row a c"
  by (auto simp: same_row_def)

lemma same_row_size [simp]: "same_row e e' \<Longrightarrow> er_byte_size e' = er_byte_size e \<and> er_id e' = er_id e"
  by (auto simp: same_row_def)

lemma retain_chain_rows:
  assumes "e' \<in> set (t_entries (retain_chain policy i t))"
  shows "\<exists>e \<in> set (t_entries t). same_row e e'"
proof -
  let ?P = "\<lambda>u :: tables. \<forall>e' \<in> set (t_entries u). \<exists>e \<in> set (t_entries t). same_row e e'"
  have "?P (retain_chain policy i t)"
  proof (rule retain_chain_preserves)
    fix p and u :: tables assume u: "?P u"
    show "?P (delete_entries p u)"
    proof
      fix e' assume "e' \<in> set (t_entries (delete_entries p u))"
      then obtain e where "e \<in> set (t_entries u)" "same_row e e'" using delete_rows by blast
      then show "\<exists>e \<in> set (t_entries t). same_row e e'" using u same_row_trans by blast
    qed
  next
    show "?P t" using same_row_refl by blast
  qed
  with assms show ?thesis by blast
qed

lemma category_pass_delete:
  "length (category f (retain_category g n p t)) \<le> length (category f t)"
  "length (category f (retain_total pol p t)) \<le> length (category f t)"
  by (simp_all add: retain_pass_defs category_delete_length)

lemma rows_ok_pass:
  "rows_ok t \<Longrightarrow> rows_ok (retain_category f n p t)" "rows_ok t \<Longrightarrow> rows_ok (retain_oversize pol p t)"
  "rows_ok t \<Longrightarrow> rows_ok (retain_total pol p t)"
  by (simp_all add: retain_pass_defs rows_ok_delete)

lemma retain_chain_counts:
  assumes "rows_ok t"
  shows "counts_ok pol (retain_chain pol p t)"
proof -
  define t1 where "t1 = retain_oversize pol p t"
  define t2 where "t2 = retain_category False (sp_max_entries pol) p t1"
  define t3 where "t3 = retain_category True (sp_max_favorites pol) p t2"
  have r: "rows_ok t1" "rows_ok t2" "rows_ok t3"
    using assms by (simp_all add: t1_def t2_def t3_def rows_ok_pass)
  have "length (category False (retain_total pol p t3)) \<le> sp_max_entries pol"
    using category_pass_delete(2)[of False pol p t3] category_pass_delete(1)[of False True _ p t2]
      retain_category_count[OF r(1)] unfolding t2_def t3_def by (meson le_trans)
  moreover have "length (category True (retain_total pol p t3)) \<le> sp_max_favorites pol"
    using category_pass_delete(2)[of True pol p t3] retain_category_count[OF r(2)]
    unfolding t3_def by (meson le_trans)
  moreover have "retain_chain pol p t = retain_total pol p t3"
    by (simp add: retain_chain_def t1_def t2_def t3_def)
  ultimately show ?thesis using retain_total_bytes[OF r(3)] by (simp add: counts_ok_def)
qed

lemma retain_chain_sizes:
  assumes "e \<in> set (t_entries (retain_chain pol p t))"
  shows "er_byte_size e \<le> sp_max_entry_bytes pol \<or> er_id e = p"
proof -
  let ?P = "\<lambda>u. \<forall>e \<in> set (t_entries u). er_byte_size e \<le> sp_max_entry_bytes pol \<or> er_id e = p"
  have d: "?P u \<Longrightarrow> ?P (delete_entries q u)" for q u by (auto simp: t_entries_delete)
  have "?P (retain_oversize pol p t)"
    by (auto simp: retain_oversize_def t_entries_delete)
  then have "?P (retain_chain pol p t)"
    unfolding retain_chain_def retain_category_def retain_total_def Let_def by (intro d)
  with assms show ?thesis by blast
qed

text \<open>The bounds hold for the whole state when the protected entry itself is within its limit.\<close>

lemma retain_within_policy:
  assumes "rows_ok t" and "retain pol prot t = Inr t'"
    and "\<And>i e. prot = Some i \<Longrightarrow> e \<in> set (t_entries t) \<Longrightarrow> er_id e = i \<Longrightarrow> er_byte_size e \<le> sp_max_entry_bytes pol"
    and "prot = None \<Longrightarrow> [] \<notin> entry_ids t"
  shows "within_policy pol t'"
proof -
  let ?p = "case prot of None \<Rightarrow> [] | Some i \<Rightarrow> i"
  have t': "t' = retain_chain pol ?p t" by (rule retain_result[OF assms(2)])
  have "er_byte_size e \<le> sp_max_entry_bytes pol" if e: "e \<in> set (t_entries t')" for e
  proof (cases "er_id e = ?p")
    case True
    obtain e0 where e0: "e0 \<in> set (t_entries t)" "same_row e0 e"
      using retain_chain_rows e t' by blast
    show ?thesis
    proof (cases prot)
      case None
      then have "[] \<in> entry_ids t" using True e0 by (force simp: entry_ids_def)
      with assms(4) None show ?thesis by simp
    next
      case (Some i)
      with True e0 assms(3)[OF Some e0(1)] show ?thesis by simp
    qed
  next
    case False
    then show ?thesis using retain_chain_sizes e t' by blast
  qed
  then show ?thesis
    using retain_chain_counts[OF assms(1)] t' by (auto simp: within_policy_def list_all_iff)
qed

section \<open>What is evicted\<close>

lemma image_keepD: "k \<in> f ` {x \<in> X. f x \<notin> A} \<Longrightarrow> k \<notin> A"
  by blast

lemma entry_ids_retain_category:
  "entry_ids (retain_category f n p t) =
     er_id ` {e \<in> set (t_entries t). er_id e \<notin> set (map er_id (beyond_n n (recency_key p) (category f t)))}"
  by (simp add: retain_category_def Let_def entry_ids_delete category_def)

lemma retain_category_order:
  assumes rows: "rows_ok t" and mem: "e \<in> set (category f t)" "e' \<in> set (category f t)"
    and kept: "er_id e \<in> entry_ids (retain_category f n p t)"
    and evicted: "er_id e' \<notin> entry_ids (retain_category f n p t)"
    and unprotected: "er_id e \<noteq> p"
  shows "er_recency e' < er_recency e"
proof -
  let ?F = "category f t" and ?k = "recency_key p"
  have sub: "set ?F \<subseteq> set (t_entries t)" by (auto simp: category_def)
  have d: "distinct (map er_id ?F)" using rows by (simp add: rows_ok_def category_def distinct_map_filter)
  have kept': "er_id e \<notin> set (map er_id (beyond_n n ?k ?F))"
    using kept unfolding entry_ids_retain_category by (rule image_keepD)
  have top: "e \<in> set (top_n n ?k ?F)" by (rule kept_in_top[OF d mem(1) kept'])
  have ev: "er_id e' \<in> set (map er_id (beyond_n n ?k ?F))"
    using evicted mem(2) sub by (auto simp: entry_ids_retain_category)
  then obtain x where x: "x \<in> set (beyond_n n ?k ?F)" "er_id e' = er_id x" by auto
  have "x \<in> set ?F" using x(1) top_beyond[of n ?k ?F] by blast
  then have "x = e'" using x(2) mem(2) d distinct_ids_inj by metis
  then have "?k e \<le> ?k e'" using top_le_beyond[OF top x(1)] by simp
  then have le: "er_recency e' \<le> er_recency e" using unprotected by (auto simp: recency_key_def less_eq_prod_def)
  have "e \<noteq> e'" using kept evicted by auto
  moreover have "inj_on er_recency (set (t_entries t))" using rows by (simp add: rows_ok_def distinct_map)
  ultimately have "er_recency e \<noteq> er_recency e'" using mem sub by (meson inj_onD subsetD)
  with le show ?thesis by simp
qed

lemma retain_total_order:
  assumes rows: "rows_ok t" and mem: "e \<in> set (t_entries t)" "e' \<in> set (t_entries t)"
    and kept: "er_id e \<in> entry_ids (retain_total pol p t)"
    and evicted: "er_id e' \<notin> entry_ids (retain_total pol p t)"
  shows "total_key p e \<le> total_key p e'"
proof -
  let ?S = "sort_key (total_key p) (t_entries t)"
  let ?R = "running er_byte_size 0 ?S"
  let ?m = "sp_max_total_bytes pol"
  let ?ev = "set (map (er_id \<circ> fst) (filter (\<lambda>(e, r). r > ?m) ?R))"
  have ids: "entry_ids (retain_total pol p t) = er_id ` {e \<in> set (t_entries t). er_id e \<notin> ?ev}"
    by (simp add: retain_total_def Let_def entry_ids_delete)
  have row: "\<exists>r. (x, r) \<in> set ?R" if "x \<in> set (t_entries t)" for x
  proof -
    have "x \<in> fst ` set ?R" using that by (metis list.set_map map_fst_running set_sort)
    then show ?thesis by auto
  qed
  obtain r where r: "(e, r) \<in> set ?R" using row[OF mem(1)] by blast
  have "er_id e \<notin> ?ev" using kept unfolding ids by (rule image_keepD)
  then have "r \<le> ?m" using r by force
  moreover have "er_id e' \<in> ?ev" using evicted mem(2) unfolding ids by auto
  then obtain x s where s: "(x, s) \<in> set ?R" "s > ?m" "er_id x = er_id e'" by auto
  moreover have "x \<in> set (t_entries t)" using running_mem[OF s(1)] by simp
  then have "x = e'" using s(3) mem(2) rows distinct_ids_inj rows_ok_distinct by metis
  ultimately show ?thesis using running_sorted[of "total_key p" ?S e r er_byte_size 0 e' s] r by simp
qed

section \<open>Retention leaves a conforming store alone\<close>

lemma delete_none: "(\<And>e. e \<in> set (t_entries t) \<Longrightarrow> \<not> p e) \<Longrightarrow> delete_entries p t = t"
proof -
  assume n: "\<And>e. e \<in> set (t_entries t) \<Longrightarrow> \<not> p e"
  have f: "filter p (t_entries t) = []" "filter (\<lambda>e. \<not> p e) (t_entries t) = t_entries t"
    using n by (simp_all add: filter_empty_conv filter_id_conv)
  have "map (unlink_echo []) es = es" for es
    by (rule map_idI) (simp add: unlink_echo_def split: option.splits)
  then show ?thesis unfolding delete_entries_def Let_def f by simp
qed

lemma running_le_total: "(x, r) \<in> set (running v acc xs) \<Longrightarrow> r \<le> acc + sum_list (map v xs)"
  by (induction xs arbitrary: acc) (auto, fastforce)

lemma retain_chain_noop:
  assumes "within_policy pol t"
  shows "retain_chain pol p t = t"
proof -
  have c: "length (category False t) \<le> sp_max_entries pol" "length (category True t) \<le> sp_max_favorites pol"
    and b: "total_bytes t \<le> sp_max_total_bytes pol"
    and s: "\<And>e. e \<in> set (t_entries t) \<Longrightarrow> er_byte_size e \<le> sp_max_entry_bytes pol"
    using assms by (auto simp: within_policy_def counts_ok_def list_all_iff)
  have 1: "retain_oversize pol p t = t"
    unfolding retain_oversize_def by (rule delete_none) (use s in fastforce)
  have 2: "retain_category f n p t = t" if "length (category f t) \<le> n" for f n
  proof -
    have "beyond_n n (recency_key p) (category f t) = []" using that by (simp add: beyond_n_def)
    then show ?thesis unfolding retain_category_def Let_def
      by (intro delete_none) (simp add: category_def)
  qed
  have tot: "r \<le> sp_max_total_bytes pol"
    if "(x, r) \<in> set (running er_byte_size 0 (sort_key (total_key p) (t_entries t)))" for x r
  proof -
    have "r \<le> sum_list (map er_byte_size (sort_key (total_key p) (t_entries t)))"
      using running_le_total[OF that] by simp
    also have "\<dots> = total_bytes t"
      using sum_list_filter_sorted[of er_byte_size "\<lambda>_. True"] by (simp add: total_bytes_def)
    finally show ?thesis using b by simp
  qed
  have 3: "retain_total pol p t = t"
    unfolding retain_total_def Let_def by (intro delete_none) (use tot in \<open>fastforce simp: image_iff\<close>)
  show ?thesis unfolding retain_chain_def 1 2[OF c(1)] 2[OF c(2)] 3 ..
qed

end
