(* ===== verification/History_Invariants.thy ===== *)
theory History_Invariants
  imports History_Database
begin

text \<open>
  Every transaction body keeps the integrity invariant, the retention bounds of the policy in
  force, and the property that no entry id is empty (\<open>good\<close>).  The locale \<open>storage_op\<close> states that
  contract once and derives what \<open>transaction\<close> does with such a body under every engine
  behaviour; it is interpreted on each body of the database.
\<close>

section \<open>Reads\<close>

lemma find_entry_Some:
  "find_entry i t = Some e \<Longrightarrow> e \<in> set (t_entries t) \<and> er_id e = i"
  by (auto simp: find_entry_def find_Some_iff)

lemma find_entry_None: "find_entry i t = None \<longleftrightarrow> i \<notin> entry_ids t"
  by (auto simp: find_entry_def find_None_iff entry_ids_def)

lemma find_entry_eq: "rows_ok t \<Longrightarrow> e \<in> set (t_entries t) \<Longrightarrow> find_entry (er_id e) t = Some e"
  by (metis distinct_ids_inj find_entry_None find_entry_Some imageI entry_ids_def not_None_eq rows_ok_distinct)

lemma decode_kind_label [simp]: "decode_kind (label k) = Inr k"
  by (cases k) (simp_all add: decode_kind_def)

lemma decode_kind_check: "s \<in> set kind_labels \<Longrightarrow> \<exists>k. decode_kind s = Inr k \<and> label k = s"
  unfolding kind_labels_def by (auto simp del: label.simps)

lemma decode_summary_ok:
  "entry_check e \<Longrightarrow> \<exists>s. decode_summary t e = Inr s \<and> es_id s = er_id e \<and> es_revision s = er_revision e \<and>
     es_byte_size s = er_byte_size e \<and> es_favorite s = er_favorite e \<and>
     (es_current s \<longleftrightarrow> er_recency e = max_recency (t_entries t)) \<and> es_preview s = er_preview e \<and>
     label (es_kind s) = er_kind e \<and> es_mime s = er_resolved_mime e"
  by (auto simp: decode_summary_def entry_check_def dest!: decode_kind_check)

lemma decode_summary_fields:
  "decode_summary t e = Inr s \<Longrightarrow> es_id s = er_id e \<and> es_revision s = er_revision e \<and>
     es_byte_size s = er_byte_size e \<and> es_favorite s = er_favorite e \<and>
     (es_current s \<longleftrightarrow> er_recency e = max_recency (t_entries t)) \<and> es_mime s = er_resolved_mime e"
  by (auto simp: decode_summary_def)

lemma summary_Inr:
  "summary i expected t = Inr s \<Longrightarrow>
     \<exists>e. find_entry i t = Some e \<and> decode_summary t e = Inr s \<and> es_id s = i \<and>
         (\<forall>r. expected = Some r \<longrightarrow> er_revision e = r)"
proof -
  assume "summary i expected t = Inr s"
  then obtain e where e: "find_entry i t = Some e" "decode_summary t e = Inr s"
    and r: "\<forall>r. expected = Some r \<longrightarrow> es_revision s = r"
    by (cases expected) (auto simp: summary_def split: if_splits)
  then show ?thesis using decode_summary_fields[OF e(2)] find_entry_Some[OF e(1)] by auto
qed

lemma summary_present:
  "store_ok pf t \<Longrightarrow> i \<in> entry_ids t \<Longrightarrow> \<exists>s. summary i None t = Inr s \<and> es_id s = i"
proof -
  assume ok: "store_ok pf t" and i: "i \<in> entry_ids t"
  obtain e where e: "find_entry i t = Some e" using i find_entry_None by (metis not_None_eq)
  then have "entry_check e" "er_id e = i"
    using ok find_entry_Some[OF e] by (auto simp: store_ok_def list_all_iff entry_ok_def)
  then show ?thesis using e decode_summary_ok[of e t] by (fastforce simp: summary_def)
qed

lemma summary_absent: "i \<notin> entry_ids t \<Longrightarrow> summary i r t = Inl (not_found ''Clipboard entry does not exist'')"
  by (simp add: summary_def find_entry_None[THEN iffD2] ok_or_def)

lemma max_recency_ge: "e \<in> set es \<Longrightarrow> er_recency e \<le> max_recency es"
  by (induction es) (auto simp: max_recency_def)

section \<open>Metadata updates\<close>

lemma bump_Inr: "bump t = Inr (r, t') \<longleftrightarrow> r = t_revision t + 1 \<and> r < 9007199254740991 \<and> t' = t\<lparr>t_revision := r\<rparr>"
  by (auto simp: bump_def Let_def)

lemma sequence_Inr: "sequence t = Inr (s, t') \<longleftrightarrow> s = t_sequence t + 1 \<and> s \<le> i64_max \<and> t' = t\<lparr>t_sequence := s\<rparr>"
  by (auto simp: sequence_def Let_def)

lemma entry_ids_frame [simp]:
  "entry_ids (t\<lparr>t_revision := r\<rparr>) = entry_ids t" "entry_ids (t\<lparr>t_sequence := s\<rparr>) = entry_ids t"
  "entry_ids (t\<lparr>t_policy := pol\<rparr>) = entry_ids t" "entry_ids (t\<lparr>t_inline_echoes := ie\<rparr>) = entry_ids t"
  "entry_ids (t\<lparr>t_artifacts := ar\<rparr>) = entry_ids t" "entry_ids (t\<lparr>t_payloads := ps\<rparr>) = entry_ids t"
  "entry_ids (t\<lparr>t_search := se\<rparr>) = entry_ids t" "entry_ids (t\<lparr>t_entry_artifacts := ea\<rparr>) = entry_ids t"
  by (simp_all add: entry_ids_def)

lemma payload_ok_frame [simp]:
  "payload_ok pf (t\<lparr>t_revision := r\<rparr>) e = payload_ok pf t e"
  "payload_ok pf (t\<lparr>t_sequence := s\<rparr>) e = payload_ok pf t e"
  "payload_ok pf (t\<lparr>t_policy := pol\<rparr>) e = payload_ok pf t e"
  "payload_ok pf (t\<lparr>t_inline_echoes := ie\<rparr>) e = payload_ok pf t e"
  "payload_ok pf (t\<lparr>t_artifacts := ar\<rparr>) e = payload_ok pf t e"
  "payload_ok pf (t\<lparr>t_entries := es\<rparr>) e = payload_ok pf t e"
  "payload_ok pf (t\<lparr>t_entry_artifacts := ea\<rparr>) e = payload_ok pf t e"
  by (simp_all add: payload_ok_def cong: option.case_cong)

lemma rows_ok_frame [simp]:
  "rows_ok (t\<lparr>t_revision := r\<rparr>) = rows_ok t" "rows_ok (t\<lparr>t_sequence := s\<rparr>) = rows_ok t"
  "rows_ok (t\<lparr>t_policy := pol\<rparr>) = rows_ok t" "rows_ok (t\<lparr>t_inline_echoes := ie\<rparr>) = rows_ok t"
  "rows_ok (t\<lparr>t_artifacts := ar\<rparr>) = rows_ok t"
  by (simp_all add: rows_ok_def)

lemma entry_ok_later:
  "entry_ok pf t e \<Longrightarrow> t_revision t \<le> r \<Longrightarrow> entry_ok pf (t\<lparr>t_revision := r\<rparr>) e"
  "entry_ok pf t e \<Longrightarrow> t_sequence t \<le> s \<Longrightarrow> entry_ok pf (t\<lparr>t_sequence := s\<rparr>) e"
  by (auto simp: entry_ok_def split: option.splits)

lemma store_ok_bump: "store_ok pf t \<Longrightarrow> bump t = Inr (r, t') \<Longrightarrow> store_ok pf t'"
  by (auto simp: store_ok_def bump_Inr registry_ok_def meta_ok_def list_all_iff intro!: entry_ok_later)

lemma store_ok_tick:
  "store_ok pf t \<Longrightarrow> bump t = Inr (r, t1) \<Longrightarrow> sequence t1 = Inr (s, t2) \<Longrightarrow> store_ok pf t2"
  by (auto simp: store_ok_def bump_Inr sequence_Inr registry_ok_def meta_ok_def list_all_iff
      intro!: entry_ok_later)

lemma store_ok_policy:
  "store_ok pf t \<Longrightarrow> policy_check pol \<Longrightarrow> store_ok pf (t\<lparr>t_policy := pol\<rparr>)"
  by (auto simp: store_ok_def registry_ok_def meta_ok_def list_all_iff entry_ok_def split: option.splits)

section \<open>Row updates\<close>

lemma update_entries_Inr:
  "update_entries p f t = Inr t' \<longleftrightarrow>
     (\<forall>e \<in> set (t_entries t). p e \<longrightarrow> entry_check (f e)) \<and>
     t' = t\<lparr>t_entries := map (\<lambda>e. if p e then f e else e) (t_entries t)\<rparr>"
  by (auto simp: update_entries_def list_all_iff)

lemma map_update_same: "(\<And>e. e \<in> set es \<Longrightarrow> p e \<Longrightarrow> g (f e) = g e) \<Longrightarrow> map g (map (\<lambda>e. if p e then f e else e) es) = map g es"
  by simp

lemma entry_ids_map: "map er_id (t_entries t') = map er_id (t_entries t) \<Longrightarrow> entry_ids t' = entry_ids t"
  by (metis entry_ids_def list.set_map)

text \<open>An update that keeps ids and content columns keeps the store integral.\<close>

lemma store_ok_update:
  assumes ok: "store_ok pf t" and up: "update_entries p f t = Inr t'"
    and same: "\<And>e. e \<in> set (t_entries t) \<Longrightarrow> p e \<Longrightarrow>
      er_id (f e) = er_id e \<and> er_mime (f e) = er_mime e \<and> er_byte_size (f e) = er_byte_size e \<and>
      er_digest (f e) = er_digest e \<and>
      (\<forall>s. er_echo_source (f e) = Some s \<longrightarrow> er_echo_source e = Some s \<or> s \<in> entry_ids t \<and> s \<noteq> er_id e)"
    and stamps: "\<And>e. e \<in> set (t_entries t) \<Longrightarrow> p e \<Longrightarrow> er_revision (f e) \<le> t_revision t \<and> er_recency (f e) \<le> t_sequence t"
    and recency: "distinct (map er_recency (t_entries t'))"
  shows "store_ok pf t'"
proof -
  let ?u = "\<lambda>e. if p e then f e else e"
  have t': "t' = t\<lparr>t_entries := map ?u (t_entries t)\<rparr>"
    and ck: "\<And>e. e \<in> set (t_entries t) \<Longrightarrow> p e \<Longrightarrow> entry_check (f e)"
    using up by (auto simp: update_entries_Inr)
  have mids: "map er_id (t_entries t') = map er_id (t_entries t)"
    unfolding t' using same by (auto intro!: map_update_same)
  then have ids: "entry_ids t' = entry_ids t" unfolding entry_ids_def by (metis list.set_map)
  have fr: "t_payloads t' = t_payloads t" "t_search t' = t_search t" "t_entry_artifacts t' = t_entry_artifacts t"
    "t_revision t' = t_revision t" "t_sequence t' = t_sequence t" "t_entries t' = map ?u (t_entries t)"
    by (simp_all add: t')
  have rows: "rows_ok t'"
    using ok recency unfolding store_ok_def rows_ok_def mids ids fr(1-3) by simp
  have "entry_ok pf t' (?u e)" if e: "e \<in> set (t_entries t)" for e
  proof -
    have eo: "entry_ok pf t e" using ok e by (simp add: store_ok_def list_all_iff)
    show ?thesis
    proof (cases "p e")
      case False
      with eo show ?thesis by (simp add: entry_ok_alt ids) (simp add: t')
    next
      case True
      have "payload_ok pf t (f e)" using eo same[OF e True] by (simp add: entry_ok_alt payload_ok_alt)
      then have "payload_ok pf t' (f e)" by (simp add: t')
      then show ?thesis using eo True ck[OF e True] stamps[OF e True] same[OF e True] fr(4,5)
        by (auto simp: entry_ok_alt ids)
    qed
  qed
  then have "\<forall>e \<in> set (t_entries t). entry_ok pf t' (?u e)" by blast
  then have "list_all (entry_ok pf t') (t_entries t')"
    unfolding list_all_iff fr(6) set_map ball_simps(9) by this
  then show ?thesis using ok rows by (simp add: store_ok_def) (simp add: t' registry_ok_def meta_ok_def)
qed

text \<open>Stamping one row with a recency no row has keeps the recencies distinct.\<close>

lemma distinct_stamp:
  assumes "distinct (map er_id es)" "distinct (map er_recency es)" "\<And>e. e \<in> set es \<Longrightarrow> er_recency e \<noteq> s"
    and "\<And>e. e \<in> set es \<Longrightarrow> er_id e = i \<Longrightarrow> er_recency (f e) = s"
  shows "distinct (map er_recency (map (\<lambda>e. if er_id e = i then f e else e) es))"
proof -
  have one: "e = e'" if "e \<in> set es" "e' \<in> set es" "er_id e = i" "er_id e' = i" for e e'
    using that assms(1) distinct_ids_inj by metis
  have inj: "inj_on er_recency (set es)" and d: "distinct es" using assms(2) by (simp_all add: distinct_map)
  have "inj_on (\<lambda>e. er_recency (if er_id e = i then f e else e)) (set es)"
  proof (rule inj_onI)
    fix x y
    assume x: "x \<in> set es" and y: "y \<in> set es"
      and eq: "er_recency (if er_id x = i then f x else x) = er_recency (if er_id y = i then f y else y)"
    show "x = y"
      using eq one[OF x y] assms(3)[OF x] assms(3)[OF y] assms(4)[OF x] assms(4)[OF y] inj_onD[OF inj _ x y]
      by (cases "er_id x = i"; cases "er_id y = i") auto
  qed
  with d show ?thesis by (simp add: distinct_map o_def)
qed

section \<open>Content rows\<close>

text \<open>The state between writing an entry row and writing its content.\<close>

definition pending_ok :: "platform \<Rightarrow> str \<Rightarrow> str \<Rightarrow> bytes \<Rightarrow> tables \<Rightarrow> bool" where
  "pending_ok pf i mime bs t \<longleftrightarrow>
     rows_ok t \<and> registry_ok t \<and> meta_ok t \<and> i \<in> entry_ids t \<and>
     i \<notin> fst ` set (t_payloads t) \<and> i \<notin> sr_entry_id ` set (t_search t) \<and>
     (\<forall>e \<in> set (t_entries t).
        if er_id e = i
        then entry_check e \<and> er_revision e \<le> t_revision t \<and> er_recency e \<le> t_sequence t \<and>
             er_echo_source e = None \<and> er_byte_size e = length bs \<and> er_digest e = pf_sha256 pf bs \<and> er_mime e = mime
        else entry_ok pf t e)"

lemma find_append: "find P (xs @ ys) = (case find P xs of None \<Rightarrow> find P ys | Some x \<Rightarrow> Some x)"
  by (induction xs) auto

lemma insert_references_Inr:
  "insert_references i ps t = Inr t' \<Longrightarrow> i \<in> entry_ids t \<and> distinct (t_entry_artifacts t) \<Longrightarrow>
     t' = t\<lparr>t_entry_artifacts := t_entry_artifacts t @ map (Pair i) ps\<rparr> \<and> distinct (t_entry_artifacts t')"
proof (induction ps arbitrary: t)
  case Nil
  then show ?case by simp
next
  case (Cons p ps)
  let ?t1 = "t\<lparr>t_entry_artifacts := t_entry_artifacts t @ [(i, p)]\<rparr>"
  from Cons.prems have np: "(i, p) \<notin> set (t_entry_artifacts t)" and r: "insert_references i ps ?t1 = Inr t'"
    by (auto simp: insert_entry_artifact_def split: if_splits)
  have "i \<in> entry_ids ?t1 \<and> distinct (t_entry_artifacts ?t1)" using Cons.prems np by simp
  note ih = Cons.IH[OF r this]
  show ?case
    using ih[THEN conjunct1] ih[THEN conjunct2] by (intro conjI) simp_all
qed

lemma echo_of_Some:
  "echo_of pf i rc t = Some s \<Longrightarrow> s \<in> entry_ids t \<and> s \<noteq> i"
proof -
  assume "echo_of pf i rc t = Some s"
  then have "s \<noteq> i" "length (filter (\<lambda>e. er_id e = s) (t_entries t)) = 1"
    by (auto simp: echo_of_def split: option.splits if_splits)
  moreover from this(2) have "filter (\<lambda>e. er_id e = s) (t_entries t) \<noteq> []" by auto
  ultimately show ?thesis by (auto simp: entry_ids_def filter_empty_conv)
qed

lemma search_row_of_id [simp]: "sr_entry_id (search_row_of pf i mime bs) = i"
  by (simp add: search_row_of_def Let_def)

definition with_content :: "platform \<Rightarrow> str \<Rightarrow> str \<Rightarrow> bytes \<Rightarrow> tables \<Rightarrow> tables" where
  "with_content pf i mime bs t =
     t\<lparr>t_payloads := t_payloads t @ [(i, bs)], t_search := t_search t @ [search_row_of pf i mime bs],
       t_entry_artifacts := t_entry_artifacts t @ map (Pair i) (referenced_paths pf bs)\<rparr>"

lemma with_content_ok:
  assumes p: "pending_ok pf i mime bs t"
    and d: "distinct (t_entry_artifacts t @ map (Pair i) (referenced_paths pf bs))"
  shows "store_ok pf (with_content pf i mime bs t)"
proof -
  let ?t = "with_content pf i mime bs t"
  have i: "i \<in> entry_ids t" "i \<notin> fst ` set (t_payloads t)" "i \<notin> sr_entry_id ` set (t_search t)"
    using p by (auto simp: pending_ok_def)
  have ids: "entry_ids ?t = entry_ids t" by (simp add: entry_ids_def with_content_def)
  have rows: "rows_ok ?t" using p d i by (auto simp: pending_ok_def rows_ok_def with_content_def entry_ids_def)
  have "map_of (t_payloads t) i = None" "find (\<lambda>r. sr_entry_id r = i) (t_search t) = None"
    using i by (auto simp: map_of_eq_None_iff find_None_iff)
  then have new: "map_of (t_payloads ?t) i = Some bs"
    "find (\<lambda>r. sr_entry_id r = i) (t_search ?t) = Some (search_row_of pf i mime bs)"
    by (simp_all add: with_content_def map_add_def find_append)
  have old: "map_of (t_payloads ?t) k = map_of (t_payloads t) k"
    "find (\<lambda>r. sr_entry_id r = k) (t_search ?t) = find (\<lambda>r. sr_entry_id r = k) (t_search t)" if "k \<noteq> i" for k
    using that by (simp_all add: with_content_def map_add_def find_append split: option.splits)
  have stamps: "t_revision ?t = t_revision t" "t_sequence ?t = t_sequence t"
    by (simp_all add: with_content_def)
  have "entry_ok pf ?t e" if e: "e \<in> set (t_entries t)" for e
  proof (cases "er_id e = i")
    case True
    with p e have "entry_check e \<and> er_revision e \<le> t_revision t \<and> er_recency e \<le> t_sequence t \<and>
        er_echo_source e = None \<and> er_byte_size e = length bs \<and> er_digest e = pf_sha256 pf bs \<and> er_mime e = mime"
      by (auto simp: pending_ok_def)
    with True new stamps show ?thesis by (simp add: entry_ok_alt payload_ok_alt)
  next
    case False
    then have "entry_ok pf t e" using p e by (auto simp: pending_ok_def)
    then show ?thesis by (simp add: entry_ok_alt payload_ok_alt ids stamps old[OF False])
  qed
  then show ?thesis using p rows
    by (simp add: store_ok_def pending_ok_def list_all_iff) (simp add: with_content_def registry_ok_def meta_ok_def)
qed

lemma write_content_ok:
  assumes p: "pending_ok pf i mime bs t" and w: "write_content pf i mime bs rc t = Inr t'"
  shows "store_ok pf t' \<and> t_policy t' = t_policy t \<and> t_revision t' = t_revision t \<and> entry_ids t' = entry_ids t \<and>
    map_of (t_payloads t') i = Some bs \<and>
    (\<forall>e \<in> set (t_entries t'). er_id e = i \<longrightarrow> er_byte_size e = length bs)"
proof -
  let ?c = "with_content pf i mime bs t"
  have d: "distinct (t_entry_artifacts t)" "i \<in> entry_ids t" using p by (auto simp: pending_ok_def rows_ok_def)
  define t2 where "t2 = t\<lparr>t_payloads := t_payloads t @ [(i, bs)], t_search := t_search t @ [search_row_of pf i mime bs]\<rparr>"
  obtain t3 where r: "insert_references i (referenced_paths pf bs) t2 = Inr t3"
    and e: "(case echo_of pf i rc t3 of None \<Rightarrow> Inr t3 | Some src \<Rightarrow>
        update_entries (\<lambda>e. er_id e = i) (\<lambda>e. e\<lparr>er_echo_source := Some src\<rparr>) t3) = Inr t'"
    using w by (auto simp: write_content_def insert_payload_def insert_search_def t2_def split: if_splits)
  have "i \<in> entry_ids t2 \<and> distinct (t_entry_artifacts t2)" using d by (simp add: t2_def)
  note refs = insert_references_Inr[OF r this]
  have t3: "t3 = ?c" using refs by (simp add: t2_def with_content_def)
  have ok3: "store_ok pf ?c"
    using refs t3 by (intro with_content_ok[OF p]) (simp add: t2_def with_content_def)
  have c: "t_entries ?c = t_entries t" "t_policy ?c = t_policy t" "t_revision ?c = t_revision t"
    "entry_ids ?c = entry_ids t" by (simp_all add: with_content_def entry_ids_def)
  have "i \<notin> fst ` set (t_payloads t)" using p by (simp add: pending_ok_def)
  then have pay: "map_of (t_payloads ?c) i = Some bs"
    by (simp add: with_content_def map_add_def map_of_eq_None_iff[THEN iffD2])
  have size: "\<forall>e \<in> set (t_entries t). er_id e = i \<longrightarrow> er_byte_size e = length bs"
    using p by (auto simp: pending_ok_def)
  show ?thesis
  proof (cases "echo_of pf i rc ?c")
    case None
    then show ?thesis using e ok3 c pay size by (simp add: t3)
  next
    case (Some src)
    let ?f = "\<lambda>e. e\<lparr>er_echo_source := Some src\<rparr>"
    have up: "update_entries (\<lambda>e. er_id e = i) ?f ?c = Inr t'" using e Some by (simp add: t3)
    then have t': "t' = ?c\<lparr>t_entries := map (\<lambda>e. if er_id e = i then ?f e else e) (t_entries t)\<rparr>"
      by (simp add: update_entries_Inr c)
    have src: "src \<in> entry_ids ?c" "src \<noteq> i" using echo_of_Some[OF Some] by auto
    have rec: "map er_recency (t_entries t') = map er_recency (t_entries t)" by (simp add: t')
    have "store_ok pf t'"
    proof (rule store_ok_update[OF ok3 up])
      show "distinct (map er_recency (t_entries t'))"
        unfolding rec using ok3 by (simp add: store_ok_def rows_ok_def c)
    qed (use src ok3 in \<open>auto simp: store_ok_def list_all_iff entry_ok_alt\<close>)
    moreover have "entry_ids t' = entry_ids t" by (rule entry_ids_map) (simp add: t')
    moreover have "t_policy t' = t_policy t" "t_revision t' = t_revision t" "map_of (t_payloads t') i = Some bs"
      using pay by (simp_all add: t' c)
    moreover have "\<forall>e \<in> set (t_entries t'). er_id e = i \<longrightarrow> er_byte_size e = length bs"
    proof (intro ballI impI)
      fix e assume "e \<in> set (t_entries t')" and i: "er_id e = i"
      then have "e \<in> (\<lambda>e. if er_id e = i then ?f e else e) ` set (t_entries t)" by (simp add: t' c)
      then obtain e0 where "e0 \<in> set (t_entries t)" "e = (if er_id e0 = i then ?f e0 else e0)" by blast
      then show "er_byte_size e = length bs" using size i by (cases "er_id e0 = i") simp_all
    qed
    ultimately show ?thesis by blast
  qed
qed

section \<open>The contract of a transaction body\<close>

definition good :: "platform \<Rightarrow> tables \<Rightarrow> bool" where
  "good pf t \<longleftrightarrow> store_ok pf t \<and> within_policy (t_policy t) t \<and> [] \<notin> entry_ids t"

lemma good_fresh: "good pf fresh_tables"
  by (simp add: good_def store_ok_fresh)
    (simp add: fresh_tables_def within_policy_def counts_ok_def category_def total_bytes_def entry_ids_def)

lemma good_frame_policy:
  "t_entries t' = t_entries t \<Longrightarrow> within_policy pol t' = within_policy pol t"
  by (simp add: within_policy_def counts_ok_def category_def total_bytes_def)

lemma entry_ids_retain: "entry_ids (retain_chain pol i t) \<subseteq> entry_ids t"
proof
  fix k assume "k \<in> entry_ids (retain_chain pol i t)"
  then obtain e' where "e' \<in> set (t_entries (retain_chain pol i t))" "er_id e' = k" by (auto simp: entry_ids_def)
  then show "k \<in> entry_ids t" using retain_chain_rows same_row_size by (fastforce simp: entry_ids_def)
qed

text \<open>The last step of every mutation: retention with the mutated entry protected.\<close>

lemma good_retain:
  assumes ok: "store_ok pf t" and ids: "[] \<notin> entry_ids t" and r: "retain (t_policy t) (Some i) t = Inr t'"
    and size: "\<And>e. e \<in> set (t_entries t) \<Longrightarrow> er_id e = i \<Longrightarrow> er_byte_size e \<le> sp_max_entry_bytes (t_policy t)"
  shows "good pf t' \<and> t_policy t' = t_policy t"
proof -
  have t': "t' = retain_chain (t_policy t) i t" using retain_result[OF r] by simp
  have "within_policy (t_policy t) t'"
    using ok r size by (intro retain_within_policy[of t _ "Some i"]) (auto simp: store_ok_def)
  then show ?thesis using ok ids entry_ids_retain by (auto simp: good_def t' store_ok_retain)
qed

end
