(* ===== verification/History_Bodies.thy ===== *)
theory History_Bodies
  imports History_Invariants
begin

text \<open>
  Each transaction body of the database keeps \<open>good\<close>; the locale \<open>storage_op\<close> turns that into
  the guarantees of the transaction around it, for every engine behaviour, and is interpreted
  on every body.
\<close>

section \<open>Insert\<close>

lemma allowed_payload_ok:
  "allowed_payload pol bs = Inr u \<longleftrightarrow> length bs \<le> sp_max_entry_bytes pol \<and> length bs \<le> sp_max_total_bytes pol"
  by (auto simp: allowed_payload_def)

lemma dedup_candidate_Some:
  assumes "dedup_candidate pf mime bs t = Some e"
  shows "e \<in> set (t_entries t) \<and> er_digest e = pf_sha256 pf bs \<and> er_mime e = mime \<and>
    er_byte_size e = length bs \<and> map_of (t_payloads t) (er_id e) = Some bs"
proof -
  let ?F = "filter (\<lambda>e. er_digest e = pf_sha256 pf bs \<and> er_mime e = mime \<and>
      er_byte_size e = length bs \<and> map_of (t_payloads t) (er_id e) = Some bs) (t_entries t)"
  obtain es where "sort_key (\<lambda>e. - int (er_recency e)) ?F = e # es"
    using assms by (auto simp: dedup_candidate_def split: list.splits)
  then have "e \<in> set (sort_key (\<lambda>e. - int (er_recency e)) ?F)" by (simp only: list.set_intros)
  then have "e \<in> set ?F" by (simp only: set_sort)
  then show ?thesis by simp
qed

lemma dedup_candidate_None:
  "dedup_candidate pf mime bs t = None \<Longrightarrow> e \<in> set (t_entries t) \<Longrightarrow> er_digest e = pf_sha256 pf bs \<Longrightarrow>
     er_mime e = mime \<Longrightarrow> er_byte_size e = length bs \<Longrightarrow> map_of (t_payloads t) (er_id e) \<noteq> Some bs"
proof
  let ?P = "\<lambda>e. er_digest e = pf_sha256 pf bs \<and> er_mime e = mime \<and>
      er_byte_size e = length bs \<and> map_of (t_payloads t) (er_id e) = Some bs"
  assume n: "dedup_candidate pf mime bs t = None" and e: "e \<in> set (t_entries t)" "er_digest e = pf_sha256 pf bs"
    "er_mime e = mime" "er_byte_size e = length bs" "map_of (t_payloads t) (er_id e) = Some bs"
  have "sort_key (\<lambda>e. - int (er_recency e)) (filter ?P (t_entries t)) = []"
    using n by (auto simp: dedup_candidate_def split: list.splits)
  from arg_cong[OF this, of set] have "filter ?P (t_entries t) = []" by (simp only: set_sort set_empty list.set)
  with e show False by (auto simp: filter_empty_conv)
qed

lemma insert_body_Inr:
  assumes "insert_body pf uuid mime bs t = Inr (s, t')"
  shows "sp_admission (t_policy t) \<and> length bs \<le> sp_max_entry_bytes (t_policy t) \<and>
    ((\<exists>e. dedup_candidate pf mime bs t = Some e \<and> summary (er_id e) None t = Inr s \<and> es_current s \<and> t' = t) \<or>
     insert_store pf uuid mime bs (dedup_candidate pf mime bs t) t = Inr (s, t'))"
  using assms by (auto simp: insert_body_def allowed_payload_ok split: if_splits option.splits)

lemma promote_ok:
  assumes ok: "store_ok pf t" and b: "bump t = Inr (r, t1)" and q: "sequence t1 = Inr (n, t2)"
    and up: "update_entries (\<lambda>x. er_id x = i) (\<lambda>x. x\<lparr>er_revision := r, er_recency := n\<rparr>) t2 = Inr t3"
  shows "store_ok pf t3"
proof -
  have ok2: "store_ok pf t2" by (rule store_ok_tick[OF ok b q])
  have t2: "t2 = t\<lparr>t_revision := r, t_sequence := n\<rparr>" "n = t_sequence t + 1" using b q by (auto simp: bump_Inr sequence_Inr)
  have old: "er_recency e \<noteq> n" if "e \<in> set (t_entries t)" for e
    using ok that t2(2) by (fastforce simp: store_ok_def list_all_iff entry_ok_def)
  have t3: "t_entries t3 = map (\<lambda>e. if er_id e = i then e\<lparr>er_revision := r, er_recency := n\<rparr> else e) (t_entries t)"
    using up by (simp add: update_entries_Inr t2(1))
  have "distinct (map er_recency (t_entries t3))"
    unfolding t3 using ok old by (intro distinct_stamp) (auto simp: store_ok_def rows_ok_def)
  then show ?thesis by (intro store_ok_update[OF ok2 up]) (simp_all add: t2)
qed

lemma insert_entry_Inr:
  "insert_entry e t = Inr t' \<longleftrightarrow> er_id e \<notin> entry_ids t \<and> entry_check e \<and> t' = t\<lparr>t_entries := t_entries t @ [e]\<rparr>"
  by (auto simp: insert_entry_def entry_ids_def)

lemma new_row_simps [simp]:
  "er_id (new_row pf i r n mime bs) = i" "er_revision (new_row pf i r n mime bs) = r"
  "er_recency (new_row pf i r n mime bs) = n" "er_mime (new_row pf i r n mime bs) = mime"
  "er_echo_source (new_row pf i r n mime bs) = None" "er_byte_size (new_row pf i r n mime bs) = length bs"
  "er_digest (new_row pf i r n mime bs) = pf_sha256 pf bs" "er_favorite (new_row pf i r n mime bs) = False"
  by (simp_all add: new_row_def Let_def)

lemma new_row_pending:
  assumes ok: "store_ok pf t" and b: "bump t = Inr (r, t1)" and q: "sequence t1 = Inr (n, t2)"
    and ins: "insert_entry (new_row pf i r n mime bs) t2 = Inr t3"
  shows "pending_ok pf i mime bs t3"
proof -
  let ?e = "new_row pf i r n mime bs"
  have ok2: "store_ok pf t2" by (rule store_ok_tick[OF ok b q])
  have t2: "t2 = t\<lparr>t_revision := r, t_sequence := n\<rparr>" "n = t_sequence t + 1" using b q by (auto simp: bump_Inr sequence_Inr)
  have t3: "t3 = t2\<lparr>t_entries := t_entries t2 @ [?e]\<rparr>" and fresh: "i \<notin> entry_ids t2" and ck: "entry_check ?e"
    using ins by (auto simp: insert_entry_Inr)
  have ids: "entry_ids t3 = insert i (entry_ids t2)" by (simp add: t3 entry_ids_def)
  have rec: "n \<notin> er_recency ` set (t_entries t2)"
    using ok t2 by (fastforce simp: store_ok_def list_all_iff entry_ok_def)
  have rows: "rows_ok t3"
    using ok2 fresh rec unfolding store_ok_def rows_ok_def ids by (auto simp: t3 entry_ids_def)
  have i: "i \<notin> fst ` set (t_payloads t3)" "i \<notin> sr_entry_id ` set (t_search t3)"
    using ok2 fresh by (auto simp: store_ok_def rows_ok_def t3)
  have eo: "entry_ok pf t3 e" if "e \<in> set (t_entries t2)" for e
  proof -
    have "entry_ok pf t2 e" using ok2 that by (simp add: store_ok_def list_all_iff)
    then show ?thesis by (simp add: entry_ok_alt ids) (simp add: t3)
  qed
  have "registry_ok t3" "meta_ok t3" using ok2 by (simp_all add: store_ok_def t3 registry_ok_def meta_ok_def)
  moreover have "er_id e \<noteq> i" if "e \<in> set (t_entries t2)" for e using fresh that by (auto simp: entry_ids_def)
  ultimately show ?thesis
    unfolding pending_ok_def using rows i ids ck eo by (auto simp: t3 t2(1))
qed

lemma insert_row_ok:
  assumes ok: "store_ok pf t" and ids: "[] \<notin> entry_ids t" and b: "bump t = Inr (r, t1)" and q: "sequence t1 = Inr (n, t2)"
    and row: "insert_row pf uuid mime bs (dedup_candidate pf mime bs t) r n t2 = Inr (i, t3)"
  shows "store_ok pf t3 \<and> [] \<notin> entry_ids t3 \<and> t_policy t3 = t_policy t \<and>
    map_of (t_payloads t3) i = Some bs \<and>
    (\<forall>e \<in> set (t_entries t3). er_id e = i \<longrightarrow> er_byte_size e = length bs)"
proof (cases "dedup_candidate pf mime bs t")
  case (Some e)
  let ?f = "\<lambda>x. x\<lparr>er_revision := r, er_recency := n\<rparr>"
  have t2: "t2 = t\<lparr>t_revision := r, t_sequence := n\<rparr>" using b q by (auto simp: bump_Inr sequence_Inr)
  have i: "i = er_id e" and up: "update_entries (\<lambda>x. er_id x = er_id e) ?f t2 = Inr t3"
    using row Some by (auto simp: insert_row_def)
  have t3: "t3 = t2\<lparr>t_entries := map (\<lambda>x. if er_id x = er_id e then ?f x else x) (t_entries t)\<rparr>"
    using up by (simp add: update_entries_Inr t2)
  note c = dedup_candidate_Some[OF Some]
  have "er_byte_size x = length bs" if "x \<in> set (t_entries t)" "er_id x = i" for x
  proof -
    have "x = e" using that c ok i by (metis distinct_ids_inj rows_ok_distinct store_ok_def)
    with c show ?thesis by simp
  qed
  then have "\<forall>x \<in> set (t_entries t3). er_id x = i \<longrightarrow> er_byte_size x = length bs"
    using i by (auto simp: t3)
  moreover have "entry_ids t3 = entry_ids t" by (rule entry_ids_map) (simp add: t3)
  moreover have "t_policy t3 = t_policy t" "t_payloads t3 = t_payloads t" by (simp_all add: t3 t2)
  ultimately show ?thesis using promote_ok[OF ok b q up] ids c i by simp
next
  case None
  let ?i = "''entry-'' @ uuid"
  obtain t4 where i: "i = ?i" and ins: "insert_entry (new_row pf ?i r n mime bs) t2 = Inr t4"
    and w: "write_content pf ?i mime bs (resolve pf mime bs MAX_ENTRY_BYTES) t4 = Inr t3"
    using row None by (auto simp: insert_row_def Let_def split: if_splits)
  note c = write_content_ok[OF new_row_pending[OF ok b q ins] w]
  have "entry_ids t4 = insert ?i (entry_ids t)" "t_policy t4 = t_policy t"
    using b q ins by (auto simp: insert_entry_Inr bump_Inr sequence_Inr entry_ids_def)
  then show ?thesis using c ids i by auto
qed

lemma insert_store_good:
  assumes g: "good pf t" and len: "length bs \<le> sp_max_entry_bytes (t_policy t)"
    and st: "insert_store pf uuid mime bs (dedup_candidate pf mime bs t) t = Inr (s, t')"
  shows "good pf t' \<and> t_policy t' = t_policy t \<and> es_id s \<in> entry_ids t' \<and> es_byte_size s = length bs"
proof -
  obtain r t1 n t2 i t3 where b: "bump t = Inr (r, t1)" and q: "sequence t1 = Inr (n, t2)"
    and row: "insert_row pf uuid mime bs (dedup_candidate pf mime bs t) r n t2 = Inr (i, t3)"
    and ret: "retain (t_policy t) (Some i) t3 = Inr t'" and su: "summary i None t' = Inr s"
    using st by (auto simp: insert_store_def)
  have ok: "store_ok pf t" "[] \<notin> entry_ids t" using g by (auto simp: good_def)
  note ro = insert_row_ok[OF ok b q row]
  have gt': "good pf t' \<and> t_policy t' = t_policy t3"
    using ro ret len by (intro good_retain[of pf t3 i]) auto
  obtain e where e: "find_entry i t' = Some e" "decode_summary t' e = Inr s" "es_id s = i"
    using summary_Inr[OF su] by blast
  have t': "t' = retain_chain (t_policy t) i t3" using retain_result[OF ret] by simp
  obtain e0 where "e0 \<in> set (t_entries t3)" "same_row e0 e"
    using retain_chain_rows find_entry_Some[OF e(1)] t' by blast
  then have "er_byte_size e = length bs" using ro find_entry_Some[OF e(1)] by simp
  then show ?thesis using gt' ro e find_entry_Some[OF e(1)] decode_summary_fields[OF e(2)]
    by (auto simp: entry_ids_def)
qed

lemma insert_body_good:
  assumes "good pf t" and "insert_body pf uuid mime bs t = Inr (s, t')"
  shows "good pf t'"
  using insert_body_Inr[OF assms(2)] insert_store_good[OF assms(1)] assms(1) by blast

section \<open>Replace\<close>

lemma replace_row_simps [simp]:
  "er_id (replace_row pf r mime bs e) = er_id e" "er_revision (replace_row pf r mime bs e) = r"
  "er_recency (replace_row pf r mime bs e) = er_recency e" "er_mime (replace_row pf r mime bs e) = mime"
  "er_echo_source (replace_row pf r mime bs e) = None" "er_byte_size (replace_row pf r mime bs e) = length bs"
  "er_digest (replace_row pf r mime bs e) = pf_sha256 pf bs" "er_favorite (replace_row pf r mime bs e) = er_favorite e"
  by (simp_all add: replace_row_def Let_def)

definition replaced_entry :: "platform \<Rightarrow> nat \<Rightarrow> str \<Rightarrow> str \<Rightarrow> bytes \<Rightarrow> entry_row \<Rightarrow> entry_row" where
  "replaced_entry pf r i mime bs e =
     (if er_id e = i then replace_row pf r mime bs e
      else if er_echo_source e = Some i then e\<lparr>er_echo_source := None\<rparr> else e)"

lemma replaced_entry_simps [simp]:
  "er_id (replaced_entry pf r i mime bs e) = er_id e" "er_recency (replaced_entry pf r i mime bs e) = er_recency e"
  "er_favorite (replaced_entry pf r i mime bs e) = er_favorite e"
  by (simp_all add: replaced_entry_def)

lemma replaced_rows:
  assumes ok: "store_ok pf t" and su: "summary i (Some x) t = Inr s" and b: "bump t = Inr (r, t1)"
    and u1: "update_entries (\<lambda>e. er_id e = i \<and> er_revision e = x) (replace_row pf r mime bs) t1 = Inr t2"
    and u2: "update_entries (\<lambda>e. er_echo_source e = Some i) (\<lambda>e. e\<lparr>er_echo_source := None\<rparr>) t2 = Inr t3"
  obtains e0 where "e0 \<in> set (t_entries t)" "er_id e0 = i" "er_revision e0 = x"
    "entry_check (replace_row pf r mime bs e0)"
    "t3 = t\<lparr>t_revision := r, t_entries := map (replaced_entry pf r i mime bs) (t_entries t)\<rparr>"
proof -
  obtain e0 where e0: "e0 \<in> set (t_entries t)" "er_id e0 = i" "er_revision e0 = x"
    using summary_Inr[OF su] find_entry_Some by blast
  have d: "distinct (map er_id (t_entries t))" using ok by (simp add: store_ok_def rows_ok_def)
  have t1: "t1 = t\<lparr>t_revision := r\<rparr>" using b by (auto simp: bump_Inr)
  have only: "er_id e = i \<Longrightarrow> e \<in> set (t_entries t) \<Longrightarrow> er_revision e = x" for e
    using e0 d distinct_ids_inj by metis
  have noself: "e \<in> set (t_entries t) \<Longrightarrow> er_id e = i \<Longrightarrow> er_echo_source e \<noteq> Some i" for e
    using ok by (fastforce simp: store_ok_def list_all_iff entry_ok_alt)
  have t2: "t2 = t1\<lparr>t_entries := map (\<lambda>e. if er_id e = i \<and> er_revision e = x then replace_row pf r mime bs e else e) (t_entries t)\<rparr>"
    and ck: "entry_check (replace_row pf r mime bs e0)"
    using u1 e0 by (auto simp: update_entries_Inr t1)
  have es: "map (\<lambda>e. if er_echo_source e = Some i then e\<lparr>er_echo_source := None\<rparr> else e) (t_entries t2) =
      map (replaced_entry pf r i mime bs) (t_entries t)"
    using only by (auto simp: t2 replaced_entry_def)
  have "t3 = t\<lparr>t_revision := r, t_entries := map (replaced_entry pf r i mime bs) (t_entries t)\<rparr>"
    using u2 unfolding update_entries_Inr es by (simp add: t2 t1)
  then show thesis using that e0 ck by blast
qed

lemma replace_pending:
  assumes ok: "store_ok pf t" and su: "summary i (Some x) t = Inr s" and b: "bump t = Inr (r, t1)"
    and u1: "update_entries (\<lambda>e. er_id e = i \<and> er_revision e = x) (replace_row pf r mime bs) t1 = Inr t2"
    and u2: "update_entries (\<lambda>e. er_echo_source e = Some i) (\<lambda>e. e\<lparr>er_echo_source := None\<rparr>) t2 = Inr t3"
  shows "pending_ok pf i mime bs (drop_content i t3) \<and> t_policy t3 = t_policy t \<and> entry_ids t3 = entry_ids t"
proof -
  let ?g = "replaced_entry pf r i mime bs" and ?T = "drop_content i t3"
  from assms obtain e0 where e0: "e0 \<in> set (t_entries t)" "er_id e0 = i" "er_revision e0 = x"
    and ck: "entry_check (replace_row pf r mime bs e0)"
    and t3: "t3 = t\<lparr>t_revision := r, t_entries := map ?g (t_entries t)\<rparr>"
    by (rule replaced_rows)
  have d: "distinct (map er_id (t_entries t))" using ok by (simp add: store_ok_def rows_ok_def)
  have rlt: "r = t_revision t + 1" "r < 9007199254740991" using b by (auto simp: bump_Inr)
  have es: "t_entries t3 = map ?g (t_entries t)" by (simp add: t3)
  have fr: "t_payloads t3 = t_payloads t" "t_search t3 = t_search t" "t_entry_artifacts t3 = t_entry_artifacts t"
    "t_policy t3 = t_policy t" "t_revision t3 = r" "t_sequence t3 = t_sequence t" "t_artifacts t3 = t_artifacts t"
    "t_inline_echoes t3 = t_inline_echoes t"
    by (simp_all add: t3)
  have ids: "entry_ids t3 = entry_ids t" by (rule entry_ids_map) (simp add: es)
  have T: "entry_ids ?T = entry_ids t" "t_entries ?T = map ?g (t_entries t)"
    using ids by (simp_all add: drop_content_def entry_ids_def es)
  have rows: "rows_ok ?T"
    using ok unfolding store_ok_def rows_ok_def T(1)
    by (auto simp: drop_content_def fr es distinct_map_filter o_def)
  have look: "map_of (t_payloads ?T) k = map_of (t_payloads t) k"
    "find (\<lambda>r. sr_entry_id r = k) (t_search ?T) = find (\<lambda>r. sr_entry_id r = k) (t_search t)" if "k \<noteq> i" for k
    using that map_of_filter_key[of "{i}" "t_payloads t" k] by (auto simp: drop_content_def fr intro: find_filter)
  have "entry_ok pf ?T (?g e)" if "e \<in> set (t_entries t)" "er_id e \<noteq> i" for e
  proof -
    have eo: "entry_ok pf t e" using ok that by (simp add: store_ok_def list_all_iff)
    have st: "t_revision ?T = r" "t_sequence ?T = t_sequence t" by (simp_all add: drop_content_def fr)
    have "entry_check (?g e)" using eo that by (simp add: replaced_entry_def entry_ok_alt entry_check_def)
    with eo that st T look[OF that(2)] rlt(1) show ?thesis
      by (auto simp: entry_ok_alt payload_ok_alt replaced_entry_def)
  qed
  moreover have "?g e = replace_row pf r mime bs e0" if "e \<in> set (t_entries t)" "er_id e = i" for e
    using that e0 d distinct_ids_inj by (metis replaced_entry_def)
  moreover have "er_recency e0 \<le> t_sequence t" using ok e0 by (simp add: store_ok_def list_all_iff entry_ok_alt)
  moreover have "registry_ok ?T" "meta_ok ?T"
    using ok rlt by (auto simp: store_ok_def registry_ok_def meta_ok_def drop_content_def fr)
  moreover have "i \<in> entry_ids t" using e0 by (auto simp: entry_ids_def)
  moreover have "t_revision ?T = r" "t_sequence ?T = t_sequence t" by (simp_all add: drop_content_def fr)
  moreover have "i \<notin> fst ` set (t_payloads ?T)" "i \<notin> sr_entry_id ` set (t_search ?T)"
    by (auto simp: drop_content_def)
  ultimately show ?thesis
    using rows ids fr(4) ck by (auto simp: pending_ok_def T)
qed

lemma replace_body_Inr:
  assumes "replace_body pf i x mime bs t = Inr (s, t')"
  obtains s0 r t1 t2 t3 t4 where "summary i (Some x) t = Inr s0" "length bs \<le> sp_max_entry_bytes (t_policy t)"
    "bump t = Inr (r, t1)"
    "update_entries (\<lambda>e. er_id e = i \<and> er_revision e = x) (replace_row pf r mime bs) t1 = Inr t2"
    "update_entries (\<lambda>e. er_echo_source e = Some i) (\<lambda>e. e\<lparr>er_echo_source := None\<rparr>) t2 = Inr t3"
    "write_content pf i mime bs (resolve pf mime bs MAX_ENTRY_BYTES) (drop_content i t3) = Inr t4"
    "retain (t_policy t) (Some i) t4 = Inr t'" "summary i None t' = Inr s"
  using assms by (auto simp: replace_body_def Let_def allowed_payload_ok)

lemma replace_body_good:
  assumes g: "good pf t" and r: "replace_body pf i x mime bs t = Inr (s, t')"
  shows "good pf t'"
proof -
  from r obtain s0 rv t1 t2 t3 t4 where su: "summary i (Some x) t = Inr s0"
    and len: "length bs \<le> sp_max_entry_bytes (t_policy t)" and b: "bump t = Inr (rv, t1)"
    and u1: "update_entries (\<lambda>e. er_id e = i \<and> er_revision e = x) (replace_row pf rv mime bs) t1 = Inr t2"
    and u2: "update_entries (\<lambda>e. er_echo_source e = Some i) (\<lambda>e. e\<lparr>er_echo_source := None\<rparr>) t2 = Inr t3"
    and w: "write_content pf i mime bs (resolve pf mime bs MAX_ENTRY_BYTES) (drop_content i t3) = Inr t4"
    and ret: "retain (t_policy t) (Some i) t4 = Inr t'"
    by (rule replace_body_Inr)
  have ok: "store_ok pf t" "[] \<notin> entry_ids t" using g by (auto simp: good_def)
  note p = replace_pending[OF ok(1) su b u1 u2]
  have c: "store_ok pf t4" "t_policy t4 = t_policy t" "[] \<notin> entry_ids t4"
    "\<forall>e \<in> set (t_entries t4). er_id e = i \<longrightarrow> er_byte_size e = length bs"
    using write_content_ok[OF conjunct1[OF p] w] p ok(2) by (auto simp: drop_content_def entry_ids_def)
  then show ?thesis using good_retain[OF c(1,3)] ret len by auto
qed

section \<open>Favorite, removal, wipe, policy\<close>

lemma favorite_body_good:
  assumes g: "good pf t" and f: "favorite_body i x v t = Inr (u, t')"
  shows "good pf t'"
proof (cases "t' = t")
  case True
  with g show ?thesis by simp
next
  case False
  have ok: "store_ok pf t" "[] \<notin> entry_ids t" "within_policy (t_policy t) t" using g by (auto simp: good_def)
  let ?f = "\<lambda>r e. e\<lparr>er_favorite := v, er_revision := r\<rparr>"
  obtain r t1 t2 where b: "bump t = Inr (r, t1)"
    and up: "update_entries (\<lambda>e. er_id e = i \<and> er_revision e = x) (?f r) t1 = Inr t2"
    and ret: "retain (t_policy t) (Some i) t2 = Inr t'"
    using f False by (auto simp: favorite_body_def Let_def split: if_splits)
  have t1: "t1 = t\<lparr>t_revision := r\<rparr>" using b by (auto simp: bump_Inr)
  have t2: "t2 = t1\<lparr>t_entries := map (\<lambda>e. if er_id e = i \<and> er_revision e = x then ?f r e else e) (t_entries t)\<rparr>"
    using up by (simp add: update_entries_Inr t1)
  have rec: "map er_recency (t_entries t2) = map er_recency (t_entries t)" by (simp add: t2)
  have ok1: "store_ok pf t1" by (rule store_ok_bump[OF ok(1) b])
  have ok2: "store_ok pf t2"
  proof (rule store_ok_update[OF ok1 up])
    show "distinct (map er_recency (t_entries t2))" unfolding rec using ok(1) by (simp add: store_ok_def rows_ok_def)
  qed (use ok(1) in \<open>auto simp: t1 store_ok_def list_all_iff entry_ok_alt\<close>)
  have "entry_ids t2 = entry_ids t" by (rule entry_ids_map) (simp add: t2)
  moreover have "er_byte_size e \<le> sp_max_entry_bytes (t_policy t)" if "e \<in> set (t_entries t2)" for e
  proof -
    have "er_byte_size e \<in> set (map er_byte_size (t_entries t2))" using that by simp
    also have "map er_byte_size (t_entries t2) = map er_byte_size (t_entries t)" by (simp add: t2)
    finally show ?thesis using ok(3) by (auto simp: within_policy_def list_all_iff)
  qed
  moreover have "t_policy t2 = t_policy t" by (simp add: t2 t1)
  ultimately show ?thesis using good_retain[OF ok2, of i t'] ret ok(2) by simp
qed

lemma entry_ids_delete_sub: "entry_ids (delete_entries p t) \<subseteq> entry_ids t"
  by (auto simp: entry_ids_delete entry_ids_def[of t])

lemma good_delete: "good pf t \<Longrightarrow> good pf (delete_entries p t)"
  using entry_ids_delete_sub by (auto simp: good_def store_ok_delete within_policy_delete)

lemma good_bump: "good pf t \<Longrightarrow> bump t = Inr (r, t') \<Longrightarrow> good pf t'"
proof -
  assume g: "good pf t" and b: "bump t = Inr (r, t')"
  have "store_ok pf t'" using g b by (auto simp: good_def intro: store_ok_bump)
  moreover have "t' = t\<lparr>t_revision := r\<rparr>" using b by (auto simp: bump_Inr)
  ultimately show ?thesis using g good_frame_policy[of t' t] by (simp add: good_def)
qed

lemma remove_many_body_good:
  "good pf t \<Longrightarrow> remove_many_body targets t = Inr (u, t') \<Longrightarrow> good pf t'"
  by (auto simp: remove_many_body_def Let_def split: if_splits intro: good_bump good_delete)

lemma good_inline_echoes:
  "good pf t \<Longrightarrow> distinct (map ie_image_identity ies) \<Longrightarrow> length ies \<le> 4096 \<Longrightarrow> good pf (t\<lparr>t_inline_echoes := ies\<rparr>)"
  using good_frame_policy[of "t\<lparr>t_inline_echoes := ies\<rparr>" t]
  by (auto simp: good_def store_ok_def list_all_iff registry_ok_def meta_ok_def entry_ok_alt)

lemma good_artifacts:
  "good pf t \<Longrightarrow> distinct (map ar_path ars) \<Longrightarrow> length ars \<le> 4096 \<Longrightarrow> good pf (t\<lparr>t_artifacts := ars\<rparr>)"
  using good_frame_policy[of "t\<lparr>t_artifacts := ars\<rparr>" t]
  by (auto simp: good_def store_ok_def list_all_iff registry_ok_def meta_ok_def entry_ok_alt)

lemma wipe_body_good: "good pf t \<Longrightarrow> wipe_body t = Inr (u, t') \<Longrightarrow> good pf t'"
proof -
  assume g: "good pf t" and w: "wipe_body t = Inr (u, t')"
  have "good pf ((delete_entries (\<lambda>_. True) t)\<lparr>t_inline_echoes := []\<rparr>)"
    using g by (intro good_inline_echoes good_delete) simp_all
  moreover obtain r where "bump ((delete_entries (\<lambda>_. True) t)\<lparr>t_inline_echoes := []\<rparr>) = Inr (r, t')"
    using w by (auto simp: wipe_body_def)
  ultimately show ?thesis by (rule good_bump)
qed

lemma apply_policy_body_good:
  assumes g: "good pf t" and a: "apply_policy_body pol t = Inr (u, t')"
  shows "good pf t'"
proof (cases "t_policy t = pol")
  case True
  with a g show ?thesis by (simp add: apply_policy_body_def)
next
  case False
  let ?t = "t\<lparr>t_policy := pol\<rparr>"
  obtain t1 r where ck: "policy_check pol" and ret: "retain pol None ?t = Inr t1" and b: "bump t1 = Inr (r, t')"
    using a False by (auto simp: apply_policy_body_def split: if_splits)
  have ok: "store_ok pf ?t" "[] \<notin> entry_ids ?t" using g ck by (auto simp: good_def store_ok_policy)
  have t1: "t1 = retain_chain pol [] ?t" using retain_result[OF ret] by simp
  have "within_policy pol t1"
    using ok ret by (intro retain_within_policy[of ?t _ None]) (auto simp: store_ok_def)
  then have "good pf t1"
    using ok entry_ids_retain[of pol "[]" ?t] by (auto simp: good_def t1 store_ok_retain)
  then show ?thesis by (rule good_bump[OF _ b])
qed

lemma close_admission_body_good: "good pf t \<Longrightarrow> close_admission_body t = Inr (u, t') \<Longrightarrow> good pf t'"
proof -
  assume g: "good pf t" and c: "close_admission_body t = Inr (u, t')"
  let ?p = "(t_policy t)\<lparr>sp_admission := False\<rparr>"
  have t': "t' = t\<lparr>t_policy := ?p\<rparr>" using c by (simp add: close_admission_body_def)
  have "policy_check ?p" using g by (simp add: good_def store_ok_def meta_ok_def policy_check_def)
  then have "store_ok pf t'" using g by (simp add: good_def t' store_ok_policy)
  moreover have "within_policy ?p t' = within_policy (t_policy t) t"
    by (simp add: within_policy_def counts_ok_def category_def total_bytes_def t')
  ultimately show ?thesis using g by (simp add: good_def t')
qed

end
