(* ===== verification/Artifact_Tables.thy ===== *)
theory Artifact_Tables
  imports History_Bodies
begin

text \<open>
  The generated-file registry and the inline-echo table of the database
  (\<open>src/src/history_store/database.rs\<close>, from \<open>artifacts\<close> to \<open>clear_inline_echoes\<close>).  The lemmas
  show that a cleanup candidate is never an artifact that a live entry produced or references,
  that registration is an upsert by path bounded at 4096 records, and that the echo table keeps
  its newest 4096 records.
\<close>

section \<open>Artifacts\<close>

definition artifacts :: "tables \<Rightarrow> artifact_record list" where
  "artifacts t = sort_key ar_path (t_artifacts t)"

definition artifact_live :: "tables \<Rightarrow> artifact_record \<Rightarrow> bool" where
  "artifact_live t a \<longleftrightarrow>
     list_ex (\<lambda>e. er_id e = ar_source_entry_id a) (t_entries t) \<or>
     list_ex (\<lambda>r. snd r = ar_path a) (t_entry_artifacts t)"

definition artifact_candidates :: "nat \<Rightarrow> nat \<Rightarrow> tables \<Rightarrow> artifact_record list" where
  "artifact_candidates before limit t =
     take (min limit 4096) (sort_key (\<lambda>a. (ar_created_at a, ar_path a))
       (filter (\<lambda>a. ar_created_at a \<le> min before i64_max \<and>
                   \<not> list_ex (\<lambda>e. er_id e = ar_source_entry_id a) (t_entries t) \<and>
                   \<not> list_ex (\<lambda>r. snd r = ar_path a) (t_entry_artifacts t)) (t_artifacts t)))"

definition artifact_references :: "tables \<Rightarrow> str list" where
  "artifact_references t = map ar_path (filter (artifact_live t) (t_artifacts t))"

definition upsert_artifact :: "artifact_record \<Rightarrow> artifact_record list \<Rightarrow> artifact_record list" where
  "upsert_artifact rec ars =
    (if list_ex (\<lambda>a. ar_path a = ar_path rec) ars
     then map (\<lambda>a. if ar_path a = ar_path rec then rec else a) ars
     else ars @ [rec])"

definition register_artifact_body :: "artifact_record \<Rightarrow> unit body" where
  "register_artifact_body rec t =
    (if length (t_artifacts t) \<ge> 4096 \<and>
        length (filter (\<lambda>a. ar_path a = ar_path rec) (t_artifacts t)) = 0
     then Inl (invalid_data ''Artifact registry is full'')
     else Inr ((), t\<lparr>t_artifacts := upsert_artifact rec (t_artifacts t)\<rparr>))"

definition db_register_artifact ::
    "engine \<Rightarrow> artifact_record \<Rightarrow> database \<Rightarrow> unit bresult \<times> database" where
  "db_register_artifact en rec db =
    (if \<not> valid_utf8 (ar_path rec) then (Inl (invalid_data ''Artifact path must be UTF-8''), db)
     else if \<not> path_is_absolute (ar_path rec) \<or> length (ar_path rec) > 32768 \<or>
             length (ar_image_identity rec) > 256 \<or> length (ar_source_entry_id rec) > 128 \<or>
             ar_created_at rec > i64_max
     then (Inl (invalid_data ''Invalid artifact metadata''), db)
     else transaction en (register_artifact_body rec) db)"

definition forget_artifact_body :: "str \<Rightarrow> unit body" where
  "forget_artifact_body path t =
     Inr ((), t\<lparr>t_artifacts := filter (\<lambda>a. ar_path a \<noteq> path) (t_artifacts t)\<rparr>)"

definition db_forget_artifact :: "engine \<Rightarrow> str \<Rightarrow> database \<Rightarrow> unit bresult \<times> database" where
  "db_forget_artifact en path db =
    (if \<not> valid_utf8 path then (Inl (invalid_data ''Artifact path must be UTF-8''), db)
     else transaction en (forget_artifact_body path) db)"

section \<open>Inline echoes\<close>

definition inline_echoes :: "tables \<Rightarrow> inline_echo_record list" where
  "inline_echoes t = sort_key ie_image_identity (t_inline_echoes t)"

definition upsert_inline_echo :: "inline_echo_record \<Rightarrow> inline_echo_record list \<Rightarrow> inline_echo_record list" where
  "upsert_inline_echo rec ies =
    (if list_ex (\<lambda>a. ie_image_identity a = ie_image_identity rec) ies
     then map (\<lambda>a. if ie_image_identity a = ie_image_identity rec then rec else a) ies
     else ies @ [rec])"

definition echo_key :: "inline_echo_record \<Rightarrow> int \<times> str" where
  "echo_key r = (- int (ie_created_at r), ie_image_identity r)"

definition prune_inline_echoes :: "inline_echo_record list \<Rightarrow> inline_echo_record list" where
  "prune_inline_echoes ies =
    (let gone = map ie_image_identity (beyond_n 4096 echo_key ies) in
     filter (\<lambda>r. ie_image_identity r \<notin> set gone) ies)"

definition register_inline_echo_body :: "inline_echo_record \<Rightarrow> unit body" where
  "register_inline_echo_body rec t =
     Inr ((), t\<lparr>t_inline_echoes := prune_inline_echoes (upsert_inline_echo rec (t_inline_echoes t))\<rparr>)"

definition db_register_inline_echo ::
    "engine \<Rightarrow> inline_echo_record \<Rightarrow> database \<Rightarrow> unit bresult \<times> database" where
  "db_register_inline_echo en rec db =
    (if length (ie_image_identity rec) > 256 \<or> length (ie_source_entry_id rec) > 128 \<or> ie_created_at rec > i64_max
     then (Inl (invalid_data ''Invalid inline echo metadata''), db)
     else transaction en (register_inline_echo_body rec) db)"

definition clear_inline_echoes_body :: "unit body" where
  "clear_inline_echoes_body t = Inr ((), t\<lparr>t_inline_echoes := []\<rparr>)"

definition db_clear_inline_echoes :: "engine \<Rightarrow> database \<Rightarrow> unit bresult \<times> database" where
  "db_clear_inline_echoes en db = transaction en clear_inline_echoes_body db"

section \<open>Lemmas\<close>

lemma candidate_mem:
  "a \<in> set (artifact_candidates before limit t) \<Longrightarrow>
     a \<in> set (t_artifacts t) \<and> ar_created_at a \<le> before \<and> \<not> artifact_live t a"
  by (auto simp: artifact_candidates_def artifact_live_def dest!: in_set_takeD)

lemma candidates_length [clip_bounds]: "length (artifact_candidates before limit t) \<le> min limit 4096"
  unfolding artifact_candidates_def length_take by (rule min.cobounded2)

lemma upsert_artifact_paths:
  "distinct (map ar_path ars) \<Longrightarrow> distinct (map ar_path (upsert_artifact rec ars)) \<and>
     set (map ar_path (upsert_artifact rec ars)) = insert (ar_path rec) (set (map ar_path ars))"
proof (cases "list_ex (\<lambda>a. ar_path a = ar_path rec) ars")
  case True
  assume d: "distinct (map ar_path ars)"
  have "map ar_path (upsert_artifact rec ars) = map ar_path ars"
    using True by (auto simp: upsert_artifact_def)
  moreover have "ar_path rec \<in> set (map ar_path ars)" 
  proof -
    obtain a where "a \<in> set ars" "ar_path a = ar_path rec" using True unfolding list_ex_iff by blast
    then show ?thesis by (metis image_eqI list.set_map)
  qed
  ultimately show ?thesis using d by (simp add: insert_absorb)
next
  case False
  assume "distinct (map ar_path ars)"
  with False show ?thesis by (auto simp: upsert_artifact_def list_ex_iff)
qed

lemma upsert_artifact_length:
  "length ars < 4096 \<or> filter (\<lambda>a. ar_path a = ar_path rec) ars \<noteq> [] \<Longrightarrow> length ars \<le> 4096 \<Longrightarrow>
     length (upsert_artifact rec ars) \<le> 4096"
  by (auto simp: upsert_artifact_def list_ex_iff filter_empty_conv)

lemma upsert_artifact_get:
  "artifact_get (ar_path rec) (t\<lparr>t_artifacts := upsert_artifact rec ars\<rparr>) = Some rec"
proof -
  have "find (\<lambda>a. ar_path a = ar_path rec) (map (\<lambda>a. if ar_path a = ar_path rec then rec else a) ars) = Some rec"
    if "list_ex (\<lambda>a. ar_path a = ar_path rec) ars" using that by (induction ars) auto
  moreover have "find (\<lambda>a. ar_path a = ar_path rec) (ars @ [rec]) = Some rec"
    if "\<not> list_ex (\<lambda>a. ar_path a = ar_path rec) ars" using that by (induction ars) auto
  ultimately show ?thesis by (simp add: artifact_get_def upsert_artifact_def)
qed

lemma register_artifact_body_good:
  "good pf t \<Longrightarrow> register_artifact_body rec t = Inr (u, t') \<Longrightarrow> good pf t'"
proof -
  assume g: "good pf t" and r: "register_artifact_body rec t = Inr (u, t')"
  have reg: "distinct (map ar_path (t_artifacts t))" "length (t_artifacts t) \<le> 4096"
    using g by (auto simp: good_def store_ok_def registry_ok_def)
  have "t' = t\<lparr>t_artifacts := upsert_artifact rec (t_artifacts t)\<rparr>"
    and "length (t_artifacts t) < 4096 \<or> filter (\<lambda>a. ar_path a = ar_path rec) (t_artifacts t) \<noteq> []"
    using r by (auto simp: register_artifact_body_def split: if_splits)
  then show ?thesis using g reg upsert_artifact_paths upsert_artifact_length by (simp add: good_artifacts)
qed

lemma forget_artifact_body_good:
  "good pf t \<Longrightarrow> forget_artifact_body p t = Inr (u, t') \<Longrightarrow> good pf t'"
proof -
  assume g: "good pf t" and f: "forget_artifact_body p t = Inr (u, t')"
  let ?ars = "filter (\<lambda>a. ar_path a \<noteq> p) (t_artifacts t)"
  have reg: "distinct (map ar_path (t_artifacts t))" "length (t_artifacts t) \<le> 4096"
    using g by (auto simp: good_def store_ok_def registry_ok_def)
  have "length ?ars \<le> 4096" using reg(2) length_filter_le le_trans by blast
  then have "good pf (t\<lparr>t_artifacts := ?ars\<rparr>)"
    using g reg(1) by (intro good_artifacts) (auto simp: distinct_map_filter)
  with f show ?thesis by (simp add: forget_artifact_body_def)
qed

lemma upsert_inline_echo_ids:
  "distinct (map ie_image_identity ies) \<Longrightarrow> distinct (map ie_image_identity (upsert_inline_echo rec ies))"
proof (cases "list_ex (\<lambda>a. ie_image_identity a = ie_image_identity rec) ies")
  case True
  assume d: "distinct (map ie_image_identity ies)"
  have "map ie_image_identity (upsert_inline_echo rec ies) = map ie_image_identity ies"
    using True by (auto simp: upsert_inline_echo_def)
  with d show ?thesis by simp
next
  case False
  assume "distinct (map ie_image_identity ies)"
  with False show ?thesis by (auto simp: upsert_inline_echo_def list_ex_iff)
qed

lemma prune_inline_echoes_bound:
  assumes d: "distinct (map ie_image_identity ies)"
  shows "distinct (map ie_image_identity (prune_inline_echoes ies)) \<and> length (prune_inline_echoes ies) \<le> 4096"
proof -
  let ?B = "beyond_n 4096 echo_key ies" and ?K = "prune_inline_echoes ies"
  have dk: "distinct ?K" using d by (simp add: prune_inline_echoes_def Let_def distinct_map)
  have "set ?K \<subseteq> set (top_n 4096 echo_key ies)"
    using top_beyond[of 4096 echo_key ies] by (auto simp: prune_inline_echoes_def Let_def)
  then have "card (set ?K) \<le> card (set (top_n 4096 echo_key ies))" by (intro card_mono) auto
  also have "\<dots> \<le> 4096" using card_length top_n_length le_trans by blast
  finally have "length ?K \<le> 4096" using distinct_card[OF dk] by simp
  moreover have "distinct (map ie_image_identity ?K)" using d by (simp add: prune_inline_echoes_def Let_def distinct_map_filter)
  ultimately show ?thesis by simp
qed

lemma register_inline_echo_body_good:
  "good pf t \<Longrightarrow> register_inline_echo_body rec t = Inr (u, t') \<Longrightarrow> good pf t'"
proof -
  assume g: "good pf t" and r: "register_inline_echo_body rec t = Inr (u, t')"
  have "distinct (map ie_image_identity (t_inline_echoes t))"
    using g by (auto simp: good_def store_ok_def registry_ok_def)
  with g r show ?thesis using prune_inline_echoes_bound[OF upsert_inline_echo_ids]
    by (auto simp: register_inline_echo_body_def intro: good_inline_echoes)
qed

lemma clear_inline_echoes_body_good:
  "good pf t \<Longrightarrow> clear_inline_echoes_body t = Inr (u, t') \<Longrightarrow> good pf t'"
  by (auto simp: clear_inline_echoes_body_def intro: good_inline_echoes)

end
