(* ===== verification/Storage_Op.thy ===== *)
theory Storage_Op
  imports Artifact_Tables
begin

text \<open>
  The contract every transaction body honours, as a locale, with its consequences for the
  database under every engine behaviour, and its interpretation on each body of the model.
  The step relation \<open>store_step\<close> is one owner-thread job; a reachable database is one that any
  sequence of jobs and restarts produces from a fresh store.
\<close>

section \<open>Transactions\<close>

lemma transaction_ok:
  assumes "fst (transaction en f db) = Inr v"
  shows "\<not> db_blocked db \<and> (\<exists>t'. f (db_tables db) = Inr (v, t') \<and> snd (transaction en f db) = db\<lparr>db_tables := t'\<rparr>)"
  using assms by (auto simp: transaction_def run_body_def split: if_splits sum.splits option.splits)

lemma transaction_blocked: "db_blocked db \<Longrightarrow> snd (transaction en f db) = db \<and> \<not> is_ok (fst (transaction en f db))"
  by (simp add: transaction_def)

lemma transaction_error:
  assumes "fst (transaction en f db) = Inl e"
  shows "snd (transaction en f db) = db \<or> db_blocked (snd (transaction en f db))"
  using assms by (auto simp: transaction_def split: if_splits sum.splits)

lemma transaction_sound:
  "\<not> db_blocked db \<Longrightarrow> f (db_tables db) = Inr (v, t) \<Longrightarrow>
     transaction sound_engine f db = (Inr v, db\<lparr>db_tables := t\<rparr>)"
  "\<not> db_blocked db \<Longrightarrow> f (db_tables db) = Inl e \<Longrightarrow> transaction sound_engine f db = (Inl e, db)"
  by (simp_all add: transaction_def run_body_def sound_engine_def)

locale storage_op =
  fixes pf :: platform and f :: "'a body"
  assumes keeps: "good pf t \<Longrightarrow> f t = Inr (v, t') \<Longrightarrow> good pf t'"
begin

lemma tables_good: "good pf (db_tables db) \<Longrightarrow> good pf (db_tables (snd (transaction en f db)))"
  by (auto simp: transaction_def run_body_def split: sum.splits option.splits dest: keeps)

lemma committed_good:
  "good pf (db_tables db) \<Longrightarrow> fst (transaction en f db) = Inr v \<Longrightarrow>
     \<exists>t'. f (db_tables db) = Inr (v, t') \<and> snd (transaction en f db) = db\<lparr>db_tables := t'\<rparr> \<and> good pf t'"
  using transaction_ok[of en f db v] keeps by blast

end

interpretation insert_op: storage_op pf "insert_body pf uuid mime bs" for pf uuid mime bs
  by unfold_locales (rule insert_body_good)

interpretation replace_op: storage_op pf "replace_body pf i x mime bs" for pf i x mime bs
  by unfold_locales (rule replace_body_good)

interpretation favorite_op: storage_op pf "favorite_body i x v" for pf i x v
  by unfold_locales (rule favorite_body_good)

interpretation remove_many_op: storage_op pf "remove_many_body targets" for pf targets
  by unfold_locales (rule remove_many_body_good)

interpretation wipe_op: storage_op pf wipe_body for pf
  by unfold_locales (rule wipe_body_good)

interpretation apply_policy_op: storage_op pf "apply_policy_body pol" for pf pol
  by unfold_locales (rule apply_policy_body_good)

interpretation close_admission_op: storage_op pf close_admission_body for pf
  by unfold_locales (rule close_admission_body_good)

interpretation register_artifact_op: storage_op pf "register_artifact_body rec" for pf rec
  by unfold_locales (rule register_artifact_body_good)

interpretation forget_artifact_op: storage_op pf "forget_artifact_body p" for pf p
  by unfold_locales (rule forget_artifact_body_good)

interpretation register_echo_op: storage_op pf "register_inline_echo_body rec" for pf rec
  by unfold_locales (rule register_inline_echo_body_good)

interpretation clear_echoes_op: storage_op pf clear_inline_echoes_body for pf
  by unfold_locales (rule clear_inline_echoes_body_good)

section \<open>Jobs of the storage owner\<close>

text \<open>
  One job or restart.  Opening an existing database clears \<open>blocked\<close> with the tables the disk holds
  and closes admission; shutdown closes admission as its last transaction.
\<close>

inductive store_step :: "platform \<Rightarrow> database \<Rightarrow> database \<Rightarrow> bool" for pf where
  step_insert: "store_step pf db (snd (db_insert pf en uuid mime bs db))"
| step_replace: "store_step pf db (snd (db_replace pf en i x mime bs db))"
| step_favorite: "store_step pf db (snd (db_favorite en i x v db))"
| step_remove: "store_step pf db (snd (db_remove_many en targets db))"
| step_wipe: "store_step pf db (snd (db_wipe en db))"
| step_policy: "store_step pf db (snd (apply_policy en pol db))"
| step_register: "store_step pf db (snd (db_register_artifact en rec db))"
| step_forget: "store_step pf db (snd (db_forget_artifact en p db))"
| step_register_echo: "store_step pf db (snd (db_register_inline_echo en ie db))"
| step_clear_echoes: "store_step pf db (snd (db_clear_inline_echoes en db))"
| step_reopen: "store_step pf db (snd (transaction en close_admission_body (db\<lparr>db_blocked := False\<rparr>)))"
| step_shutdown: "store_step pf db (snd (transaction en close_admission_body db))"

definition fresh_database :: database where
  "fresh_database = \<lparr>db_tables = fresh_tables, db_blocked = False\<rparr>"

inductive store_reachable :: "platform \<Rightarrow> database \<Rightarrow> bool" for pf where
  reach_fresh: "store_reachable pf fresh_database"
| reach_step: "store_reachable pf db \<Longrightarrow> store_step pf db db' \<Longrightarrow> store_reachable pf db'"

lemmas owner_op_defs =
  db_insert_def db_replace_def db_favorite_def db_remove_many_def db_wipe_def apply_policy_def
  db_register_artifact_def db_forget_artifact_def db_register_inline_echo_def db_clear_inline_echoes_def

lemmas op_tables_good =
  insert_op.tables_good replace_op.tables_good favorite_op.tables_good remove_many_op.tables_good
  wipe_op.tables_good apply_policy_op.tables_good close_admission_op.tables_good
  register_artifact_op.tables_good forget_artifact_op.tables_good register_echo_op.tables_good
  clear_echoes_op.tables_good

lemma store_step_good: "store_step pf db db' \<Longrightarrow> good pf (db_tables db) \<Longrightarrow> good pf (db_tables db')"
proof (induction rule: store_step.induct)
  case (step_reopen db en)
  then show ?case by (intro close_admission_op.tables_good) simp
qed (auto simp: owner_op_defs intro: op_tables_good)

lemma reachable_good: "store_reachable pf db \<Longrightarrow> good pf (db_tables db)"
  by (induction rule: store_reachable.induct)
    (auto simp: fresh_database_def good_fresh intro: store_step_good)

text \<open>A fenced store stays as it is until it is reopened.\<close>

lemma blocked_frozen:
  assumes "db_blocked db" and "store_step pf db db'"
  shows "db' = db \<or> (\<exists>en. db' = snd (transaction en close_admission_body (db\<lparr>db_blocked := False\<rparr>)))"
  using assms(2,1)
  by (cases rule: store_step.cases) (auto simp: owner_op_defs transaction_blocked)

end
