(* ===== verification/History_Query.thy ===== *)
theory History_Query
  imports Storage_Op
begin

text \<open>
  Search and paging (\<open>Database::query\<close> and \<open>search_gram\<close> of \<open>src/src/history_store/database.rs\<close>).
  The native full-text index is an external engine: its match function is the argument \<open>fts\<close>.
  What the query relies on is its recall, \<open>fts_recall\<close>: a document that contains every quoted
  term of an AND query is matched.  Under it the index narrows nothing away, so the result is
  the literal substring search that \<open>reference_matches\<close> defines.
\<close>

section \<open>Trigrams\<close>

fun windows3 :: "rchar list \<Rightarrow> str list" where
  "windows3 (a # b # c # cs) = of_chars [a, b, c] # windows3 (b # c # cs)"
| "windows3 _ = []"

text \<open>Insert into the ordered set until it holds 32 terms.\<close>

fun collect_terms :: "str list \<Rightarrow> str list \<Rightarrow> str list" where
  "collect_terms terms [] = terms"
| "collect_terms terms (g # gs) =
     (let terms' = (if g \<in> set terms then terms else insort g terms) in
      if length terms' = 32 then terms' else collect_terms terms' gs)"

definition search_terms :: "platform \<Rightarrow> str \<Rightarrow> str list" where
  "search_terms pf needle =
     collect_terms [] (concat (map windows3 (split_on (\<lambda>c. \<not> pf_alphanumeric pf (fst c)) (chars needle))))"

definition fts_query :: "str list \<Rightarrow> str" where
  "fts_query terms = join_strs '' AND '' (map (\<lambda>t. [CHR 0x22] @ t @ [CHR 0x22]) terms)"

definition search_gram :: "platform \<Rightarrow> str \<Rightarrow> str option" where
  "search_gram pf needle =
    (let terms = search_terms pf needle in if terms = [] then None else Some (fts_query terms))"

section \<open>The query\<close>

definition history_key :: "entry_row \<Rightarrow> bool \<times> int \<times> str" where
  "history_key e = (\<not> er_favorite e, - int (er_recency e), er_id e)"

definition search_row :: "tables \<Rightarrow> str \<Rightarrow> search_row option" where
  "search_row t i = find (\<lambda>r. sr_entry_id r = i) (t_search t)"

definition visible :: "bool \<Rightarrow> entry_row \<Rightarrow> bool" where
  "visible collapse e \<longleftrightarrow> \<not> collapse \<or> er_echo_source e = None"

definition query_matches ::
    "platform \<Rightarrow> (str \<Rightarrow> str \<Rightarrow> bool) \<Rightarrow> str \<Rightarrow> bool \<Rightarrow> tables \<Rightarrow> entry_row list" where
  "query_matches pf fts needle collapse t =
    (if needle = [] then filter (visible collapse) (t_entries t)
     else filter (\<lambda>e. case search_row t (er_id e) of
                        None \<Rightarrow> False
                      | Some r \<Rightarrow>
                          contains (sr_content r) needle \<and> visible collapse e \<and>
                          (case search_gram pf needle of
                             Some gram \<Rightarrow> fts (sr_indexed_content r) gram \<or> \<not> sr_indexed_complete r
                           | None \<Rightarrow> True)) (t_entries t))"

definition current_row :: "bool \<Rightarrow> tables \<Rightarrow> entry_row option" where
  "current_row collapse t =
    (case sort_key (\<lambda>e. (- int (er_recency e), er_id e)) (t_entries t) of
       [] \<Rightarrow> None
     | e # _ \<Rightarrow> find_entry (case er_echo_source e of
                              Some s \<Rightarrow> if collapse then s else er_id e
                            | None \<Rightarrow> er_id e) t)"

fun decode_rows :: "tables \<Rightarrow> entry_row list \<Rightarrow> entry_summary list bresult" where
  "decode_rows t [] = Inr []"
| "decode_rows t (e # es) =
     rbind (decode_summary t e) (\<lambda>s. rbind (decode_rows t es) (\<lambda>ss. Inr (s # ss)))"

definition db_query ::
    "platform \<Rightarrow> (str \<Rightarrow> str \<Rightarrow> bool) \<Rightarrow> history_query \<Rightarrow> tables \<Rightarrow> history_page bresult" where
  "db_query pf fts q t =
    (let needle = pf_lowercase pf (trim (hq_query q));
         limit = min (hq_limit q) MAX_QUERY_LIMIT;
         offset = min (hq_offset q) i64_max
     in rbind (case current_row (hq_collapse_self_echoes q) t of
                 None \<Rightarrow> Inr None
               | Some e \<Rightarrow> rbind (decode_summary t e) (\<lambda>s. Inr (Some (s\<lparr>es_current := True\<rparr>)))) (\<lambda>current.
        let found = query_matches pf fts needle (hq_collapse_self_echoes q) t;
            rows = take (limit + 1) (drop offset (sort_key history_key found));
            has_more = length rows > limit
        in rbind (decode_rows t (take limit rows)) (\<lambda>decoded.
             let entries = map (\<lambda>s. s\<lparr>es_current :=
                   (case current of None \<Rightarrow> False | Some c \<Rightarrow> es_id c = es_id s)\<rparr>) decoded
             in Inr \<lparr>hp_total = length found, hp_revision = t_revision t, hp_generation = hq_generation q,
                     hp_current = current, hp_entries = entries, hp_has_more = has_more,
                     hp_next_offset = (if has_more \<and> limit > 0
                                       then checked_add (hq_offset q) (length entries) else None)\<rparr>)))"

section \<open>Literal substring search\<close>

text \<open>The contract of the documentation: the lowercased MIME type, a newline and the lowercased
  text contain the lowercased query.\<close>

definition reference_matches :: "platform \<Rightarrow> str \<Rightarrow> bool \<Rightarrow> tables \<Rightarrow> entry_row list" where
  "reference_matches pf needle collapse t =
     filter (\<lambda>e. visible collapse e \<and>
       (case map_of (t_payloads t) (er_id e) of
          None \<Rightarrow> False
        | Some bs \<Rightarrow> contains (search_text pf (er_mime e) bs) needle)) (t_entries t)"

definition fts_recall :: "(str \<Rightarrow> str \<Rightarrow> bool) \<Rightarrow> bool" where
  "fts_recall fts \<longleftrightarrow>
     (\<forall>doc terms. terms \<noteq> [] \<longrightarrow> list_all (contains doc) terms \<longrightarrow> fts doc (fts_query terms))"

lemma windows3_contained: "w \<in> set (windows3 cs) \<Longrightarrow> contains (of_chars cs) w"
proof (induction cs rule: windows3.induct)
  case (1 a b c cs)
  then consider "w = of_chars [a, b, c]" | "contains (of_chars (b # c # cs)) w" by auto
  then show ?case
  proof cases
    case 1
    then have "of_chars (a # b # c # cs) = [] @ w @ of_chars cs" by simp
    then show ?thesis unfolding contains_iff by blast
  next
    case 2
    then obtain x y where "of_chars (b # c # cs) = x @ w @ y" unfolding contains_iff by blast
    then have "of_chars (a # b # c # cs) = (snd a @ x) @ w @ y" by simp
    then show ?thesis unfolding contains_iff by blast
  qed
qed auto

lemma sublist_contained: "sublist w cs \<Longrightarrow> contains (of_chars cs) (of_chars w)"
  unfolding sublist_def contains_iff by (metis of_chars_append)

lemma collect_terms_sub: "set (collect_terms ts gs) \<subseteq> set ts \<union> set gs"
  by (induction ts gs rule: collect_terms.induct) (auto simp: Let_def set_insort_key split: if_splits)

lemma collect_terms_length: "length ts < 32 \<Longrightarrow> length (collect_terms ts gs) \<le> 32"
  by (induction ts gs rule: collect_terms.induct) (auto simp: Let_def)

lemma search_terms_contained:
  assumes "valid_utf8 needle" and "g \<in> set (search_terms pf needle)"
  shows "contains needle g"
proof -
  let ?ws = "split_on (\<lambda>c. \<not> pf_alphanumeric pf (fst c)) (chars needle)"
  have "g \<in> set (concat (map windows3 ?ws))"
    using assms(2) collect_terms_sub[of "[]" "concat (map windows3 ?ws)"]
    unfolding search_terms_def by auto
  then obtain w where w: "w \<in> set ?ws" "g \<in> set (windows3 w)" by auto
  have "contains (of_chars (chars needle)) (of_chars w)" by (rule sublist_contained[OF split_on_infix[OF w(1)]])
  then show ?thesis using windows3_contained[OF w(2)] chars_valid[OF assms(1)] contains_trans by metis
qed

lemma gram_recall:
  assumes "fts_recall fts" "valid_utf8 needle" "search_gram pf needle = Some gram" "contains doc needle"
  shows "fts doc gram"
proof -
  have "gram = fts_query (search_terms pf needle)" "search_terms pf needle \<noteq> []"
    using assms(3) by (auto simp: search_gram_def Let_def split: if_splits)
  moreover have "list_all (contains doc) (search_terms pf needle)"
    using search_terms_contained[OF assms(2)] contains_trans[OF assms(4)] by (auto simp: list_all_iff)
  ultimately show ?thesis using assms(1) by (auto simp: fts_recall_def)
qed

section \<open>The index loses nothing\<close>

lemma contains_Nil: "contains s []"
  unfolding contains_iff by auto

lemma search_row_ok:
  assumes "store_ok pf t" "e \<in> set (t_entries t)"
  shows "\<exists>bs. map_of (t_payloads t) (er_id e) = Some bs \<and>
    search_row t (er_id e) = Some (search_row_of pf (er_id e) (er_mime e) bs)"
  using assms by (auto simp: store_ok_def list_all_iff entry_ok_def payload_ok_alt search_row_def)

lemma search_row_of_simps:
  "sr_content (search_row_of pf i mime bs) = search_text pf mime bs"
  "\<not> sr_indexed_complete (search_row_of pf i mime bs) \<or>
     sr_indexed_content (search_row_of pf i mime bs) = search_text pf mime bs"
  by (simp_all add: search_row_of_def Let_def)

lemma query_matches_reference:
  assumes ok: "store_ok pf t" and recall: "fts_recall fts" and utf8: "valid_utf8 needle"
  shows "query_matches pf fts needle collapse t = reference_matches pf needle collapse t"
proof -
  have "(case search_row t (er_id e) of None \<Rightarrow> False
       | Some r \<Rightarrow> contains (sr_content r) needle \<and> visible collapse e \<and>
           (case search_gram pf needle of
              Some gram \<Rightarrow> fts (sr_indexed_content r) gram \<or> \<not> sr_indexed_complete r
            | None \<Rightarrow> True)) =
      (visible collapse e \<and> (case map_of (t_payloads t) (er_id e) of
          None \<Rightarrow> False | Some bs \<Rightarrow> contains (search_text pf (er_mime e) bs) needle))"
    if e: "e \<in> set (t_entries t)" for e
  proof -
    obtain bs where bs: "map_of (t_payloads t) (er_id e) = Some bs"
      "search_row t (er_id e) = Some (search_row_of pf (er_id e) (er_mime e) bs)"
      using search_row_ok[OF ok e] by blast
    have "fts (search_text pf (er_mime e) bs) gram"
      if "search_gram pf needle = Some gram" "contains (search_text pf (er_mime e) bs) needle" for gram
      using gram_recall[OF recall utf8 that] .
    then show ?thesis
      using search_row_of_simps[of pf "er_id e" "er_mime e" bs] by (auto simp: bs split: option.split)
  qed
  moreover have "(case map_of (t_payloads t) (er_id e) of
      None \<Rightarrow> False | Some bs \<Rightarrow> contains (search_text pf (er_mime e) bs) [])"
    if "e \<in> set (t_entries t)" for e
    using search_row_ok[OF ok that] contains_Nil by auto
  ultimately show ?thesis
    by (cases "needle = []") (auto simp: query_matches_def reference_matches_def intro!: filter_cong)
qed

section \<open>Pages\<close>

lemma set_query_matches: "set (query_matches pf fts needle collapse t) \<subseteq> set (t_entries t)"
  by (auto simp: query_matches_def)

lemma decode_rows_ok:
  "\<forall>e \<in> set es. entry_check e \<Longrightarrow>
     \<exists>ss. decode_rows t es = Inr ss \<and> map es_id ss = map er_id es \<and> map es_favorite ss = map er_favorite es"
proof (induction es)
  case (Cons e es)
  obtain s where "decode_summary t e = Inr s" "es_id s = er_id e" "es_favorite s = er_favorite e"
    using decode_summary_ok[of e t] Cons.prems by auto
  then show ?case using Cons by auto
qed simp

text \<open>The ids of all matches, in the order the pages show them.\<close>

definition ordered_ids ::
    "platform \<Rightarrow> (str \<Rightarrow> str \<Rightarrow> bool) \<Rightarrow> history_query \<Rightarrow> tables \<Rightarrow> str list" where
  "ordered_ids pf fts q t =
     map er_id (sort_key history_key
       (query_matches pf fts (pf_lowercase pf (trim (hq_query q))) (hq_collapse_self_echoes q) t))"

lemma current_row_mem: "current_row collapse t = Some e \<Longrightarrow> e \<in> set (t_entries t)"
  by (auto simp: current_row_def dest!: find_entry_Some split: list.splits)

lemma db_query_page:
  assumes ok: "store_ok pf t"
  shows "\<exists>p. db_query pf fts q t = Inr p \<and>
    map es_id (hp_entries p) =
      take (min (hq_limit q) MAX_QUERY_LIMIT) (drop (min (hq_offset q) i64_max) (ordered_ids pf fts q t)) \<and>
    hp_total p = length (ordered_ids pf fts q t) \<and> hp_revision p = t_revision t \<and>
    hp_generation p = hq_generation q \<and>
    (hp_has_more p \<longleftrightarrow> min (hq_offset q) i64_max + min (hq_limit q) MAX_QUERY_LIMIT < hp_total p) \<and>
    map_option es_id (hp_current p) = map_option er_id (current_row (hq_collapse_self_echoes q) t) \<and>
    hp_next_offset p = (if hp_has_more p \<and> 0 < hq_limit q
       then checked_add (hq_offset q) (length (hp_entries p)) else None)"
proof -
  let ?c = "hq_collapse_self_echoes q" and ?l = "min (hq_limit q) MAX_QUERY_LIMIT"
    and ?o = "min (hq_offset q) i64_max"
  let ?found = "query_matches pf fts (pf_lowercase pf (trim (hq_query q))) ?c t"
  let ?rows = "take (?l + 1) (drop ?o (sort_key history_key ?found))"
  have chk: "entry_check e" if "e \<in> set (t_entries t)" for e
    using ok that by (simp add: store_ok_def list_all_iff entry_ok_def)
  obtain cur where cur: "(case current_row ?c t of None \<Rightarrow> Inr None
      | Some e \<Rightarrow> rbind (decode_summary t e) (\<lambda>s. Inr (Some (s\<lparr>es_current := True\<rparr>)))) = Inr cur"
    and curid: "map_option es_id cur = map_option er_id (current_row ?c t)"
  proof (cases "current_row ?c t")
    case (Some e)
    then obtain s where "decode_summary t e = Inr s" "es_id s = er_id e"
      using decode_summary_ok[OF chk[OF current_row_mem]] by blast
    then show ?thesis using that Some by auto
  qed (use that in auto)
  have "set (take ?l ?rows) \<subseteq> set (t_entries t)"
    using set_query_matches[of pf fts _ ?c t] set_take_subset set_drop_subset by fastforce
  then obtain ss where ss: "decode_rows t (take ?l ?rows) = Inr ss" "map es_id ss = map er_id (take ?l ?rows)"
    using decode_rows_ok[of "take ?l ?rows" t] chk by blast
  have tk: "take ?l ?rows = take ?l (drop ?o (sort_key history_key ?found))" by (simp add: min_def)
  have more: "length ?rows > ?l \<longleftrightarrow> ?o + ?l < length ?found" by auto
  have "map (es_id \<circ> (\<lambda>s. s\<lparr>es_current := f s\<rparr>)) ss = map es_id ss" for f by simp
  then show ?thesis
    unfolding db_query_def Let_def cur rbind.simps ss(1)
    using ss(2) more curid by (simp add: ordered_ids_def take_map drop_map tk MAX_QUERY_LIMIT_def)
qed

end
