(* ===== verification/History_Store.thy ===== *)
theory History_Store
  imports History_Query
begin

text \<open>
  The bounded front of the storage owner (\<open>src/src/history_store/mod.rs\<close>).  A public method of
  \<open>HistoryStore\<close> is a \<open>store_request\<close>: \<open>validate_request\<close> is what the method checks before it
  queues anything, \<open>request_bytes\<close> what it reserves, \<open>serve\<close> the closure the owner runs.
  Callers, queue and owner thread interleave as the steps of \<open>queue_step\<close>.  The lemmas show that
  the byte budget counts exactly the held, queued and executing inputs and never underflows,
  that replies come in submission order, that a closed store accepts nothing and drains what it
  accepted, and that shutdown reports the same outcome to every caller.
\<close>

section \<open>Requests\<close>

definition QUEUE_CAPACITY :: nat where "QUEUE_CAPACITY = 32"
definition QUEUE_BYTE_BUDGET :: nat where "QUEUE_BYTE_BUDGET = 128 * 1024 * 1024"

datatype store_request =
    ReqQuery history_query
  | ReqGet str "nat option"
  | ReqEntryRevision str
  | ReqRevision
  | ReqInsert str bytes
  | ReqReplace str nat str bytes
  | ReqFavorite str nat bool
  | ReqRemoveMany "entry_target list"
  | ReqWipe
  | ReqApplyPolicy store_policy
  | ReqPolicy
  | ReqArtifactGet str
  | ReqArtifactCandidates nat nat
  | ReqArtifacts
  | ReqRegisterArtifact artifact_record
  | ReqForgetArtifact str
  | ReqArtifactReferences
  | ReqInlineEchoes
  | ReqRegisterInlineEcho inline_echo_record
  | ReqClearInlineEchoes

datatype store_reply =
    RepPage history_page
  | RepEntry stored_entry
  | RepSummary entry_summary
  | RepRevision nat
  | RepUnit
  | RepPolicy store_policy
  | RepArtifact "artifact_record option"
  | RepArtifacts "artifact_record list"
  | RepPaths "str list"
  | RepEchoes "inline_echo_record list"

definition validate_id :: "str \<Rightarrow> unit bresult" where
  "validate_id i = (if length i > 128 then Inl (invalid_data ''Clipboard entry ID is too long'') else Inr ())"

definition validate_path :: "str \<Rightarrow> unit bresult" where
  "validate_path p = (if length p > 32768 then Inl (invalid_data ''Artifact path is too long'') else Inr ())"

definition validate_input :: "str \<Rightarrow> bytes \<Rightarrow> unit bresult" where
  "validate_input mime bs =
    (if length mime > 255 \<or> CHR 0x00 \<in> set mime \<or> length bs > MAX_ENTRY_BYTES
     then Inl (invalid_data ''Clipboard input exceeds storage limits'') else Inr ())"

fun validate_targets :: "entry_target list \<Rightarrow> unit bresult" where
  "validate_targets [] = Inr ()"
| "validate_targets (g # gs) = rbind (validate_id (et_opaque_id g)) (\<lambda>_. validate_targets gs)"

definition validate_identity :: "str \<Rightarrow> unit bresult" where
  "validate_identity s =
    (if length s > 256 then Inl (invalid_data ''Artifact identity is too long'') else Inr ())"

fun validate_request :: "store_request \<Rightarrow> unit bresult" where
  "validate_request (ReqQuery q) =
     (if length (hq_query q) > MAX_QUERY_BYTES then Inl (invalid_data ''Search query is too long'')
      else Inr ())"
| "validate_request (ReqGet i _) = validate_id i"
| "validate_request (ReqInsert mime bs) = validate_input mime bs"
| "validate_request (ReqReplace i _ mime bs) = rbind (validate_id i) (\<lambda>_. validate_input mime bs)"
| "validate_request (ReqFavorite i _ _) = validate_id i"
| "validate_request (ReqRemoveMany targets) =
     (if length targets > 10000 then Inl (invalid_data ''Too many delete targets'')
      else validate_targets targets)"
| "validate_request (ReqArtifactGet p) =
     rbind (validate_path p) (\<lambda>_.
       if valid_utf8 p then Inr () else Inl (invalid_data ''Artifact path must be UTF-8''))"
| "validate_request (ReqRegisterArtifact rec) =
     rbind (validate_path (ar_path rec)) (\<lambda>_.
     rbind (validate_id (ar_source_entry_id rec)) (\<lambda>_. validate_identity (ar_image_identity rec)))"
| "validate_request (ReqForgetArtifact p) = validate_path p"
| "validate_request (ReqRegisterInlineEcho rec) =
     rbind (validate_id (ie_source_entry_id rec)) (\<lambda>_. validate_identity (ie_image_identity rec))"
| "validate_request _ = Inr ()"

text \<open>\<open>size_of::<EntryTarget>()\<close>: a 24-byte string header and a 64-bit revision.\<close>

definition entry_target_size :: nat where "entry_target_size = 32"

fun request_bytes :: "store_request \<Rightarrow> nat" where
  "request_bytes (ReqInsert _ bs) = length bs"
| "request_bytes (ReqReplace _ _ _ bs) = length bs"
| "request_bytes (ReqRemoveMany targets) =
     sum_list (map (\<lambda>g. length (et_opaque_id g) + entry_target_size) targets)"
| "request_bytes (ReqRegisterArtifact rec) =
     length (ar_path rec) + length (ar_source_entry_id rec) + length (ar_image_identity rec)"
| "request_bytes _ = 0"

section \<open>The job of the owner thread\<close>

definition db_read :: "engine \<Rightarrow> (tables \<Rightarrow> 'a bresult) \<Rightarrow> database \<Rightarrow> 'a bresult \<times> database" where
  "db_read en f db = (case en_stmt_fault en of Some e \<Rightarrow> Inl e | None \<Rightarrow> f (db_tables db), db)"

definition reply_with :: "('a \<Rightarrow> store_reply) \<Rightarrow> 'a bresult \<times> database \<Rightarrow> store_reply bresult \<times> database" where
  "reply_with k r = (rbind (fst r) (\<lambda>v. Inr (k v)), snd r)"

fun serve ::
    "platform \<Rightarrow> (str \<Rightarrow> str \<Rightarrow> bool) \<Rightarrow> engine \<Rightarrow> str \<Rightarrow> store_request \<Rightarrow> database \<Rightarrow>
       store_reply bresult \<times> database" where
  "serve pf fts en uuid (ReqQuery q) db = reply_with RepPage (db_read en (db_query pf fts q) db)"
| "serve pf fts en uuid (ReqGet i x) db = reply_with RepEntry (db_read en (db_get i x) db)"
| "serve pf fts en uuid (ReqEntryRevision i) db =
     reply_with RepRevision (db_read en (\<lambda>t. rbind (summary i None t) (\<lambda>s. Inr (es_revision s))) db)"
| "serve pf fts en uuid ReqRevision db = reply_with RepRevision (db_read en (\<lambda>t. Inr (t_revision t)) db)"
| "serve pf fts en uuid (ReqInsert mime bs) db = reply_with RepSummary (db_insert pf en uuid mime bs db)"
| "serve pf fts en uuid (ReqReplace i x mime bs) db = reply_with RepSummary (db_replace pf en i x mime bs db)"
| "serve pf fts en uuid (ReqFavorite i x v) db = reply_with (\<lambda>_. RepUnit) (db_favorite en i x v db)"
| "serve pf fts en uuid (ReqRemoveMany targets) db = reply_with (\<lambda>_. RepUnit) (db_remove_many en targets db)"
| "serve pf fts en uuid ReqWipe db = reply_with (\<lambda>_. RepUnit) (db_wipe en db)"
| "serve pf fts en uuid (ReqApplyPolicy pol) db = reply_with (\<lambda>_. RepUnit) (apply_policy en pol db)"
| "serve pf fts en uuid ReqPolicy db = reply_with RepPolicy (db_read en (\<lambda>t. Inr (t_policy t)) db)"
| "serve pf fts en uuid (ReqArtifactGet p) db =
     reply_with RepArtifact (db_read en (\<lambda>t. Inr (artifact_get p t)) db)"
| "serve pf fts en uuid (ReqArtifactCandidates before limit) db =
     reply_with RepArtifacts (db_read en (\<lambda>t. Inr (artifact_candidates before limit t)) db)"
| "serve pf fts en uuid ReqArtifacts db = reply_with RepArtifacts (db_read en (\<lambda>t. Inr (artifacts t)) db)"
| "serve pf fts en uuid (ReqRegisterArtifact rec) db =
     reply_with (\<lambda>_. RepUnit) (db_register_artifact en rec db)"
| "serve pf fts en uuid (ReqForgetArtifact p) db = reply_with (\<lambda>_. RepUnit) (db_forget_artifact en p db)"
| "serve pf fts en uuid ReqArtifactReferences db =
     reply_with RepPaths (db_read en (\<lambda>t. Inr (artifact_references t)) db)"
| "serve pf fts en uuid ReqInlineEchoes db =
     reply_with RepEchoes (db_read en (\<lambda>t. Inr (inline_echoes t)) db)"
| "serve pf fts en uuid (ReqRegisterInlineEcho rec) db =
     reply_with (\<lambda>_. RepUnit) (db_register_inline_echo en rec db)"
| "serve pf fts en uuid ReqClearInlineEchoes db = reply_with (\<lambda>_. RepUnit) (db_clear_inline_echoes en db)"

definition run_job ::
    "platform \<Rightarrow> (str \<Rightarrow> str \<Rightarrow> bool) \<Rightarrow> engine \<Rightarrow> str \<Rightarrow> store_request \<Rightarrow> database \<Rightarrow>
       store_reply bresult \<times> database" where
  "run_job pf fts en uuid r db =
    (if db_blocked db then (Inl (unavailable ''History storage is fenced; restart required''), db)
     else serve pf fts en uuid r db)"

text \<open>
  \<open>Database::shutdown\<close>: the row of \<open>PRAGMA wal_checkpoint(TRUNCATE)\<close> and the outcome of
  protecting the sidecars are the engine's.
\<close>

definition db_shutdown ::
    "engine \<Rightarrow> (int \<times> int \<times> int) option bresult \<Rightarrow> unit bresult \<Rightarrow> database \<Rightarrow> unit bresult \<times> database" where
  "db_shutdown en checkpoint sidecars db =
    (if db_blocked db
     then (Inl (unavailable ''Fenced history storage cannot confirm clean shutdown''), db)
     else case transaction en close_admission_body db of
       (Inl e, db') \<Rightarrow> (Inl e, db')
     | (Inr _, db') \<Rightarrow>
         (rbind checkpoint (\<lambda>row.
          rbind (ok_or row (unavailable ''History checkpoint returned no status'')) (\<lambda>(busy, log, moved).
            if busy \<noteq> 0 \<or> log \<noteq> moved then Inl (unavailable ''History checkpoint was incomplete'')
            else sidecars)), db'))"

lemma serve_step:
  "snd (serve pf fts en uuid r db) = db \<or> store_step pf db (snd (serve pf fts en uuid r db))"
  by (cases r) (auto simp: reply_with_def db_read_def intro: store_step.intros)

lemma run_job_step:
  "snd (run_job pf fts en uuid r db) = db \<or> store_step pf db (snd (run_job pf fts en uuid r db))"
  using serve_step by (auto simp: run_job_def)

lemma run_job_blocked: "db_blocked db \<Longrightarrow> snd (run_job pf fts en uuid r db) = db \<and> \<not> is_ok (fst (run_job pf fts en uuid r db))"
  by (simp add: run_job_def)

end
