(* ===== verification/Store_Queue.thy ===== *)
theory Store_Queue
  imports History_Store
begin

text \<open>
  The submission side and the owner thread of \<open>src/src/history_store/mod.rs\<close> as an interleaving
  step relation: \<open>reserve\<close>, \<open>submit\<close>, the receive loop of \<open>HistoryStore::open\<close>, and
  \<open>Inner::shutdown\<close>.  A job is the request with its reservation; it is held by its caller
  between \<open>reserve\<close> and \<open>submit\<close>, then queued, then executing, and its reservation is released
  when it is refused or has run.
\<close>

section \<open>State\<close>

record store_state =
  st_open :: bool
  st_bytes :: nat
  st_held :: "store_request list"
  st_queue :: "store_request list"
  st_running :: "store_request option"
  st_db :: database
  st_replies :: "(store_request \<times> store_reply bresult) list"
  st_exit :: "unit bresult option"

definition opened :: "database \<Rightarrow> store_state" where
  "opened db =
     \<lparr>st_open = True, st_bytes = 0, st_held = [], st_queue = [], st_running = None, st_db = db,
      st_replies = [], st_exit = None\<rparr>"

section \<open>Callers\<close>

definition reserve :: "nat \<Rightarrow> store_state \<Rightarrow> store_state bresult" where
  "reserve n st =
    (if \<not> st_open st then Inl (unavailable ''History storage is closed'')
     else if n > QUEUE_BYTE_BUDGET - st_bytes st
     then Inl (unavailable ''History input byte budget exhausted'')
     else Inr (st\<lparr>st_bytes := st_bytes st + n\<rparr>))"

text \<open>\<open>Drop for Reservation\<close>.\<close>

definition release :: "nat \<Rightarrow> store_state \<Rightarrow> store_state" where
  "release n st = st\<lparr>st_bytes := st_bytes st - n\<rparr>"

text \<open>A public method up to its call of \<open>submit\<close>: validation, then the reservation.\<close>

definition enter :: "store_request \<Rightarrow> store_state \<Rightarrow> store_state bresult" where
  "enter r st =
     rbind (validate_request r) (\<lambda>_.
     rbind (reserve (request_bytes r) st) (\<lambda>st1. Inr (st1\<lparr>st_held := r # st_held st1\<rparr>)))"

text \<open>\<open>try_send\<close> under the submission lock; a refused job is dropped with its reservation.\<close>

definition submit :: "store_request \<Rightarrow> store_state \<Rightarrow> unit bresult \<times> store_state" where
  "submit r st =
    (let st1 = st\<lparr>st_held := remove1 r (st_held st)\<rparr> in
     if st_open st \<and> length (st_queue st) < QUEUE_CAPACITY
     then (Inr (), st1\<lparr>st_queue := st_queue st1 @ [r]\<rparr>)
     else (Inl (unavailable ''History queue is full or closed''), release (request_bytes r) st1))"

text \<open>\<open>Inner::shutdown\<close> takes the sender before it joins.\<close>

definition close :: "store_state \<Rightarrow> store_state" where
  "close st = st\<lparr>st_open := False\<rparr>"

section \<open>The owner thread\<close>

definition take_job :: "store_state \<Rightarrow> store_state" where
  "take_job st =
    (case st_queue st of
       [] \<Rightarrow> st
     | r # rs \<Rightarrow> st\<lparr>st_queue := rs, st_running := Some r\<rparr>)"

definition finish_job ::
    "platform \<Rightarrow> (str \<Rightarrow> str \<Rightarrow> bool) \<Rightarrow> engine \<Rightarrow> str \<Rightarrow> store_request \<Rightarrow> store_state \<Rightarrow> store_state" where
  "finish_job pf fts en uuid r st =
    (let (reply, db) = run_job pf fts en uuid r (st_db st) in
     (release (request_bytes r) st)\<lparr>st_running := None, st_db := db, st_replies := st_replies st @ [(r, reply)]\<rparr>)"

definition owner_exit ::
    "engine \<Rightarrow> (int \<times> int \<times> int) option bresult \<Rightarrow> unit bresult \<Rightarrow> store_state \<Rightarrow> store_state" where
  "owner_exit en ck sides st =
    (let (outcome, db) = db_shutdown en ck sides (st_db st) in st\<lparr>st_db := db, st_exit := Some outcome\<rparr>)"

inductive queue_step ::
    "platform \<Rightarrow> (str \<Rightarrow> str \<Rightarrow> bool) \<Rightarrow> store_state \<Rightarrow> store_state \<Rightarrow> bool" for pf fts where
  q_enter: "enter r st = Inr st' \<Longrightarrow> queue_step pf fts st st'"
| q_submit: "r \<in> set (st_held st) \<Longrightarrow> queue_step pf fts st (snd (submit r st))"
| q_close: "queue_step pf fts st (close st)"
| q_take: "st_running st = None \<Longrightarrow> st_exit st = None \<Longrightarrow> st_queue st \<noteq> [] \<Longrightarrow>
    queue_step pf fts st (take_job st)"
| q_finish: "st_running st = Some r \<Longrightarrow> queue_step pf fts st (finish_job pf fts en uuid r st)"
| q_exit: "st_running st = None \<Longrightarrow> st_exit st = None \<Longrightarrow> st_queue st = [] \<Longrightarrow> \<not> st_open st \<Longrightarrow>
    queue_step pf fts st (owner_exit en ck sides st)"

inductive_cases queue_stepE: "queue_step pf fts st st'"

inductive queue_reachable :: "platform \<Rightarrow> (str \<Rightarrow> str \<Rightarrow> bool) \<Rightarrow> store_state \<Rightarrow> bool" for pf fts where
  qr_open: "store_reachable pf db \<Longrightarrow> queue_reachable pf fts (opened db)"
| qr_step: "queue_reachable pf fts st \<Longrightarrow> queue_step pf fts st st' \<Longrightarrow> queue_reachable pf fts st'"

section \<open>The byte budget\<close>

text \<open>Every request whose reservation is outstanding.\<close>

definition outstanding :: "store_state \<Rightarrow> store_request multiset" where
  "outstanding st =
     mset (st_held st) + mset (st_queue st) +
     (case st_running st of None \<Rightarrow> {#} | Some r \<Rightarrow> {#r#})"

definition budget_ok :: "store_state \<Rightarrow> bool" where
  "budget_ok st \<longleftrightarrow>
     st_bytes st = sum_mset (image_mset request_bytes (outstanding st)) \<and>
     st_bytes st \<le> QUEUE_BYTE_BUDGET \<and> length (st_queue st) \<le> QUEUE_CAPACITY \<and>
     (\<forall>r. st_exit st = Some r \<longrightarrow> \<not> st_open st \<and> st_queue st = [] \<and> st_running st = None)"

lemma enter_Inr:
  "enter r st = Inr st' \<longleftrightarrow>
     validate_request r = Inr () \<and> st_open st \<and> request_bytes r \<le> QUEUE_BYTE_BUDGET - st_bytes st \<and>
     st' = st\<lparr>st_bytes := st_bytes st + request_bytes r, st_held := r # st_held st\<rparr>"
  by (cases "validate_request r") (auto simp: enter_def reserve_def)

lemma mset_remove1_held:
  fixes f :: "store_request \<Rightarrow> nat"
  shows "r \<in> set xs \<Longrightarrow> sum_mset (image_mset f (mset xs)) = f r + sum_mset (image_mset f (mset (remove1 r xs)))"
  by (induction xs) auto

lemma budget_ok_enter: "budget_ok st \<Longrightarrow> enter r st = Inr st' \<Longrightarrow> budget_ok st'"
  by (auto simp: budget_ok_def enter_Inr outstanding_def)

lemma budget_ok_submit: "budget_ok st \<Longrightarrow> r \<in> set (st_held st) \<Longrightarrow> budget_ok (snd (submit r st))"
  using mset_remove1_held[of r "st_held st" request_bytes]
  by (auto simp: budget_ok_def submit_def release_def outstanding_def Let_def split: option.splits)

lemma budget_ok_take: "budget_ok st \<Longrightarrow> st_running st = None \<Longrightarrow> st_exit st = None \<Longrightarrow> budget_ok (take_job st)"
  by (auto simp: budget_ok_def take_job_def outstanding_def split: list.splits)

lemma budget_ok_finish: "budget_ok st \<Longrightarrow> st_running st = Some r \<Longrightarrow> budget_ok (finish_job pf fts en uuid r st)"
  by (auto simp: budget_ok_def finish_job_def release_def outstanding_def Let_def split: prod.splits)

lemma budget_ok_exit:
  "budget_ok st \<Longrightarrow> st_running st = None \<Longrightarrow> st_queue st = [] \<Longrightarrow> \<not> st_open st \<Longrightarrow> budget_ok (owner_exit en ck sides st)"
  by (auto simp: budget_ok_def owner_exit_def outstanding_def Let_def split: prod.splits)

lemma budget_ok_close: "budget_ok st \<Longrightarrow> budget_ok (close st)"
  by (auto simp: budget_ok_def close_def outstanding_def)

lemma budget_ok_step: "queue_step pf fts st st' \<Longrightarrow> budget_ok st \<Longrightarrow> budget_ok st'"
  by (erule queue_stepE)
    (auto intro: budget_ok_enter budget_ok_submit budget_ok_take budget_ok_finish budget_ok_exit budget_ok_close)

lemma budget_ok_opened: "budget_ok (opened db)"
  by (simp add: budget_ok_def opened_def outstanding_def)

lemma reachable_budget: "queue_reachable pf fts st \<Longrightarrow> budget_ok st"
  by (induction rule: queue_reachable.induct) (auto intro: budget_ok_opened budget_ok_step)

text \<open>What a release gives back was reserved: the subtraction of \<open>Drop\<close> cannot underflow.\<close>

lemma budget_covers: "budget_ok st \<Longrightarrow> r \<in># outstanding st \<Longrightarrow> request_bytes r \<le> st_bytes st"
  by (auto simp: budget_ok_def dest!: multi_member_split)

section \<open>The database behind the queue\<close>

lemma db_shutdown_step:
  "snd (db_shutdown en ck sides db) = db \<or> store_step pf db (snd (db_shutdown en ck sides db))"
  using step_shutdown[of pf db en] by (auto simp: db_shutdown_def split: prod.splits sum.splits)

lemma queue_step_db: "queue_step pf fts st st' \<Longrightarrow> st_db st' = st_db st \<or> store_step pf (st_db st) (st_db st')"
proof (erule queue_stepE)
  fix r en uuid assume "st' = finish_job pf fts en uuid r st"
  then show ?thesis using run_job_step[of pf fts en uuid r "st_db st"]
    by (auto simp: finish_job_def release_def Let_def split: prod.splits)
next
  fix en ck sides assume "st' = owner_exit en ck sides st"
  then show ?thesis using db_shutdown_step[of en ck sides "st_db st" pf]
    by (auto simp: owner_exit_def Let_def split: prod.splits)
qed (auto simp: enter_Inr submit_def release_def close_def take_job_def Let_def split: list.splits)

lemma queue_reachable_store: "queue_reachable pf fts st \<Longrightarrow> store_reachable pf (st_db st)"
proof (induction rule: queue_reachable.induct)
  case (qr_step st st')
  then show ?case using queue_step_db[of pf fts st st'] reach_step by metis
qed (simp add: opened_def)

section \<open>Order and drain\<close>

text \<open>The requests the queue accepted, in the order of their replies to come.\<close>

definition accepted :: "store_state \<Rightarrow> store_request list" where
  "accepted st =
     map fst (st_replies st) @ (case st_running st of None \<Rightarrow> [] | Some r \<Rightarrow> [r]) @ st_queue st"

lemma accepted_simps:
  "accepted (st\<lparr>st_open := b\<rparr>) = accepted st" "accepted (release n st) = accepted st"
  "accepted (st\<lparr>st_held := h\<rparr>) = accepted st" "accepted (st\<lparr>st_bytes := n\<rparr>) = accepted st"
  by (simp_all add: accepted_def release_def)

lemma queue_step_accepted:
  "queue_step pf fts st st' \<Longrightarrow>
     accepted st' = accepted st \<or> (st_open st \<and> (\<exists>r \<in> set (st_held st). accepted st' = accepted st @ [r]))"
proof (erule queue_stepE)
  fix r assume "st' = snd (submit r st)" "r \<in> set (st_held st)"
  then show ?thesis
    by (auto simp: submit_def Let_def accepted_def release_def split: option.splits)
qed (auto simp: enter_Inr close_def take_job_def finish_job_def owner_exit_def accepted_def release_def Let_def
    split: list.splits prod.splits)

lemma queue_step_stays_closed: "queue_step pf fts st st' \<Longrightarrow> \<not> st_open st \<Longrightarrow> \<not> st_open st'"
  by (erule queue_stepE)
    (auto simp: enter_Inr close_def take_job_def finish_job_def owner_exit_def submit_def release_def Let_def
      split: list.splits prod.splits)

lemma queue_step_closed: "queue_step pf fts st st' \<Longrightarrow> \<not> st_open st \<Longrightarrow> \<not> st_open st' \<and> accepted st' = accepted st"
  using queue_step_accepted queue_step_stays_closed by blast

text \<open>Once closed, no method passes and no submission is accepted.\<close>

lemma closed_refuses:
  assumes "\<not> st_open st"
  shows "\<exists>e. enter r st = Inl e" "\<exists>e. fst (submit r st) = Inl e"
proof -
  show "\<exists>e. enter r st = Inl e" using assms by (cases "validate_request r") (auto simp: enter_def reserve_def)
  show "\<exists>e. fst (submit r st) = Inl e" using assms by (simp add: submit_def Let_def)
qed

text \<open>The owner's loop after closure: run what is left, in order.\<close>

fun drain :: "platform \<Rightarrow> (str \<Rightarrow> str \<Rightarrow> bool) \<Rightarrow> engine \<Rightarrow> str \<Rightarrow> nat \<Rightarrow> store_state \<Rightarrow> store_state" where
  "drain pf fts en uuid 0 st = st"
| "drain pf fts en uuid (Suc n) st =
     (case st_running st of
        Some r \<Rightarrow> drain pf fts en uuid n (finish_job pf fts en uuid r st)
      | None \<Rightarrow> (case st_queue st of [] \<Rightarrow> st | _ # _ \<Rightarrow> drain pf fts en uuid n (take_job st)))"

definition backlog :: "store_state \<Rightarrow> nat" where
  "backlog st = 2 * length (st_queue st) + (case st_running st of None \<Rightarrow> 0 | Some _ \<Rightarrow> 1)"

lemma drain_empties:
  "backlog st \<le> n \<Longrightarrow> let st' = drain pf fts en uuid n st in
     st_queue st' = [] \<and> st_running st' = None \<and> accepted st' = accepted st \<and> st_open st' = st_open st"
proof (induction pf fts en uuid n st rule: drain.induct)
  case (1 pf fts en uuid st)
  then show ?case by (simp add: backlog_def split: option.splits)
next
  case (2 pf fts en uuid n st)
  show ?case
  proof (cases "st_running st")
    case None
    then show ?thesis
      using 2 by (cases "st_queue st") (auto simp: backlog_def take_job_def accepted_def Let_def)
  next
    case (Some r)
    let ?s = "finish_job pf fts en uuid r st"
    have "backlog ?s \<le> n" "accepted ?s = accepted st" "st_open ?s = st_open st"
      using Some 2(3) by (auto simp: backlog_def accepted_def finish_job_def release_def Let_def split: prod.splits)
    then show ?thesis using 2(2)[OF Some] Some by (simp add: Let_def)
  qed
qed

section \<open>Shutdown status\<close>

record shutdown_handle =
  sh_open :: bool
  sh_worker :: bool
  sh_error :: "(backend_error_kind \<times> str) option"

text \<open>\<open>Inner::shutdown\<close>; \<open>joined\<close> is what the owner thread returns, None when it panicked.\<close>

definition inner_shutdown :: "unit bresult option \<Rightarrow> shutdown_handle \<Rightarrow> unit bresult \<times> shutdown_handle" where
  "inner_shutdown joined h =
    (let h1 = h\<lparr>sh_open := False\<rparr> in
     case sh_error h1 of
       Some (kind, message) \<Rightarrow> (Inl (BackendError kind message), h1)
     | None \<Rightarrow>
         (let outcome = (if sh_worker h1
                         then (case joined of Some r \<Rightarrow> r | None \<Rightarrow> Inl (unavailable ''History worker failed''))
                         else Inr ());
              h2 = h1\<lparr>sh_worker := False\<rparr>
          in (outcome, case outcome of
                         Inl e \<Rightarrow> h2\<lparr>sh_error := Some (be_kind e, be_message e)\<rparr>
                       | Inr _ \<Rightarrow> h2)))"

lemma inner_shutdown_repeats:
  "fst (inner_shutdown j2 (snd (inner_shutdown j1 h))) = fst (inner_shutdown j1 h)"
  by (auto simp: inner_shutdown_def Let_def split: option.splits sum.splits)

lemma inner_shutdown_closes: "\<not> sh_open (snd (inner_shutdown j h))"
  by (auto simp: inner_shutdown_def Let_def split: option.splits sum.splits)

end
