(* ===== verification/Storage_Examples.thy ===== *)
theory Storage_Examples
  imports Store_Queue
begin

text \<open>
  Concrete store states the witnesses share: an empty store that admits, and the store after
  one insertion, computed by the model itself on a platform without files.
\<close>

lemmas utf8_eval =
  utf8_step_def byte_at_def utf8_cont_def utf8_second3_def utf8_second4_def
  chars_def valid_utf8_def from_utf8_def replacement_char_def

lemmas str_eval =
  trim_def trim_chars_def is_whitespace_def before_semicolon_def to_ascii_lowercase_def
  eq_ignore_ascii_case_def starts_with_def strip_prefix_def str_lines_def strip_cr_def
  split_whitespace_def join_words_def

lemmas store_eval =
  rows_ok_def registry_ok_def meta_ok_def policy_check_def entry_ids_def entry_check_def kind_labels_def
  bump_def sequence_def i64_max_def allowed_payload_def dedup_candidate_def insert_store_def insert_row_def
  insert_entry_def write_content_def insert_payload_def insert_search_def summary_def decode_summary_def
  decode_kind_def find_entry_def max_recency_def ok_or_def

definition demo_policy :: store_policy where
  "demo_policy = \<lparr>sp_admission = True, sp_max_entries = 2, sp_max_favorites = 1,
     sp_max_entry_bytes = 16, sp_max_total_bytes = 32\<rparr>"

definition demo_empty :: tables where
  "demo_empty = fresh_tables\<lparr>t_policy := demo_policy\<rparr>"

definition demo_row :: entry_row where
  "demo_row =
     \<lparr>er_id = ''entry-a'', er_revision = 1, er_favorite = False, er_recency = 1, er_mime = ''text/plain'',
      er_resolved_mime = ''text/plain'', er_echo_source = None, er_byte_size = 2,
      er_digest = replicate 32 (CHR ''h''), er_preview = ''hi'', er_kind = ''Text''\<rparr>"

definition demo_one :: tables where
  "demo_one =
     demo_empty\<lparr>t_revision := 1, t_sequence := 1, t_entries := [demo_row],
       t_payloads := [(''entry-a'', ''hi'')],
       t_search := [search_row_of bare_platform ''entry-a'' ''text/plain'' ''hi'']\<rparr>"

definition demo_summary :: entry_summary where
  "demo_summary =
     \<lparr>es_id = ''entry-a'', es_revision = 1, es_kind = Text, es_mime = ''text/plain'', es_byte_size = 2,
      es_favorite = False, es_current = True, es_preview = ''hi''\<rparr>"

lemma good_demo_empty: "good pf demo_empty"
  by (simp add: good_def store_ok_def demo_empty_def demo_policy_def fresh_tables_def store_eval
      within_policy_def counts_ok_def category_def total_bytes_def)

lemma canonical_text_plain: "canonical_mime ''text/plain'' = ''text/plain''"
  by (simp add: utf8_eval str_eval canonical_mime_def Let_def)

lemma resolve_hi:
  "resolve bare_platform ''text/plain'' ''hi'' n =
     \<lparr>rc_stored_mime = ''text/plain'', rc_kind = Text, rc_files = [], rc_image = None\<rparr>"
  by (simp add: resolve_def bare_platform_def Let_def canonical_text_plain detected_image_mime_def
      parse_files_def utf8_eval str_eval local_image_source_from_files_def classify_def
      authoritative_kind_def semantic_text_kind_def looks_like_url_def looks_like_json_def
      looks_like_color_def INSPECTION_LIMIT_def map_filter_def file_preview_of_def)

lemma preview_hi: "bounded_preview ''hi'' INSPECTION_LIMIT = ''hi''"
  by (simp add: utf8_eval str_eval bounded_preview_def preview_chars_def Let_def INSPECTION_LIMIT_def
      PREVIEW_LIMIT_def preview_character_is_visible_def is_control_def truncate_utf8_def)

lemma sha_bare: "pf_sha256 bare_platform bs = replicate 32 (CHR ''h'')"
  by (simp add: bare_platform_def)

lemma paths_hi: "referenced_paths bare_platform ''hi'' = []"
  by (simp add: referenced_paths_def utf8_eval str_eval map_filter_def url_path_def bare_platform_def)

lemma chars_text_plain: "length (chars ''text/plain'') = 10"
  by (simp add: utf8_eval)

lemma new_row_hi: "new_row bare_platform ''entry-a'' 1 1 ''text/plain'' ''hi'' = demo_row"
  by (simp add: new_row_def resolve_hi Let_def rc_mime_def sha_bare preview_hi demo_row_def)

lemma demo_write:
  "insert_row bare_platform ''a'' ''text/plain'' ''hi'' None 1 1 (demo_empty\<lparr>t_revision := 1, t_sequence := 1\<rparr>) =
     Inr (''entry-a'', demo_one)"
  by (simp add: demo_empty_def demo_policy_def fresh_tables_def store_eval new_row_hi[simplified] resolve_hi
      demo_row_def demo_one_def paths_hi echo_of_def local_image_def chars_text_plain search_row_of_def Let_def
      sha_bare del: rbind_Inr_iff)

lemma demo_summary_one: "summary ''entry-a'' None demo_one = Inr demo_summary"
  by (simp add: demo_one_def demo_row_def store_eval demo_summary_def del: rbind_Inr_iff)

lemma demo_within: "within_policy demo_policy demo_one"
  by (simp add: within_policy_def counts_ok_def category_def total_bytes_def demo_one_def demo_row_def demo_policy_def)

lemma demo_retain: "retain demo_policy (Some ''entry-a'') demo_one = Inr demo_one"
  by (simp add: retain_eq retain_chain_noop[OF demo_within] demo_summary_one del: rbind_Inr_iff)

lemma demo_insert:
  "insert_body bare_platform ''a'' ''text/plain'' ''hi'' demo_empty = Inr (demo_summary, demo_one)"
proof -
  have "bump demo_empty = Inr (1, demo_empty\<lparr>t_revision := 1\<rparr>)"
    "sequence (demo_empty\<lparr>t_revision := 1\<rparr>) = Inr (1, demo_empty\<lparr>t_revision := 1, t_sequence := 1\<rparr>)"
    "dedup_candidate bare_platform ''text/plain'' ''hi'' demo_empty = None"
    "allowed_payload demo_policy ''hi'' = Inr ()" "t_policy demo_empty = demo_policy" "sp_admission demo_policy"
    by (simp_all add: store_eval demo_empty_def fresh_tables_def demo_policy_def)
  then show ?thesis
    by (simp add: insert_body_def insert_store_def demo_write[simplified] demo_retain demo_summary_one del: rbind_Inr_iff)
qed

lemma good_demo_one: "good bare_platform demo_one"
  by (rule insert_body_good[OF good_demo_empty demo_insert])

text \<open>The entry replaced by the same text: only the revision moves.\<close>

definition demo_two :: tables where
  "demo_two = demo_one\<lparr>t_revision := 2, t_entries := [demo_row\<lparr>er_revision := 2\<rparr>]\<rparr>"

lemma replace_row_hi: "replace_row bare_platform 2 ''text/plain'' ''hi'' demo_row = demo_row\<lparr>er_revision := 2\<rparr>"
  by (simp add: replace_row_def resolve_hi Let_def rc_mime_def sha_bare preview_hi demo_row_def)

lemma demo_two_simps:
  "t_entries demo_one = [demo_row]" "t_revision demo_one = 1" "t_policy demo_one = demo_policy"
  "er_id demo_row = ''entry-a''" "er_revision demo_row = 1" "er_echo_source demo_row = None"
  by (simp_all add: demo_one_def demo_empty_def demo_row_def)

lemma demo_rewrite:
  "write_content bare_platform ''entry-a'' ''text/plain'' ''hi'' (resolve bare_platform ''text/plain'' ''hi'' MAX_ENTRY_BYTES)
     (drop_content ''entry-a'' demo_two) = Inr demo_two"
  by (simp add: write_content_def insert_payload_def insert_search_def paths_hi echo_of_def local_image_def resolve_hi
      drop_content_def demo_two_def demo_one_def demo_row_def demo_empty_def fresh_tables_def search_row_of_def Let_def
      del: rbind_Inr_iff)

lemma demo_replace:
  "replace_body bare_platform ''entry-a'' 1 ''text/plain'' ''hi'' demo_one =
     Inr (demo_summary\<lparr>es_revision := 2\<rparr>, demo_two)"
proof -
  let ?r = "demo_row\<lparr>er_revision := 2\<rparr>"
  have "entry_check ?r" by (simp add: entry_check_def demo_row_def kind_labels_def chars_text_plain)
  then have u: "update_entries (\<lambda>e. er_id e = ''entry-a'' \<and> er_revision e = 1)
      (replace_row bare_platform 2 ''text/plain'' ''hi'') (demo_one\<lparr>t_revision := 2\<rparr>) = Inr demo_two"
    by (simp add: update_entries_def demo_two_simps demo_two_simps(5)[simplified] replace_row_hi demo_two_def)
  have e: "update_entries (\<lambda>e. er_echo_source e = Some ''entry-a'') (\<lambda>e. e\<lparr>er_echo_source := None\<rparr>) demo_two = Inr demo_two"
    by (simp add: update_entries_def demo_two_def demo_two_simps)
  have "within_policy demo_policy demo_two"
    by (simp add: within_policy_def counts_ok_def category_def total_bytes_def demo_two_def demo_row_def demo_policy_def)
  moreover have s: "summary ''entry-a'' None demo_two = Inr (demo_summary\<lparr>es_revision := 2\<rparr>)"
    by (simp add: demo_two_def demo_row_def store_eval demo_summary_def del: rbind_Inr_iff)
  ultimately have ret: "retain demo_policy (Some ''entry-a'') demo_two = Inr demo_two"
    by (simp add: retain_eq retain_chain_noop del: rbind_Inr_iff)
  have "summary ''entry-a'' (Some 1) demo_one = Inr demo_summary"
    by (simp add: demo_one_def demo_row_def store_eval demo_summary_def del: rbind_Inr_iff)
  moreover have "allowed_payload demo_policy ''hi'' = Inr ()" "bump demo_one = Inr (2, demo_one\<lparr>t_revision := 2\<rparr>)"
    by (simp_all add: allowed_payload_def demo_policy_def bump_def demo_two_simps numeral_2_eq_2[symmetric])
  ultimately show ?thesis
    using u e ret s unfolding replace_body_def Let_def demo_two_simps by (simp add: demo_rewrite del: rbind_Inr_iff)
qed

end
