(* ===== verification/History_Readback.thy ===== *)
theory History_Readback
  imports Storage_Op
begin

text \<open>
  What a committed mutation leaves behind: the row and the exact bytes of the mutated entry can
  be read back, other fields stay as they were, and refused batches name their reason.
\<close>

section \<open>Rows through the content statements\<close>

text \<open>A row without its echo link, the only column content statements change.\<close>

definition core :: "entry_row \<Rightarrow> entry_row" where
  "core e = e\<lparr>er_echo_source := None\<rparr>"

lemma core_simps [simp]:
  "er_id (core e) = er_id e" "er_revision (core e) = er_revision e" "er_favorite (core e) = er_favorite e"
  "er_recency (core e) = er_recency e" "er_mime (core e) = er_mime e" "er_byte_size (core e) = er_byte_size e"
  "er_digest (core e) = er_digest e"
  "core (e\<lparr>er_echo_source := x\<rparr>) = core e"
  by (simp_all add: core_def)

lemma core_eqD:
  assumes "core a = core b"
  shows "er_id a = er_id b" "er_revision a = er_revision b" "er_favorite a = er_favorite b"
    "er_recency a = er_recency b" "er_mime a = er_mime b" "er_byte_size a = er_byte_size b"
proof -
  have "er_id (core a) = er_id (core b)" "er_revision (core a) = er_revision (core b)"
    "er_favorite (core a) = er_favorite (core b)" "er_recency (core a) = er_recency (core b)"
    "er_mime (core a) = er_mime (core b)" "er_byte_size (core a) = er_byte_size (core b)"
    by (simp_all only: assms)
  then show "er_id a = er_id b" "er_revision a = er_revision b" "er_favorite a = er_favorite b"
    "er_recency a = er_recency b" "er_mime a = er_mime b" "er_byte_size a = er_byte_size b"
    by (simp_all only: core_simps)
qed

lemma same_row_core: "same_row e e' \<Longrightarrow> core e' = core e"
  unfolding same_row_def by (elim disjE) simp_all

lemma insert_references_frame:
  "insert_references i ps t = Inr t' \<Longrightarrow>
     t_entries t' = t_entries t \<and> t_payloads t' = t_payloads t \<and> t_sequence t' = t_sequence t \<and> t_revision t' = t_revision t \<and>
     t_policy t' = t_policy t"
  by (induction ps arbitrary: t) (fastforce simp: insert_entry_artifact_def split: if_splits)+

lemma write_content_frame:
  assumes "write_content pf i mime bs rc t = Inr t'"
  shows "map core (t_entries t') = map core (t_entries t) \<and> t_sequence t' = t_sequence t \<and>
    t_revision t' = t_revision t \<and> t_payloads t' = t_payloads t @ [(i, bs)] \<and> t_policy t' = t_policy t"
proof -
  let ?t1 = "t\<lparr>t_payloads := t_payloads t @ [(i, bs)]\<rparr>"
  obtain t3 where r: "insert_references i (referenced_paths pf bs)
      (?t1\<lparr>t_search := t_search ?t1 @ [search_row_of pf i mime bs]\<rparr>) = Inr t3"
    and e: "(case echo_of pf i rc t3 of None \<Rightarrow> Inr t3 | Some src \<Rightarrow>
        update_entries (\<lambda>e. er_id e = i) (\<lambda>e. e\<lparr>er_echo_source := Some src\<rparr>) t3) = Inr t'"
    using assms by (auto simp: write_content_def insert_payload_def insert_search_def split: if_splits)
  note f = insert_references_frame[OF r]
  show ?thesis
    using e f by (auto simp: update_entries_Inr split: option.splits intro!: map_cong)
qed

section \<open>Survivors of retention\<close>

lemma retain_payload:
  assumes "rows_ok t" "k \<in> entry_ids (retain_chain pol i t)"
  shows "map_of (t_payloads (retain_chain pol i t)) k = map_of (t_payloads t) k"
proof -
  let ?P = "\<lambda>u. rows_ok u \<and> (\<forall>k \<in> entry_ids u. map_of (t_payloads u) k = map_of (t_payloads t) k)"
  have "?P (delete_entries p u)" if u: "?P u" for p u
  proof -
    have d: "distinct (map er_id (t_entries u))" using u by (simp add: rows_ok_def)
    have "map_of (t_payloads (delete_entries p u)) k = map_of (t_payloads t) k" if k: "k \<in> entry_ids (delete_entries p u)" for k
    proof -
      obtain e where e: "e \<in> set (t_entries u)" "\<not> p e" "er_id e = k"
        using k by (auto simp: entry_ids_delete)
      have "k \<notin> set (map er_id (filter p (t_entries u)))" using kept_id_not_gone[of "t_entries u" e p, OF d e(1,2)] e(3) by auto
      then show ?thesis using u e by (auto simp: delete_entries_def Let_def map_of_filter_key entry_ids_def)
    qed
    then show ?thesis using u rows_ok_delete by blast
  qed
  moreover have "?P t" using assms(1) by blast
  ultimately have "?P (retain_chain pol i t)" using retain_chain_preserves[of ?P t pol i] by blast
  then show ?thesis using assms(2) by blast
qed

text \<open>The protected entry after retention, read back.\<close>

lemma retained_target:
  assumes ok: "store_ok pf t" and ret: "retain pol (Some i) t = Inr t'" and su: "summary i x t' = Inr s"
    and pay: "map_of (t_payloads t) i = Some bs"
  shows "\<exists>e0 \<in> set (t_entries t). \<exists>e. find_entry i t' = Some e \<and> core e = core e0 \<and> er_id e0 = i \<and>
    es_id s = i \<and> es_revision s = er_revision e0 \<and> es_favorite s = er_favorite e0 \<and>
    (es_current s \<longleftrightarrow> er_recency e0 = max_recency (t_entries t')) \<and>
    map_of (t_payloads t') i = Some bs \<and>
    db_get i x t' = Inr \<lparr>se_summary = s, se_mime = er_mime e0, se_bytes = bs\<rparr>"
proof -
  have t': "t' = retain_chain pol i t" using retain_result[OF ret] by simp
  obtain e where e: "find_entry i t' = Some e" "decode_summary t' e = Inr s" using summary_Inr[OF su] by blast
  then have mem: "e \<in> set (t_entries t')" "er_id e = i" using find_entry_Some by blast+
  then obtain e0 where e0: "e0 \<in> set (t_entries t)" "core e = core e0"
    using retain_chain_rows t' same_row_core by metis
  have "i \<in> entry_ids t'" using mem by (auto simp: entry_ids_def)
  then have pay': "map_of (t_payloads t') i = Some bs"
    using retain_payload[of t i pol i] ok pay t' by (simp add: store_ok_def)
  have "store_ok pf t'" using ok t' store_ok_retain by simp
  then have "length bs = er_byte_size e"
    using mem pay' by (auto simp: store_ok_def list_all_iff entry_ok_alt payload_ok_alt)
  then have "db_get i x t' = Inr \<lparr>se_summary = s, se_mime = er_mime e, se_bytes = bs\<rparr>"
    using su pay' e decode_summary_fields[OF e(2)] by (simp add: db_get_def ok_or_def del: rbind_Inr_iff)
  then show ?thesis
    using e0 e mem pay' decode_summary_fields[OF e(2)] core_eqD[OF e0(2)] by metis
qed

lemma max_recency_eq: "\<forall>e \<in> set es. er_recency e \<le> n \<Longrightarrow> \<exists>e \<in> set es. er_recency e = n \<Longrightarrow> max_recency es = n"
proof -
  assume a: "\<forall>e \<in> set es. er_recency e \<le> n" "\<exists>e \<in> set es. er_recency e = n"
  have "max_recency es \<le> n" using a(1) by (induction es) (auto simp: max_recency_def)
  then show ?thesis using a(2) max_recency_ge le_antisym by blast
qed

section \<open>Insert\<close>

lemma map_core_mem: "map core xs = map core ys \<Longrightarrow> x \<in> set xs \<Longrightarrow> \<exists>y \<in> set ys. core x = core y"
  by (metis imageE imageI list.set_map)

lemma insert_row_target:
  assumes ok: "store_ok pf t" and b: "bump t = Inr (r, t1)" and q: "sequence t1 = Inr (n, t2)"
    and row: "insert_row pf uuid mime bs (dedup_candidate pf mime bs t) r n t2 = Inr (i, t3)"
  shows "t_sequence t3 = n \<and> (\<forall>e \<in> set (t_entries t3). er_id e = i \<longrightarrow> er_mime e = mime \<and> er_recency e = n \<and> er_revision e = r) \<and>
    (case dedup_candidate pf mime bs t of
       Some e \<Rightarrow> i = er_id e \<and> entry_ids t3 = entry_ids t
     | None \<Rightarrow> i = ''entry-'' @ uuid \<and> i \<notin> entry_ids t \<and> entry_ids t3 = insert i (entry_ids t))"
proof (cases "dedup_candidate pf mime bs t")
  case (Some e)
  let ?f = "\<lambda>x. x\<lparr>er_revision := r, er_recency := n\<rparr>"
  have t2: "t2 = t\<lparr>t_revision := r, t_sequence := n\<rparr>" using b q by (auto simp: bump_Inr sequence_Inr)
  have i: "i = er_id e" and up: "update_entries (\<lambda>x. er_id x = er_id e) ?f t2 = Inr t3"
    using row Some by (auto simp: insert_row_def)
  have t3: "t3 = t2\<lparr>t_entries := map (\<lambda>x. if er_id x = er_id e then ?f x else x) (t_entries t)\<rparr>"
    using up by (simp add: update_entries_Inr t2)
  have "er_mime x = mime" if "x \<in> set (t_entries t)" "er_id x = i" for x
    using that dedup_candidate_Some[OF Some] ok i by (metis distinct_ids_inj rows_ok_distinct store_ok_def)
  moreover have "entry_ids t3 = entry_ids t" by (rule entry_ids_map) (simp add: t3)
  ultimately show ?thesis using i Some by (auto simp: t3 t2)
next
  case None
  let ?i = "''entry-'' @ uuid" and ?e = "new_row pf (''entry-'' @ uuid) r n mime bs"
  obtain t4 where i: "i = ?i" and ins: "insert_entry ?e t2 = Inr t4"
    and w: "write_content pf ?i mime bs (resolve pf mime bs MAX_ENTRY_BYTES) t4 = Inr t3"
    using row None by (auto simp: insert_row_def Let_def split: if_splits)
  have t2: "t_entries t2 = t_entries t" "t_sequence t2 = n" using b q by (auto simp: bump_Inr sequence_Inr)
  have fresh: "?i \<notin> entry_ids t" and t4: "t_entries t4 = t_entries t @ [?e]" "t_sequence t4 = n"
    using ins t2 by (auto simp: insert_entry_Inr entry_ids_def)
  note w' = write_content_frame[OF w]
  have "er_mime e = mime \<and> er_recency e = n \<and> er_revision e = r" if e: "e \<in> set (t_entries t3)" "er_id e = i" for e
  proof -
    obtain e4 where e4: "e4 \<in> set (t_entries t4)" "core e = core e4"
      using map_core_mem[OF conjunct1[OF w'] e(1)] by blast
    have "er_id e4 = ?i" using core_eqD(1)[OF e4(2)] e(2) i by simp
    then have "e4 \<notin> set (t_entries t)" using fresh unfolding entry_ids_def by (metis imageI)
    then have "e4 = ?e" using e4(1) by (simp add: t4)
    then show ?thesis using core_eqD[OF e4(2)] by simp
  qed
  moreover have "map er_id (t_entries t3) = map er_id (t_entries t4)"
    using arg_cong[OF conjunct1[OF w'], of "map er_id"] by (simp add: o_def)
  then have "entry_ids t3 = entry_ids t4" by (rule entry_ids_map)
  then have "entry_ids t3 = insert i (entry_ids t)" by (simp add: entry_ids_def[of t4] t4 i entry_ids_def[of t])
  ultimately show ?thesis using i fresh w' t4(2) None by auto
qed

lemma insert_store_result:
  assumes g: "good pf t" and st: "insert_store pf uuid mime bs (dedup_candidate pf mime bs t) t = Inr (s, t')"
  shows "db_get (es_id s) (Some (es_revision s)) t' = Inr \<lparr>se_summary = s, se_mime = mime, se_bytes = bs\<rparr> \<and>
    es_current s \<and> es_revision s = t_revision t + 1 \<and>
    (case dedup_candidate pf mime bs t of
       Some e \<Rightarrow> es_id s = er_id e \<and> entry_ids t' \<subseteq> entry_ids t
     | None \<Rightarrow> es_id s = ''entry-'' @ uuid \<and> es_id s \<notin> entry_ids t \<and> entry_ids t' \<subseteq> insert (es_id s) (entry_ids t))"
proof -
  obtain r t1 n t2 i t3 where b: "bump t = Inr (r, t1)" and q: "sequence t1 = Inr (n, t2)"
    and row: "insert_row pf uuid mime bs (dedup_candidate pf mime bs t) r n t2 = Inr (i, t3)"
    and ret: "retain (t_policy t) (Some i) t3 = Inr t'" and su: "summary i None t' = Inr s"
    using st by (auto simp: insert_store_def)
  have ok: "store_ok pf t" "[] \<notin> entry_ids t" using g by (auto simp: good_def)
  note ro = insert_row_ok[OF ok b q row] and tg = insert_row_target[OF ok(1) b q row]
  have pay: "map_of (t_payloads t3) i = Some bs" and ok3: "store_ok pf t3" using ro by auto
  obtain e0 e where e0: "e0 \<in> set (t_entries t3)" "er_id e0 = i" "find_entry i t' = Some e" "core e = core e0"
    "es_id s = i" "es_revision s = er_revision e0" "es_current s \<longleftrightarrow> er_recency e0 = max_recency (t_entries t')"
    and get: "db_get i None t' = Inr \<lparr>se_summary = s, se_mime = er_mime e0, se_bytes = bs\<rparr>"
    using retained_target[OF ok3 ret su pay] by blast
  have e0': "er_mime e0 = mime" "er_recency e0 = n" "er_revision e0 = r" using tg e0 by auto
  have t': "t' = retain_chain (t_policy t) i t3" using retain_result[OF ret] by simp
  have "store_ok pf t'" "t_sequence t' = n" using ok3 t' store_ok_retain tg by simp_all
  then have "\<forall>x \<in> set (t_entries t'). er_recency x \<le> n" by (auto simp: store_ok_def list_all_iff entry_ok_alt)
  moreover have "\<exists>x \<in> set (t_entries t'). er_recency x = n"
    using find_entry_Some[OF e0(3)] core_eqD(4)[OF e0(4)] e0'(2) by auto
  ultimately have cur: "es_current s" using e0(7) e0'(2) max_recency_eq by metis
  have "summary i (Some r) t' = Inr s" using su e0 e0' by (auto simp: summary_def)
  then have "db_get i (Some r) t' = db_get i None t'" using su by (simp add: db_get_def)
  moreover have "entry_ids t' \<subseteq> entry_ids t3" using t' entry_ids_retain by simp
  moreover have "r = t_revision t + 1" using b by (simp add: bump_Inr)
  ultimately show ?thesis using get e0' e0 cur tg by (auto split: option.splits)
qed

lemma insert_body_result:
  assumes g: "good pf t" and ins: "insert_body pf uuid mime bs t = Inr (s, t')"
  shows "db_get (es_id s) (Some (es_revision s)) t' = Inr \<lparr>se_summary = s, se_mime = mime, se_bytes = bs\<rparr> \<and> es_current s"
  using insert_body_Inr[OF ins]
proof (elim conjE disjE exE)
  fix e assume e: "dedup_candidate pf mime bs t = Some e" "summary (er_id e) None t = Inr s" "es_current s" "t' = t"
  note d = dedup_candidate_Some[OF e(1)]
  have f: "find_entry (er_id e) t = Some e"
    using g d find_entry_eq by (auto simp: good_def store_ok_def)
  then have s: "es_id s = er_id e" "es_revision s = er_revision e" "es_byte_size s = er_byte_size e"
    using summary_Inr[OF e(2)] decode_summary_fields[of t e s] by auto
  have "summary (er_id e) (Some (es_revision s)) t = Inr s" using e(2) f by (auto simp: summary_def)
  then show ?thesis using d f s e by (simp add: db_get_def ok_or_def del: rbind_Inr_iff)
qed (use insert_store_result[OF g] in blast)

section \<open>Replace\<close>

lemma replace_body_result:
  assumes g: "good pf t" and rep: "replace_body pf i x mime bs t = Inr (s, t')"
  shows "\<exists>e e'. find_entry i t = Some e \<and> er_revision e = x \<and> find_entry i t' = Some e' \<and>
    er_favorite e' = er_favorite e \<and> er_recency e' = er_recency e \<and> er_mime e' = mime \<and>
    er_revision e' = t_revision t + 1 \<and> es_id s = i \<and> es_revision s = t_revision t + 1 \<and>
    db_get i (Some (t_revision t + 1)) t' = Inr \<lparr>se_summary = s, se_mime = mime, se_bytes = bs\<rparr>"
proof -
  from rep obtain s0 r t1 t2 t3 t4 where su: "summary i (Some x) t = Inr s0" and b: "bump t = Inr (r, t1)"
    and u1: "update_entries (\<lambda>e. er_id e = i \<and> er_revision e = x) (replace_row pf r mime bs) t1 = Inr t2"
    and u2: "update_entries (\<lambda>e. er_echo_source e = Some i) (\<lambda>e. e\<lparr>er_echo_source := None\<rparr>) t2 = Inr t3"
    and w: "write_content pf i mime bs (resolve pf mime bs MAX_ENTRY_BYTES) (drop_content i t3) = Inr t4"
    and ret: "retain (t_policy t) (Some i) t4 = Inr t'" and su': "summary i None t' = Inr s"
    by (rule replace_body_Inr)
  have ok: "store_ok pf t" using g by (simp add: good_def)
  have d: "distinct (map er_id (t_entries t))" using ok by (simp add: store_ok_def rows_ok_def)
  obtain e where e: "e \<in> set (t_entries t)" "er_id e = i" "er_revision e = x"
    and t3: "t3 = t\<lparr>t_revision := r, t_entries := map (replaced_entry pf r i mime bs) (t_entries t)\<rparr>"
    using ok su b u1 u2 by (rule replaced_rows)
  have fe: "find_entry i t = Some e" using e ok find_entry_eq[of t e] by (simp add: store_ok_def)
  note p = conjunct1[OF replace_pending[OF ok su b u1 u2]]
  note wc = write_content_ok[OF p w]
  have ok4: "store_ok pf t4" and pay: "map_of (t_payloads t4) i = Some bs" using wc by auto
  obtain e0 e' where e0: "e0 \<in> set (t_entries t4)" "er_id e0 = i" "find_entry i t' = Some e'" "core e' = core e0"
    "es_id s = i" "es_revision s = er_revision e0"
    and get: "db_get i None t' = Inr \<lparr>se_summary = s, se_mime = er_mime e0, se_bytes = bs\<rparr>"
    using retained_target[OF ok4 ret su' pay] by blast
  obtain e1 where e1: "e1 \<in> set (t_entries (drop_content i t3))" "core e0 = core e1"
    using map_core_mem[OF conjunct1[OF write_content_frame[OF w]] e0(1)] by blast
  have "er_id e1 = i" using core_eqD(1)[OF e1(2)] e0(2) by simp
  moreover have "e1 \<in> replaced_entry pf r i mime bs ` set (t_entries t)"
    using e1(1) by (simp add: drop_content_def t3)
  ultimately obtain e2 where e2: "e2 \<in> set (t_entries t)" "er_id e2 = i" "e1 = replaced_entry pf r i mime bs e2"
    by (metis imageE replaced_entry_simps(1))
  have "e2 = e" by (rule distinct_ids_inj[OF d e2(1) e(1)]) (simp add: e2 e)
  then have row: "core e' = core (replace_row pf r mime bs e)"
    using e0(4) e1(2) e2 by (simp add: replaced_entry_def)
  note row' = core_eqD[OF row] and r0 = core_eqD[OF e0(4)]
  have r: "r = t_revision t + 1" using b by (simp add: bump_Inr)
  have "summary i (Some r) t' = Inr s" using su' e0 row' r0 by (auto simp: summary_def)
  then have "db_get i (Some r) t' = db_get i None t'" using su' by (simp add: db_get_def)
  then show ?thesis using fe e(3) e0 row' r0 get r by auto
qed

text \<open>A stale or unknown target is refused before anything is written.\<close>

lemma summary_expected:
  "find_entry i t = None \<Longrightarrow> summary i y t = Inl (not_found ''Clipboard entry does not exist'')"
  "store_ok pf t \<Longrightarrow> find_entry i t = Some e \<Longrightarrow> er_revision e \<noteq> x \<Longrightarrow>
     summary i (Some x) t = Inl (stale_error ''Clipboard entry revision changed'')"
proof -
  show "find_entry i t = None \<Longrightarrow> summary i y t = Inl (not_found ''Clipboard entry does not exist'')"
    by (simp add: summary_def ok_or_def)
  assume "store_ok pf t" and e: "find_entry i t = Some e" "er_revision e \<noteq> x"
  then have "entry_check e" using find_entry_Some[OF e(1)] by (auto simp: store_ok_def list_all_iff entry_ok_alt)
  then obtain s where "decode_summary t e = Inr s" "es_revision s = er_revision e" using decode_summary_ok by blast
  then show "summary i (Some x) t = Inl (stale_error ''Clipboard entry revision changed'')"
    using e by (simp add: summary_def ok_or_def)
qed

section \<open>Favorites\<close>

lemma favorite_body_result:
  assumes g: "good pf t" and f: "favorite_body i x v t = Inr (u, t')"
  shows "\<exists>e e'. find_entry i t = Some e \<and> er_revision e = x \<and> find_entry i t' = Some e' \<and> er_favorite e' = v \<and>
    er_recency e' = er_recency e \<and> er_mime e' = er_mime e \<and>
    map_of (t_payloads t') i = map_of (t_payloads t) i \<and>
    (er_favorite e = v \<longrightarrow> t' = t) \<and> (er_favorite e \<noteq> v \<longrightarrow> er_revision e' = t_revision t + 1)"
proof -
  obtain s where su: "summary i (Some x) t = Inr s" using f by (auto simp: favorite_body_def)
  then obtain e where e: "find_entry i t = Some e" "decode_summary t e = Inr s" "er_revision e = x"
    using summary_Inr by blast
  have mem: "e \<in> set (t_entries t)" "er_id e = i" using find_entry_Some[OF e(1)] by auto
  have fav: "es_favorite s = er_favorite e" using decode_summary_fields[OF e(2)] by simp
  have ok: "store_ok pf t" using g by (simp add: good_def)
  show ?thesis
  proof (cases "er_favorite e = v")
    case True
    then have "t' = t" using f su fav by (simp add: favorite_body_def del: rbind_Inr_iff)
    then show ?thesis using e True by auto
  next
    case False
    let ?f = "\<lambda>r e. e\<lparr>er_favorite := v, er_revision := r\<rparr>"
    obtain r t1 t2 where b: "bump t = Inr (r, t1)"
      and up: "update_entries (\<lambda>e. er_id e = i \<and> er_revision e = x) (?f r) t1 = Inr t2"
      and ret: "retain (t_policy t) (Some i) t2 = Inr t'"
      using f su fav False by (auto simp: favorite_body_def Let_def split: if_splits)
    have t1: "t1 = t\<lparr>t_revision := r\<rparr>" "r = t_revision t + 1" using b by (auto simp: bump_Inr)
    have t2: "t2 = t1\<lparr>t_entries := map (\<lambda>e. if er_id e = i \<and> er_revision e = x then ?f r e else e) (t_entries t)\<rparr>"
      using up by (simp add: update_entries_Inr t1)
    have rows: "rows_ok t2"
    proof -
      have "map er_id (t_entries t2) = map er_id (t_entries t)" "map er_recency (t_entries t2) = map er_recency (t_entries t)"
        by (simp_all add: t2)
      moreover from this(1) have "entry_ids t2 = entry_ids t" by (rule entry_ids_map)
      ultimately show ?thesis using ok by (simp add: store_ok_def rows_ok_def) (simp add: t2 t1)
    qed
    have "i \<in> entry_ids t" using mem by (auto simp: entry_ids_def)
    then have ne: "i \<noteq> []" using g by (auto simp: good_def)
    have t': "t' = retain_chain (t_policy t) i t2" using retain_result[OF ret] by simp
    obtain e' where e': "find_entry i t' = Some e'"
      using retain_protected[OF ret ne] summary_Inr by blast
    then have m': "e' \<in> set (t_entries t')" "er_id e' = i" using find_entry_Some by blast+
    then obtain e2 where e2: "e2 \<in> set (t_entries t2)" "core e' = core e2"
      using retain_chain_rows t' same_row_core by metis
    have "e2 \<in> (\<lambda>e. if er_id e = i \<and> er_revision e = x then ?f r e else e) ` set (t_entries t)"
      using e2(1) by (simp add: t2)
    then obtain a where a: "a \<in> set (t_entries t)" "e2 = (if er_id a = i \<and> er_revision a = x then ?f r a else a)"
      by blast
    have "er_id e2 = er_id a" unfolding a(2) by simp
    then have "er_id a = er_id e" using core_eqD(1)[OF e2(2)] m'(2) mem(2) by simp
    then have "a = e" using ok a(1) mem(1) by (intro distinct_ids_inj[of "t_entries t"]) (simp_all add: store_ok_def rows_ok_def)
    then have e2': "e2 = ?f r e" unfolding a(2) using mem(2) e(3) by simp
    have fields: "er_favorite e' = v" "er_recency e' = er_recency e" "er_mime e' = er_mime e" "er_revision e' = r"
      using core_eqD(2-5)[OF e2(2)] unfolding e2' by simp_all
    have "map_of (t_payloads t') i = map_of (t_payloads t) i"
      using retain_payload[OF rows, of i "t_policy t" i] m' t' by (auto simp: entry_ids_def t2 t1)
    then show ?thesis using e(1,3) e' fields False t1(2) by (intro exI[of _ e] exI[of _ e']) simp
  qed
qed

section \<open>Batch removal\<close>

lemma sum_list_full:
  fixes f :: "'a \<Rightarrow> nat"
  shows "(\<And>x. x \<in> set xs \<Longrightarrow> f x \<le> 1) \<Longrightarrow> sum_list (map f xs) = length xs \<longleftrightarrow> (\<forall>x \<in> set xs. f x = 1)"
proof (induction xs)
  case (Cons a xs)
  have "sum_list (map f xs) \<le> length xs"
    using Cons.prems sum_list_mono[of xs f "\<lambda>_. 1"] by (simp add: sum_list_triv)
  moreover have "f a \<le> 1" using Cons.prems by simp
  moreover have "sum_list (map f xs) = length xs \<longleftrightarrow> (\<forall>x \<in> set xs. f x = 1)" using Cons by simp
  ultimately show ?case by (auto simp del: One_nat_def)
qed simp

text \<open>Ids are unique, so a target matches at most one row and the join counts the matched targets.\<close>

lemma match_count:
  "distinct (map er_id es) \<Longrightarrow>
     length (filter (\<lambda>e. er_id e = i \<and> P e) es) = (if \<exists>e \<in> set es. er_id e = i \<and> P e then 1 else 0)"
proof (induction es)
  case (Cons a es)
  show ?case
  proof (cases "er_id a = i")
    case True
    then have "\<forall>e \<in> set es. er_id e \<noteq> i" using Cons.prems by (auto simp: image_iff)
    then show ?thesis using True by (auto simp: filter_empty_conv)
  qed (use Cons in auto)
qed simp

definition target_matches :: "tables \<Rightarrow> entry_target \<Rightarrow> bool" where
  "target_matches t g \<longleftrightarrow>
     (\<exists>e \<in> set (t_entries t). er_id e = et_opaque_id g \<and> er_revision e = et_expected_revision g)"

lemma join_count_revision:
  assumes "rows_ok t"
  shows "join_count (\<lambda>e g. er_id e = et_opaque_id g \<and> er_revision e = et_expected_revision g) targets t = length targets \<longleftrightarrow>
    (\<forall>g \<in> set targets. target_matches t g)"
  unfolding join_count_def target_matches_def
  using match_count[OF rows_ok_distinct[OF assms]]
  by (subst sum_list_full) auto

lemma join_count_present:
  assumes "rows_ok t"
  shows "join_count (\<lambda>e g. er_id e = et_opaque_id g) targets t = length targets \<longleftrightarrow>
    (\<forall>g \<in> set targets. et_opaque_id g \<in> entry_ids t)"
proof -
  have "length (filter (\<lambda>e. er_id e = i) (t_entries t)) = (if i \<in> entry_ids t then 1 else 0)" for i
    using match_count[OF rows_ok_distinct[OF assms], of i "\<lambda>_. True"] by (auto simp: entry_ids_def)
  then show ?thesis unfolding join_count_def by (subst sum_list_full) auto
qed

lemma remove_many_body_result:
  assumes g: "good pf t"
  shows "if \<forall>g \<in> set targets. target_matches t g
    then remove_many_body targets t =
      rbind (bump (delete_entries (\<lambda>e. er_id e \<in> set (map et_opaque_id targets)) t)) (\<lambda>(_, t1). Inr ((), t1))
    else remove_many_body targets t =
      Inl (if \<forall>g \<in> set targets. et_opaque_id g \<in> entry_ids t then stale_error ''Clipboard entry revision changed''
           else not_found ''Clipboard entry does not exist'')"
proof -
  have "rows_ok t" using g by (simp add: good_def store_ok_def)
  note j = join_count_revision[OF this] join_count_present[OF this]
  show ?thesis unfolding remove_many_body_def Let_def using j by simp
qed

lemma remove_many_ids:
  assumes "good pf t" and "remove_many_body targets t = Inr (u, t')"
  shows "entry_ids t' = entry_ids t - et_opaque_id ` set targets \<and> t_revision t' = t_revision t + 1"
proof -
  have all: "\<forall>g \<in> set targets. target_matches t g"
    using remove_many_body_result[OF assms(1), of targets] assms(2) by (auto split: if_splits)
  have "rbind (bump (delete_entries (\<lambda>e. er_id e \<in> set (map et_opaque_id targets)) t)) (\<lambda>(_, t1). Inr ((), t1)) =
      Inr (u, t')"
    using remove_many_body_result[OF assms(1), of targets] assms(2) all by (simp only: if_True simp_thms)
  then obtain r where "bump (delete_entries (\<lambda>e. er_id e \<in> set (map et_opaque_id targets)) t) = Inr (r, t')"
    by auto
  then have t': "t' = (delete_entries (\<lambda>e. er_id e \<in> set (map et_opaque_id targets)) t)\<lparr>t_revision := t_revision t + 1\<rparr>"
    by (auto simp: bump_Inr)
  have "entry_ids t' = entry_ids (delete_entries (\<lambda>e. er_id e \<in> set (map et_opaque_id targets)) t)"
    by (simp add: t' entry_ids_def)
  then have "entry_ids t' = entry_ids t - et_opaque_id ` set targets"
    unfolding entry_ids_delete by (auto simp: entry_ids_def[of t])
  then show ?thesis by (simp add: t')
qed

section \<open>Revisions\<close>

text \<open>A body either leaves the tables as they are, or raises the catalog revision by one.\<close>

lemma retain_revision: "retain pol p t = Inr t' \<Longrightarrow> t_revision t' = t_revision t"
  by (auto dest: retain_result)

lemma insert_row_revision:
  "insert_row pf uuid mime bs c r n t = Inr (i, t') \<Longrightarrow> t_revision t' = t_revision t"
  by (auto simp: insert_row_def update_entries_Inr insert_entry_Inr Let_def
      dest!: write_content_frame split: option.splits if_splits)

lemma insert_body_revision:
  assumes "insert_body pf uuid mime bs t = Inr (s, t')"
  shows "t' = t \<or> t_revision t' = t_revision t + 1"
proof -
  have "t_revision t' = t_revision t + 1" if "insert_store pf uuid mime bs c t = Inr (s, t')" for c
    using that by (auto simp: insert_store_def bump_Inr sequence_Inr dest!: insert_row_revision retain_revision)
  then show ?thesis using insert_body_Inr[OF assms] by blast
qed

lemma replace_body_revision:
  assumes "replace_body pf i x mime bs t = Inr (s, t')"
  shows "t_revision t' = t_revision t + 1"
proof -
  from assms obtain s0 r t1 t2 t3 t4 where b: "bump t = Inr (r, t1)"
    and u1: "update_entries (\<lambda>e. er_id e = i \<and> er_revision e = x) (replace_row pf r mime bs) t1 = Inr t2"
    and u2: "update_entries (\<lambda>e. er_echo_source e = Some i) (\<lambda>e. e\<lparr>er_echo_source := None\<rparr>) t2 = Inr t3"
    and w: "write_content pf i mime bs (resolve pf mime bs MAX_ENTRY_BYTES) (drop_content i t3) = Inr t4"
    and ret: "retain (t_policy t) (Some i) t4 = Inr t'" by (rule replace_body_Inr)
  have "t_revision t3 = t_revision t + 1" using u1 u2 b by (auto simp: update_entries_Inr bump_Inr)
  then show ?thesis using write_content_frame[OF w] retain_revision[OF ret] by (simp add: drop_content_def)
qed

lemma other_body_revision:
  "favorite_body i x v t = Inr (u, t') \<Longrightarrow> t' = t \<or> t_revision t' = t_revision t + 1"
  "wipe_body t = Inr (u, t') \<Longrightarrow> t_revision t' = t_revision t + 1"
  "apply_policy_body pol t = Inr (u, t') \<Longrightarrow> t' = t \<or> t_revision t' = t_revision t + 1"
  "remove_many_body targets t = Inr (u, t') \<Longrightarrow> t_revision t' = t_revision t + 1"
  by (auto simp: favorite_body_def wipe_body_def apply_policy_body_def remove_many_body_def Let_def bump_Inr
      update_entries_Inr split: if_splits dest!: retain_revision)

end
