(* ===== verification/Storage_Properties.thy ===== *)
theory Storage_Properties
  imports Storage_Examples History_Readback
begin

text \<open>
  The properties of the history store, each with a witness at a concrete store: integrity of
  every reachable database, atomic and fenced transactions, exact read-back of what was written,
  retention, literal search and paging, the artifact registry, and the bounded queue.
\<close>

section \<open>Integrity\<close>

definition demo_policy_db :: database where
  "demo_policy_db = snd (apply_policy sound_engine demo_policy fresh_database)"

text \<open>
  C1. Every database that jobs, engine faults, restarts and shutdowns can produce from a fresh
  store keeps its integrity (unique ids and recencies, exactly one payload of the recorded size
  and digest and one search row per entry, valid echo links, bounded registries) and the bounds
  of the policy in force: number of entries, of favorites, bytes per entry and in total.
\<close>

theorem store_integrity:
  assumes "store_reachable pf db"
  shows "store_ok pf (db_tables db) \<and> within_policy (t_policy (db_tables db)) (db_tables db)"
  using reachable_good[OF assms] by (simp add: good_def)

theorem store_integrity_witness:
  "store_ok bare_platform (db_tables (snd (db_insert bare_platform sound_engine ''a'' ''text/plain'' ''hi'' demo_policy_db))) \<and>
   within_policy (t_policy (db_tables (snd (db_insert bare_platform sound_engine ''a'' ''text/plain'' ''hi'' demo_policy_db))))
     (db_tables (snd (db_insert bare_platform sound_engine ''a'' ''text/plain'' ''hi'' demo_policy_db)))"
proof -
  have "store_reachable bare_platform demo_policy_db"
    unfolding demo_policy_db_def by (rule reach_step[OF reach_fresh step_policy])
  then show ?thesis by (intro store_integrity) (rule reach_step[OF _ step_insert])
qed


text \<open>
  A fenced store changes no more: every later job is refused and leaves the database as it
  is, until it is reopened.
\<close>

lemma fenced_store_frozen:
  assumes "db_blocked db"
  shows "\<not> is_ok (fst (run_job pf fts en uuid r db)) \<and> snd (run_job pf fts en uuid r db) = db \<and>
    (store_step pf db db' \<longrightarrow> db' = db \<or>
      (\<exists>en. db' = snd (transaction en close_admission_body (db\<lparr>db_blocked := False\<rparr>))))"
  using run_job_blocked[OF assms] blocked_frozen[OF assms] by blast

definition demo_fenced :: database where
  "demo_fenced = \<lparr>db_tables = demo_one, db_blocked = True\<rparr>"

lemma fenced_store_frozen_example:
  "\<not> is_ok (fst (run_job bare_platform (\<lambda>_ _. True) sound_engine ''a'' ReqWipe demo_fenced)) \<and>
   snd (run_job bare_platform (\<lambda>_ _. True) sound_engine ''a'' ReqWipe demo_fenced) = demo_fenced \<and>
   snd (db_wipe sound_engine demo_fenced) = demo_fenced"
proof -
  have b: "db_blocked demo_fenced" by (simp add: demo_fenced_def)
  have "snd (db_wipe sound_engine demo_fenced) = demo_fenced"
    by (simp add: db_wipe_def transaction_def demo_fenced_def)
  then show ?thesis
    using fenced_store_frozen[OF b, of bare_platform "\<lambda>_ _. True" sound_engine "''a''" ReqWipe] by blast
qed

section \<open>Insertion\<close>

text \<open>
  C2. An accepted insertion can be read back: under the returned id and revision the store
  returns exactly the offered bytes and MIME type, and the entry is the current one, although
  retention may have evicted others to make room.
\<close>

theorem insert_roundtrip:
  assumes "good pf t" and "insert_body pf uuid mime bs t = Inr (s, t')"
  shows "db_get (es_id s) (Some (es_revision s)) t' = Inr \<lparr>se_summary = s, se_mime = mime, se_bytes = bs\<rparr> \<and>
    es_current s \<and> good pf t'"
  using insert_body_result[OF assms] insert_body_good[OF assms] by blast

theorem insert_roundtrip_witness:
  "db_get ''entry-a'' (Some 1) demo_one =
     Inr \<lparr>se_summary = demo_summary, se_mime = ''text/plain'', se_bytes = ''hi''\<rparr>"
  using insert_roundtrip[OF good_demo_empty demo_insert] by (simp add: demo_summary_def)

text \<open>
  C8. Deduplication is by exact content: an insertion that finds a duplicate returns that entry's
  id and adds no entry, the duplicate's stored bytes and MIME type are the offered ones whatever the
  digest function does, and re-observing the current entry changes nothing.  Without an exact
  duplicate the entry gets the fresh id.
\<close>

theorem insert_deduplicates:
  assumes "good pf t" and "insert_body pf uuid mime bs t = Inr (s, t')"
  shows "case dedup_candidate pf mime bs t of
     Some e \<Rightarrow> es_id s = er_id e \<and> entry_ids t' \<subseteq> entry_ids t \<and> er_mime e = mime \<and>
       map_of (t_payloads t) (er_id e) = Some bs \<and>
       (er_recency e = max_recency (t_entries t) \<longrightarrow> t' = t)
   | None \<Rightarrow> es_id s = ''entry-'' @ uuid \<and> es_id s \<notin> entry_ids t"
proof (cases "dedup_candidate pf mime bs t")
  case None
  then show ?thesis using insert_body_Inr[OF assms(2)] insert_store_result[OF assms(1)] by fastforce
next
  case (Some e)
  note d = dedup_candidate_Some[OF Some]
  have f: "find_entry (er_id e) t = Some e" using assms(1) d find_entry_eq by (auto simp: good_def store_ok_def)
  have "er_id e \<in> entry_ids t" using d by (auto simp: entry_ids_def)
  then obtain x where x: "summary (er_id e) None t = Inr x"
    using assms(1) summary_present unfolding good_def by blast
  have "decode_summary t e = Inr x" using summary_Inr[OF x] f by auto
  then have cur: "es_current x \<longleftrightarrow> er_recency e = max_recency (t_entries t)" "es_id x = er_id e"
    using decode_summary_fields by blast+
  have "if es_current x then s = x \<and> t' = t else insert_store pf uuid mime bs (Some e) t = Inr (s, t')"
    using assms(2) x unfolding insert_body_def Some
    by (cases "es_current x") (auto split: if_splits)
  then show ?thesis
    using Some d cur insert_store_result[OF assms(1), of uuid mime bs s t'] by (auto split: if_splits)
qed

theorem insert_deduplicates_witness:
  "insert_body bare_platform ''b'' ''text/plain'' ''hi'' demo_one = Inr (demo_summary, demo_one) \<and>
   es_id demo_summary = ''entry-a'' \<and> map_of (t_payloads demo_one) ''entry-a'' = Some ''hi''"
proof -
  have d: "dedup_candidate bare_platform ''text/plain'' ''hi'' demo_one = Some demo_row"
    by (simp add: dedup_candidate_def demo_one_def demo_row_def sha_bare)
  have i: "insert_body bare_platform ''b'' ''text/plain'' ''hi'' demo_one = Inr (demo_summary, demo_one)"
    using demo_summary_one d
    by (simp add: insert_body_def allowed_payload_def demo_one_def[THEN arg_cong, of t_policy] demo_empty_def
        demo_policy_def demo_row_def demo_summary_def del: rbind_Inr_iff)
  show ?thesis using i insert_deduplicates[OF good_demo_one i] d by (simp add: demo_row_def)
qed

text \<open>
  While admission is closed no insertion changes the tables, whatever the engine does, and
  the caller gets an error.
\<close>

lemma closed_admission_refuses:
  assumes "\<not> sp_admission (t_policy (db_tables db))"
  shows "\<not> is_ok (fst (db_insert pf en uuid mime bs db)) \<and> db_tables (snd (db_insert pf en uuid mime bs db)) = db_tables db"
  using assms
  by (auto simp: db_insert_def transaction_def run_body_def insert_body_def split: option.splits)

lemma closed_admission_refuses_example:
  "\<not> is_ok (fst (db_insert bare_platform sound_engine ''a'' ''text/plain'' ''hi'' fresh_database)) \<and>
   db_tables (snd (db_insert bare_platform sound_engine ''a'' ''text/plain'' ''hi'' fresh_database)) = fresh_tables"
proof -
  have "\<not> sp_admission (t_policy (db_tables fresh_database))"
    by (simp add: fresh_database_def fresh_tables_def default_policy_def)
  then show ?thesis
    using closed_admission_refuses[of fresh_database bare_platform sound_engine "''a''" "''text/plain''" "''hi''"]
    by (simp add: fresh_database_def)
qed

section \<open>Replacement, favorites, removal\<close>

text \<open>
  C7. A replacement takes effect only on the revision the caller saw, keeps the entry's id,
  favorite flag and place in the history, raises its revision to the new catalog revision, and
  the new bytes and MIME type can be read back.
\<close>

theorem replace_roundtrip:
  assumes "good pf t" and "replace_body pf i x mime bs t = Inr (s, t')"
  shows "\<exists>e e'. find_entry i t = Some e \<and> er_revision e = x \<and> find_entry i t' = Some e' \<and>
    er_favorite e' = er_favorite e \<and> er_recency e' = er_recency e \<and>
    er_revision e' = t_revision t + 1 \<and> es_revision s = t_revision t + 1 \<and>
    db_get i (Some (t_revision t + 1)) t' = Inr \<lparr>se_summary = s, se_mime = mime, se_bytes = bs\<rparr>"
  using replace_body_result[OF assms] by blast

theorem replace_roundtrip_witness:
  "db_get ''entry-a'' (Some (t_revision demo_one + 1)) demo_two =
     Inr \<lparr>se_summary = demo_summary\<lparr>es_revision := 2\<rparr>, se_mime = ''text/plain'', se_bytes = ''hi''\<rparr>"
  using replace_roundtrip[OF good_demo_one demo_replace] by blast

text \<open>
  A request against an old revision changes nothing: replacing or starring an existing entry
  with another revision than its own is refused as stale, and against an unknown id as not found.
\<close>

lemma stale_revision_refused:
  assumes "store_ok pf t"
  shows "case find_entry i t of
     None \<Rightarrow> replace_body pf i x mime bs t = Inl (not_found ''Clipboard entry does not exist'') \<and>
       favorite_body i x v t = Inl (not_found ''Clipboard entry does not exist'')
   | Some e \<Rightarrow> er_revision e = x \<or>
       replace_body pf i x mime bs t = Inl (stale_error ''Clipboard entry revision changed'') \<and>
       favorite_body i x v t = Inl (stale_error ''Clipboard entry revision changed'')"
proof (cases "find_entry i t")
  case None
  then show ?thesis using summary_expected(1) by (simp add: replace_body_def favorite_body_def)
next
  case (Some e)
  then show ?thesis using summary_expected(2)[OF assms Some, of x]
    by (cases "er_revision e = x") (simp_all add: replace_body_def favorite_body_def)
qed

lemma stale_revision_refused_example:
  "replace_body bare_platform ''entry-a'' 7 ''text/plain'' ''ho'' demo_one =
     Inl (stale_error ''Clipboard entry revision changed'')"
proof -
  have ok: "store_ok bare_platform demo_one" using good_demo_one by (simp add: good_def)
  have f: "find_entry ''entry-a'' demo_one = Some demo_row" by (simp add: find_entry_def demo_two_simps)
  show ?thesis using stale_revision_refused[OF ok, of "''entry-a''" 7 "''text/plain''" "''ho''" True]
    by (simp add: f demo_two_simps demo_row_def)
qed

text \<open>
  Setting the favorite flag keeps the entry, its content and its place in the history, and
  setting it to what it already is changes nothing, not even a revision.
\<close>

lemma favorite_sets_flag:
  assumes "good pf t" and "favorite_body i x v t = Inr (u, t')"
  shows "\<exists>e e'. find_entry i t = Some e \<and> er_revision e = x \<and> find_entry i t' = Some e' \<and> er_favorite e' = v \<and>
    er_recency e' = er_recency e \<and> er_mime e' = er_mime e \<and>
    map_of (t_payloads t') i = map_of (t_payloads t) i \<and>
    (if er_favorite e = v then t' = t else er_revision e' = t_revision t + 1)"
  using favorite_body_result[OF assms] by auto

lemma favorite_sets_flag_example:
  "favorite_body ''entry-a'' 1 False demo_one = Inr ((), demo_one) \<and>
   (\<exists>e. find_entry ''entry-a'' demo_one = Some e \<and> er_favorite e = False)"
proof -
  have f: "favorite_body ''entry-a'' 1 False demo_one = Inr ((), demo_one)"
    by (simp add: favorite_body_def demo_one_def demo_row_def store_eval del: rbind_Inr_iff)
  show ?thesis using f favorite_sets_flag[OF good_demo_one f] by blast
qed

text \<open>
  C6. A batch removal is all or nothing: it succeeds only when every target names an entry at
  its current revision and then removes exactly the named entries in one revision; otherwise it
  says whether a target is missing or stale and removes none.
\<close>

theorem remove_many_all_or_nothing:
  assumes "good pf t"
  shows "case remove_many_body targets t of
     Inr (u, t') \<Rightarrow> (\<forall>g \<in> set targets. target_matches t g) \<and>
       entry_ids t' = entry_ids t - et_opaque_id ` set targets \<and> t_revision t' = t_revision t + 1
   | Inl e \<Rightarrow> (\<forall>g \<in> set targets. target_matches t g) \<and> e = engine_error \<or>
       e = (if \<forall>g \<in> set targets. et_opaque_id g \<in> entry_ids t
            then stale_error ''Clipboard entry revision changed''
            else not_found ''Clipboard entry does not exist'')"
proof (cases "remove_many_body targets t")
  case (Inr r)
  obtain u t' where r: "r = (u, t')" by (cases r)
  have "\<forall>g \<in> set targets. target_matches t g"
    using remove_many_body_result[OF assms, of targets] Inr by (auto split: if_splits)
  then show ?thesis using remove_many_ids[OF assms, of targets u t'] Inr r by simp
next
  case (Inl e)
  have "bump u = Inl e' \<Longrightarrow> e' = engine_error" for u e' by (auto simp: bump_def Let_def split: if_splits)
  then show ?thesis
    using remove_many_body_result[OF assms, of targets] Inl by (auto simp: rbind_Inl_iff split: if_splits)
qed

theorem remove_many_all_or_nothing_witness:
  "\<exists>e. remove_many_body [\<lparr>et_opaque_id = ''entry-a'', et_expected_revision = 1\<rparr>,
       \<lparr>et_opaque_id = ''entry-b'', et_expected_revision = 1\<rparr>] demo_one = Inl e \<and>
     e = not_found ''Clipboard entry does not exist''"
proof -
  let ?g = "[\<lparr>et_opaque_id = ''entry-a'', et_expected_revision = 1\<rparr>,
       \<lparr>et_opaque_id = ''entry-b'', et_expected_revision = 1\<rparr>]"
  have ids: "entry_ids demo_one = {''entry-a''}" by (simp add: entry_ids_def demo_two_simps)
  have "\<not> (\<forall>g \<in> set ?g. target_matches demo_one g)"
    by (simp add: target_matches_def demo_two_simps)
  then show ?thesis
    using remove_many_all_or_nothing[OF good_demo_one, of ?g] ids by (auto split: sum.splits)
qed

section \<open>Retention\<close>


definition demo_pair :: tables where
  "demo_pair = demo_one\<lparr>t_sequence := 2, t_entries := [demo_row, demo_row\<lparr>er_id := ''entry-b'', er_recency := 2\<rparr>],
     t_payloads := [], t_search := []\<rparr>"

lemma rows_ok_pair: "rows_ok demo_pair"
  by (simp add: rows_ok_def demo_pair_def demo_row_def entry_ids_def demo_one_def demo_empty_def fresh_tables_def)


text \<open>
  Within a category the count limit evicts the least recent entries: an evicted entry is
  older than every kept one but the protected one.
\<close>

lemma eviction_is_least_recent:
  assumes "rows_ok t" and "e \<in> set (category f t)" and "e' \<in> set (category f t)"
    and "er_id e \<in> entry_ids (retain_category f n p t)" and "er_id e' \<notin> entry_ids (retain_category f n p t)"
    and "er_id e \<noteq> p"
  shows "er_recency e' < er_recency e"
  using assms by (rule retain_category_order)

lemma eviction_is_least_recent_example:
  "er_id demo_row \<notin> entry_ids (retain_category False 1 [] demo_pair) \<and> er_recency demo_row < 2"
proof -
  let ?b = "demo_row\<lparr>er_id := ''entry-b'', er_recency := 2\<rparr>"
  have ids: "entry_ids (retain_category False 1 [] demo_pair) = {''entry-b''}"
    by (simp add: entry_ids_def retain_category_def delete_entries_def Let_def demo_pair_def demo_row_def
        beyond_n_def recency_key_def)
  have "er_recency demo_row < er_recency ?b"
    by (rule eviction_is_least_recent[OF rows_ok_pair, of ?b False demo_row 1 "[]"])
      (simp_all only: ids, simp_all add: category_def demo_pair_def demo_row_def)
  moreover have "er_id demo_row \<notin> {''entry-b''}" by (simp add: demo_row_def)
  ultimately show ?thesis unfolding ids by (simp add: demo_row_def)
qed

section \<open>Search\<close>



text \<open>
  C10. A query on a store with integrity succeeds: its page is the requested window of the
  matches ordered by favorites first and then recency, with the exact total, the catalog revision,
  and a continuation exactly when more matches follow.
\<close>

theorem query_returns_page:
  assumes "store_ok pf t"
  shows "\<exists>p. db_query pf fts q t = Inr p \<and>
    map es_id (hp_entries p) =
      take (min (hq_limit q) MAX_QUERY_LIMIT) (drop (min (hq_offset q) i64_max) (ordered_ids pf fts q t)) \<and>
    hp_total p = length (ordered_ids pf fts q t) \<and> hp_revision p = t_revision t \<and>
    (hp_has_more p \<longleftrightarrow> min (hq_offset q) i64_max + min (hq_limit q) MAX_QUERY_LIMIT < hp_total p) \<and>
    hp_next_offset p = (if hp_has_more p \<and> 0 < hq_limit q
       then checked_add (hq_offset q) (length (hp_entries p)) else None)"
  using db_query_page[OF assms] by blast

definition demo_query :: history_query where
  "demo_query = \<lparr>hq_query = [], hq_generation = 3, hq_offset = 0, hq_limit = 10, hq_collapse_self_echoes = False\<rparr>"

theorem query_returns_page_witness:
  "\<exists>p. db_query bare_platform (\<lambda>_ _. True) demo_query demo_one = Inr p \<and> map es_id (hp_entries p) = [''entry-a'']"
proof -
  have ok: "store_ok bare_platform demo_one" using good_demo_one by (simp add: good_def)
  have "pf_lowercase bare_platform (trim []) = []"
    by (simp add: bare_platform_def trim_def trim_chars_def chars_def to_ascii_lowercase_def)
  then have "ordered_ids bare_platform (\<lambda>_ _. True) demo_query demo_one = [''entry-a'']"
    by (simp add: ordered_ids_def query_matches_def visible_def demo_query_def demo_two_simps)
  then show ?thesis using query_returns_page[OF ok, of "\<lambda>_ _. True" demo_query]
    by (auto simp: demo_query_def MAX_QUERY_LIMIT_def)
qed

section \<open>Artifact registry\<close>

text \<open>
  C12. A file the cleanup is offered is registered, old enough, and not in use: no entry produced
  it and no entry's content refers to it; and no more than the requested number is offered.
\<close>

theorem cleanup_spares_live_artifacts:
  assumes "registry_ok t" and "a \<in> set (artifact_candidates before limit t)"
  shows "a \<in> set (t_artifacts t) \<and> ar_created_at a \<le> before \<and> ar_source_entry_id a \<notin> entry_ids t \<and>
    ar_path a \<notin> snd ` set (t_entry_artifacts t) \<and> ar_path a \<notin> set (artifact_references t)"
proof -
  note m = candidate_mem[OF assms(2)]
  have "b = a" if "b \<in> set (t_artifacts t)" "ar_path b = ar_path a" for b
    using that m assms(1) inj_onD[of ar_path "set (t_artifacts t)" b a] by (simp add: registry_ok_def distinct_map)
  then have "ar_path a \<notin> set (artifact_references t)"
    using m by (auto simp: artifact_references_def)
  moreover have "ar_source_entry_id a \<notin> entry_ids t" "ar_path a \<notin> snd ` set (t_entry_artifacts t)"
    using m unfolding artifact_live_def list_ex_iff entry_ids_def by fastforce+
  ultimately show ?thesis using m by simp
qed

definition demo_artifact :: artifact_record where
  "demo_artifact = \<lparr>ar_path = ''/tmp/x.png'', ar_source_entry_id = ''entry-z'', ar_image_identity = ''hash'',
     ar_created_at = 5, ar_device = 1, ar_inode = 2, ar_owner = 1000\<rparr>"

theorem cleanup_spares_live_artifacts_witness:
  "ar_source_entry_id demo_artifact \<notin> entry_ids (demo_one\<lparr>t_artifacts := [demo_artifact]\<rparr>)"
proof -
  let ?t = "demo_one\<lparr>t_artifacts := [demo_artifact]\<rparr>"
  have r: "registry_ok ?t" by (simp add: registry_ok_def demo_one_def demo_empty_def fresh_tables_def)
  have "demo_artifact \<in> set (artifact_candidates 9 4 ?t)"
    by (simp add: artifact_candidates_def demo_two_simps demo_artifact_def i64_max_def)
      (simp add: demo_one_def demo_empty_def fresh_tables_def)
  from cleanup_spares_live_artifacts[OF r this] show ?thesis by blast
qed

text \<open>
  A registered artifact is found again under its path with exactly the registered metadata,
  and the records of other paths are untouched.
\<close>

lemma registered_artifact_found:
  assumes "fst (db_register_artifact en rec db) = Inr ()"
  shows "artifact_get (ar_path rec) (db_tables (snd (db_register_artifact en rec db))) = Some rec \<and>
    (\<forall>p. p \<noteq> ar_path rec \<longrightarrow>
      artifact_get p (db_tables (snd (db_register_artifact en rec db))) = artifact_get p (db_tables db))"
proof -
  have ok: "fst (transaction en (register_artifact_body rec) db) = Inr ()"
    and s: "snd (db_register_artifact en rec db) = snd (transaction en (register_artifact_body rec) db)"
    using assms by (auto simp: db_register_artifact_def split: if_splits)
  from transaction_ok[OF ok] obtain t' where t': "register_artifact_body rec (db_tables db) = Inr ((), t')"
    "snd (transaction en (register_artifact_body rec) db) = db\<lparr>db_tables := t'\<rparr>" by blast
  then have e: "t' = (db_tables db)\<lparr>t_artifacts := upsert_artifact rec (t_artifacts (db_tables db))\<rparr>"
    by (auto simp: register_artifact_body_def split: if_splits)
  have "find (\<lambda>a. ar_path a = p) (upsert_artifact rec ars) = find (\<lambda>a. ar_path a = p) ars"
    if "p \<noteq> ar_path rec" for p ars
  proof -
    have "find (\<lambda>a. ar_path a = p) (map (\<lambda>a. if ar_path a = ar_path rec then rec else a) ars) = find (\<lambda>a. ar_path a = p) ars"
      using that by (induction ars) auto
    then show ?thesis using that by (simp add: upsert_artifact_def find_append split: option.splits)
  qed
  then show ?thesis by (simp add: s t'(2) e upsert_artifact_get) (simp add: artifact_get_def)
qed

lemma registered_artifact_found_example:
  "artifact_get ''/tmp/x.png'' (db_tables (snd (db_register_artifact sound_engine demo_artifact fresh_database))) =
     Some demo_artifact"
proof -
  have "fst (db_register_artifact sound_engine demo_artifact fresh_database) = Inr ()"
    by (simp add: db_register_artifact_def demo_artifact_def utf8_eval path_is_absolute_def starts_with_def i64_max_def
        transaction_def fresh_database_def run_body_def sound_engine_def register_artifact_body_def fresh_tables_def)
  from registered_artifact_found[OF this] show ?thesis by (simp add: demo_artifact_def)
qed

section \<open>The bounded queue\<close>

text \<open>
  C4. At every moment the byte counter is exactly the sum of the inputs held by callers, queued and
  executing; it never exceeds 128 MiB, at most 32 jobs are queued, and no release can underflow it.
\<close>

theorem queue_budget_exact:
  assumes "queue_reachable pf fts st"
  shows "st_bytes st = sum_mset (image_mset request_bytes (outstanding st)) \<and> st_bytes st \<le> QUEUE_BYTE_BUDGET \<and>
    length (st_queue st) \<le> QUEUE_CAPACITY \<and> (\<forall>r. r \<in># outstanding st \<longrightarrow> request_bytes r \<le> st_bytes st)"
  using reachable_budget[OF assms] budget_covers by (auto simp: budget_ok_def)

definition demo_queue :: store_state where
  "demo_queue = snd (submit (ReqInsert ''text/plain'' ''hi'')
     ((opened fresh_database)\<lparr>st_bytes := 2, st_held := [ReqInsert ''text/plain'' ''hi'']\<rparr>))"

lemma demo_queue_reachable: "queue_reachable pf fts demo_queue"
proof -
  let ?r = "ReqInsert ''text/plain'' ''hi''"
  let ?s = "(opened fresh_database)\<lparr>st_bytes := 2, st_held := [?r]\<rparr>"
  have "enter ?r (opened fresh_database) = Inr ?s"
    by (simp add: enter_Inr validate_input_def MAX_ENTRY_BYTES_def opened_def QUEUE_BYTE_BUDGET_def)
  then have "queue_reachable pf fts ?s" by (rule qr_step[OF qr_open[OF reach_fresh] q_enter])
  then show ?thesis unfolding demo_queue_def by (rule qr_step[OF _ q_submit]) simp
qed

theorem queue_budget_exact_witness: "st_bytes demo_queue = 2 \<and> st_bytes demo_queue \<le> QUEUE_BYTE_BUDGET"
proof -
  have "st_bytes demo_queue = 2"
    by (simp add: demo_queue_def submit_def opened_def QUEUE_CAPACITY_def)
  then show ?thesis using queue_budget_exact[OF demo_queue_reachable[of bare_platform "\<lambda>_ _. True"]] by blast
qed

text \<open>
  C11. Accepted requests are answered in the order of their acceptance, each once: no step reorders,
  drops or repeats them, only a submission to an open store adds one, and once closed the owner's
  loop answers all that is left.
\<close>

theorem queue_first_in_first_out:
  shows "(queue_step pf fts st st' \<longrightarrow>
      accepted st' = accepted st \<or> st_open st \<and> (\<exists>r \<in> set (st_held st). accepted st' = accepted st @ [r])) \<and>
    (let st2 = drain pf fts en uuid (backlog st) st in
      map fst (st_replies st2) = accepted st \<and> st_queue st2 = [] \<and> st_running st2 = None)"
proof -
  note d = drain_empties[of st "backlog st" pf fts en uuid]
  have "map fst (st_replies (drain pf fts en uuid (backlog st) st)) = accepted st"
    using d unfolding Let_def accepted_def[of "drain pf fts en uuid (backlog st) st"] by auto
  then show ?thesis using d queue_step_accepted[of pf fts st st'] by (simp add: Let_def)
qed

theorem queue_first_in_first_out_witness:
  "map fst (st_replies (drain bare_platform (\<lambda>_ _. True) sound_engine ''a'' (backlog demo_queue) demo_queue)) =
     [ReqInsert ''text/plain'' ''hi'']"
proof -
  have "accepted demo_queue = [ReqInsert ''text/plain'' ''hi'']"
    by (simp add: demo_queue_def submit_def opened_def QUEUE_CAPACITY_def accepted_def)
  then show ?thesis
    using queue_first_in_first_out[of bare_platform "\<lambda>_ _. True" demo_queue demo_queue sound_engine "''a''"]
    by (simp add: Let_def)
qed

text \<open>
  Shutdown is sticky: it closes the store, and every later caller gets the outcome the first
  caller got, errors included, whatever a later join would have said.
\<close>

lemma shutdown_outcome_is_sticky:
  "\<not> sh_open (snd (inner_shutdown joined h)) \<and>
   fst (inner_shutdown joined' (snd (inner_shutdown joined h))) = fst (inner_shutdown joined h)"
  using inner_shutdown_closes inner_shutdown_repeats by blast

section \<open>Revisions\<close>

lemma transaction_revision:
  assumes "\<And>v t'. f (db_tables db) = Inr (v, t') \<Longrightarrow> t_revision (db_tables db) \<le> t_revision t'"
  shows "t_revision (db_tables db) \<le> t_revision (db_tables (snd (transaction en f db)))"
  using assms by (auto simp: transaction_def run_body_def split: sum.splits option.splits)

lemma bodies_revision:
  "insert_body pf uuid mime bs t = Inr (s, t') \<Longrightarrow> t_revision t \<le> t_revision t'"
  "replace_body pf i x mime bs t = Inr (s, t') \<Longrightarrow> t_revision t \<le> t_revision t'"
  "favorite_body i x v t = Inr (u, t') \<Longrightarrow> t_revision t \<le> t_revision t'"
  "wipe_body t = Inr (u, t') \<Longrightarrow> t_revision t \<le> t_revision t'"
  "apply_policy_body pol t = Inr (u, t') \<Longrightarrow> t_revision t \<le> t_revision t'"
  "remove_many_body targets t = Inr (u, t') \<Longrightarrow> t_revision t \<le> t_revision t'"
  "close_admission_body t = Inr (u, t') \<Longrightarrow> t_revision t \<le> t_revision t'"
  "register_artifact_body rec t = Inr (u, t') \<Longrightarrow> t_revision t \<le> t_revision t'"
  "forget_artifact_body p t = Inr (u, t') \<Longrightarrow> t_revision t \<le> t_revision t'"
  "register_inline_echo_body ie t = Inr (u, t') \<Longrightarrow> t_revision t \<le> t_revision t'"
  "clear_inline_echoes_body t = Inr (u, t') \<Longrightarrow> t_revision t \<le> t_revision t'"
  by (fastforce dest: insert_body_revision replace_body_revision other_body_revision
      simp: close_admission_body_def register_artifact_body_def forget_artifact_body_def
        register_inline_echo_body_def clear_inline_echoes_body_def split: if_splits)+

text \<open>
  The catalog revision never goes back, across jobs, engine faults, restarts and shutdowns:
  a revision a client has seen never names an older catalog again.
\<close>

lemma revision_never_decreases:
  assumes "store_step pf db db'"
  shows "t_revision (db_tables db) \<le> t_revision (db_tables db')"
  using assms
proof (cases rule: store_step.cases)
  case (step_reopen en)
  then show ?thesis
    using transaction_revision[of close_admission_body "db\<lparr>db_blocked := False\<rparr>" en] bodies_revision by simp
qed (auto simp: owner_op_defs intro!: transaction_revision intro: bodies_revision)

lemma revision_never_decreases_example:
  "t_revision demo_one \<le> t_revision (db_tables (snd (db_wipe sound_engine \<lparr>db_tables = demo_one, db_blocked = False\<rparr>)))"
  using revision_never_decreases[OF step_wipe[of bare_platform "\<lparr>db_tables = demo_one, db_blocked = False\<rparr>" sound_engine]]
  by simp

end
