(* ===== verification/History_Backend.thy ===== *)
theory History_Backend
  imports History_Store History_Readback
begin

text \<open>
  The state of the history backend (\<open>HistoryBackend\<close> of \<open>src/src/history.rs\<close>) as one caller sees it:
  the closed flag, the storage owner's database, the active generated file, the file system, and what
  was last published.  Everything outside answers from a tape: one \<open>outcome\<close> per interaction (a storage
  call, a publication, a file operation), consumed in program order.  Backend operations are functions
  from a state to a result and a state, composed by \<open>hbind\<close>, which is the \<open>?\<close> operator; a poisoned mutex
  is a panic elsewhere and is not modelled.  The lemmas show that a storage call is a step of the owner or
  leaves the database alone, and that only \<open>apply_policy\<close> changes the policy.
\<close>

section \<open>State\<close>

record outcome =
  oc_refusal :: "backend_error option"
  oc_engine :: engine
  oc_uuid :: str
  oc_owner :: owner_oracle
  oc_io :: "(str, unit) result"
  oc_now :: nat
  oc_dev :: nat
  oc_ino :: nat
  oc_fts :: "str \<Rightarrow> str \<Rightarrow> bool"

record history_state =
  hs_closed :: bool
  hs_db :: database
  hs_active :: "str option"
  hs_pf :: platform
  hs_selection :: "published option"
  hs_tape :: "nat \<Rightarrow> outcome"

type_synonym 'a hist = "history_state \<Rightarrow> 'a bresult \<times> history_state"

definition hreturn :: "'a \<Rightarrow> 'a hist" where
  "hreturn v s = (Inr v, s)"

definition hfail :: "backend_error \<Rightarrow> 'a hist" where
  "hfail e s = (Inl e, s)"

definition hbind :: "'a hist \<Rightarrow> ('a \<Rightarrow> 'b hist) \<Rightarrow> 'b hist" where
  "hbind m f s = (case m s of (Inl e, s1) \<Rightarrow> (Inl e, s1) | (Inr v, s1) \<Rightarrow> f v s1)"

text \<open>\<open>match m { Ok(v) => f(v), Err(e) => g(e) }\<close>.\<close>

definition hcase :: "'a hist \<Rightarrow> (backend_error \<Rightarrow> 'b hist) \<Rightarrow> ('a \<Rightarrow> 'b hist) \<Rightarrow> 'b hist" where
  "hcase m g f s = (case m s of (Inl e, s1) \<Rightarrow> g e s1 | (Inr v, s1) \<Rightarrow> f v s1)"

definition hlift :: "'a bresult \<Rightarrow> 'a hist" where
  "hlift r s = (r, s)"

definition hget :: "(history_state \<Rightarrow> 'a) \<Rightarrow> 'a hist" where
  "hget f s = (Inr (f s), s)"

definition hset_active :: "str option \<Rightarrow> unit hist" where
  "hset_active p s = (Inr (), s\<lparr>hs_active := p\<rparr>)"

text \<open>The next outcome of the tape.\<close>

definition draw :: "outcome hist" where
  "draw s = (Inr (hs_tape s 0), s\<lparr>hs_tape := (\<lambda>n. hs_tape s (Suc n))\<rparr>)"

section \<open>Storage calls\<close>

text \<open>A call that the queue refuses (full, over budget, shut down) never reaches the owner.\<close>

definition store_call :: "store_request \<Rightarrow> store_reply hist" where
  "store_call r =
     hbind (hlift (validate_request r)) (\<lambda>_. hbind draw (\<lambda>oc s.
       case oc_refusal oc of
         Some e \<Rightarrow> (Inl e, s)
       | None \<Rightarrow>
           (let (reply, db) = run_job (hs_pf s) (oc_fts oc) (oc_engine oc) (oc_uuid oc) r (hs_db s)
            in (reply, s\<lparr>hs_db := db\<rparr>))))"

text \<open>The typed methods of \<open>HistoryStore\<close>; the other replies do not occur for these requests.\<close>

definition store_get_policy :: "store_policy hist" where
  "store_get_policy = hbind (store_call ReqPolicy) (\<lambda>r. case r of RepPolicy p \<Rightarrow> hreturn p | _ \<Rightarrow> hfail engine_error)"

definition store_apply_policy :: "store_policy \<Rightarrow> unit hist" where
  "store_apply_policy p = hbind (store_call (ReqApplyPolicy p)) (\<lambda>_. hreturn ())"

definition store_insert :: "str \<Rightarrow> bytes \<Rightarrow> entry_summary hist" where
  "store_insert mime bs =
     hbind (store_call (ReqInsert mime bs)) (\<lambda>r. case r of RepSummary v \<Rightarrow> hreturn v | _ \<Rightarrow> hfail engine_error)"

definition store_replace :: "str \<Rightarrow> nat \<Rightarrow> str \<Rightarrow> bytes \<Rightarrow> entry_summary hist" where
  "store_replace i rv mime bs =
     hbind (store_call (ReqReplace i rv mime bs)) (\<lambda>r. case r of RepSummary v \<Rightarrow> hreturn v | _ \<Rightarrow> hfail engine_error)"

definition store_get :: "str \<Rightarrow> nat option \<Rightarrow> stored_entry hist" where
  "store_get i rv =
     hbind (store_call (ReqGet i rv)) (\<lambda>r. case r of RepEntry v \<Rightarrow> hreturn v | _ \<Rightarrow> hfail engine_error)"

definition store_entry_revision :: "str \<Rightarrow> nat hist" where
  "store_entry_revision i =
     hbind (store_call (ReqEntryRevision i)) (\<lambda>r. case r of RepRevision v \<Rightarrow> hreturn v | _ \<Rightarrow> hfail engine_error)"

definition store_revision :: "nat hist" where
  "store_revision =
     hbind (store_call ReqRevision) (\<lambda>r. case r of RepRevision v \<Rightarrow> hreturn v | _ \<Rightarrow> hfail engine_error)"

definition store_query :: "history_query \<Rightarrow> history_page hist" where
  "store_query q =
     hbind (store_call (ReqQuery q)) (\<lambda>r. case r of RepPage v \<Rightarrow> hreturn v | _ \<Rightarrow> hfail engine_error)"

definition store_unit :: "store_request \<Rightarrow> unit hist" where
  "store_unit r = hbind (store_call r) (\<lambda>_. hreturn ())"

definition store_artifact_get :: "str \<Rightarrow> artifact_record option hist" where
  "store_artifact_get p =
     hbind (store_call (ReqArtifactGet p)) (\<lambda>r. case r of RepArtifact v \<Rightarrow> hreturn v | _ \<Rightarrow> hfail engine_error)"

definition store_artifact_candidates :: "nat \<Rightarrow> nat \<Rightarrow> artifact_record list hist" where
  "store_artifact_candidates before limit =
     hbind (store_call (ReqArtifactCandidates before limit))
       (\<lambda>r. case r of RepArtifacts v \<Rightarrow> hreturn v | _ \<Rightarrow> hfail engine_error)"

definition ensure_running :: "unit hist" where
  "ensure_running s =
    (if hs_closed s then (Inl (unavailable ''Clipboard backend is shut down''), s) else (Inr (), s))"

section \<open>The file system\<close>

text \<open>Unlinking and creating a file; the outcome says whether the system call succeeds.\<close>

definition fs_unlink :: "str \<Rightarrow> platform \<Rightarrow> platform" where
  "fs_unlink p pf =
     pf\<lparr>pf_lstat := (pf_lstat pf)(p := LstatNotFound), pf_exists := (pf_exists pf)(p := False),
        pf_open := (pf_open pf)(p := Inl ''not found'')\<rparr>"

definition remove_file :: "str \<Rightarrow> unit hist" where
  "remove_file p = hbind draw (\<lambda>oc s.
     case oc_io oc of
       Inl e \<Rightarrow> (Inl (operation_error e), s)
     | Inr _ \<Rightarrow> (Inr (), s\<lparr>hs_pf := fs_unlink p (hs_pf s)\<rparr>))"

text \<open>\<open>private_file\<close> with \<open>write_all\<close> and \<open>sync_all\<close>: the file is created exclusively and for the owner only,
  and removed again when writing fails.\<close>

definition fs_create :: "str \<Rightarrow> bytes \<Rightarrow> nat \<Rightarrow> nat \<Rightarrow> platform \<Rightarrow> platform" where
  "fs_create p bs dev ino pf =
     pf\<lparr>pf_lstat := (pf_lstat pf)(p := LstatOk \<lparr>fm_is_file = True, fm_is_dir = False, fm_len = length bs, fm_dev = dev,
          fm_ino = ino, fm_uid = pf_euid pf, fm_nlink = 1, fm_mode = 33152\<rparr>),
        pf_exists := (pf_exists pf)(p := True), pf_open := (pf_open pf)(p := Inr (length bs, bs))\<rparr>"

definition write_private :: "str \<Rightarrow> bytes \<Rightarrow> unit hist" where
  "write_private p bs = hbind draw (\<lambda>oc s.
     if pf_lstat (hs_pf s) p \<noteq> LstatNotFound then (Inl (operation_error ''File exists''), s)
     else case oc_io oc of
       Inl e \<Rightarrow> (Inl (operation_error e), s)
     | Inr _ \<Rightarrow> (Inr (), s\<lparr>hs_pf := fs_create p bs (oc_dev oc) (oc_ino oc) (hs_pf s)\<rparr>))"

text \<open>A file operation whose effect is outside the model; only its failure matters.\<close>

definition io_step :: "unit hist" where
  "io_step = hbind draw (\<lambda>oc s. (case oc_io oc of Inl e \<Rightarrow> Inl (operation_error e) | Inr _ \<Rightarrow> Inr (), s))"

section \<open>Publication\<close>

definition publish_with :: "(owner_oracle \<Rightarrow> published bresult) \<Rightarrow> unit hist" where
  "publish_with f = hbind draw (\<lambda>oc s.
     case f (oc_owner oc) of
       Inl e \<Rightarrow> (Inl e, s)
     | Inr off \<Rightarrow> (Inr (), s\<lparr>hs_selection := Some off\<rparr>))"

section \<open>Lemmas\<close>

lemmas hist_defs = hreturn_def hfail_def hbind_def hcase_def hlift_def hget_def hset_active_def draw_def

lemma hbind_Inr: "hbind m f s = (Inr v, s') \<longleftrightarrow> (\<exists>x s1. m s = (Inr x, s1) \<and> f x s1 = (Inr v, s'))"
  by (auto simp: hbind_def split: prod.splits sum.splits)

lemma hbind_Inl:
  "hbind m f s = (Inl e, s') \<longleftrightarrow> m s = (Inl e, s') \<or> (\<exists>x s1. m s = (Inr x, s1) \<and> f x s1 = (Inl e, s'))"
  by (auto simp: hbind_def split: prod.splits sum.splits)

lemma hbind_state: "snd (hbind m f s) = (case m s of (Inl _, s1) \<Rightarrow> s1 | (Inr v, s1) \<Rightarrow> snd (f v s1))"
  by (auto simp: hbind_def split: prod.splits sum.splits)

text \<open>A relation every part of a computation respects is respected by the whole.\<close>

lemma hbind_rel:
  assumes "R s (snd (m s))" and "\<And>v s1. m s = (Inr v, s1) \<Longrightarrow> R s1 (snd (f v s1))"
    and "\<And>a b c. R a b \<Longrightarrow> R b c \<Longrightarrow> R a c"
  shows "R s (snd (hbind m f s))"
  using assms by (auto simp: hbind_def split: prod.splits sum.splits)

text \<open>What a storage call does to the state: a validated, accepted call is one job of the owner.\<close>

lemma store_call_cases:
  obtains (rejected) e where "store_call r s = (Inl e, s)" "validate_request r = Inl e"
  | (refused) e where "store_call r s = (Inl e, s\<lparr>hs_tape := (\<lambda>n. hs_tape s (Suc n))\<rparr>)"
      "oc_refusal (hs_tape s 0) = Some e"
  | (ran) reply db where "validate_request r = Inr ()"
      "run_job (hs_pf s) (oc_fts (hs_tape s 0)) (oc_engine (hs_tape s 0)) (oc_uuid (hs_tape s 0)) r (hs_db s) = (reply, db)"
      "store_call r s = (reply, s\<lparr>hs_tape := (\<lambda>n. hs_tape s (Suc n)), hs_db := db\<rparr>)"
proof -
  consider e where "validate_request r = Inl e"
    | e where "validate_request r = Inr ()" "oc_refusal (hs_tape s 0) = Some e"
    | "validate_request r = Inr ()" "oc_refusal (hs_tape s 0) = None"
    by (cases "validate_request r"; cases "oc_refusal (hs_tape s 0)") auto
  then show thesis
  proof cases
    case 1
    then show ?thesis by (intro rejected) (simp_all add: store_call_def hist_defs)
  next
    case 2
    then show ?thesis by (intro refused) (simp_all add: store_call_def hist_defs)
  next
    case 3
    obtain reply db where j: "run_job (hs_pf s) (oc_fts (hs_tape s 0)) (oc_engine (hs_tape s 0)) (oc_uuid (hs_tape s 0)) r (hs_db s) = (reply, db)"
      by (cases "run_job (hs_pf s) (oc_fts (hs_tape s 0)) (oc_engine (hs_tape s 0)) (oc_uuid (hs_tape s 0)) r (hs_db s)")
    show ?thesis using 3 j by (intro ran[OF _ j]) (simp_all add: store_call_def hist_defs)
  qed
qed

lemma store_call_db:
  "hs_db (snd (store_call r s)) = hs_db s \<or>
   (\<exists>fts en uuid. hs_db (snd (store_call r s)) = snd (run_job (hs_pf s) fts en uuid r (hs_db s)))"
  by (cases rule: store_call_cases[of r s]) (auto, metis snd_conv)

lemma store_call_frame:
  "hs_closed (snd (store_call r s)) = hs_closed s" "hs_active (snd (store_call r s)) = hs_active s"
  "hs_pf (snd (store_call r s)) = hs_pf s" "hs_selection (snd (store_call r s)) = hs_selection s"
  by (cases rule: store_call_cases[of r s]; simp)+

end
