(* ===== verification/Generated_Files.thy ===== *)
theory Generated_Files
  imports History_Backend
begin

text \<open>
  The registry of generated files (\<open>src/src/history/artifacts.rs\<close>): which paths the daemon owns, how a
  file is registered and becomes the active selection, and how unreferenced files are removed.  The lemmas
  show that a path loses its file only if it is an owned path whose record and current metadata agree in
  every identity field, that it was no longer referenced, and that it was not the active selection.
\<close>

section \<open>Ownership\<close>

definition path_join :: "str \<Rightarrow> str \<Rightarrow> str" where
  "path_join a b =
    (if path_is_absolute b then b
     else if a = [] \<or> last a = CHR ''/'' then a @ b else a @ ''/'' @ b)"

definition registry_root :: "platform \<Rightarrow> str option" where
  "registry_root pf = map_option (\<lambda>home. path_join home ''Pictures/Screenshots/clipboard-history'') (pf_home pf)"

text \<open>\<open>mode & 0o022\<close>: writable by the group or by others.\<close>

definition shared_writable :: "nat \<Rightarrow> bool" where
  "shared_writable mode \<longleftrightarrow> odd (mode div 2) \<or> odd (mode div 16)"

definition generated_extensions :: "str list" where
  "generated_extensions = [''png'', ''jpg'', ''webp'', ''gif'', ''bmp'', ''tiff'', ''svg'']"

definition generated_name :: "platform \<Rightarrow> str \<Rightarrow> bool" where
  "generated_name pf name =
    (case strip_prefix name ''clipboard-'' of
       None \<Rightarrow> False
     | Some rest \<Rightarrow>
         (case rsplit_once (CHR ''.'') rest of
            None \<Rightarrow> False
          | Some (i, extension) \<Rightarrow> pf_uuid_ok pf i \<and> extension \<in> set generated_extensions))"

definition owned_path :: "platform \<Rightarrow> str \<Rightarrow> bool" where
  "owned_path pf path =
    (case registry_root pf of
       None \<Rightarrow> False
     | Some root \<Rightarrow>
         path_parent path = Some root \<and> pf_canonicalize pf root = Some root \<and>
         (case lstat_ok pf root of
            None \<Rightarrow> False
          | Some m \<Rightarrow> fm_is_dir m \<and> fm_uid m = pf_euid pf \<and> \<not> shared_writable (fm_mode m)) \<and>
         (case file_name path of
            None \<Rightarrow> False
          | Some name \<Rightarrow> valid_utf8 name \<and> generated_name pf name))"

section \<open>Registration and activation\<close>

definition lstat_error :: "lstat_result \<Rightarrow> backend_error" where
  "lstat_error r = (case r of LstatError e \<Rightarrow> operation_error e | _ \<Rightarrow> operation_error ''not found'')"

definition register_file :: "str \<Rightarrow> str \<Rightarrow> str \<Rightarrow> bytes \<Rightarrow> unit hist" where
  "register_file path source mime bs s =
    (let pf = hs_pf s in
     if \<not> owned_path pf path then (Inl (operation_error ''Generated file is outside daemon ownership''), s)
     else case lstat_ok pf path of
       None \<Rightarrow> (Inl (lstat_error (pf_lstat pf path)), s)
     | Some m \<Rightarrow>
         if \<not> fm_is_file m \<or> fm_uid m \<noteq> pf_euid pf \<or> fm_nlink m \<noteq> 1
         then (Inl (operation_error ''Generated file ownership is invalid''), s)
         else store_unit (ReqRegisterArtifact
                \<lparr>ar_path = path, ar_source_entry_id = source, ar_image_identity = image_identity pf mime bs,
                 ar_created_at = oc_now (hs_tape s 0), ar_device = fm_dev m, ar_inode = fm_ino m,
                 ar_owner = fm_uid m\<rparr>) s)"

definition utf8_path :: "str \<Rightarrow> str bresult" where
  "utf8_path p = (if valid_utf8 p then Inr p else Inl (operation_error ''Generated path is not UTF-8''))"

definition activate_if_generated :: "str \<Rightarrow> unit hist" where
  "activate_if_generated path =
     hbind (hlift (utf8_path path)) (\<lambda>p.
     hbind (store_artifact_get p) (\<lambda>rec.
       hset_active (if rec \<noteq> None then Some path else None)))"

definition still_referenced :: "platform \<Rightarrow> str \<Rightarrow> bytes \<Rightarrow> bool" where
  "still_referenced pf path bs =
    (case from_utf8 bs of
       None \<Rightarrow> False
     | Some text \<Rightarrow> list_ex (\<lambda>line. url_path pf (trim line) = Some path) (str_lines text))"

definition observe_selection :: "bytes \<Rightarrow> unit hist" where
  "observe_selection bs s =
    (case hs_active s of
       None \<Rightarrow> (Inr (), s)
     | Some path \<Rightarrow>
         if still_referenced (hs_pf s) path bs then (Inr (), s) else (Inr (), s\<lparr>hs_active := None\<rparr>))"

definition clear_active_selection :: "unit hist" where
  "clear_active_selection = hset_active None"

section \<open>Removal\<close>

definition same_file :: "platform \<Rightarrow> file_meta \<Rightarrow> artifact_record \<Rightarrow> bool" where
  "same_file pf m rec \<longleftrightarrow>
     \<not> (\<not> fm_is_file m \<or> fm_nlink m \<noteq> 1 \<or> fm_dev m \<noteq> ar_device rec \<or> fm_ino m \<noteq> ar_inode rec \<or>
        fm_uid m \<noteq> ar_owner rec \<or> ar_owner rec \<noteq> pf_euid pf)"

definition forget :: "artifact_record \<Rightarrow> bool \<Rightarrow> bool hist" where
  "forget rec removed = hbind (store_unit (ReqForgetArtifact (ar_path rec))) (\<lambda>_. hreturn removed)"

definition remove_artifact :: "artifact_record \<Rightarrow> bool hist" where
  "remove_artifact rec s =
    (let pf = hs_pf s in
     if \<not> owned_path pf (ar_path rec) then forget rec False s
     else case pf_lstat pf (ar_path rec) of
       LstatNotFound \<Rightarrow> forget rec False s
     | LstatError e \<Rightarrow> (Inl (operation_error e), s)
     | LstatOk m \<Rightarrow>
         if \<not> same_file pf m rec then forget rec False s
         else hbind (remove_file (ar_path rec)) (\<lambda>_. forget rec True) s)"

definition remove_registered :: "str \<Rightarrow> unit hist" where
  "remove_registered path =
     hbind (hlift (utf8_path path)) (\<lambda>p.
     hbind (store_artifact_get p) (\<lambda>rec.
     hbind (case rec of None \<Rightarrow> hreturn False | Some r \<Rightarrow> remove_artifact r) (\<lambda>_.
     hbind (hget hs_active) (\<lambda>active.
       if active = Some path then hset_active None else hreturn ()))))"

fun prune_records :: "str option \<Rightarrow> artifact_record list \<Rightarrow> nat \<Rightarrow> nat hist" where
  "prune_records active [] removed = hreturn removed"
| "prune_records active (rec # recs) removed =
    (if active = Some (ar_path rec) then prune_records active recs removed
     else hbind (remove_artifact rec) (\<lambda>gone. prune_records active recs (removed + (if gone then 1 else 0))))"

definition prune :: "nat \<Rightarrow> nat hist" where
  "prune before =
     hbind (hget hs_active) (\<lambda>active.
     hbind (store_artifact_candidates before 128) (\<lambda>recs. prune_records active recs 0))"

definition reconcile :: "nat hist" where
  "reconcile = hbind (hget (\<lambda>s. oc_now (hs_tape s 0))) (\<lambda>now. prune (now - 60))"

definition clear_all :: "nat hist" where
  "clear_all = hbind clear_active_selection (\<lambda>_. prune u64_max)"

section \<open>Lemmas\<close>

text \<open>Two snapshots of the file system that differ only in files that are gone.\<close>

definition only_gone :: "platform \<Rightarrow> platform \<Rightarrow> bool" where
  "only_gone pf pf' \<longleftrightarrow>
     pf_home pf' = pf_home pf \<and> pf_euid pf' = pf_euid pf \<and> pf_canonicalize pf' = pf_canonicalize pf \<and>
     pf_uuid_ok pf' = pf_uuid_ok pf \<and> (\<forall>p. pf_lstat pf' p = pf_lstat pf p \<or> pf_lstat pf' p = LstatNotFound)"

lemma only_gone_refl [simp]: "only_gone pf pf"
  by (simp add: only_gone_def)

lemma only_gone_unlink: "only_gone pf pf' \<Longrightarrow> only_gone pf (fs_unlink p pf')"
  by (simp add: only_gone_def fs_unlink_def)

lemma only_gone_owned: "only_gone pf pf' \<Longrightarrow> owned_path pf' p \<Longrightarrow> owned_path pf p"
proof -
  assume g: "only_gone pf pf'" and o: "owned_path pf' p"
  then obtain root m where r: "registry_root pf' = Some root" "pf_lstat pf' root = LstatOk m"
    by (auto simp: owned_path_def lstat_ok_def split: option.splits lstat_result.splits)
  have "pf_lstat pf root = pf_lstat pf' root" using g r(2) by (auto simp: only_gone_def) (metis lstat_result.distinct(1))
  then have l: "lstat_ok pf root = lstat_ok pf' root" by (simp add: lstat_ok_def)
  have eqs: "registry_root pf = registry_root pf'" "pf_euid pf = pf_euid pf'" "pf_canonicalize pf = pf_canonicalize pf'"
    "pf_uuid_ok pf = pf_uuid_ok pf'" using g by (simp_all add: only_gone_def registry_root_def)
  have gn: "generated_name pf = generated_name pf'"
    by (intro ext) (unfold generated_name_def eqs(4), rule refl)
  show ?thesis using o unfolding owned_path_def eqs gn r(1) option.simps(5) l .
qed

lemma store_call_pf [simp]: "hs_pf (snd (store_unit r s)) = hs_pf s"
  by (simp add: store_unit_def hbind_def hreturn_def split: prod.splits sum.splits)
    (metis store_call_frame(3) snd_conv)

lemma forget_pf [simp]: "hs_pf (snd (forget rec b s)) = hs_pf s"
proof -
  obtain r s1 where u: "store_unit (ReqForgetArtifact (ar_path rec)) s = (r, s1)" by fastforce
  then have "hs_pf s1 = hs_pf s" by (metis snd_conv store_call_pf)
  with u show ?thesis by (cases r) (simp_all add: forget_def hist_defs)
qed

text \<open>When a path may lose its file.\<close>

definition may_unlink :: "platform \<Rightarrow> artifact_record \<Rightarrow> bool" where
  "may_unlink pf rec \<longleftrightarrow>
     owned_path pf (ar_path rec) \<and> (\<exists>m. pf_lstat pf (ar_path rec) = LstatOk m \<and> same_file pf m rec)"

lemma remove_artifact_pf:
  "hs_pf (snd (remove_artifact rec s)) = hs_pf s \<or>
   may_unlink (hs_pf s) rec \<and> hs_pf (snd (remove_artifact rec s)) = fs_unlink (ar_path rec) (hs_pf s)"
  by (auto simp: remove_artifact_def Let_def may_unlink_def remove_file_def hbind_def draw_def
      split: lstat_result.splits sum.splits prod.splits)

lemma prune_records_gone:
  "only_gone pf (hs_pf s) \<Longrightarrow>
     only_gone pf (hs_pf (snd (prune_records active recs n s))) \<and>
     (\<forall>p. pf_lstat (hs_pf (snd (prune_records active recs n s))) p \<noteq> pf_lstat (hs_pf s) p \<longrightarrow>
        (\<exists>rec \<in> set recs. ar_path rec = p \<and> active \<noteq> Some p \<and> may_unlink pf rec))"
proof (induction active recs n arbitrary: s rule: prune_records.induct)
  case (1 active n)
  then show ?case by (simp add: hreturn_def)
next
  case (2 active rec recs n)
  show ?case
  proof (cases "active = Some (ar_path rec)")
    case True
    with 2 show ?thesis by auto
  next
    case False
    obtain r s1 where r: "remove_artifact rec s = (r, s1)" by fastforce
    have may: "may_unlink pf rec" if "may_unlink (hs_pf s) rec"
      using that 2(3) only_gone_owned by (auto simp: may_unlink_def same_file_def only_gone_def) (metis lstat_result.distinct(1))+
    have s1: "only_gone pf (hs_pf s1)"
      "\<And>p. pf_lstat (hs_pf s1) p \<noteq> pf_lstat (hs_pf s) p \<Longrightarrow> p = ar_path rec \<and> may_unlink pf rec"
      using remove_artifact_pf[of rec s] 2(3) may only_gone_unlink by (auto simp: r fs_unlink_def split: if_splits)
    show ?thesis
    proof (cases r)
      case (Inl e)
      then have "prune_records active (rec # recs) n s = (Inl e, s1)" using False by (simp add: r hbind_def)
      then show ?thesis using s1 False by auto
    next
      case (Inr b)
      then have "prune_records active (rec # recs) n s = prune_records active recs (n + (if b then 1 else 0)) s1"
        using False by (simp add: r hbind_def)
      then show ?thesis using 2(2)[OF False s1(1), of b] s1(2) False by (metis list.set_intros)
    qed
  qed
qed

text \<open>What the candidates are.\<close>

lemma store_artifact_candidates_mem:
  assumes "store_artifact_candidates before limit s = (Inr recs, s')"
  shows "recs = artifact_candidates before limit (db_tables (hs_db s)) \<and> hs_pf s' = hs_pf s"
proof -
  obtain rep s1 where c1: "store_call (ReqArtifactCandidates before limit) s = (Inr rep, s1)"
    and k: "(case rep of RepArtifacts v \<Rightarrow> hreturn v | _ \<Rightarrow> hfail engine_error) s1 = (Inr recs, s')"
    using assms unfolding store_artifact_candidates_def hbind_Inr by blast
  have c: "store_call (ReqArtifactCandidates before limit) s = (Inr rep, s')" "rep = RepArtifacts recs"
    using c1 k by (cases rep; simp add: hreturn_def hfail_def)+
  show ?thesis
    using c by (cases rule: store_call_cases[of "ReqArtifactCandidates before limit" s])
      (auto simp: run_job_def reply_with_def db_read_def split: if_splits option.splits)
qed

lemma prune_gone:
  assumes "pf_lstat (hs_pf (snd (prune before s))) p \<noteq> pf_lstat (hs_pf s) p"
  shows "\<exists>rec \<in> set (t_artifacts (db_tables (hs_db s))). ar_path rec = p \<and> hs_active s \<noteq> Some p \<and>
    ar_created_at rec \<le> before \<and> \<not> artifact_live (db_tables (hs_db s)) rec \<and> may_unlink (hs_pf s) rec"
proof -
  obtain r s1 where c: "store_artifact_candidates before 128 s = (r, s1)" by fastforce
  have "hs_pf s1 = hs_pf s"
    using store_call_frame(3)[of "ReqArtifactCandidates before 128" s] c
    by (auto simp: store_artifact_candidates_def hist_defs split: prod.splits sum.splits store_reply.splits)
  moreover obtain recs where "r = Inr recs"
    using assms c calculation by (cases r) (auto simp: prune_def hist_defs)
  ultimately have "\<exists>rec \<in> set recs. ar_path rec = p \<and> hs_active s \<noteq> Some p \<and> may_unlink (hs_pf s) rec"
    using assms c prune_records_gone[of "hs_pf s" s1 "hs_active s" recs 0] by (auto simp: prune_def hbind_def hget_def)
  then show ?thesis
    using store_artifact_candidates_mem[of before 128 s recs s1] c \<open>r = Inr recs\<close> candidate_mem by blast
qed

end
