(* ===== verification/Offered_Mimes.thy ===== *)
theory Offered_Mimes
  imports Rust_Str
begin

text \<open>
  The MIME chooser of an offer (\<open>src/src/capture/policy.rs\<close>): advertised types are collected under a
  count, a total size and a per-name bound, ranked, and handed out best first.  The lemmas show that a
  sensitive marker or any overflow rejects the offer for good, whatever else it advertises, and that
  \<open>next\<close> runs dry after at most six types.
\<close>

definition MAX_OFFERS :: nat where "MAX_OFFERS = 64"
definition MAX_SEATS :: nat where "MAX_SEATS = 16"

record offered_mimes =
  om_choices :: "str option list"
  om_count :: nat
  om_bytes :: nat
  om_rejected :: bool

definition default_mimes :: offered_mimes where
  "default_mimes = \<lparr>om_choices = replicate 6 None, om_count = 0, om_bytes = 0, om_rejected = False\<rparr>"

definition sensitive_marker :: "str \<Rightarrow> bool" where
  "sensitive_marker v \<longleftrightarrow> v = ''application/x-shelllist-sensitive'' \<or> v = ''x-kde-passwordManagerHint''"

definition mime_rank :: "str \<Rightarrow> nat option" where
  "mime_rank essence =
    (if essence \<in> {''text/plain'', ''UTF8_STRING'', ''STRING'', ''TEXT''} then Some 0
     else if starts_with essence ''image/'' then Some 1
     else if starts_with essence ''x-special/'' then Some 2
     else if essence = ''application/x-gnome-copied-files'' then Some 2
     else if essence = ''chromium/x-web-custom-data'' then Some 3
     else if starts_with essence ''chromium/x-internal'' then None
     else if starts_with essence ''text/'' then Some 4
     else if CHR ''/'' \<in> set essence \<and> essence \<noteq> [] \<and> is_ascii_lowercase (hd essence) then Some 5
     else None)"

definition mimes_add :: "str \<Rightarrow> offered_mimes \<Rightarrow> offered_mimes" where
  "mimes_add value m =
    (if om_rejected m then m
     else
       let m1 = m\<lparr>om_count := om_count m + 1, om_bytes := om_bytes m + length value\<rparr>;
           rejected = (sensitive_marker value \<or> value = [] \<or> om_count m1 > MAX_OFFERS \<or> om_bytes m1 > 8192 \<or>
                       length value > 96 \<or>
                       list_ex (\<lambda>b. \<not> (32 \<le> (of_char b :: nat) \<and> (of_char b :: nat) \<le> 126)) value);
           m2 = m1\<lparr>om_rejected := rejected\<rparr>
       in if rejected then m2
          else case mime_rank (before_semicolon value) of
            None \<Rightarrow> m2
          | Some rank \<Rightarrow>
              if (case om_choices m2 ! rank of
                    None \<Rightarrow> True
                  | Some previous \<Rightarrow> CHR '';'' \<in> set previous \<and> CHR '';'' \<notin> set value)
              then m2\<lparr>om_choices := (om_choices m2)[rank := Some value]\<rparr> else m2)"

text \<open>\<open>choices.iter_mut().find_map(Option::take)\<close>: the first choice, which leaves its slot.\<close>

fun take_first :: "'a option list \<Rightarrow> 'a option \<times> 'a option list" where
  "take_first [] = (None, [])"
| "take_first (Some x # xs) = (Some x, None # xs)"
| "take_first (None # xs) = (let (r, ys) = take_first xs in (r, None # ys))"

definition mimes_next :: "offered_mimes \<Rightarrow> str option \<times> offered_mimes" where
  "mimes_next m =
    (if om_rejected m then (None, m)
     else let (r, cs) = take_first (om_choices m) in (r, m\<lparr>om_choices := cs\<rparr>))"

section \<open>Lemmas\<close>

definition mimes_ok :: "offered_mimes \<Rightarrow> bool" where
  "mimes_ok m \<longleftrightarrow>
     length (om_choices m) = 6 \<and>
     (\<not> om_rejected m \<longrightarrow> om_count m \<le> MAX_OFFERS \<and> om_bytes m \<le> 8192) \<and>
     (\<forall>v. Some v \<in> set (om_choices m) \<longrightarrow> v \<noteq> [] \<and> length v \<le> 96 \<and> \<not> sensitive_marker v \<and>
        list_all (\<lambda>b. 32 \<le> (of_char b :: nat) \<and> (of_char b :: nat) \<le> 126) v)"

lemma mimes_ok_default: "mimes_ok default_mimes"
  by (simp add: mimes_ok_def default_mimes_def)

lemma mime_rank_less: "mime_rank v = Some r \<Longrightarrow> r < 6"
  by (auto simp: mime_rank_def split: if_splits)

lemma mimes_ok_add: "mimes_ok m \<Longrightarrow> mimes_ok (mimes_add v m)"
  by (auto simp: mimes_ok_def mimes_add_def Let_def list_ex_iff list_all_iff split: option.splits
      dest!: set_update_subset_insert[THEN subsetD] mime_rank_less)

lemma take_first_length: "length (snd (take_first xs)) = length xs"
  by (induction xs rule: take_first.induct) (auto split: prod.splits)

lemma take_first_subset: "Some v \<in> set (snd (take_first xs)) \<Longrightarrow> Some v \<in> set xs"
  by (induction xs rule: take_first.induct) (auto split: prod.splits)

lemma take_first_mem: "fst (take_first xs) = Some v \<Longrightarrow> Some v \<in> set xs"
  by (induction xs rule: take_first.induct) (auto split: prod.splits)

lemma mimes_ok_next: "mimes_ok m \<Longrightarrow> mimes_ok (snd (mimes_next m))"
  using take_first_length[of "om_choices m"] take_first_subset[of _ "om_choices m"]
  by (auto simp: mimes_ok_def mimes_next_def split: prod.splits)

lemma mimes_add_rejected: "om_rejected m \<Longrightarrow> mimes_add v m = m"
  by (simp add: mimes_add_def)

lemma fold_rejected: "om_rejected m \<Longrightarrow> fold mimes_add vs m = m"
  by (induction vs) (simp_all add: mimes_add_rejected)

lemma marker_rejects: "sensitive_marker v \<Longrightarrow> om_rejected (mimes_add v m)"
  by (simp add: mimes_add_def Let_def)

lemma fold_marker:
  assumes "v \<in> set vs" "sensitive_marker v"
  shows "om_rejected (fold mimes_add vs m)"
proof -
  obtain xs ys where vs: "vs = xs @ v # ys" using split_list[OF assms(1)] by blast
  have "om_rejected (mimes_add v (fold mimes_add xs m))" using marker_rejects[OF assms(2)] .
  then show ?thesis by (simp add: vs fold_rejected)
qed

lemma next_rejected: "om_rejected m \<Longrightarrow> mimes_next m = (None, m)"
  by (simp add: mimes_next_def)

text \<open>The number of types still on offer, the measure of the blank fallback.\<close>

definition mimes_left :: "offered_mimes \<Rightarrow> nat" where
  "mimes_left m = length (filter (\<lambda>c. c \<noteq> None) (om_choices m))"

lemma take_first_left:
  "fst (take_first xs) = Some v \<Longrightarrow>
     length (filter (\<lambda>c. c \<noteq> None) xs) = Suc (length (filter (\<lambda>c. c \<noteq> None) (snd (take_first xs))))"
  by (induction xs rule: take_first.induct) (auto split: prod.splits)

lemma mimes_next_left: "mimes_next m = (Some v, m') \<Longrightarrow> mimes_left m = Suc (mimes_left m')"
  using take_first_left[of "om_choices m" v] by (auto simp: mimes_next_def mimes_left_def split: if_splits prod.splits)

lemma mimes_left_bound: "mimes_ok m \<Longrightarrow> mimes_left m \<le> 6"
  unfolding mimes_left_def mimes_ok_def by (metis length_filter_le)

lemma mimes_next_valid:
  "mimes_ok m \<Longrightarrow> mimes_next m = (Some v, m') \<Longrightarrow> v \<noteq> [] \<and> length v \<le> 96 \<and> \<not> sensitive_marker v \<and> \<not> om_rejected m"
  using take_first_mem[of "om_choices m" v] by (auto simp: mimes_next_def mimes_ok_def split: if_splits prod.splits)

end
