(* ===== verification/Capture_Transfer.thy ===== *)
theory Capture_Transfer
  imports Capture_Gate Offered_Mimes
begin

text \<open>
  Bounded reception of one offer (\<open>src/src/capture/transfer.rs\<close>).  What a nonblocking read returns is
  the argument \<open>read_event\<close>, time is in nanoseconds.  A transfer holds a reservation of the shared
  byte budget; \<open>finish\<close> passes it on with the complete data.  The lemmas show that the length never
  leaves the limit, that a read of length zero is requested at no moment (so \<open>Ok(0)\<close> is end of file),
  that the received bytes are the read chunks in order, and that both deadlines end the transfer.
\<close>

definition MAX_TRANSFERS :: nat where "MAX_TRANSFERS = 4"
definition TOTAL_BYTES :: nat where "TOTAL_BYTES = 128 * 1024 * 1024"
definition IDLE :: nat where "IDLE = 5 * 1000000000"
definition TOTAL :: nat where "TOTAL = 15 * 1000000000"

definition budget_reserve :: "nat \<Rightarrow> nat \<Rightarrow> nat option" where
  "budget_reserve n used =
    (case checked_add used n of
       None \<Rightarrow> None
     | Some t \<Rightarrow> if t \<le> TOTAL_BYTES then Some t else None)"

record transfer =
  tr_data :: bytes
  tr_length :: nat
  tr_limit :: nat
  tr_nonblank :: bool
  tr_started :: nat
  tr_progress :: nat
  tr_reserved :: nat

definition new_transfer :: "nat \<Rightarrow> nat \<Rightarrow> nat \<Rightarrow> transfer" where
  "new_transfer limit reserved now =
     \<lparr>tr_data = [], tr_length = 0, tr_limit = limit, tr_nonblank = False, tr_started = now,
      tr_progress = now, tr_reserved = reserved\<rparr>"

text \<open>What the pipe has to say: available bytes (never none), end of file, nothing yet, or an error.\<close>

datatype read_event = ReadBytes char bytes | ReadEof | ReadBlocked | ReadFailed

datatype transfer_error = TimedOut | FileTooLarge | ReadError | WriteError

definition transfer_room :: "transfer \<Rightarrow> nat" where
  "transfer_room t = min (tr_limit t + 1 - tr_length t) (64 * 1024)"

definition append_transfer :: "bool \<Rightarrow> bytes \<Rightarrow> nat \<Rightarrow> transfer \<Rightarrow> (transfer_error, unit) result \<times> transfer" where
  "append_transfer write_ok bs now t =
    (let t1 = t\<lparr>tr_length := tr_length t + length bs\<rparr> in
     if tr_length t1 > tr_limit t1 then (Inl FileTooLarge, t1)
     else let t2 = t1\<lparr>tr_progress := now,
                      tr_nonblank := (tr_nonblank t1 \<or> list_ex (\<lambda>b. \<not> is_ascii_whitespace b) bs)\<rparr>
          in if write_ok then (Inr (), t2\<lparr>tr_data := tr_data t2 @ bs\<rparr>) else (Inl WriteError, t2))"

definition receive_transfer ::
    "nat \<Rightarrow> read_event \<Rightarrow> bool \<Rightarrow> transfer \<Rightarrow> (transfer_error, bool) result \<times> transfer" where
  "receive_transfer now ev write_ok t =
    (if now - tr_progress t \<ge> IDLE \<or> now - tr_started t \<ge> TOTAL then (Inl TimedOut, t)
     else case ev of
       ReadEof \<Rightarrow> (Inr True, t)
     | ReadBytes b bs \<Rightarrow>
         (let (r, t') = append_transfer write_ok (take (transfer_room t) (b # bs)) now t in
          (case r of Inl e \<Rightarrow> Inl e | Inr _ \<Rightarrow> Inr False, t'))
     | ReadBlocked \<Rightarrow> (Inr False, t)
     | ReadFailed \<Rightarrow> (Inl ReadError, t))"

datatype received = Blank | Complete bytes nat

definition finish_transfer :: "bool \<Rightarrow> transfer \<Rightarrow> (transfer_error, received) result" where
  "finish_transfer rewind_ok t =
    (if \<not> tr_nonblank t then Inr Blank
     else if \<not> rewind_ok then Inl ReadError
     else Inr (Complete (tr_data t) (tr_reserved t)))"

section \<open>Lemmas\<close>

definition transfer_ok :: "transfer \<Rightarrow> bool" where
  "transfer_ok t \<longleftrightarrow>
     tr_length t = length (tr_data t) \<and> tr_length t \<le> tr_limit t \<and> tr_reserved t = tr_limit t + 1 \<and>
     (tr_nonblank t \<longleftrightarrow> list_ex (\<lambda>b. \<not> is_ascii_whitespace b) (tr_data t))"

lemma transfer_ok_new: "transfer_ok (new_transfer limit (limit + 1) now)"
  by (simp add: transfer_ok_def new_transfer_def)

text \<open>The read buffer is never empty, so the kernel's zero is end of file.\<close>

lemma transfer_room_pos: "transfer_ok t \<Longrightarrow> 0 < transfer_room t"
  by (simp add: transfer_ok_def transfer_room_def)

lemma receive_ok:
  assumes ok: "transfer_ok t" and r: "receive_transfer now ev w t = (Inr eof, t')"
  shows "transfer_ok t' \<and> tr_limit t' = tr_limit t \<and> tr_reserved t' = tr_reserved t \<and> tr_started t' = tr_started t \<and>
    (eof \<longleftrightarrow> ev = ReadEof) \<and>
    tr_data t' = tr_data t @ (case ev of ReadBytes b bs \<Rightarrow> take (transfer_room t) (b # bs) | _ \<Rightarrow> [])"
  using assms
  by (cases ev) (auto simp: receive_transfer_def append_transfer_def transfer_ok_def Let_def list_ex_append
      split: if_splits)

lemma receive_reserved: "tr_reserved (snd (receive_transfer now ev w t)) = tr_reserved t"
  by (cases ev) (auto simp: receive_transfer_def append_transfer_def Let_def split: prod.splits)

lemma receive_deadline:
  "tr_progress t + IDLE \<le> now \<or> tr_started t + TOTAL \<le> now \<Longrightarrow> receive_transfer now ev w t = (Inl TimedOut, t)"
  by (auto simp: receive_transfer_def IDLE_def TOTAL_def)

text \<open>More than the limit is never delivered: the extra byte ends the transfer.\<close>

lemma receive_too_large:
  assumes "transfer_ok t" and "receive_transfer now (ReadBytes b bs) w t = (Inr eof, t')"
  shows "length (tr_data t) + min (length (b # bs)) (transfer_room t) \<le> tr_limit t"
proof -
  have ok: "transfer_ok t'" "tr_limit t' = tr_limit t" "tr_data t' = tr_data t @ take (transfer_room t) (b # bs)"
    using receive_ok[OF assms] by simp_all
  then have "length (tr_data t @ take (transfer_room t) (b # bs)) \<le> tr_limit t" by (metis transfer_ok_def)
  then show ?thesis by (simp add: min.commute)
qed

lemma finish_complete:
  assumes "transfer_ok t" "finish_transfer rw t = Inr r"
  shows "case r of Blank \<Rightarrow> list_all is_ascii_whitespace (tr_data t)
    | Complete bs n \<Rightarrow> bs = tr_data t \<and> n = tr_limit t + 1 \<and> length bs \<le> tr_limit t \<and>
        \<not> list_all is_ascii_whitespace bs"
  using assms
  by (auto simp: finish_transfer_def transfer_ok_def list_ex_iff list_all_iff split: if_splits)

lemma budget_reserve_Some: "budget_reserve n used = Some t \<longleftrightarrow> t = used + n \<and> used + n \<le> TOTAL_BYTES"
  by (auto simp: budget_reserve_def checked_add_def TOTAL_BYTES_def u64_max_def)

end
