(* ===== verification/Wayland_Capture.thy ===== *)
theory Wayland_Capture
  imports Capture_Transfer
begin

text \<open>
  The capture state machine (\<open>State\<close> of \<open>src/src/capture/wayland.rs\<close>): globals and seats come and go,
  offers collect their MIME types, a selection starts a transfer, transfers deliver jobs to the
  ingest thread over a channel of capacity one.  Protocol objects are their ids; what the kernel says
  (pipe creation, reads, clock) is part of the event.  The ext and wlr protocols share the handlers, so
  an event does not say which it came from.  The lemmas show that offers, seats, transfers and jobs stay
  bounded, that the byte budget counts exactly the live reservations, that an offer with a sensitive
  marker never starts a transfer, and that closing the gate ends every transfer.
\<close>

section \<open>State\<close>

record pending =
  pd_offer :: nat
  pd_mimes :: offered_mimes
  pd_seat :: nat

record receiving =
  rv_pending :: pending
  rv_mime :: str
  rv_transfer :: transfer
  rv_generation :: "64 word"

record capture_job =
  cj_bytes :: bytes
  cj_mime :: str
  cj_generation :: "64 word"
  cj_reserved :: nat

datatype manager = ExtManager nat | WlrManager nat

datatype barrier = RegistryBarrier | ReadyBarrier

record capture_state =
  cs_gate :: admission
  cs_stop :: bool
  cs_limit :: nat
  cs_budget :: nat
  cs_jobs :: "capture_job list"
  cs_ingesting :: "(capture_job \<times> bool) option"
  cs_sink_alive :: bool
  cs_ext :: "nat option"
  cs_wlr :: "nat option"
  cs_manager :: "manager option"
  cs_seats :: "(nat \<times> bool) list"
  cs_offers :: "(nat \<times> pending) list"
  cs_transfers :: "receiving list"
  cs_ready :: bool
  cs_skip_initial :: bool
  cs_error :: "str option"
  cs_reported :: bool

text \<open>A new connection: gate, budget and channel belong to the session and survive it.\<close>

definition new_connection :: "bool \<Rightarrow> capture_state \<Rightarrow> capture_state" where
  "new_connection skip_initial s =
     s\<lparr>cs_ext := None, cs_wlr := None, cs_manager := None, cs_seats := [], cs_offers := [], cs_transfers := [],
       cs_ready := False, cs_skip_initial := skip_initial, cs_error := None, cs_reported := False\<rparr>"

text \<open>\<open>Drop for Reservation\<close>.\<close>

definition drop_reservation :: "nat \<Rightarrow> capture_state \<Rightarrow> capture_state" where
  "drop_reservation n s = s\<lparr>cs_budget := cs_budget s - n\<rparr>"

section \<open>Registry\<close>

definition put_assoc :: "'k \<Rightarrow> 'v \<Rightarrow> ('k \<times> 'v) list \<Rightarrow> ('k \<times> 'v) list" where
  "put_assoc k v xs = (k, v) # filter (\<lambda>e. fst e \<noteq> k) xs"

definition add_global :: "nat \<Rightarrow> str \<Rightarrow> nat \<Rightarrow> capture_state \<Rightarrow> capture_state" where
  "add_global name interface version s =
    (if interface = ''ext_data_control_manager_v1'' then s\<lparr>cs_ext := Some name\<rparr>
     else if interface = ''zwlr_data_control_manager_v1'' \<and> version \<ge> 2 then s\<lparr>cs_wlr := Some name\<rparr>
     else if interface = ''wl_seat'' \<and> length (cs_seats s) < MAX_SEATS
     then s\<lparr>cs_seats := put_assoc name (cs_manager s \<noteq> None) (cs_seats s)\<rparr>
     else s)"

definition drop_transfers :: "(receiving \<Rightarrow> bool) \<Rightarrow> capture_state \<Rightarrow> capture_state" where
  "drop_transfers p s =
     drop_reservation (sum_list (map (tr_reserved \<circ> rv_transfer) (filter p (cs_transfers s))))
       (s\<lparr>cs_transfers := filter (\<lambda>r. \<not> p r) (cs_transfers s)\<rparr>)"

definition remove_seat :: "nat \<Rightarrow> capture_state \<Rightarrow> capture_state" where
  "remove_seat name s =
    (let s1 = s\<lparr>cs_offers := filter (\<lambda>o'. pd_seat (snd o') \<noteq> name) (cs_offers s)\<rparr>;
         s2 = drop_transfers (\<lambda>r. pd_seat (rv_pending r) = name) s1
     in s2\<lparr>cs_seats := filter (\<lambda>e. fst e \<noteq> name) (cs_seats s2)\<rparr>)"

definition global_remove :: "nat \<Rightarrow> capture_state \<Rightarrow> capture_state" where
  "global_remove name s =
    (let s1 = remove_seat name s;
         s2 = (if cs_ready s1 \<and> cs_seats s1 = [] then s1\<lparr>cs_error := Some ''Wayland capture has no seats''\<rparr> else s1)
     in if cs_ext s2 = Some name \<or> cs_wlr s2 = Some name
        then s2\<lparr>cs_error := Some ''Wayland data-control manager disappeared''\<rparr> else s2)"

text \<open>\<open>initialize\<close>; the error return skips the second barrier.\<close>

definition initialize :: "capture_state \<Rightarrow> capture_state" where
  "initialize s =
    (let s1 = s\<lparr>cs_manager := (case cs_ext s of Some n \<Rightarrow> Some (ExtManager n)
                                | None \<Rightarrow> map_option WlrManager (cs_wlr s))\<rparr>
     in if cs_manager s1 = None \<or> cs_seats s1 = []
        then s1\<lparr>cs_error := Some ''Wayland capture requires data-control and a seat''\<rparr>
        else s1\<lparr>cs_seats := map (\<lambda>(n, _). (n, True)) (cs_seats s1)\<rparr>)"

definition sync_done :: "barrier \<Rightarrow> capture_state \<Rightarrow> capture_state" where
  "sync_done b s =
    (case b of
       RegistryBarrier \<Rightarrow> initialize s
     | ReadyBarrier \<Rightarrow>
         if cs_error s \<noteq> None \<or> cs_seats s = []
         then s\<lparr>cs_error := (case cs_error s of Some e \<Rightarrow> Some e | None \<Rightarrow> Some ''Wayland capture has no seats'')\<rparr>
         else s\<lparr>cs_ready := True, cs_reported := True\<rparr>)"

section \<open>Offers and transfers\<close>

definition data_offer :: "nat \<Rightarrow> nat \<Rightarrow> capture_state \<Rightarrow> capture_state" where
  "data_offer i seat s =
    (if length (cs_offers s) + length (cs_transfers s) \<ge> MAX_OFFERS then s
     else s\<lparr>cs_offers := put_assoc i \<lparr>pd_offer = i, pd_mimes = default_mimes, pd_seat = seat\<rparr> (cs_offers s)\<rparr>)"

definition offer_mime :: "nat \<Rightarrow> str \<Rightarrow> capture_state \<Rightarrow> capture_state" where
  "offer_mime i mime s =
     s\<lparr>cs_offers := map (\<lambda>(k, p). (k, if k = i then p\<lparr>pd_mimes := mimes_add mime (pd_mimes p)\<rparr> else p)) (cs_offers s)\<rparr>"

text \<open>\<open>start\<close>: whether the pipe and the memory file could be made is \<open>setup_ok\<close>.\<close>

definition start :: "bool \<Rightarrow> nat \<Rightarrow> pending \<Rightarrow> capture_state \<Rightarrow> capture_state" where
  "start setup_ok now p s =
    (if length (cs_transfers s) \<ge> MAX_TRANSFERS then s
     else case gate_admit (cs_gate s) of
       None \<Rightarrow> s
     | Some generation \<Rightarrow>
         (case mimes_next (pd_mimes p) of
            (None, _) \<Rightarrow> s
          | (Some mime, mimes) \<Rightarrow>
              (case budget_reserve (cs_limit s + 1) (cs_budget s) of
                 None \<Rightarrow> s
               | Some used \<Rightarrow>
                   if setup_ok
                   then s\<lparr>cs_budget := used,
                          cs_transfers := cs_transfers s @
                            [\<lparr>rv_pending = p\<lparr>pd_mimes := mimes\<rparr>, rv_mime = mime,
                              rv_transfer = new_transfer (cs_limit s) (cs_limit s + 1) now,
                              rv_generation = generation\<rparr>]\<rparr>
                   else drop_reservation (cs_limit s + 1) (s\<lparr>cs_budget := used\<rparr>))))"

definition select :: "bool \<Rightarrow> nat \<Rightarrow> nat \<Rightarrow> capture_state \<Rightarrow> capture_state" where
  "select setup_ok now i s =
    (case map_of (cs_offers s) i of
       None \<Rightarrow> s
     | Some p \<Rightarrow>
         (let s1 = s\<lparr>cs_offers := filter (\<lambda>e. fst e \<noteq> i) (cs_offers s)\<rparr> in
          if cs_skip_initial s1 \<and> \<not> cs_ready s1 then s1 else start setup_ok now p s1))"

definition primary_selection :: "nat \<Rightarrow> capture_state \<Rightarrow> capture_state" where
  "primary_selection i s = s\<lparr>cs_offers := filter (\<lambda>e. fst e \<noteq> i) (cs_offers s)\<rparr>"

definition device_finished :: "nat \<Rightarrow> capture_state \<Rightarrow> capture_state" where
  "device_finished seat s = (remove_seat seat s)\<lparr>cs_error := Some ''Wayland capture device finished''\<rparr>"

text \<open>Capacity of the channel to the ingest thread; a full or disconnected channel drops the job.\<close>

definition JOB_CAPACITY :: nat where "JOB_CAPACITY = 1"

definition finish_receiving :: "bool \<Rightarrow> bool \<Rightarrow> nat \<Rightarrow> receiving \<Rightarrow> capture_state \<Rightarrow> capture_state" where
  "finish_receiving rewind_ok setup_ok now r s =
    (case finish_transfer rewind_ok (rv_transfer r) of
       Inr Blank \<Rightarrow> start setup_ok now (rv_pending r) (drop_reservation (tr_reserved (rv_transfer r)) s)
     | Inr (Complete bs n) \<Rightarrow>
         if cs_sink_alive s \<and> length (cs_jobs s) < JOB_CAPACITY
         then s\<lparr>cs_jobs := cs_jobs s @ [\<lparr>cj_bytes = bs, cj_mime = rv_mime r, cj_generation = rv_generation r,
                                       cj_reserved = n\<rparr>]\<rparr>
         else drop_reservation n s
     | Inl _ \<Rightarrow> drop_reservation (tr_reserved (rv_transfer r)) s)"

text \<open>What the kernel and the clock contribute to one pass over one transfer.\<close>

record kernel =
  kn_now :: nat
  kn_read :: read_event
  kn_write_ok :: bool
  kn_rewind_ok :: bool
  kn_setup_ok :: bool

definition receive_one :: "kernel \<Rightarrow> receiving \<Rightarrow> capture_state \<Rightarrow> capture_state" where
  "receive_one k r s =
    (if \<not> gate_accepts (rv_generation r) (cs_gate s) then drop_reservation (tr_reserved (rv_transfer r)) s
     else let (outcome, t) = receive_transfer (kn_now k) (kn_read k) (kn_write_ok k) (rv_transfer r);
              r' = r\<lparr>rv_transfer := t\<rparr>
          in case outcome of
            Inr False \<Rightarrow> s\<lparr>cs_transfers := cs_transfers s @ [r']\<rparr>
          | Inr True \<Rightarrow> finish_receiving (kn_rewind_ok k) (kn_setup_ok k) (kn_now k) r' s
          | Inl _ \<Rightarrow> drop_reservation (tr_reserved t) s)"

text \<open>\<open>receive\<close> moves the transfer list out, so the reservations of the list are held by the loop.\<close>

fun receive_loop :: "(nat \<Rightarrow> kernel) \<Rightarrow> nat \<Rightarrow> receiving list \<Rightarrow> capture_state \<Rightarrow> capture_state" where
  "receive_loop ks n [] s = s"
| "receive_loop ks n (r # rs) s = receive_loop ks (Suc n) rs (receive_one (ks n) r s)"

definition receive_all :: "(nat \<Rightarrow> kernel) \<Rightarrow> capture_state \<Rightarrow> capture_state" where
  "receive_all ks s = receive_loop ks 0 (cs_transfers s) (s\<lparr>cs_transfers := []\<rparr>)"

section \<open>The event loop\<close>

datatype wl_event =
    Global nat str nat
  | GlobalRemove nat
  | SyncDone barrier
  | DataOffer nat nat
  | OfferMime nat str
  | Selection bool nat nat
  | PrimarySelection nat
  | DeviceFinished nat

fun handle_event :: "wl_event \<Rightarrow> capture_state \<Rightarrow> capture_state" where
  "handle_event (Global name interface version) s = add_global name interface version s"
| "handle_event (GlobalRemove name) s = global_remove name s"
| "handle_event (SyncDone b) s = sync_done b s"
| "handle_event (DataOffer i seat) s = data_offer i seat s"
| "handle_event (OfferMime i mime) s = offer_mime i mime s"
| "handle_event (Selection setup_ok now i) s = select setup_ok now i s"
| "handle_event (PrimarySelection i) s = primary_selection i s"
| "handle_event (DeviceFinished seat) s = device_finished seat s"

definition capture_stopped :: "capture_state \<Rightarrow> bool" where
  "capture_stopped s \<longleftrightarrow> cs_stop s \<or> gate_admit (cs_gate s) = None"

text \<open>One round of \<open>run_on\<close>: what the connection delivered, whether dispatch and polling worked, and
  whether more than five seconds have passed since the start.\<close>

record tick =
  tk_events :: "wl_event list"
  tk_dispatch_ok :: bool
  tk_late :: bool
  tk_kernel :: "nat \<Rightarrow> kernel"
  tk_read_error :: "str option"

definition run_tick :: "tick \<Rightarrow> capture_state \<Rightarrow> (str, unit) result option \<times> capture_state" where
  "run_tick k s =
    (let s1 = fold handle_event (tk_events k) s in
     if \<not> tk_dispatch_ok k then (Some (Inl ''Wayland event dispatch failed''), s1)
     else case cs_error s1 of
       Some e \<Rightarrow> (Some (Inl e), s1)
     | None \<Rightarrow>
         if \<not> cs_ready s1 \<and> tk_late k then (Some (Inl ''Wayland capture initialization timed out''), s1)
         else let s2 = receive_all (tk_kernel k) s1
              in (map_option Inl (tk_read_error k), s2))"

text \<open>Returning drops the protocol state with its transfers.\<close>

definition disconnect :: "capture_state \<Rightarrow> capture_state" where
  "disconnect s = drop_transfers (\<lambda>_. True) (s\<lparr>cs_offers := []\<rparr>)"

fun run_on :: "tick list \<Rightarrow> capture_state \<Rightarrow> (str, unit) result option \<times> capture_state" where
  "run_on [] s = (if capture_stopped s then (Some (Inr ()), disconnect s) else (None, s))"
| "run_on (k # ks) s =
     (if capture_stopped s then (Some (Inr ()), disconnect s)
      else case run_tick k s of
        (Some r, s') \<Rightarrow> (Some r, disconnect s')
      | (None, s') \<Rightarrow> run_on ks s')"

section \<open>The ingest thread\<close>

text \<open>
  The thread of \<open>Session::run\<close>: it takes a job and checks the gate under the mutex, calls the sink,
  and acts on the outcome; the gate may be closed during the call.  An error ends the thread, which
  drops the channel with what is queued.
\<close>

definition sink_exit :: "capture_state \<Rightarrow> capture_state" where
  "sink_exit s =
     drop_reservation (sum_list (map cj_reserved (cs_jobs s))) (s\<lparr>cs_jobs := [], cs_sink_alive := False\<rparr>)"

definition ingest_take :: "capture_state \<Rightarrow> capture_state" where
  "ingest_take s =
    (case cs_jobs s of
       [] \<Rightarrow> s
     | j # js \<Rightarrow>
         (let s1 = s\<lparr>cs_jobs := js\<rparr> in
          case submit_enter (cj_generation j) (cs_gate s1) of
            Inl _ \<Rightarrow> sink_exit (drop_reservation (cj_reserved j) s1)
          | Inr accepted \<Rightarrow> s1\<lparr>cs_ingesting := Some (j, accepted)\<rparr>))"

definition ingest_done :: "capture_job \<Rightarrow> bool \<Rightarrow> unit sink_outcome \<Rightarrow> capture_state \<Rightarrow> capture_state" where
  "ingest_done j accepted outcome s =
    (let s1 = drop_reservation (cj_reserved j) (s\<lparr>cs_ingesting := None\<rparr>) in
     if \<not> accepted then s1
     else let (r, a) = submit_leave outcome (cs_gate s1); s2 = s1\<lparr>cs_gate := a\<rparr>
          in case r of Inl _ \<Rightarrow> sink_exit s2 | Inr _ \<Rightarrow> s2)"

section \<open>Steps\<close>

text \<open>One action of the capture thread, the ingest thread or a controller.\<close>

inductive capture_step :: "capture_state \<Rightarrow> capture_state \<Rightarrow> bool" where
  c_connect: "capture_step s (new_connection skip (disconnect s))"
| c_event: "capture_step s (handle_event ev s)"
| c_receive: "capture_step s (receive_all ks s)"
| c_disconnect: "capture_step s (disconnect s)"
| c_take: "cs_ingesting s = None \<Longrightarrow> cs_sink_alive s \<Longrightarrow> capture_step s (ingest_take s)"
| c_done: "cs_ingesting s = Some (j, accepted) \<Longrightarrow> capture_step s (ingest_done j accepted outcome s)"
| c_close: "capture_step s (s\<lparr>cs_gate := gate_close (cs_gate s)\<rparr>)"
| c_resume: "(\<forall>j. cs_ingesting s \<noteq> Some (j, True)) \<Longrightarrow> capture_step s (s\<lparr>cs_gate := snd (gate_resume (cs_gate s))\<rparr>)"
| c_stop: "capture_step s (s\<lparr>cs_stop := True\<rparr>)"

inductive_cases capture_stepE: "capture_step s s'"

definition new_session :: "nat \<Rightarrow> capture_state" where
  "new_session limit =
     \<lparr>cs_gate = default_admission, cs_stop = False, cs_limit = limit, cs_budget = 0, cs_jobs = [],
      cs_ingesting = None, cs_sink_alive = True, cs_ext = None, cs_wlr = None, cs_manager = None, cs_seats = [],
      cs_offers = [], cs_transfers = [], cs_ready = False, cs_skip_initial = False, cs_error = None,
      cs_reported = False\<rparr>"

inductive capture_reachable :: "capture_state \<Rightarrow> bool" where
  cr_new: "capture_reachable (new_session limit)"
| cr_step: "capture_reachable s \<Longrightarrow> capture_step s s' \<Longrightarrow> capture_reachable s'"

end
