(* ===== verification/Capture_Invariants.thy ===== *)
theory Capture_Invariants
  imports Wayland_Capture
begin

text \<open>
  The invariant of the capture state machine: bounded collections, an exact byte budget, and
  well-formed transfers and jobs.  \<open>capture_inv\<close> has the transfers the receive loop has moved out as its
  first argument.
\<close>

definition reserved :: "receiving list \<Rightarrow> nat" where
  "reserved rs = sum_list (map (tr_reserved \<circ> rv_transfer) rs)"

definition held :: "capture_state \<Rightarrow> nat" where
  "held s =
     reserved (cs_transfers s) + sum_list (map cj_reserved (cs_jobs s)) +
     (case cs_ingesting s of None \<Rightarrow> 0 | Some (j, _) \<Rightarrow> cj_reserved j)"

definition mime_ok :: "str \<Rightarrow> bool" where
  "mime_ok v \<longleftrightarrow> v \<noteq> [] \<and> length v \<le> 96 \<and> \<not> sensitive_marker v"

definition receiving_ok :: "nat \<Rightarrow> receiving \<Rightarrow> bool" where
  "receiving_ok limit r \<longleftrightarrow>
     transfer_ok (rv_transfer r) \<and> tr_limit (rv_transfer r) = limit \<and> mimes_ok (pd_mimes (rv_pending r)) \<and>
     mime_ok (rv_mime r)"

definition job_ok :: "nat \<Rightarrow> capture_job \<Rightarrow> bool" where
  "job_ok limit j \<longleftrightarrow>
     mime_ok (cj_mime j) \<and> length (cj_bytes j) \<le> limit \<and> \<not> list_all is_ascii_whitespace (cj_bytes j)"

definition sizes_ok :: "nat \<Rightarrow> capture_state \<Rightarrow> bool" where
  "sizes_ok n s \<longleftrightarrow>
     length (cs_seats s) \<le> MAX_SEATS \<and> length (cs_transfers s) + n \<le> MAX_TRANSFERS \<and>
     length (cs_offers s) + length (cs_transfers s) + n \<le> MAX_OFFERS \<and> length (cs_jobs s) \<le> JOB_CAPACITY"

definition contents_ok :: "capture_state \<Rightarrow> bool" where
  "contents_ok s \<longleftrightarrow>
     (\<forall>p \<in> set (cs_offers s). mimes_ok (pd_mimes (snd p))) \<and>
     (\<forall>r \<in> set (cs_transfers s). receiving_ok (cs_limit s) r) \<and> (\<forall>j \<in> set (cs_jobs s). job_ok (cs_limit s) j) \<and>
     (\<forall>j b. cs_ingesting s = Some (j, b) \<longrightarrow> job_ok (cs_limit s) j)"

definition capture_inv :: "receiving list \<Rightarrow> capture_state \<Rightarrow> bool" where
  "capture_inv rs s \<longleftrightarrow>
     cs_budget s = held s + reserved rs \<and> cs_budget s \<le> TOTAL_BYTES \<and>
     sizes_ok (length rs) s \<and> contents_ok s \<and> (\<forall>r \<in> set rs. receiving_ok (cs_limit s) r)"

lemmas capture_inv_defs = capture_inv_def sizes_ok_def contents_ok_def held_def reserved_def

lemma filter_length_less: "length xs \<le> n \<Longrightarrow> length (filter p xs) \<le> n"
  using length_filter_le le_trans by blast

lemma reserved_split: "reserved xs = reserved (filter p xs) + reserved (filter (\<lambda>r. \<not> p r) xs)"
  by (induction xs) (auto simp: reserved_def)

lemma receiving_ok_reserved: "receiving_ok limit r \<Longrightarrow> tr_reserved (rv_transfer r) = limit + 1"
  by (simp add: receiving_ok_def transfer_ok_def)

section \<open>Starting a transfer\<close>

lemma start_result:
  "start so now p s = s \<or>
   (\<exists>mime mimes g. length (cs_transfers s) < MAX_TRANSFERS \<and> gate_admit (cs_gate s) = Some g \<and>
      mimes_next (pd_mimes p) = (Some mime, mimes) \<and> cs_budget s + (cs_limit s + 1) \<le> TOTAL_BYTES \<and>
      start so now p s = s\<lparr>cs_budget := cs_budget s + (cs_limit s + 1),
        cs_transfers := cs_transfers s @ [\<lparr>rv_pending = p\<lparr>pd_mimes := mimes\<rparr>, rv_mime = mime,
          rv_transfer = new_transfer (cs_limit s) (cs_limit s + 1) now, rv_generation = g\<rparr>]\<rparr>)"
  by (auto simp: start_def budget_reserve_Some drop_reservation_def not_le split: option.splits prod.splits)

lemma start_inv:
  assumes inv: "capture_inv rs s" and p: "mimes_ok (pd_mimes p)"
    and room: "length (cs_transfers s) < MAX_TRANSFERS \<longrightarrow> sizes_ok (Suc (length rs)) s"
  shows "capture_inv rs (start so now p s)"
  using start_result[of so now p s]
proof (elim disjE exE conjE)
  assume "start so now p s = s" then show ?thesis using inv by simp
next
  fix mime mimes g
  let ?r = "\<lparr>rv_pending = p\<lparr>pd_mimes := mimes\<rparr>, rv_mime = mime,
          rv_transfer = new_transfer (cs_limit s) (cs_limit s + 1) now, rv_generation = g\<rparr>"
  assume few: "length (cs_transfers s) < MAX_TRANSFERS" and nx: "mimes_next (pd_mimes p) = (Some mime, mimes)"
    and b: "cs_budget s + (cs_limit s + 1) \<le> TOTAL_BYTES"
    and st: "start so now p s = s\<lparr>cs_budget := cs_budget s + (cs_limit s + 1), cs_transfers := cs_transfers s @ [?r]\<rparr>"
  have "receiving_ok (cs_limit s) ?r"
    using mimes_ok_next[OF p] mimes_next_valid[OF p nx] nx transfer_ok_new
    by (simp add: receiving_ok_def mime_ok_def new_transfer_def transfer_ok_def)
  then show ?thesis using inv room few b unfolding st
    by (auto simp: capture_inv_defs new_transfer_def)
qed

section \<open>One transfer of the receive loop\<close>

lemma drop_moved:
  assumes inv: "capture_inv (r # rs) s"
  shows "capture_inv rs (drop_reservation (tr_reserved (rv_transfer r)) s)"
  using inv by (auto simp: capture_inv_defs drop_reservation_def)

lemma finish_receiving_inv:
  assumes inv: "capture_inv (r # rs) s"
  shows "capture_inv rs (finish_receiving rw so now r s)"
proof (cases "finish_transfer rw (rv_transfer r)")
  case (Inl e)
  then show ?thesis using drop_moved[OF inv] by (simp add: finish_receiving_def)
next
  case (Inr res)
  have ok: "transfer_ok (rv_transfer r)" "tr_limit (rv_transfer r) = cs_limit s" "mimes_ok (pd_mimes (rv_pending r))"
    "mime_ok (rv_mime r)" "tr_reserved (rv_transfer r) = cs_limit s + 1"
    using inv receiving_ok_reserved by (auto simp: capture_inv_def receiving_ok_def)
  note fc = finish_complete[OF ok(1) Inr]
  show ?thesis
  proof (cases res)
    case Blank
    have "sizes_ok (Suc (length rs)) (drop_reservation (tr_reserved (rv_transfer r)) s)"
      using inv by (simp add: capture_inv_def sizes_ok_def drop_reservation_def)
    then show ?thesis using start_inv[OF drop_moved[OF inv] ok(3)] Inr Blank by (simp add: finish_receiving_def)
  next
    case (Complete bs n)
    then have c: "bs = tr_data (rv_transfer r)" "n = cs_limit s + 1" "length bs \<le> cs_limit s"
      "\<not> list_all is_ascii_whitespace bs" using fc ok(2) by auto
    have "capture_inv rs (drop_reservation n s)" using drop_moved[OF inv] ok(5) c(2) by simp
    then show ?thesis
      using inv ok(4,5) c Inr Complete
      by (auto simp: finish_receiving_def capture_inv_defs job_ok_def)
  qed
qed

lemma receive_one_inv:
  assumes inv: "capture_inv (r # rs) s"
  shows "capture_inv rs (receive_one k r s)"
proof (cases "gate_accepts (rv_generation r) (cs_gate s)")
  case False
  then show ?thesis using drop_moved[OF inv] by (simp add: receive_one_def)
next
  case True
  obtain res t where rec: "receive_transfer (kn_now k) (kn_read k) (kn_write_ok k) (rv_transfer r) = (res, t)" by force
  have rok: "receiving_ok (cs_limit s) r" using inv by (simp add: capture_inv_def)
  have res: "tr_reserved t = tr_reserved (rv_transfer r)"
    using receive_reserved[of "kn_now k" "kn_read k" "kn_write_ok k" "rv_transfer r"] rec by simp
  let ?r = "r\<lparr>rv_transfer := t\<rparr>"
  show ?thesis
  proof (cases res)
    case (Inl e)
    then show ?thesis using drop_moved[OF inv] True rec res by (simp add: receive_one_def)
  next
    case (Inr eof)
    have "transfer_ok t" "tr_limit t = tr_limit (rv_transfer r)"
      using receive_ok[of "rv_transfer r"] rok rec Inr by (auto simp: receiving_ok_def)
    then have r': "receiving_ok (cs_limit s) ?r" using rok by (simp add: receiving_ok_def)
    then have inv': "capture_inv (?r # rs) s" using inv res by (auto simp: capture_inv_def reserved_def)
    show ?thesis
    proof (cases eof)
      case True
      then show ?thesis using finish_receiving_inv[OF inv'] \<open>gate_accepts _ _\<close> rec Inr by (simp add: receive_one_def)
    next
      case False
      then show ?thesis using inv' \<open>gate_accepts _ _\<close> rec Inr
        by (auto simp: receive_one_def capture_inv_defs)
    qed
  qed
qed

lemma receive_loop_inv: "capture_inv rs s \<Longrightarrow> capture_inv [] (receive_loop ks n rs s)"
  by (induction ks n rs s rule: receive_loop.induct) (auto intro: receive_one_inv)

lemma receive_all_inv: "capture_inv [] s \<Longrightarrow> capture_inv [] (receive_all ks s)"
  unfolding receive_all_def by (rule receive_loop_inv) (auto simp: capture_inv_defs)

section \<open>The other handlers\<close>

lemma put_assoc_simps [simp]:
  "distinct (map fst xs) \<Longrightarrow> distinct (map fst (put_assoc k v xs))"
  "set (put_assoc k v xs) \<subseteq> insert (k, v) (set xs)"
  "length (put_assoc k v xs) \<le> Suc (length xs)"
  by (auto simp: put_assoc_def distinct_map_filter)

lemma drop_transfers_inv: "capture_inv [] s \<Longrightarrow> capture_inv [] (drop_transfers p s)"
proof -
  assume inv: "capture_inv [] s"
  have e: "sum_list (map (tr_reserved \<circ> rv_transfer) (filter p (cs_transfers s))) = reserved (filter p (cs_transfers s))"
    by (simp add: reserved_def)
  obtain n where n: "length (filter (\<lambda>r. \<not> p r) (cs_transfers s)) = n" "n \<le> length (cs_transfers s)"
    using length_filter_le by blast
  show ?thesis
    using inv n reserved_split[of "cs_transfers s" p] unfolding drop_transfers_def e
    by (auto simp: capture_inv_def sizes_ok_def contents_ok_def held_def drop_reservation_def)
qed

lemma offers_inv:
  assumes "capture_inv [] s" "length os \<le> length (cs_offers s)" "\<forall>p \<in> set os. mimes_ok (pd_mimes (snd p))"
  shows "capture_inv [] (s\<lparr>cs_offers := os\<rparr>)"
  using assms by (auto simp: capture_inv_defs)

lemma seats_inv:
  assumes "capture_inv [] s" "length xs \<le> MAX_SEATS"
  shows "capture_inv [] (s\<lparr>cs_seats := xs\<rparr>)"
  using assms by (auto simp: capture_inv_defs)

text \<open>Fields the invariant does not read.\<close>

lemma capture_inv_frame [simp]:
  "capture_inv rs (s\<lparr>cs_error := e\<rparr>) = capture_inv rs s" "capture_inv rs (s\<lparr>cs_ready := b\<rparr>) = capture_inv rs s"
  "capture_inv rs (s\<lparr>cs_reported := b\<rparr>) = capture_inv rs s" "capture_inv rs (s\<lparr>cs_gate := g\<rparr>) = capture_inv rs s"
  "capture_inv rs (s\<lparr>cs_stop := b\<rparr>) = capture_inv rs s" "capture_inv rs (s\<lparr>cs_manager := m\<rparr>) = capture_inv rs s"
  "capture_inv rs (s\<lparr>cs_ext := n\<rparr>) = capture_inv rs s" "capture_inv rs (s\<lparr>cs_wlr := n\<rparr>) = capture_inv rs s"
  "capture_inv rs (s\<lparr>cs_skip_initial := b\<rparr>) = capture_inv rs s" "capture_inv rs (s\<lparr>cs_sink_alive := b\<rparr>) = capture_inv rs s"
  by (simp_all add: capture_inv_defs)

lemma inv_offers_ok: "capture_inv rs s \<Longrightarrow> p \<in> set (cs_offers s) \<Longrightarrow> mimes_ok (pd_mimes (snd p))"
  by (simp add: capture_inv_def contents_ok_def)

lemma remove_seat_inv: "capture_inv [] s \<Longrightarrow> capture_inv [] (remove_seat name s)"
proof -
  assume inv: "capture_inv [] s"
  let ?s1 = "s\<lparr>cs_offers := filter (\<lambda>o'. pd_seat (snd o') \<noteq> name) (cs_offers s)\<rparr>"
  let ?s2 = "drop_transfers (\<lambda>r. pd_seat (rv_pending r) = name) ?s1"
  have "capture_inv [] ?s1" using inv by (intro offers_inv) (auto dest: inv_offers_ok)
  then have i2: "capture_inv [] ?s2" by (rule drop_transfers_inv)
  then have "length (cs_seats ?s2) \<le> MAX_SEATS" by (simp add: capture_inv_def sizes_ok_def)
  then show ?thesis unfolding remove_seat_def Let_def
    by (intro seats_inv[OF i2] filter_length_less)
qed

lemma handle_event_inv:
  assumes inv: "capture_inv [] s"
  shows "capture_inv [] (handle_event ev s)"
proof (cases ev)
  case (Global name interface version)
  have "length (put_assoc name v (cs_seats s)) \<le> MAX_SEATS" if "length (cs_seats s) < MAX_SEATS" for v
    using that le_trans[OF put_assoc_simps(3)] by (simp add: Suc_le_eq)
  then show ?thesis using inv Global by (auto simp: add_global_def intro: seats_inv)
next
  case (GlobalRemove name)
  then show ?thesis using remove_seat_inv[OF inv] by (simp add: global_remove_def Let_def)
next
  case (SyncDone b)
  have "length (cs_seats s) \<le> MAX_SEATS" using inv by (simp add: capture_inv_def sizes_ok_def)
  then have "capture_inv [] (s\<lparr>cs_manager := m, cs_seats := map f (cs_seats s)\<rparr>)" for m f
    using inv seats_inv[of "s\<lparr>cs_manager := m\<rparr>" "map f (cs_seats s)"] by simp
  then show ?thesis using inv SyncDone by (cases b) (simp_all add: sync_done_def initialize_def Let_def)
next
  case (DataOffer i seat)
  let ?p = "\<lparr>pd_offer = i, pd_mimes = default_mimes, pd_seat = seat\<rparr>"
  obtain n where l: "length (put_assoc i ?p (cs_offers s)) = n" "n \<le> Suc (length (cs_offers s))"
    using put_assoc_simps(3)[of i ?p "cs_offers s"] that[OF refl] by blast
  have m: "\<forall>p \<in> set (put_assoc i ?p (cs_offers s)). mimes_ok (pd_mimes (snd p))"
  proof
    fix p assume "p \<in> set (put_assoc i ?p (cs_offers s))"
    then have "p = (i, ?p) \<or> p \<in> set (cs_offers s)" using subsetD[OF put_assoc_simps(2)[of i ?p "cs_offers s"]] by blast
    then show "mimes_ok (pd_mimes (snd p))" using inv_offers_ok[OF inv] by (elim disjE) (simp_all add: mimes_ok_default)
  qed
  show ?thesis using inv DataOffer l m by (auto simp: data_offer_def capture_inv_defs)
next
  case (OfferMime i mime)
  let ?os = "map (\<lambda>(k, p). (k, if k = i then p\<lparr>pd_mimes := mimes_add mime (pd_mimes p)\<rparr> else p)) (cs_offers s)"
  have "\<forall>p \<in> set ?os. mimes_ok (pd_mimes (snd p))" using inv by (fastforce dest: inv_offers_ok intro: mimes_ok_add)
  then show ?thesis using offers_inv[OF inv, of ?os] OfferMime by (simp add: offer_mime_def)
next
  case (Selection so now i)
  show ?thesis
  proof (cases "map_of (cs_offers s) i")
    case None
    then show ?thesis using inv Selection by (simp add: select_def)
  next
    case (Some p)
    let ?s = "s\<lparr>cs_offers := filter (\<lambda>e. fst e \<noteq> i) (cs_offers s)\<rparr>"
    have mem: "(i, p) \<in> set (cs_offers s)" using Some by (rule map_of_SomeD)
    have i1: "capture_inv [] ?s" using inv by (intro offers_inv) (auto dest: inv_offers_ok)
    have "length (filter (\<lambda>e. fst e \<noteq> i) (cs_offers s)) < length (cs_offers s)"
      using mem by (intro length_filter_less[of "(i, p)"]) simp_all
    then have "length (cs_transfers ?s) < MAX_TRANSFERS \<longrightarrow> sizes_ok (Suc (length [])) ?s"
      using inv by (auto simp: capture_inv_def sizes_ok_def)
    then have "capture_inv [] (start so now p ?s)" using start_inv[OF i1] inv_offers_ok[OF inv mem] by simp
    then show ?thesis using i1 Selection Some by (simp add: select_def Let_def)
  qed
next
  case (PrimarySelection i)
  then show ?thesis using inv by (auto simp: primary_selection_def intro!: offers_inv dest: inv_offers_ok)
next
  case (DeviceFinished seat)
  then show ?thesis using remove_seat_inv[OF inv] by (simp add: device_finished_def)
qed

lemma disconnect_inv: "capture_inv [] s \<Longrightarrow> capture_inv [] (disconnect s)"
  unfolding disconnect_def by (intro drop_transfers_inv offers_inv) auto

lemma connect_inv: "capture_inv [] s \<Longrightarrow> capture_inv [] (new_connection b (disconnect s))"
proof -
  assume "capture_inv [] s"
  then have inv: "capture_inv [] (disconnect s)" by (rule disconnect_inv)
  have "cs_transfers (disconnect s) = []" by (simp add: disconnect_def drop_transfers_def drop_reservation_def)
  then show ?thesis using inv by (auto simp: new_connection_def capture_inv_defs)
qed

section \<open>The ingest thread\<close>

lemma sink_exit_inv: "capture_inv [] s \<Longrightarrow> capture_inv [] (sink_exit s)"
  by (auto simp: sink_exit_def drop_reservation_def capture_inv_defs)

lemma ingest_take_inv:
  assumes inv: "capture_inv [] s" and idle: "cs_ingesting s = None"
  shows "capture_inv [] (ingest_take s)"
proof (cases "cs_jobs s")
  case Nil
  then show ?thesis using inv by (simp add: ingest_take_def)
next
  case (Cons j js)
  have "capture_inv [] (drop_reservation (cj_reserved j) (s\<lparr>cs_jobs := js\<rparr>))"
    using inv idle Cons by (auto simp: capture_inv_defs drop_reservation_def)
  moreover have "capture_inv [] (s\<lparr>cs_jobs := js, cs_ingesting := Some (j, b)\<rparr>)" for b
    using inv idle Cons by (auto simp: capture_inv_defs)
  ultimately show ?thesis using sink_exit_inv Cons by (simp add: ingest_take_def Let_def split: sum.split)
qed

lemma ingest_done_inv:
  assumes inv: "capture_inv [] s" and busy: "cs_ingesting s = Some (j, b)"
  shows "capture_inv [] (ingest_done j b outcome s)"
proof -
  have "capture_inv [] (drop_reservation (cj_reserved j) (s\<lparr>cs_ingesting := None\<rparr>))"
    using inv busy by (auto simp: capture_inv_defs drop_reservation_def)
  then show ?thesis using sink_exit_inv by (auto simp: ingest_done_def Let_def split: prod.split sum.split)
qed

lemma capture_step_inv: "capture_step s s' \<Longrightarrow> capture_inv [] s \<Longrightarrow> capture_inv [] s'"
  by (erule capture_stepE)
    (auto intro: connect_inv handle_event_inv receive_all_inv disconnect_inv ingest_take_inv ingest_done_inv)

lemma new_session_inv: "capture_inv [] (new_session limit)"
  by (simp add: capture_inv_defs new_session_def MAX_SEATS_def MAX_TRANSFERS_def MAX_OFFERS_def JOB_CAPACITY_def)

lemma capture_reachable_inv: "capture_reachable s \<Longrightarrow> capture_inv [] s"
  by (induction rule: capture_reachable.induct) (auto intro: new_session_inv capture_step_inv)

section \<open>A closed gate\<close>

lemma receive_loop_closed:
  "gate_admit (cs_gate s) = None \<Longrightarrow>
     receive_loop ks n rs s = drop_reservation (reserved rs) s"
proof (induction ks n rs s rule: receive_loop.induct)
  case (2 ks n r rs s)
  have "\<not> gate_accepts (rv_generation r) (cs_gate s)" using 2(2) gate_accepts_admit by fastforce
  then show ?case using 2 by (simp add: receive_one_def drop_reservation_def reserved_def)
qed (simp add: reserved_def drop_reservation_def)

lemma receive_all_closed:
  "gate_admit (cs_gate s) = None \<Longrightarrow> cs_transfers (receive_all ks s) = []"
  unfolding receive_all_def by (subst receive_loop_closed) (simp_all add: drop_reservation_def)

lemma start_closed: "gate_admit (cs_gate s) = None \<Longrightarrow> start so now p s = s"
  by (simp add: start_def)

end
