(* ===== verification/Capture_Session.thy ===== *)
theory Capture_Session
  imports Capture_Worker
begin

text \<open>
  The contract of a capture sink and what the worker makes of it: the locale \<open>capture_sink\<close> states what
  the provider promises about admission and what it stores, and its lemmas show that a session that ends
  without an uncertain outcome leaves the sink closed, that an acknowledged pause therefore means a
  closed sink, and that a closed sink stores nothing.  The interpretation is in \<open>History_Sink\<close>.
\<close>

lemma report_simps [simp]:
  "sn_sink (report r sn) = sn_sink sn" "sn_capture (report r sn) = sn_capture sn"
  by (simp_all add: report_def)

lemma mark_uncertain_simps [simp]:
  "sn_sink (mark_uncertain e sn) = sn_sink sn" "ad_uncertain (cs_gate (sn_capture (mark_uncertain e sn)))"
  by (simp_all add: mark_uncertain_def)

lemma finish_ingest_uncertain:
  "ad_uncertain (cs_gate (sn_capture sn)) \<Longrightarrow> ad_uncertain (cs_gate (sn_capture (finish_ingest sk env sn)))"
  by (simp add: finish_ingest_def ingest_done_def drop_reservation_def sink_exit_def submit_leave_def gate_close_def Let_def
      split: option.splits prod.splits bool.splits sum.splits sink_outcome.splits)

lemma take_ingest_gate: "sn_sink (take_ingest sn) = sn_sink sn \<and> cs_gate (sn_capture (take_ingest sn)) = cs_gate (sn_capture sn)"
  by (simp add: take_ingest_def ingest_take_def drop_reservation_def sink_exit_def Let_def split: list.splits sum.splits)

locale capture_sink =
  fixes sk :: "('e, 's) sink" and admitted :: "'s \<Rightarrow> bool" and content :: "'s \<Rightarrow> 'c"
  assumes set_ok: "sk_set_admission sk e b s = (Inr (), s') \<Longrightarrow> admitted s' = b"
    and set_closed: "\<not> admitted s \<Longrightarrow> \<not> admitted (snd (sk_set_admission sk e False s))"
    and ingest_closed: "\<not> admitted s \<Longrightarrow> content (snd (sk_ingest sk e mime bs s)) = content s"
    and ingest_admitted: "admitted (snd (sk_ingest sk e mime bs s)) = admitted s"
begin

lemma leave_loop_closed:
  "\<not> ad_uncertain (cs_gate (sn_capture (leave_loop sk env sn))) \<Longrightarrow> \<not> admitted (sn_sink (leave_loop sk env sn))"
  using set_ok[of env False "sn_sink sn"] by (auto simp: leave_loop_def Let_def split: prod.splits sum.splits)

lemma reconnect_closed:
  "reconnect sk env skip rs sn = (True, sn') \<Longrightarrow> \<not> ad_uncertain (cs_gate (sn_capture sn')) \<Longrightarrow> \<not> admitted (sn_sink sn')"
proof (induction rs arbitrary: skip sn)
  case Nil
  then show ?case using leave_loop_closed by (auto split: if_splits)
next
  case (Cons r rs)
  show ?case
  proof (cases "cs_stop (sn_capture sn)")
    case True
    with Cons.prems show ?thesis using leave_loop_closed by auto
  next
    case False
    then obtain outcome sn1 where o: "open_and_run sk r skip sn = (Some outcome, sn1)"
      using Cons.prems(1) by (auto split: prod.splits option.splits)
    obtain c sn2 where c: "close_round sk r sn1 = (c, sn2)" by fastforce
    show ?thesis
    proof (cases c)
      case (Inl e)
      with Cons.prems False o c show ?thesis using leave_loop_closed by auto
    next
      case (Inr u)
      with Cons.prems(1) False o c have "reconnect sk env True rs
          (if ro_stop r then stop_session (if is_ok outcome then sn2 else report outcome sn2)
           else if is_ok outcome then sn2 else report outcome sn2) = (True, sn')"
        by (simp add: Let_def)
      then show ?thesis using Cons.IH Cons.prems(2) by blast
    qed
  qed
qed

lemma finish_ingest_closed: "\<not> admitted (sn_sink sn) \<Longrightarrow> \<not> admitted (sn_sink (finish_ingest sk env sn))"
  using ingest_admitted[of env]
  by (auto simp: finish_ingest_def Let_def split: option.splits prod.splits bool.splits) (metis snd_conv)+

lemma drain_closed:
  "ad_uncertain (cs_gate (sn_capture sn)) \<or> \<not> admitted (sn_sink sn) \<Longrightarrow>
     ad_uncertain (cs_gate (sn_capture (drain_jobs sk env n sn))) \<or> \<not> admitted (sn_sink (drain_jobs sk env n sn))"
proof (induction n arbitrary: sn)
  case (Suc n)
  have "ad_uncertain (cs_gate (sn_capture (finish_ingest sk env (take_ingest sn)))) \<or>
      \<not> admitted (sn_sink (finish_ingest sk env (take_ingest sn)))"
    using Suc.prems finish_ingest_closed finish_ingest_uncertain take_ingest_gate by metis
  then show ?case using Suc.IH by simp
qed simp

lemma session_closed:
  assumes run: "session_run sk env spawn_ok skip rs sn = (True, sn')" and start: "\<not> admitted (sn_sink sn)"
    and certain: "\<not> ad_uncertain (cs_gate (sn_capture sn'))"
  shows "\<not> admitted (sn_sink sn')"
proof (cases spawn_ok)
  case False
  with run start show ?thesis by (auto simp: session_run_def)
next
  case True
  obtain ended sn1 where r0: "reconnect sk env skip rs sn = (ended, sn1)" by (cases "reconnect sk env skip rs sn")
  have "ended" using run True by (simp add: session_run_def r0)
  then have r: "reconnect sk env skip rs sn = (True, sn1)"
    and sn': "sn' = drain_jobs sk env (length (cs_jobs (sn_capture sn1))) (finish_ingest sk env sn1)"
    using run True by (simp_all add: session_run_def r0)
  have "ad_uncertain (cs_gate (sn_capture sn1)) \<or> \<not> admitted (sn_sink sn1)" using reconnect_closed[OF r] by blast
  then have "ad_uncertain (cs_gate (sn_capture (finish_ingest sk env sn1))) \<or> \<not> admitted (sn_sink (finish_ingest sk env sn1))"
    using finish_ingest_closed[of sn1 env] finish_ingest_uncertain[of sn1 sk env] by argo
  from drain_closed[OF this, of env "length (cs_jobs (sn_capture sn1))"] certain show ?thesis unfolding sn' by argo
qed

end

text \<open>
  The sessions a worker thread can end with, started on a sink; a stop request may already be there when
  the loop is entered.
\<close>

definition ended_session :: "('e, 's) sink \<Rightarrow> nat \<Rightarrow> 's \<Rightarrow> 's session \<Rightarrow> bool" where
  "ended_session sk limit sink sn \<longleftrightarrow>
     (\<exists>env spawn_ok skip rs sn0. sn0 \<in> {start_session limit sink, stop_session (start_session limit sink)} \<and>
        session_run sk env spawn_ok skip rs sn0 = (True, sn))"

text \<open>A state of the controller that agrees with the sink: without a worker the sink is closed, unless an
  error was latched; the verdict of a wait is a session the worker can end with.\<close>

definition verdict_ok :: "('e, 's) sink \<Rightarrow> 's runtime \<Rightarrow> 's stop_verdict \<Rightarrow> bool" where
  "verdict_ok sk rt v \<longleftrightarrow>
     (\<forall>sn. v = StopFinished sn \<longrightarrow> ended_session sk (case rt_worker rt of Some w \<Rightarrow> wk_limit w | None \<Rightarrow> 0) (rt_sink rt) sn)"

context capture_sink
begin

definition runtime_ok :: "'s runtime \<Rightarrow> bool" where
  "runtime_ok rt \<longleftrightarrow> rt_terminal_error rt = None \<longrightarrow> \<not> admitted (rt_sink rt)"

lemma ended_closed:
  "ended_session sk limit s sn \<Longrightarrow> \<not> admitted s \<Longrightarrow> gate_fence (cs_gate (sn_capture sn)) = Inr () \<Longrightarrow> \<not> admitted (sn_sink sn)"
  using session_closed
  by (fastforce simp: ended_session_def gate_fence_def verified_submission_def start_session_def stop_session_def
      split: if_splits)

lemma runtime_stop_ok:
  assumes ok: "runtime_ok rt" and v: "verdict_ok sk rt v"
  shows "runtime_ok (snd (runtime_stop v rt)) \<and>
    (fst (runtime_stop v rt) = Inr () \<longrightarrow>
       rt_terminal_error (snd (runtime_stop v rt)) = None \<and> rt_worker (snd (runtime_stop v rt)) = None)"
  using assms ended_closed
  by (auto simp: runtime_stop_def runtime_ok_def verdict_ok_def worker_finish_def Let_def
      split: option.splits sum.splits stop_verdict.splits)

lemma set_paused_runtime_ok:
  assumes ok: "runtime_ok rt" and v: "verdict_ok sk rt v"
  shows "runtime_ok (snd (set_paused v sp rd p n rt))"
proof -
  have start: "runtime_ok (rt1\<lparr>rt_attached := True, rt_worker := w\<rparr>)" "runtime_ok (rt1\<lparr>rt_attached := True\<rparr>)"
    if "runtime_ok rt1" for rt1 w using that by (simp_all add: runtime_ok_def)
  obtain q rt1 where r: "runtime_stop v rt = (q, rt1)" by fastforce
  have "runtime_ok rt1" using runtime_stop_ok[OF ok v] r by simp
  then show ?thesis using ok start
    by (simp add: set_paused_def Let_def r split: option.splits sum.splits)
qed

lemma set_paused_ok:
  assumes ok: "runtime_ok rt" and v: "verdict_ok sk rt v" and p: "set_paused v sp rd True n rt = (Inr (), rt')"
  shows "\<not> admitted (rt_sink rt') \<and> rt_worker rt' = None \<and> is_paused rt' = Inr True"
  using runtime_stop_ok[OF ok v] p
  by (auto simp: set_paused_def is_paused_def runtime_ok_def Let_def split: option.splits sum.splits prod.splits)

end

end
