(* ===== verification/History_Sink.thy ===== *)
theory History_Sink
  imports Generated_Files Capture_Session
begin

text \<open>
  The history backend as a capture sink (\<open>src/src/history/capture.rs\<close>).  An error of the sink is a
  message; inside, errors are backend errors and \<open>to_sink\<close> keeps their message.  A captured file is what
  its system calls answer; the capture worker hands over memory files, whose size is their content.  The
  interpretation shows that the backend honours the sink contract for the admission flag of the stored
  policy and the stored tables.
\<close>

record captured_file =
  cf_len :: "(str, nat) result"
  cf_rewind :: "(str, unit) result"
  cf_data :: bytes
  cf_extra :: "(str, nat) result"

definition memory_file :: "bytes \<Rightarrow> captured_file" where
  "memory_file bs = \<lparr>cf_len = Inr (length bs), cf_rewind = Inr (), cf_data = bs, cf_extra = Inr 0\<rparr>"

definition file_error :: "str \<Rightarrow> (str, 'a) result \<Rightarrow> 'a bresult" where
  "file_error message r = (case r of Inl _ \<Rightarrow> Inl (operation_error message) | Inr v \<Rightarrow> Inr v)"

definition sink_ready :: "nat \<Rightarrow> unit hist" where
  "sink_ready max_bytes =
     hbind ensure_running (\<lambda>_.
     hbind store_get_policy (\<lambda>policy.
       if sp_max_entry_bytes policy \<noteq> max_bytes
       then hfail (operation_error ''Capture limit does not match the history policy'') else hreturn ()))"

definition sink_set_admission :: "bool \<Rightarrow> unit hist" where
  "sink_set_admission enabled =
     hbind (if enabled then ensure_running else hreturn ()) (\<lambda>_.
     hbind store_get_policy (\<lambda>policy. store_apply_policy (policy\<lparr>sp_admission := enabled\<rparr>)))"

definition sink_mime :: "str \<Rightarrow> str" where
  "sink_mime mime = (if mime \<in> {''UTF8_STRING'', ''STRING'', ''TEXT''} then ''text/plain'' else mime)"

definition sink_store :: "str \<Rightarrow> bytes \<Rightarrow> unit hist" where
  "sink_store mime bs =
     hcase (store_insert (sink_mime mime) bs)
       (\<lambda>e. hbind store_get_policy (\<lambda>policy. if \<not> sp_admission policy then hreturn () else hfail e))
       (\<lambda>_. observe_selection bs)"

definition sink_ingest :: "str \<Rightarrow> captured_file \<Rightarrow> unit hist" where
  "sink_ingest mime file =
     hbind ensure_running (\<lambda>_.
     hbind store_get_policy (\<lambda>policy.
       if \<not> sp_admission policy then hreturn ()
       else hbind (hlift (file_error ''Could not inspect captured bytes'' (cf_len file))) (\<lambda>size.
         if size = 0 \<or> size > sp_max_entry_bytes policy then hreturn ()
         else hbind (hlift (file_error ''Could not rewind captured bytes'' (cf_rewind file))) (\<lambda>_.
              hbind (hlift (read_selection (cf_data file) size (sp_max_entry_bytes policy))) (\<lambda>bs.
              if length bs \<noteq> size then hfail (operation_error ''Captured bytes changed during admission'')
              else hbind (hlift (file_error ''Could not inspect captured bytes'' (cf_extra file))) (\<lambda>extra.
                if extra \<noteq> 0 then hfail (operation_error ''Captured bytes changed during admission'')
                else sink_store mime bs))))))"

definition to_sink :: "unit bresult \<times> history_state \<Rightarrow> (str, unit) result \<times> history_state" where
  "to_sink r = (case fst r of Inl e \<Rightarrow> Inl (be_message e) | Inr _ \<Rightarrow> Inr (), snd r)"

definition history_sink :: "(nat \<Rightarrow> outcome, history_state) sink" where
  "history_sink =
     \<lparr>sk_ready = (\<lambda>tape limit s. fst (to_sink (sink_ready limit (s\<lparr>hs_tape := tape\<rparr>)))),
      sk_set_admission = (\<lambda>tape enabled s. to_sink (sink_set_admission enabled (s\<lparr>hs_tape := tape\<rparr>))),
      sk_ingest = (\<lambda>tape mime bs s. to_sink (sink_ingest mime (memory_file bs) (s\<lparr>hs_tape := tape\<rparr>)))\<rparr>"

section \<open>The policy under a storage call\<close>

definition policy_of :: "history_state \<Rightarrow> store_policy" where
  "policy_of s = t_policy (db_tables (hs_db s))"

definition tables_of :: "history_state \<Rightarrow> tables" where
  "tables_of s = db_tables (hs_db s)"

lemma policy_of_tables: "policy_of s = t_policy (tables_of s)"
  by (simp add: policy_of_def tables_of_def)

lemma insert_row_policy:
  "insert_row pf uuid mime bs c r n t = Inr (i, t') \<Longrightarrow> t_policy t' = t_policy t"
  by (auto simp: insert_row_def update_entries_Inr insert_entry_Inr Let_def
      dest!: write_content_frame split: option.splits if_splits)

lemma insert_body_policy:
  assumes "insert_body pf uuid mime bs t = Inr (v, t')" shows "t_policy t' = t_policy t"
proof -
  have "t_policy t' = t_policy t" if "insert_store pf uuid mime bs c t = Inr (v, t')" for c
    using that by (auto simp: insert_store_def bump_Inr sequence_Inr dest!: insert_row_policy retain_result)
  then show ?thesis using insert_body_Inr[OF assms] by blast
qed

lemma apply_policy_body_policy: "apply_policy_body pol t = Inr (u, t') \<Longrightarrow> t_policy t' = pol"
  by (auto simp: apply_policy_body_def bump_Inr split: if_splits dest!: retain_result)

lemma transaction_tables:
  "db_tables (snd (transaction en f db)) = db_tables db \<or>
   (\<exists>v. f (db_tables db) = Inr (v, db_tables (snd (transaction en f db))))"
  by (auto simp: transaction_def run_body_def split: sum.splits option.splits)

lemma apply_policy_same: "db_tables (snd (apply_policy en (t_policy (db_tables db)) db)) = db_tables db"
  using transaction_tables[of en "apply_policy_body (t_policy (db_tables db))" db]
  by (auto simp: apply_policy_def apply_policy_body_def)

lemma apply_policy_tables:
  "db_tables (snd (apply_policy en p db)) = db_tables db \<or>
     apply_policy_body p (db_tables db) = Inr ((), db_tables (snd (apply_policy en p db)))"
  using transaction_tables[of en "apply_policy_body p" db] by (simp add: apply_policy_def)

lemma apply_policy_ok: "fst (apply_policy en p db) = Inr () \<Longrightarrow> t_policy (db_tables (snd (apply_policy en p db))) = p"
  using transaction_ok[of en "apply_policy_body p" db "()"]
  by (auto simp: apply_policy_def apply_policy_body_policy split: if_splits)

lemma store_get_policy_state:
  "tables_of (snd (store_get_policy s)) = tables_of s" "hs_closed (snd (store_get_policy s)) = hs_closed s"
  "hs_active (snd (store_get_policy s)) = hs_active s" "hs_pf (snd (store_get_policy s)) = hs_pf s"
proof -
  obtain r s1 where c: "store_call ReqPolicy s = (r, s1)" by fastforce
  have "hs_db s1 = hs_db s" "hs_closed s1 = hs_closed s" "hs_active s1 = hs_active s" "hs_pf s1 = hs_pf s"
    using c by (cases rule: store_call_cases[of ReqPolicy s];
      auto simp: run_job_def reply_with_def db_read_def split: if_splits)+
  then show "tables_of (snd (store_get_policy s)) = tables_of s" "hs_closed (snd (store_get_policy s)) = hs_closed s"
    "hs_active (snd (store_get_policy s)) = hs_active s" "hs_pf (snd (store_get_policy s)) = hs_pf s"
    by (cases r; simp add: store_get_policy_def hist_defs c tables_of_def split: store_reply.splits)+
qed

lemma store_get_policy_ok: "store_get_policy s = (Inr p, s') \<Longrightarrow> p = policy_of s"
proof -
  assume a: "store_get_policy s = (Inr p, s')"
  obtain r s1 where c: "store_call ReqPolicy s = (r, s1)" by fastforce
  obtain v where "r = Inr v" using a c by (cases r) (auto simp: store_get_policy_def hist_defs)
  then have v: "store_call ReqPolicy s = (Inr v, s1)" "v = RepPolicy p"
    using a c by (simp, cases v) (auto simp: store_get_policy_def hist_defs)
  show ?thesis using v by (cases rule: store_call_cases[of ReqPolicy s])
    (auto simp: run_job_def reply_with_def db_read_def policy_of_def split: if_splits option.splits)
qed

lemma store_apply_policy_state:
  "tables_of (snd (store_apply_policy p s)) = tables_of s \<or>
     apply_policy_body p (tables_of s) = Inr ((), tables_of (snd (store_apply_policy p s)))"
  "store_apply_policy p s = (Inr (), s') \<Longrightarrow> policy_of s' = p"
proof -
  obtain r s1 where c: "store_call (ReqApplyPolicy p) s = (r, s1)" by fastforce
  have r: "snd (store_apply_policy p s) = s1" "fst (store_apply_policy p s) = Inr () \<longleftrightarrow> is_ok r"
    by (cases r; simp add: store_apply_policy_def hist_defs c)+
  have "hs_db s1 = hs_db s \<and> \<not> is_ok r \<or> (\<exists>en. hs_db s1 = snd (apply_policy en p (hs_db s)) \<and>
      (is_ok r \<longrightarrow> fst (apply_policy en p (hs_db s)) = Inr ()))"
    using c by (cases rule: store_call_cases[of "ReqApplyPolicy p" s])
      (auto simp: run_job_def reply_with_def is_ok_iff split: if_splits)
  then have job: "hs_db s1 = hs_db s \<and> \<not> is_ok r \<or> (\<exists>en. hs_db s1 = snd (apply_policy en p (hs_db s)) \<and>
      (is_ok r \<longrightarrow> fst (apply_policy en p (hs_db s)) = Inr ()))" .
  show "tables_of (snd (store_apply_policy p s)) = tables_of s \<or>
      apply_policy_body p (tables_of s) = Inr ((), tables_of (snd (store_apply_policy p s)))"
    using job unfolding r(1) tables_of_def by (elim disjE conjE exE) (simp, metis apply_policy_tables)
  assume "store_apply_policy p s = (Inr (), s')"
  then have "is_ok r" "s' = s1" using r by auto
  then show "policy_of s' = p" using job apply_policy_ok by (auto simp: policy_of_def)
qed

lemma ensure_running_state [simp]: "snd (ensure_running s) = s"
  by (simp add: ensure_running_def)

lemma store_insert_policy: "policy_of (snd (store_insert mime bs s)) = policy_of s"
proof -
  obtain r s1 where c: "store_call (ReqInsert mime bs) s = (r, s1)" by fastforce
  have "hs_db s1 = hs_db s \<or> (\<exists>fts en uuid. hs_db s1 = snd (run_job (hs_pf s) fts en uuid (ReqInsert mime bs) (hs_db s)))"
    using store_call_db[of "ReqInsert mime bs" s] c by simp
  then have "t_policy (db_tables (hs_db s1)) = t_policy (db_tables (hs_db s))"
  proof (elim disjE exE)
    fix fts en uuid
    assume j: "hs_db s1 = snd (run_job (hs_pf s) fts en uuid (ReqInsert mime bs) (hs_db s))"
    show ?thesis
      using transaction_tables[of en "insert_body (hs_pf s) uuid mime bs" "hs_db s"] insert_body_policy j
      by (fastforce simp: run_job_def reply_with_def db_insert_def split: if_splits)
  qed simp
  moreover have "snd (store_insert mime bs s) = s1"
    by (cases r) (simp_all add: store_insert_def hist_defs c split: store_reply.splits)
  ultimately show ?thesis by (simp add: policy_of_def)
qed

lemma observe_selection_db [simp]: "hs_db (snd (observe_selection bs s)) = hs_db s"
  by (simp add: observe_selection_def split: option.splits)

lemma get_policy_policy: "policy_of (snd (store_get_policy s)) = policy_of s"
  using store_get_policy_state(1)[of s] by (simp add: policy_of_tables)

lemma sink_store_policy: "policy_of (snd (sink_store mime bs s)) = policy_of s"
proof -
  obtain r s1 where i: "store_insert (sink_mime mime) bs s = (r, s1)" by fastforce
  then have p1: "policy_of s1 = policy_of s" by (metis snd_conv store_insert_policy)
  obtain q s2 where g: "store_get_policy s1 = (q, s2)" by fastforce
  then have "policy_of s2 = policy_of s1" by (metis snd_conv get_policy_policy)
  then show ?thesis
    using p1 by (cases r; cases q; simp add: sink_store_def hist_defs i g policy_of_def)
qed

text \<open>What an ingest of a memory file comes down to.\<close>

definition ingest_admits :: "bytes \<Rightarrow> store_policy \<Rightarrow> bool" where
  "ingest_admits bs policy \<longleftrightarrow> sp_admission policy \<and> bs \<noteq> [] \<and> length bs \<le> sp_max_entry_bytes policy"

lemma sink_ingest_cases:
  "(\<exists>r. sink_ingest mime (memory_file bs) s = (r, snd (store_get_policy s))) \<or>
   (\<exists>r. sink_ingest mime (memory_file bs) s = (r, s)) \<or>
   (ingest_admits bs (policy_of s) \<and> sink_ingest mime (memory_file bs) s = sink_store mime bs (snd (store_get_policy s)))"
proof (cases "hs_closed s")
  case True
  then show ?thesis by (simp add: sink_ingest_def hbind_def ensure_running_def)
next
  case False
  obtain q s1 where g: "store_get_policy s = (q, s1)" by fastforce
  show ?thesis
  proof (cases q)
    case (Inl e)
    then show ?thesis using False by (simp add: sink_ingest_def hbind_def ensure_running_def g)
  next
    case (Inr p)
    then have p: "p = policy_of s" using store_get_policy_ok[of s p s1] g by simp
    show ?thesis
    proof (cases "read_selection bs (length bs) (sp_max_entry_bytes p)")
      case (Inl e)
      then show ?thesis using False Inr
        by (simp add: sink_ingest_def hist_defs ensure_running_def g memory_file_def file_error_def)
    next
      case (Inr b)
      then have "b = bs" by (simp add: read_selection_ok)
      then show ?thesis using False Inr \<open>q = Inr p\<close> p
        by (simp add: sink_ingest_def hist_defs ensure_running_def g memory_file_def file_error_def ingest_admits_def)
    qed
  qed
qed

section \<open>The sink honours the contract\<close>

abbreviation history_admitted :: "history_state \<Rightarrow> bool" where
  "history_admitted s \<equiv> sp_admission (policy_of s)"

lemma set_tape_simps [simp]:
  "policy_of (s\<lparr>hs_tape := t\<rparr>) = policy_of s" "tables_of (s\<lparr>hs_tape := t\<rparr>) = tables_of s"
  by (simp_all add: policy_of_def tables_of_def)

lemma set_admission_ok: "sink_set_admission b s = (Inr (), s') \<Longrightarrow> history_admitted s' = b"
  by (auto simp: sink_set_admission_def hbind_Inr dest!: store_apply_policy_state(2))

lemma set_admission_closed:
  assumes "\<not> history_admitted s" shows "\<not> history_admitted (snd (sink_set_admission False s))"
proof -
  obtain q s1 where g: "store_get_policy s = (q, s1)" by fastforce
  have same: "tables_of s1 = tables_of s" using store_get_policy_state(1)[of s] g by simp
  show ?thesis
  proof (cases q)
    case (Inl e)
    then show ?thesis using assms same by (simp add: sink_set_admission_def hist_defs g policy_of_tables)
  next
    case (Inr p)
    then have "p = policy_of s" using store_get_policy_ok[of s p s1] g by simp
    then have p: "p\<lparr>sp_admission := False\<rparr> = t_policy (tables_of s1)"
      using assms same by (cases p) (simp add: policy_of_tables)
    have "tables_of (snd (store_apply_policy (p\<lparr>sp_admission := False\<rparr>) s1)) = tables_of s1"
      using store_apply_policy_state(1)[of "t_policy (tables_of s1)" s1] unfolding p by (auto simp: apply_policy_body_def)
    then show ?thesis using assms same Inr by (simp add: sink_set_admission_def hist_defs g policy_of_tables)
  qed
qed

lemma sink_ingest_policy: "policy_of (snd (sink_ingest mime (memory_file bs) s)) = policy_of s"
  using sink_ingest_cases[of mime bs s] get_policy_policy[of s] sink_store_policy[of mime bs "snd (store_get_policy s)"]
  by auto

lemma sink_ingest_closed:
  assumes "\<not> history_admitted s"
  shows "tables_of (snd (sink_ingest mime (memory_file bs) s)) = tables_of s"
  using sink_ingest_cases[of mime bs s] store_get_policy_state(1)[of s] assms by (auto simp: ingest_admits_def)

lemma to_sink_simps: "snd (to_sink r) = snd r" "fst (to_sink r) = Inr () \<longleftrightarrow> fst r = Inr ()"
  by (auto simp: to_sink_def split: sum.splits)

interpretation history: capture_sink history_sink history_admitted tables_of
proof unfold_locales
  fix e b s s' assume "sk_set_admission history_sink e b s = (Inr (), s')"
  then have "sink_set_admission b (s\<lparr>hs_tape := e\<rparr>) = (Inr (), s')"
    by (auto simp: history_sink_def to_sink_def prod_eq_iff split: sum.splits)
  then show "history_admitted s' = b" by (rule set_admission_ok)
next
  fix s e assume "\<not> history_admitted s"
  then show "\<not> history_admitted (snd (sk_set_admission history_sink e False s))"
    using set_admission_closed[of "s\<lparr>hs_tape := e\<rparr>"] by (simp add: history_sink_def to_sink_simps)
next
  fix s e mime bs assume "\<not> history_admitted s"
  then show "tables_of (snd (sk_ingest history_sink e mime bs s)) = tables_of s"
    using sink_ingest_closed[of "s\<lparr>hs_tape := e\<rparr>"] by (simp add: history_sink_def to_sink_simps)
next
  fix e mime bs s
  show "history_admitted (snd (sk_ingest history_sink e mime bs s)) = history_admitted s"
    by (simp add: history_sink_def to_sink_simps sink_ingest_policy)
qed

end
