(* ===== verification/History_Mutation.thy ===== *)
theory History_Mutation
  imports Generated_Files
begin

text \<open>
  The actions of the history backend (\<open>src/src/history.rs\<close> and \<open>src/src/history/mutation.rs\<close>): reading,
  copying back to the selection, image files with their rollback, removal, favorites, replacement,
  publication, wipe and cleanup, and both ends of an external edit.  \<open>run_backend\<close> is the macro of that
  name.  The lemmas show what each action commits and publishes, that a replacement is committed before
  and independently of its publication, that a wiped history has no entries, and that after shutdown
  nothing runs.
\<close>

section \<open>Results\<close>

definition completed_result :: "str \<Rightarrow> str \<Rightarrow> operation_result hist" where
  "completed_result action message = hbind draw (\<lambda>oc. hreturn (completed (oc_uuid oc) action message))"

definition run_backend :: "'a hist \<Rightarrow> 'a hist" where
  "run_backend m = hbind ensure_running (\<lambda>_. m)"

section \<open>Reading\<close>

definition selected :: "str \<Rightarrow> nat option \<Rightarrow> stored_entry hist" where
  "selected i expected = store_get i expected"

definition query_sync :: "history_query \<Rightarrow> history_page hist" where
  "query_sync q = hbind (store_query q) (\<lambda>page. hcase reconcile (\<lambda>_. hreturn page) (\<lambda>_. hreturn page))"

definition details_sync :: "str \<Rightarrow> nat \<Rightarrow> entry_details hist" where
  "details_sync i max_text_bytes =
     hbind (selected i None) (\<lambda>stored. hget (\<lambda>s. Content.entry_details (hs_pf s) stored max_text_bytes))"

definition selected_bytes :: "str \<Rightarrow> nat option \<Rightarrow> nat \<Rightarrow> (entry_summary \<times> bytes) hist" where
  "selected_bytes i expected max_bytes =
     hbind (selected i expected) (\<lambda>stored.
     hbind (hlift (validate_size (length (se_bytes stored)) max_bytes)) (\<lambda>_.
       hreturn ((se_summary stored)\<lparr>es_mime := se_mime stored\<rparr>, se_bytes stored)))"

definition selected_image :: "str \<Rightarrow> nat option \<Rightarrow> nat \<Rightarrow> (entry_summary \<times> bytes) hist" where
  "selected_image i expected max_bytes =
     hbind (selected_bytes i expected max_bytes) (\<lambda>(sm, bs).
       if es_kind sm = Image then hreturn (sm, bs)
       else hfail (invalid_data ''Only image entries support this action''))"

definition resolved :: "str \<Rightarrow> bytes \<Rightarrow> nat \<Rightarrow> resolved_content hist" where
  "resolved mime bs max_bytes = hget (\<lambda>s. resolve (hs_pf s) mime bs (effective_limit max_bytes))"

section \<open>Copying back\<close>

definition publish_entry :: "entry_summary \<Rightarrow> bytes \<Rightarrow> nat \<Rightarrow> unit hist" where
  "publish_entry sm bs max_bytes =
     hbind (resolved (es_mime sm) bs max_bytes) (\<lambda>content.
       if es_kind sm = Image \<and> rc_kind content \<noteq> Image
       then hfail (invalid_data ''Clipboard image file is missing, unsafe, invalid, or exceeds the size limit'')
       else case local_image content of
         Some source \<Rightarrow>
           hbind (hget hs_pf) (\<lambda>pf. publish_with (\<lambda>own. publish_file pf own (li_mime source) (li_path source) max_bytes))
       | None \<Rightarrow> publish_with (\<lambda>own. publish own (rc_mime content) bs max_bytes))"

definition selection_changed :: "unit hist" where
  "selection_changed = clear_active_selection"

definition restore_entry :: "str \<Rightarrow> nat option \<Rightarrow> nat \<Rightarrow> operation_result hist" where
  "restore_entry i expected max_bytes =
     hbind (selected_bytes i expected max_bytes) (\<lambda>(sm, bs).
     hbind (publish_entry sm bs max_bytes) (\<lambda>_.
     hbind selection_changed (\<lambda>_.
       completed_result ''copy'' ''Entry published to the Wayland clipboard'')))"

section \<open>Image files\<close>

definition image_extension :: "str \<Rightarrow> str" where
  "image_extension mime =
    (let essence = before_semicolon mime in
     if essence = ''image/jpeg'' then ''jpg''
     else if essence = ''image/webp'' then ''webp''
     else if essence = ''image/gif'' then ''gif''
     else if essence = ''image/bmp'' then ''bmp''
     else if essence = ''image/tiff'' then ''tiff''
     else if essence = ''image/svg+xml'' then ''svg''
     else ''png'')"

definition unique_path :: "str \<Rightarrow> str \<Rightarrow> str hist" where
  "unique_path directory extension =
     hbind draw (\<lambda>oc. hreturn (path_join directory (''clipboard-'' @ oc_uuid oc @ ''.'' @ extension)))"

text \<open>Creating a private directory; its permissions are outside the model.\<close>

definition private_directory :: "str \<Rightarrow> str hist" where
  "private_directory p = hbind io_step (\<lambda>_. hreturn p)"

definition image_directory :: "str hist" where
  "image_directory =
     hbind (hget hs_pf) (\<lambda>pf.
       case pf_home pf of
         None \<Rightarrow> hfail (operation_error ''HOME is unavailable'')
       | Some home \<Rightarrow> private_directory (path_join home ''Pictures/Screenshots/clipboard-history''))"

definition prepare_image_file :: "resolved_content \<Rightarrow> bytes \<Rightarrow> (str \<times> bool) hist" where
  "prepare_image_file content bs =
    (case rc_image content of
       Some (LocalFile source) \<Rightarrow> hreturn (li_path source, False)
     | Some (Inline mime _) \<Rightarrow>
         hbind image_directory (\<lambda>directory.
         hbind (unique_path directory (image_extension mime)) (\<lambda>path.
         hbind (write_private path bs) (\<lambda>_. hreturn (path, True))))
     | None \<Rightarrow> hfail (invalid_data ''Only image entries support this action''))"

definition track_image_file :: "str \<Rightarrow> bool \<Rightarrow> str \<Rightarrow> str \<Rightarrow> bytes \<Rightarrow> unit hist" where
  "track_image_file path created source mime bs =
    (if \<not> created then hreturn ()
     else hcase (register_file path source mime bs)
            (\<lambda>e. hcase (remove_file path) (\<lambda>_. hfail e) (\<lambda>_. hfail e)) hreturn)"

definition rollback_image_file :: "str \<Rightarrow> bool \<Rightarrow> unit hist" where
  "rollback_image_file path created = (if created then remove_registered path else hreturn ())"

definition publish_image_uri :: "str \<Rightarrow> nat \<Rightarrow> unit hist" where
  "publish_image_uri path max_bytes =
     hbind (hget hs_pf) (\<lambda>pf.
       case pf_file_url pf path of
         None \<Rightarrow> hfail (operation_error ''Could not create image file URI'')
       | Some uri \<Rightarrow> publish_with (\<lambda>own. publish_file_link own (uri @ [CHR 0x0D, CHR 0x0A]) max_bytes))"

definition save_image_file :: "str \<Rightarrow> nat option \<Rightarrow> nat \<Rightarrow> operation_result hist" where
  "save_image_file i expected max_bytes =
     hbind (selected_image i expected max_bytes) (\<lambda>(sm, bs).
     hbind (resolved (es_mime sm) bs max_bytes) (\<lambda>content.
     hbind (prepare_image_file content bs) (\<lambda>(path, created).
     hbind (track_image_file path created (es_id sm) (rc_mime content) bs) (\<lambda>_.
     hcase (publish_image_uri path max_bytes)
       (\<lambda>e. hbind (rollback_image_file path created) (\<lambda>_. hfail e))
       (\<lambda>_. hbind (activate_if_generated path) (\<lambda>_.
            hbind (completed_result ''image-as-file''
                     (if created then ''Image file copied'' else ''Image file link copied'')) (\<lambda>r.
              hreturn (r\<lparr>or_path := Some (from_utf8_lossy path)\<rparr>))))))))"

section \<open>Removal, favorites, wipe\<close>

definition remove_entry :: "str \<Rightarrow> nat option \<Rightarrow> operation_result hist" where
  "remove_entry i expected =
     hbind (selected i expected) (\<lambda>stored.
     hbind (store_unit (ReqRemoveMany [\<lparr>et_opaque_id = i, et_expected_revision = es_revision (se_summary stored)\<rparr>])) (\<lambda>_.
       completed_result ''delete'' ''Clipboard entry deleted''))"

definition remove_entries :: "entry_target list \<Rightarrow> operation_result hist" where
  "remove_entries targets =
     hbind (store_unit (ReqRemoveMany targets)) (\<lambda>_.
       completed_result ''delete-many''
         (nat_str (length targets) @ '' clipboard '' @
          (if length targets = 1 then ''entry'' else ''entries'') @ '' deleted''))"

definition move_entry :: "str \<Rightarrow> nat option \<Rightarrow> bool \<Rightarrow> operation_result hist" where
  "move_entry i expected favorite =
     hbind (selected i expected) (\<lambda>stored.
     hbind (store_unit (ReqFavorite i (es_revision (se_summary stored)) favorite)) (\<lambda>_.
       completed_result (if favorite then ''favorite'' else ''unfavorite'') ''Favorite state updated''))"

text \<open>The caches: the thumbnail directory, then the runtime directory, which is created if missing.\<close>

definition clear_cache :: "unit hist" where
  "clear_cache = hcase io_step (\<lambda>_. hfail (unavailable ''Clipboard cache could not be cleared'')) hreturn"

definition runtime_directory :: "str \<Rightarrow> str hist" where
  "runtime_directory child = hbind (hget hs_pf) (\<lambda>pf. private_directory (path_join (pf_runtime_dir pf) child))"

definition cleanup_backend :: "nat hist" where
  "cleanup_backend =
     hbind clear_cache (\<lambda>_. hbind (runtime_directory ''clip-daemon'') (\<lambda>_. hbind io_step (\<lambda>_. reconcile)))"

definition cleanup_artifacts :: "operation_result hist" where
  "cleanup_artifacts =
     hbind cleanup_backend (\<lambda>removed.
       completed_result ''cleanup''
         (''Clipboard caches cleared; '' @ nat_str removed @ '' unreferenced generated files removed''))"

definition wipe_entries :: "operation_result hist" where
  "wipe_entries =
     hbind (store_unit ReqWipe) (\<lambda>_.
     hcase (hbind cleanup_backend (\<lambda>_. clear_all))
       (\<lambda>_. completed_result ''wipe'' ''Clipboard history cleared'')
       (\<lambda>_. completed_result ''wipe'' ''Clipboard history cleared''))"

section \<open>The dispatcher\<close>

definition mutate_sync :: "str \<Rightarrow> nat option \<Rightarrow> backend_mutation \<Rightarrow> operation_result hist" where
  "mutate_sync i expected mutation =
     hbind (hlift (require_revision mutation expected)) (\<lambda>_.
       case mutation of
         Restore max_bytes \<Rightarrow> restore_entry i expected max_bytes
       | ImageAsFile max_bytes \<Rightarrow> save_image_file i expected max_bytes
       | Remove \<Rightarrow> remove_entry i expected
       | SetFavorite v \<Rightarrow> move_entry i expected v
       | Wipe \<Rightarrow> wipe_entries
       | Cleanup \<Rightarrow> cleanup_artifacts
       | Annotate _ \<Rightarrow> hfail (operation_error ''External editing must be started asynchronously''))"

section \<open>Replacement\<close>

record replacement_result =
  rr_entry :: entry_details
  rr_selection_published :: bool
  rr_publication_message :: str

definition replace_sync :: "str \<Rightarrow> nat \<Rightarrow> str \<Rightarrow> bytes \<Rightarrow> replacement_result hist" where
  "replace_sync i expected mime bs =
     hbind (store_replace i expected mime bs) (\<lambda>sm.
     hbind (hget (\<lambda>s. Content.entry_details (hs_pf s)
              \<lparr>se_summary = sm, se_mime = mime, se_bytes = bs\<rparr> MAX_DETAILS_BYTES)) (\<lambda>details.
     hcase (restore_entry (es_id sm) (Some (es_revision sm)) MAX_DETAILS_BYTES)
       (\<lambda>e. hreturn \<lparr>rr_entry = details, rr_selection_published = False,
              rr_publication_message = ''Replacement committed, but clipboard publication failed: '' @ be_message e\<rparr>)
       (\<lambda>_. hreturn \<lparr>rr_entry = details, rr_selection_published = True,
              rr_publication_message = ''Replacement published to the clipboard''\<rparr>)))"

section \<open>Publication\<close>

definition publish_sync :: "str \<Rightarrow> bytes \<Rightarrow> nat \<Rightarrow> operation_result hist" where
  "publish_sync mime bs max_bytes =
    (if bs = [] then hfail (invalid_data ''Published clipboard content must not be empty'')
     else hbind (publish_with (\<lambda>own. publish own mime bs max_bytes)) (\<lambda>_.
          hbind selection_changed (\<lambda>_.
            completed_result ''publish'' ''Content published to the Wayland clipboard'')))"

definition publish_sensitive_sync :: "str \<Rightarrow> nat \<Rightarrow> operation_result hist" where
  "publish_sensitive_sync text seconds =
     hbind (publish_with (\<lambda>own. publish_sensitive own text seconds)) (\<lambda>_.
       completed_result ''publish-sensitive'' ''Sensitive content copied without history'')"

fun encode_file_uris :: "platform \<Rightarrow> str list \<Rightarrow> bytes \<Rightarrow> bytes bresult" where
  "encode_file_uris pf [] acc = Inr acc"
| "encode_file_uris pf (p # ps) acc =
    (case pf_file_url pf p of
       None \<Rightarrow> Inl (invalid_data ''File selection path is invalid'')
     | Some uri \<Rightarrow> encode_file_uris pf ps (acc @ uri @ [CHR 0x0D, CHR 0x0A]))"

definition publish_files_sync :: "file_selection \<Rightarrow> nat \<Rightarrow> operation_result hist" where
  "publish_files_sync selection max_bytes =
    (case validate_file_selection selection of
       Inl m \<Rightarrow> hfail (invalid_data m)
     | Inr _ \<Rightarrow>
         hbind (hget hs_pf) (\<lambda>pf.
         hbind (hlift (encode_file_uris pf (fs_paths selection) [])) (\<lambda>uris.
         hbind (publish_with (\<lambda>own. publish_files own (fso_as_str (fs_operation selection)) uris max_bytes)) (\<lambda>_.
         hbind selection_changed (\<lambda>_.
           let count = length (fs_paths selection) in
           completed_result ''publish-files''
             (''Mirrored '' @ nat_str count @ '' '' @ (if count = 1 then ''file'' else ''files'') @
              '' to the clipboard''))))))"

section \<open>External edits\<close>

record annotation_stage =
  as_input :: str
  as_output :: str
  as_opaque_id :: str
  as_revision :: nat
  as_max_bytes :: nat

definition stage_annotation :: "str \<Rightarrow> nat option \<Rightarrow> nat \<Rightarrow> annotation_stage hist" where
  "stage_annotation i expected max_bytes =
    (let limit = min max_bytes MAX_THUMBNAIL_BYTES in
     hbind (selected_image i expected limit) (\<lambda>(sm, bs).
     hbind (resolved (es_mime sm) bs limit) (\<lambda>content.
     hbind (hget hs_pf) (\<lambda>pf.
     hbind (case rc_image content of
              Some (Inline mime _) \<Rightarrow> hreturn (mime, bs)
            | Some (LocalFile source) \<Rightarrow>
                hbind (hlift (read_path pf (li_path source) limit)) (\<lambda>img. hreturn (li_mime source, img))
            | None \<Rightarrow> hfail (invalid_data ''Only image entries support this action'')) (\<lambda>(mime, img).
     hbind (runtime_directory ''clip-daemon/edits'') (\<lambda>directory.
     hbind (unique_path directory (image_extension mime)) (\<lambda>input.
     hbind (unique_path directory ''png'') (\<lambda>output.
     hbind (write_private input img) (\<lambda>_.
       hreturn \<lparr>as_input = input, as_output = output, as_opaque_id = i, as_revision = es_revision sm,
                as_max_bytes = limit\<rparr>)))))))))"

record edit_completion =
  ec_message :: str
  ec_warning :: "str option"

definition apply_annotation :: "str \<Rightarrow> nat \<Rightarrow> str \<Rightarrow> nat \<Rightarrow> edit_completion hist" where
  "apply_annotation i revision output max_bytes =
     hbind (hget hs_pf) (\<lambda>pf.
     hbind (hlift (ok_or (read_edited_image pf output max_bytes)
                     (operation_error ''Annotation returned an invalid image''))) (\<lambda>bs.
     hbind (store_replace i revision ''image/png'' bs) (\<lambda>_.
     hcase (hbind (publish_with (\<lambda>own. publish own ''image/png'' bs max_bytes)) (\<lambda>_. selection_changed))
       (\<lambda>e. hreturn \<lparr>ec_message = ''Image edit committed'',
              ec_warning = Some (''Clipboard publication failed: '' @ be_message e)\<rparr>)
       (\<lambda>_. hreturn \<lparr>ec_message = ''Image edit completed'', ec_warning = None\<rparr>))))"

section \<open>Shutdown\<close>

text \<open>\<open>stopped\<close> is the outcome of draining the operations; \<open>checkpoint\<close> and \<open>sidecars\<close> are the engine's.\<close>

definition backend_shutdown ::
    "unit bresult \<Rightarrow> (int \<times> int \<times> int) option bresult \<Rightarrow> unit bresult \<Rightarrow> unit hist" where
  "backend_shutdown stopped checkpoint sidecars s =
    (let s1 = s\<lparr>hs_closed := True\<rparr> in
     case stopped of
       Inl e \<Rightarrow> (Inl e, s1)
     | Inr _ \<Rightarrow>
         hbind draw (\<lambda>oc s2.
           let (r, db) = db_shutdown (oc_engine oc) checkpoint sidecars (hs_db s2) in (r, s2\<lparr>hs_db := db\<rparr>)) s1)"

end
