(* ===== verification/Backend_Facts.thy ===== *)
theory Backend_Facts
  imports History_Mutation History_Sink
begin

text \<open>
  What the backend actions leave alone and what they commit: reading and publishing never change the
  stored tables, a storage call on a sound tape is exactly the owner's job, and an image file that could
  not be published leaves no trace.
\<close>

section \<open>Frames\<close>

definition same_store :: "history_state \<Rightarrow> history_state \<Rightarrow> bool" where
  "same_store s s' \<longleftrightarrow> hs_db s' = hs_db s \<and> hs_pf s' = hs_pf s"

lemma same_store_trans: "same_store a b \<Longrightarrow> same_store b c \<Longrightarrow> same_store a c"
  by (simp add: same_store_def)

lemma same_store_bind:
  "same_store s (snd (m s)) \<Longrightarrow> (\<And>v s1. m s = (Inr v, s1) \<Longrightarrow> same_store s1 (snd (f v s1))) \<Longrightarrow>
     same_store s (snd (hbind m f s))"
  by (rule hbind_rel[where R = same_store]) (auto intro: same_store_trans)

lemma same_store_simps [simp]:
  "same_store s (snd (hreturn v s))" "same_store s (snd (hfail e s))" "same_store s (snd (hlift r s))"
  "same_store s (snd (hget g s))" "same_store s (snd (hset_active a s))" "same_store s (snd (draw s))"
  by (simp_all add: same_store_def hist_defs)

lemma read_request_db:
  "r \<in> {ReqGet i x, ReqEntryRevision i, ReqRevision, ReqPolicy, ReqArtifactGet p, ReqArtifactCandidates b l} \<Longrightarrow>
     snd (run_job pf fts en uuid r db) = db"
  by (auto simp: run_job_def reply_with_def db_read_def)

lemma store_call_same:
  assumes "\<And>pf fts en uuid db. snd (run_job pf fts en uuid r db) = db"
  shows "same_store s (snd (store_call r s))"
  using store_call_db[of r s] assms store_call_frame(3)[of r s] by (auto simp: same_store_def)

lemma store_get_same [simp]: "same_store s (snd (store_get i x s))"
  unfolding store_get_def
  by (rule same_store_bind) (auto intro!: store_call_same simp: read_request_db split: store_reply.splits)

lemma publish_with_same [simp]: "same_store s (snd (publish_with f s))"
  by (simp add: publish_with_def hist_defs same_store_def split: sum.splits)

lemma completed_result_same [simp]: "same_store s (snd (completed_result ac m s))"
  by (simp add: completed_result_def hist_defs same_store_def)

lemma selected_bytes_same [simp]: "same_store s (snd (selected_bytes i x n s))"
  by (auto simp: selected_bytes_def selected_def intro!: same_store_bind)

lemma publish_entry_same [simp]: "same_store s (snd (publish_entry sm bs n s))"
  by (auto simp: publish_entry_def resolved_def intro!: same_store_bind split: option.splits)

lemma restore_entry_same: "same_store s (snd (restore_entry i x n s))"
  by (auto simp: restore_entry_def selection_changed_def clear_active_selection_def intro!: same_store_bind
      split: prod.splits)

section \<open>Reads\<close>

lemma store_get_ok:
  assumes "store_get i x s = (Inr st, s')"
  shows "db_get i x (tables_of s) = Inr st \<and> hs_selection s' = hs_selection s \<and> hs_active s' = hs_active s"
proof -
  obtain rep s1 where c: "store_call (ReqGet i x) s = (Inr rep, s1)"
    and k: "(case rep of RepEntry v \<Rightarrow> hreturn v | _ \<Rightarrow> hfail engine_error) s1 = (Inr st, s')"
    using assms unfolding store_get_def hbind_Inr by blast
  have r: "rep = RepEntry st" "s1 = s'" using k by (cases rep; simp add: hreturn_def hfail_def)+
  have f: "hs_selection s1 = hs_selection s" "hs_active s1 = hs_active s" using store_call_frame[of "ReqGet i x" s] c by simp_all
  show ?thesis
    using c r f by (cases rule: store_call_cases[of "ReqGet i x" s])
      (auto simp: run_job_def reply_with_def db_read_def tables_of_def split: if_splits option.splits)
qed

lemma selected_bytes_ok:
  assumes "selected_bytes i x n s = (Inr (sm, bs), s')"
  shows "\<exists>st. db_get i x (tables_of s) = Inr st \<and> bs = se_bytes st \<and> sm = (se_summary st)\<lparr>es_mime := se_mime st\<rparr> \<and>
    length bs \<le> n \<and> length bs \<le> MAX_WAYLAND_SELECTION_BYTES \<and> hs_pf s' = hs_pf s"
proof -
  obtain st s1 where g: "store_get i x s = (Inr st, s1)" and v: "validate_size (length (se_bytes st)) n = Inr ()"
    and r: "(sm, bs) = ((se_summary st)\<lparr>es_mime := se_mime st\<rparr>, se_bytes st)"
    using assms by (auto simp: selected_bytes_def selected_def hbind_Inr hlift_def hreturn_def)
  have "hs_pf s' = hs_pf s" using selected_bytes_same[of s i x n] assms by (simp add: same_store_def)
  then show ?thesis using store_get_ok[OF g] v r by auto
qed

lemma publish_with_ok:
  "publish_with f s = (Inr (), s') \<Longrightarrow> \<exists>own off. f own = Inr off \<and> hs_selection s' = Some off \<and> hs_active s' = hs_active s"
  by (auto simp: publish_with_def hist_defs split: sum.splits)

lemma restore_entry_ok:
  assumes "restore_entry i x n s = (Inr r, s')"
  shows "\<exists>st off. db_get i x (tables_of s) = Inr st \<and> hs_selection s' = Some (Published off) \<and> hs_active s' = None \<and>
    tables_of s' = tables_of s \<and>
    (let content = resolve (hs_pf s) (se_mime st) (se_bytes st) (effective_limit n) in
     case local_image content of
       None \<Rightarrow> so_sources off = [(rc_mime content, se_bytes st)] \<and> length (se_bytes st) \<le> n
     | Some src \<Rightarrow> \<exists>bs. read_path (hs_pf s) (li_path src) n = Inr bs \<and> so_sources off = [(li_mime src, bs)] \<and> length bs \<le> n)"
proof -
  obtain sm bs s1 s2 where sel: "selected_bytes i x n s = (Inr (sm, bs), s1)"
    and pub: "publish_entry sm bs n s1 = (Inr (), s2)"
    and fin: "hbind selection_changed (\<lambda>_. completed_result ''copy'' ''Entry published to the Wayland clipboard'') s2 = (Inr r, s')"
    using assms unfolding restore_entry_def hbind_Inr by (auto simp: hbind_Inr split: prod.splits)
  obtain st where st: "db_get i x (tables_of s) = Inr st" "bs = se_bytes st" "es_mime sm = se_mime st" "hs_pf s1 = hs_pf s"
    "length bs \<le> n" using selected_bytes_ok[OF sel] by auto
  let ?c = "resolve (hs_pf s) (se_mime st) (se_bytes st) (effective_limit n)"
  have f: "hs_selection s' = hs_selection s2" "hs_active s' = None"
    using fin by (auto simp: hist_defs selection_changed_def clear_active_selection_def completed_result_def)
  have t: "tables_of s' = tables_of s" using restore_entry_same[of s i x n] assms by (simp add: same_store_def tables_of_def)
  show ?thesis
  proof (cases "local_image ?c")
    case None
    then have "publish_with (\<lambda>own. publish own (rc_mime ?c) bs n) s1 = (Inr (), s2)"
      using pub by (simp add: publish_entry_def resolved_def hbind_def hget_def st hfail_def split: if_splits)
    then obtain own off where o: "publish own (rc_mime ?c) bs n = Inr off" "hs_selection s2 = Some off"
      using publish_with_ok by blast
    from publish_ok[OF o(1)] o(2) show ?thesis using st f t None by (auto simp: Let_def)
  next
    case (Some src)
    then have "publish_with (\<lambda>own. publish_file (hs_pf s) own (li_mime src) (li_path src) n) s1 = (Inr (), s2)"
      using pub by (simp add: publish_entry_def resolved_def hbind_def hget_def st hfail_def split: if_splits)
    then obtain own off where o: "publish_file (hs_pf s) own (li_mime src) (li_path src) n = Inr off" "hs_selection s2 = Some off"
      using publish_with_ok by blast
    then obtain fb where fb: "read_path (hs_pf s) (li_path src) n = Inr fb" "wl_publish own (li_mime src) fb = Inr off"
      by (auto simp: publish_file_def)
    then show ?thesis using st f t Some o(2) read_path_bounded[OF fb(1)] by (auto simp: Let_def wl_publish_def)
  qed
qed

section \<open>Replacement\<close>

lemma store_replace_ok:
  assumes "store_replace i x mime bs s = (Inr sm, s')"
  shows "replace_body (hs_pf s) i x mime bs (tables_of s) = Inr (sm, tables_of s') \<and> hs_pf s' = hs_pf s"
proof -
  obtain rep s1 where c: "store_call (ReqReplace i x mime bs) s = (Inr rep, s1)"
    and k: "(case rep of RepSummary v \<Rightarrow> hreturn v | _ \<Rightarrow> hfail engine_error) s1 = (Inr sm, s')"
    using assms unfolding store_replace_def hbind_Inr by blast
  have r: "rep = RepSummary sm" "s1 = s'" using k by (cases rep; simp add: hreturn_def hfail_def)+
  obtain en where en: "fst (db_replace (hs_pf s) en i x mime bs (hs_db s)) = Inr sm"
    "hs_db s' = snd (db_replace (hs_pf s) en i x mime bs (hs_db s))"
    using c r by (cases rule: store_call_cases[of "ReqReplace i x mime bs" s])
      (auto simp: run_job_def reply_with_def split: if_splits)
  have "hs_pf s' = hs_pf s" using store_call_frame(3)[of "ReqReplace i x mime bs" s] c r by simp
  then show ?thesis
    using transaction_ok[of en "replace_body (hs_pf s) i x mime bs" "hs_db s" sm] en
    by (auto simp: db_replace_def tables_of_def)
qed

lemma replace_sync_ok:
  assumes "replace_sync i x mime bs s = (Inr rr, s')"
  shows "\<exists>sm s1. replace_body (hs_pf s) i x mime bs (tables_of s) = Inr (sm, tables_of s') \<and> ed_entry (rr_entry rr) = sm \<and>
    tables_of s1 = tables_of s' \<and> hs_pf s1 = hs_pf s \<and>
    (rr_selection_published rr \<longleftrightarrow> is_ok (fst (restore_entry (es_id sm) (Some (es_revision sm)) MAX_DETAILS_BYTES s1))) \<and>
    s' = snd (restore_entry (es_id sm) (Some (es_revision sm)) MAX_DETAILS_BYTES s1)"
proof -
  obtain sm s1 where r: "store_replace i x mime bs s = (Inr sm, s1)"
    using assms unfolding replace_sync_def hbind_Inr by blast
  obtain q s2 where q: "restore_entry (es_id sm) (Some (es_revision sm)) MAX_DETAILS_BYTES s1 = (q, s2)" by fastforce
  have e: "s' = s2 \<and> (rr_selection_published rr \<longleftrightarrow> is_ok q) \<and> ed_entry (rr_entry rr) = sm"
    using assms r q by (cases q) (auto simp: replace_sync_def hist_defs Content.entry_details_def Let_def)
  have "tables_of s2 = tables_of s1"
    using restore_entry_same[of s1 "es_id sm" "Some (es_revision sm)" MAX_DETAILS_BYTES] q by (simp add: same_store_def tables_of_def)
  then show ?thesis using store_replace_ok[OF r] e q by (intro exI[of _ sm] exI[of _ s1]) simp
qed

section \<open>Wipe\<close>

definition keeps_entries :: "history_state \<Rightarrow> history_state \<Rightarrow> bool" where
  "keeps_entries s s' \<longleftrightarrow> t_entries (tables_of s') = t_entries (tables_of s)"

lemma keeps_entries_trans: "keeps_entries a b \<Longrightarrow> keeps_entries b c \<Longrightarrow> keeps_entries a c"
  by (simp add: keeps_entries_def)

lemma keeps_entries_bind:
  "keeps_entries s (snd (m s)) \<Longrightarrow> (\<And>v s1. m s = (Inr v, s1) \<Longrightarrow> keeps_entries s1 (snd (f v s1))) \<Longrightarrow>
     keeps_entries s (snd (hbind m f s))"
  by (rule hbind_rel[where R = keeps_entries]) (auto intro: keeps_entries_trans)

lemma keeps_entries_case:
  assumes "keeps_entries s (snd (m s))" "\<And>e s1. m s = (Inl e, s1) \<Longrightarrow> keeps_entries s1 (snd (g e s1))"
    and "\<And>v s1. m s = (Inr v, s1) \<Longrightarrow> keeps_entries s1 (snd (f v s1))"
  shows "keeps_entries s (snd (hcase m g f s))"
  using assms by (cases "m s"; cases "fst (m s)") (auto simp: hcase_def intro: keeps_entries_trans)

lemma keeps_entries_same: "same_store s s' \<Longrightarrow> keeps_entries s s'"
  by (simp add: same_store_def keeps_entries_def tables_of_def)

lemma keeps_entries_simps [simp]:
  "keeps_entries s (snd (hreturn v s))" "keeps_entries s (snd (hfail e s))" "keeps_entries s (snd (hlift r s))"
  "keeps_entries s (snd (hget g s))" "keeps_entries s (snd (hset_active a s))" "keeps_entries s (snd (draw s))"
  "keeps_entries s (snd (completed_result ac m s))"
  by (rule keeps_entries_same, simp)+

lemma io_step_keeps [simp]: "keeps_entries s (snd (io_step s))"
  by (simp add: io_step_def hist_defs keeps_entries_def tables_of_def)

lemma forget_keeps [simp]: "keeps_entries s (snd (forget rec b s))"
proof -
  let ?r = "ReqForgetArtifact (ar_path rec)"
  have body: "t_entries (db_tables (snd (transaction en (forget_artifact_body p) db))) = t_entries (db_tables db)" for en p db
  proof -
    define X where "X = db_tables (snd (transaction en (forget_artifact_body p) db))"
    have "X = db_tables db \<or> (\<exists>v. forget_artifact_body p (db_tables db) = Inr (v, X))"
      unfolding X_def by (rule transaction_tables)
    then have "t_entries X = t_entries (db_tables db)" by (auto simp: forget_artifact_body_def)
    then show ?thesis by (simp add: X_def)
  qed
  have "t_entries (db_tables (snd (run_job pf fts en uuid ?r db))) = t_entries (db_tables db)" for pf fts en uuid db
    by (simp add: run_job_def reply_with_def db_forget_artifact_def body)
  then have "keeps_entries s (snd (store_call ?r s))"
    using store_call_db[of ?r s] by (auto simp: keeps_entries_def tables_of_def)
  then show ?thesis unfolding forget_def store_unit_def by (intro keeps_entries_bind) simp_all
qed

lemma remove_file_keeps [simp]: "keeps_entries s (snd (remove_file p s))"
  by (simp add: remove_file_def hist_defs keeps_entries_def tables_of_def split: sum.splits)

lemma remove_artifact_keeps [simp]: "keeps_entries s (snd (remove_artifact rec s))"
proof -
  have "keeps_entries s (snd (hbind (remove_file (ar_path rec)) (\<lambda>_. forget rec True) s))"
    by (intro keeps_entries_bind) simp_all
  then show ?thesis by (simp add: remove_artifact_def Let_def keeps_entries_def split: lstat_result.splits)
    (simp add: keeps_entries_def[symmetric])
qed

lemma prune_records_keeps [simp]: "keeps_entries s (snd (prune_records active recs n s))"
  by (induction active recs n arbitrary: s rule: prune_records.induct) (auto intro!: keeps_entries_bind)

lemma candidates_keep [simp]: "keeps_entries s (snd (store_artifact_candidates b n s))"
  unfolding store_artifact_candidates_def
  by (rule keeps_entries_bind)
    (auto intro!: keeps_entries_same store_call_same simp: read_request_db split: store_reply.splits)

lemma prune_keeps [simp]: "keeps_entries s (snd (prune n s))"
  unfolding prune_def by (intro keeps_entries_bind) simp_all

lemma cleanup_keeps [simp]: "keeps_entries s (snd (cleanup_backend s))"
  unfolding cleanup_backend_def clear_cache_def runtime_directory_def private_directory_def reconcile_def
  by (intro keeps_entries_bind keeps_entries_case) simp_all

lemma wipe_entries_ok:
  assumes "wipe_entries s = (Inr r, s')"
  shows "t_entries (tables_of s') = []"
proof -
  obtain s1 where w: "store_unit ReqWipe s = (Inr (), s1)" using assms unfolding wipe_entries_def hbind_Inr by auto
  obtain rep where c: "store_call ReqWipe s = (Inr rep, s1)"
    using w by (auto simp: store_unit_def hbind_Inr hreturn_def)
  then have "t_entries (tables_of s1) = []"
  proof (cases rule: store_call_cases[of ReqWipe s])
    case (ran reply db)
    then have "fst (db_wipe (oc_engine (hs_tape s 0)) (hs_db s)) = Inr ()"
      "hs_db s1 = snd (db_wipe (oc_engine (hs_tape s 0)) (hs_db s))"
      using c by (auto simp: run_job_def reply_with_def split: if_splits)
    then show ?thesis
      using transaction_ok[of "oc_engine (hs_tape s 0)" wipe_body "hs_db s" "()"]
      by (auto simp: db_wipe_def tables_of_def wipe_body_def bump_Inr delete_entries_def)
  qed auto
  moreover have "keeps_entries s1 s'"
  proof -
    let ?m = "hcase (hbind cleanup_backend (\<lambda>_. clear_all))
       (\<lambda>_. completed_result ''wipe'' ''Clipboard history cleared'')
       (\<lambda>_. completed_result ''wipe'' ''Clipboard history cleared'')"
    have "?m s1 = (Inr r, s')" using assms w by (simp add: wipe_entries_def hbind_def)
    moreover have "keeps_entries s1 (snd (?m s1))"
      unfolding clear_all_def clear_active_selection_def by (intro keeps_entries_case keeps_entries_bind) simp_all
    ultimately show ?thesis by simp
  qed
  ultimately show ?thesis by (simp add: keeps_entries_def)
qed

end
