(* ===== verification/Image_Rollback.thy ===== *)
theory Image_Rollback
  imports Backend_Facts
begin

text \<open>
  Saving an image entry as a file when everything but the publication works: on a tape without refusals,
  engine faults and file errors, \<open>save_image_file\<close> either publishes the file, registers it and makes it the
  active selection, or leaves the file system as it was.
\<close>

definition sound_outcome :: "outcome \<Rightarrow> bool" where
  "sound_outcome oc \<longleftrightarrow> oc_refusal oc = None \<and> oc_engine oc = sound_engine \<and> oc_io oc = Inr ()"

definition sound_tape :: "history_state \<Rightarrow> bool" where
  "sound_tape s \<longleftrightarrow> (\<forall>n. sound_outcome (hs_tape s n))"

lemma sound_tape_suffix: "sound_tape s \<Longrightarrow> hs_tape s' = (\<lambda>n. hs_tape s (n + k)) \<Longrightarrow> sound_tape s'"
  by (simp add: sound_tape_def)

lemma sound_tape_shift [simp]:
  "sound_tape s \<Longrightarrow> hs_tape s' = (\<lambda>n. hs_tape s (Suc n)) \<Longrightarrow> sound_tape s'"
  using sound_tape_suffix[of s s' 1] by simp

definition keeps_sound :: "history_state \<Rightarrow> history_state \<Rightarrow> bool" where
  "keeps_sound s s' \<longleftrightarrow> (sound_tape s \<longrightarrow> sound_tape s')"

lemma keeps_sound_bind:
  "keeps_sound s (snd (m s)) \<Longrightarrow> (\<And>v s1. m s = (Inr v, s1) \<Longrightarrow> keeps_sound s1 (snd (f v s1))) \<Longrightarrow>
     keeps_sound s (snd (hbind m f s))"
  by (rule hbind_rel[where R = keeps_sound]) (auto simp: keeps_sound_def)

lemma keeps_sound_simps [simp]:
  "keeps_sound s (snd (hreturn v s))" "keeps_sound s (snd (hfail e s))" "keeps_sound s (snd (hlift r s))"
  "keeps_sound s (snd (hget g s))" "keeps_sound s (snd (hset_active a s))" "keeps_sound s (snd (draw s))"
  by (simp_all add: keeps_sound_def hist_defs sound_tape_def)

lemma store_call_sound [simp]: "keeps_sound s (snd (store_call r s))"
  by (cases rule: store_call_cases[of r s]) (simp_all add: keeps_sound_def sound_tape_def)

lemma sound_calls [simp]:
  "keeps_sound s (snd (store_get i x s))" "keeps_sound s (snd (store_unit r s))" "keeps_sound s (snd (store_artifact_get p s))"
  unfolding store_get_def store_unit_def store_artifact_get_def
  by (rule keeps_sound_bind; simp split: store_reply.splits)+

lemma sound_parts [simp]:
  "keeps_sound s (snd (publish_with g s))" "keeps_sound s (snd (io_step s))" "keeps_sound s (snd (write_private p bs s))"
  by (simp_all add: publish_with_def io_step_def write_private_def hist_defs keeps_sound_def sound_tape_def split: sum.splits)

lemma selected_image_sound [simp]: "keeps_sound s (snd (selected_image i x n s))"
  unfolding selected_image_def selected_bytes_def selected_def by (auto intro!: keeps_sound_bind)

text \<open>On a sound tape a valid request is the owner's job.\<close>

lemma store_call_on_sound:
  assumes "sound_tape s" "validate_request r = Inr ()" "\<not> db_blocked (hs_db s)"
  shows "\<exists>fts uuid. store_call r s =
    (fst (serve (hs_pf s) fts sound_engine uuid r (hs_db s)),
     s\<lparr>hs_tape := (\<lambda>n. hs_tape s (Suc n)), hs_db := snd (serve (hs_pf s) fts sound_engine uuid r (hs_db s))\<rparr>)"
proof -
  have "oc_refusal (hs_tape s 0) = None" "oc_engine (hs_tape s 0) = sound_engine"
    using assms(1) by (simp_all add: sound_tape_def sound_outcome_def)
  with assms(2,3) show ?thesis
    by (intro exI[of _ "oc_fts (hs_tape s 0)"] exI[of _ "oc_uuid (hs_tape s 0)"])
      (simp add: store_call_def hist_defs run_job_def split: prod.splits)
qed

lemma remove_file_on_sound:
  "sound_tape s \<Longrightarrow> \<exists>s'. remove_file p s = (Inr (), s') \<and> hs_pf s' = fs_unlink p (hs_pf s)"
  by (simp add: remove_file_def hist_defs sound_tape_def sound_outcome_def)

lemma artifact_get_on_sound:
  assumes "sound_tape s" "valid_utf8 p" "length p \<le> 32768" "\<not> db_blocked (hs_db s)"
  shows "\<exists>s'. store_artifact_get p s = (Inr (artifact_get p (tables_of s)), s') \<and> hs_pf s' = hs_pf s \<and> hs_db s' = hs_db s \<and>
    sound_tape s' \<and> hs_active s' = hs_active s \<and> hs_selection s' = hs_selection s"
proof -
  have v: "validate_request (ReqArtifactGet p) = Inr ()" using assms by (simp add: validate_path_def)
  obtain fts uuid where c: "store_call (ReqArtifactGet p) s =
    (fst (serve (hs_pf s) fts sound_engine uuid (ReqArtifactGet p) (hs_db s)),
     s\<lparr>hs_tape := (\<lambda>n. hs_tape s (Suc n)), hs_db := snd (serve (hs_pf s) fts sound_engine uuid (ReqArtifactGet p) (hs_db s))\<rparr>)"
    using store_call_on_sound[OF assms(1) v assms(4)] by blast
  have "serve (hs_pf s) fts sound_engine uuid (ReqArtifactGet p) (hs_db s) = (Inr (RepArtifact (artifact_get p (tables_of s))), hs_db s)"
    by (simp add: reply_with_def db_read_def sound_engine_def tables_of_def)
  with c assms(1) show ?thesis
    by (intro exI[of _ "s\<lparr>hs_tape := (\<lambda>n. hs_tape s (Suc n)), hs_db := hs_db s\<rparr>"])
      (simp add: store_artifact_get_def hist_defs sound_tape_def)
qed

section \<open>Tracking a new file\<close>

lemma register_file_ok:
  assumes "register_file p src mime bs s = (Inr (), s')"
  shows "\<exists>rec m. artifact_get p (tables_of s') = Some rec \<and> ar_path rec = p \<and> ar_source_entry_id rec = src \<and>
    may_unlink (hs_pf s) rec \<and> hs_pf s' = hs_pf s \<and> valid_utf8 p \<and> length p \<le> 32768 \<and> \<not> db_blocked (hs_db s')"
proof -
  obtain m where m: "owned_path (hs_pf s) p" "pf_lstat (hs_pf s) p = LstatOk m" "fm_is_file m" "fm_uid m = pf_euid (hs_pf s)"
    "fm_nlink m = 1"
    using assms by (auto simp: register_file_def Let_def lstat_ok_def split: if_splits option.splits lstat_result.splits)
  define rec where "rec = \<lparr>ar_path = p, ar_source_entry_id = src, ar_image_identity = image_identity (hs_pf s) mime bs,
    ar_created_at = oc_now (hs_tape s 0), ar_device = fm_dev m, ar_inode = fm_ino m, ar_owner = fm_uid m\<rparr>"
  have "store_unit (ReqRegisterArtifact rec) s = (Inr (), s')"
    using assms m by (simp add: register_file_def Let_def lstat_ok_def rec_def)
  then obtain rep where c: "store_call (ReqRegisterArtifact rec) s = (Inr rep, s')"
    by (auto simp: store_unit_def hbind_Inr hreturn_def)
  have pf: "hs_pf s' = hs_pf s" using store_call_frame(3)[of "ReqRegisterArtifact rec" s] c by simp
  obtain en where en: "fst (db_register_artifact en rec (hs_db s)) = Inr ()" "hs_db s' = snd (db_register_artifact en rec (hs_db s))"
    using c by (cases rule: store_call_cases[of "ReqRegisterArtifact rec" s])
      (auto simp: run_job_def reply_with_def split: if_splits)
  then have v: "valid_utf8 p" "length p \<le> 32768" "fst (transaction en (register_artifact_body rec) (hs_db s)) = Inr ()"
    "hs_db s' = snd (transaction en (register_artifact_body rec) (hs_db s))"
    by (auto simp: db_register_artifact_def rec_def split: if_splits)
  obtain t' where t: "\<not> db_blocked (hs_db s)" "register_artifact_body rec (tables_of s) = Inr ((), t')" "hs_db s' = (hs_db s)\<lparr>db_tables := t'\<rparr>"
    using transaction_ok[OF v(3)] v(4) by (auto simp: tables_of_def)
  have "t' = (tables_of s)\<lparr>t_artifacts := upsert_artifact rec (t_artifacts (tables_of s))\<rparr>"
    using t(2) by (auto simp: register_artifact_body_def split: if_splits)
  then have "artifact_get p t' = Some rec" using upsert_artifact_get[of rec "t_artifacts (tables_of s)" "tables_of s"] by (simp add: rec_def)
  moreover have "may_unlink (hs_pf s) rec" using m by (simp add: may_unlink_def same_file_def rec_def)
  ultimately show ?thesis using t v pf by (intro exI[of _ rec]) (auto simp: tables_of_def rec_def)
qed

lemma register_file_pf: "hs_pf (snd (register_file p src mime bs s)) = hs_pf s"
  by (simp add: register_file_def Let_def split: option.splits)

lemma register_file_sound [simp]: "keeps_sound s (snd (register_file p src mime bs s))"
  by (simp add: register_file_def Let_def keeps_sound_def split: option.splits)
    (metis keeps_sound_def sound_calls(2))

lemma remove_registered_gone:
  assumes so: "sound_tape s" and g: "artifact_get p (tables_of s) = Some rec" "ar_path rec = p" and u: "valid_utf8 p"
    "length p \<le> 32768" "\<not> db_blocked (hs_db s)" and m: "may_unlink (hs_pf s) rec"
  shows "pf_lstat (hs_pf (snd (remove_registered p s))) = (pf_lstat (hs_pf s))(p := LstatNotFound)"
proof -
  obtain s1 where a: "store_artifact_get p s = (Inr (Some rec), s1)" "hs_pf s1 = hs_pf s" "sound_tape s1"
    using artifact_get_on_sound[OF so u] g by auto
  obtain s2 where f: "remove_file p s1 = (Inr (), s2)" "hs_pf s2 = fs_unlink p (hs_pf s)"
    using remove_file_on_sound[OF a(3), of p] a(2) by auto
  have r: "remove_artifact rec s1 = forget rec True s2"
    using m f a(2) g(2) by (auto simp: remove_artifact_def may_unlink_def hbind_def)
  have "hs_pf (snd (forget rec True s2)) = fs_unlink p (hs_pf s)" using f(2) by simp
  moreover have "hs_pf (snd (remove_registered p s)) = hs_pf (snd (forget rec True s2))"
    by (cases "forget rec True s2"; cases "fst (forget rec True s2)")
      (auto simp: remove_registered_def hist_defs utf8_path_def u a(1) r)
  ultimately show ?thesis by (simp add: fs_unlink_def)
qed

text \<open>After the file has been written.\<close>

definition finish_image :: "str \<Rightarrow> bool \<Rightarrow> str \<Rightarrow> str \<Rightarrow> bytes \<Rightarrow> nat \<Rightarrow> operation_result hist" where
  "finish_image path created source mime bs max_bytes =
     hbind (track_image_file path created source mime bs) (\<lambda>_.
     hcase (publish_image_uri path max_bytes)
       (\<lambda>e. hbind (rollback_image_file path created) (\<lambda>_. hfail e))
       (\<lambda>_. hbind (activate_if_generated path) (\<lambda>_.
            hbind (completed_result ''image-as-file''
                     (if created then ''Image file copied'' else ''Image file link copied'')) (\<lambda>r.
              hreturn (r\<lparr>or_path := Some (from_utf8_lossy path)\<rparr>)))))"

lemma publish_image_uri_same [simp]: "same_store s (snd (publish_image_uri p n s))"
  unfolding publish_image_uri_def by (rule same_store_bind) (auto split: option.splits)

lemma publish_image_uri_sound [simp]: "keeps_sound s (snd (publish_image_uri p n s))"
  unfolding publish_image_uri_def by (rule keeps_sound_bind) (auto split: option.splits)

lemma finish_created:
  assumes so: "sound_tape s" and ex: "pf_lstat (hs_pf s) p \<noteq> LstatNotFound"
  shows "case finish_image p True src mime bs n s of
      (Inl e, s') \<Rightarrow> pf_lstat (hs_pf s') = (pf_lstat (hs_pf s))(p := LstatNotFound)
    | (Inr r, s') \<Rightarrow> hs_active s' = Some p \<and> hs_pf s' = hs_pf s \<and> hs_selection s' \<noteq> None \<and>
        (\<exists>rec. artifact_get p (tables_of s') = Some rec \<and> ar_source_entry_id rec = src \<and> may_unlink (hs_pf s) rec)"
proof -
  obtain q s1 where reg: "register_file p src mime bs s = (q, s1)" by fastforce
  have s1: "hs_pf s1 = hs_pf s" "sound_tape s1"
    using register_file_pf[of p src mime bs s] register_file_sound[of s p src mime bs] reg so by (simp_all add: keeps_sound_def)
  show ?thesis
  proof (cases q)
    case (Inl e)
    obtain s2 where "remove_file p s1 = (Inr (), s2)" "hs_pf s2 = fs_unlink p (hs_pf s)"
      using remove_file_on_sound[OF s1(2), of p] s1(1) by auto
    then show ?thesis by (simp add: finish_image_def track_image_file_def hist_defs reg Inl fs_unlink_def)
  next
    case (Inr u)
    then obtain rec where rec: "artifact_get p (tables_of s1) = Some rec" "ar_path rec = p" "ar_source_entry_id rec = src"
      "may_unlink (hs_pf s) rec" and ok: "valid_utf8 p" "length p \<le> 32768" "\<not> db_blocked (hs_db s1)"
      using register_file_ok[of p src mime bs s s1] reg by auto
    obtain v s2 where pub: "publish_image_uri p n s1 = (v, s2)" by fastforce
    have s2: "hs_db s2 = hs_db s1" "hs_pf s2 = hs_pf s" "sound_tape s2"
      using publish_image_uri_same[of s1 p n] publish_image_uri_sound[of s1 p n] pub s1 by (simp_all add: same_store_def keeps_sound_def)
    have g2: "artifact_get p (tables_of s2) = Some rec" "\<not> db_blocked (hs_db s2)" "may_unlink (hs_pf s2) rec"
      using rec ok s2 by (simp_all add: tables_of_def)
    show ?thesis
    proof (cases v)
      case (Inl e)
      obtain w s3 where r: "remove_registered p s2 = (w, s3)" by fastforce
      have "pf_lstat (hs_pf s3) = (pf_lstat (hs_pf s))(p := LstatNotFound)"
        using remove_registered_gone[OF s2(3) g2(1) rec(2) ok(1,2) g2(2,3)] r s2(2) by simp
      then show ?thesis
        by (cases w) (simp_all add: finish_image_def track_image_file_def hist_defs reg Inr pub Inl rollback_image_file_def r)
    next
      case (Inr u')
      obtain s3 where a: "store_artifact_get p s2 = (Inr (Some rec), s3)" "hs_pf s3 = hs_pf s" "hs_db s3 = hs_db s2"
        "hs_selection s3 = hs_selection s2"
        using artifact_get_on_sound[OF s2(3) ok(1,2) g2(2)] g2(1) s2(2) by auto
      have sel: "hs_selection s2 \<noteq> None"
        using pub Inr by (auto simp: publish_image_uri_def hist_defs publish_with_def split: option.splits sum.splits)
      show ?thesis using g2(1) rec(3,4) sel a
        by (simp add: finish_image_def track_image_file_def hist_defs reg \<open>q = Inr u\<close> pub Inr activate_if_generated_def
            utf8_path_def ok a(1) completed_result_def tables_of_def)
    qed
  qed
qed

lemma finish_link_pf: "hs_pf (snd (finish_image p False src mime bs n s)) = hs_pf s"
proof -
  have "same_store s (snd (finish_image p False src mime bs n s))"
  proof -
    have get: "same_store s' (snd (store_artifact_get q s'))" for q s'
      unfolding store_artifact_get_def
      by (rule same_store_bind) (auto intro!: store_call_same simp: read_request_db split: store_reply.splits)
    obtain v s1 where pub: "publish_image_uri p n s = (v, s1)" by fastforce
    have s1: "same_store s s1" using publish_image_uri_same[of s p n] pub by simp
    show ?thesis
    proof (cases v)
      case (Inl e)
      then show ?thesis using s1 by (simp add: finish_image_def track_image_file_def hist_defs pub rollback_image_file_def)
    next
      case (Inr u)
      let ?m = "hbind (activate_if_generated p) (\<lambda>_. hbind (completed_result ''image-as-file'' ''Image file link copied'')
        (\<lambda>r. hreturn (r\<lparr>or_path := Some (from_utf8_lossy p)\<rparr>)))"
      have "same_store s1 (snd (?m s1))"
        unfolding activate_if_generated_def by (intro same_store_bind) (simp_all add: get)
      moreover have "finish_image p False src mime bs n s = ?m s1"
        by (simp add: finish_image_def track_image_file_def hcase_def hbind_def hreturn_def pub Inr)
      ultimately show ?thesis using s1 same_store_trans by simp
    qed
  qed
  then show ?thesis by (simp add: same_store_def)
qed

section \<open>Saving an image\<close>

lemma selected_image_same [simp]: "same_store s (snd (selected_image i x n s))"
  unfolding selected_image_def by (rule same_store_bind) (auto split: prod.splits)

lemma prepare_image_file_cases:
  assumes "sound_tape s"
  shows "case prepare_image_file content bs s of
      (Inl e, s') \<Rightarrow> hs_pf s' = hs_pf s
    | (Inr (p, False), s') \<Rightarrow> hs_pf s' = hs_pf s
    | (Inr (p, True), s') \<Rightarrow> sound_tape s' \<and> pf_lstat (hs_pf s) p = LstatNotFound \<and>
        (\<exists>dev ino. hs_pf s' = fs_create p bs dev ino (hs_pf s)) \<and> hs_db s' = hs_db s"
  using assms
  by (auto simp: prepare_image_file_def image_directory_def private_directory_def unique_path_def io_step_def
      write_private_def hist_defs sound_tape_def split: option.splits resolved_image.splits sum.splits)

lemma save_image_split:
  "save_image_file i x n s =
     hbind (selected_image i x n) (\<lambda>(sm, bs).
     hbind (resolved (es_mime sm) bs n) (\<lambda>content.
     hbind (prepare_image_file content bs) (\<lambda>(path, created).
       finish_image path created (es_id sm) (rc_mime content) bs n))) s"
  by (simp add: save_image_file_def finish_image_def)

lemma save_image_file_result:
  assumes so: "sound_tape s"
  shows "case save_image_file i x n s of
      (Inl e, s') \<Rightarrow> pf_lstat (hs_pf s') = pf_lstat (hs_pf s)
    | (Inr r, s') \<Rightarrow> hs_pf s' = hs_pf s \<or>
        (\<exists>p rec dev ino bs. hs_active s' = Some p \<and> pf_lstat (hs_pf s) p = LstatNotFound \<and>
           hs_pf s' = fs_create p bs dev ino (hs_pf s) \<and> artifact_get p (tables_of s') = Some rec \<and>
           may_unlink (hs_pf s') rec \<and> hs_selection s' \<noteq> None)"
proof -
  obtain q s1 where sel: "selected_image i x n s = (q, s1)" by fastforce
  have s1: "hs_pf s1 = hs_pf s" "sound_tape s1"
    using selected_image_same[of s i x n] selected_image_sound[of s i x n] sel so by (simp_all add: same_store_def keeps_sound_def)
  show ?thesis
  proof (cases q)
    case (Inl e)
    then show ?thesis using s1 by (simp add: save_image_split hbind_def sel)
  next
    case (Inr v)
    obtain sm bs where v: "v = (sm, bs)" by fastforce
    let ?c = "resolve (hs_pf s1) (es_mime sm) bs (effective_limit n)"
    obtain w s2 where pre: "prepare_image_file ?c bs s1 = (w, s2)" by fastforce
    note pc = prepare_image_file_cases[OF s1(2), where content = ?c and bs = bs, unfolded pre]
    have run: "save_image_file i x n s =
        (case (w, s2) of (Inl e, s2) \<Rightarrow> (Inl e, s2)
         | (Inr (path, created), s2) \<Rightarrow> finish_image path created (es_id sm) (rc_mime ?c) bs n s2)"
      by (simp add: save_image_split hbind_def sel Inr v resolved_def hget_def pre split: sum.splits prod.splits)
    show ?thesis
    proof (cases w)
      case (Inl e)
      then show ?thesis using pc s1 run by simp
    next
      case (Inr pcreated)
      obtain p created where p: "pcreated = (p, created)" by fastforce
      obtain r s3 where fin: "finish_image p created (es_id sm) (rc_mime ?c) bs n s2 = (r, s3)" by fastforce
      have res: "save_image_file i x n s = (r, s3)" using run fin by (simp add: Inr p)
      show ?thesis
      proof (cases created)
        case False
        then have "hs_pf s3 = hs_pf s" using finish_link_pf[of p "es_id sm" "rc_mime ?c" bs n s2] fin pc s1 by (simp add: Inr p)
        then show ?thesis using res by (cases r) simp_all
      next
        case True
        then obtain dev ino where c: "sound_tape s2" "pf_lstat (hs_pf s) p = LstatNotFound" "hs_pf s2 = fs_create p bs dev ino (hs_pf s)"
          using pc s1 by (auto simp: Inr p)
        have ex: "pf_lstat (hs_pf s2) p \<noteq> LstatNotFound" by (simp add: c(3) fs_create_def)
        note f = finish_created[OF c(1) ex, of "es_id sm" "rc_mime ?c" bs n]
        show ?thesis
        proof (cases r)
          case (Inl e)
          have "(pf_lstat (hs_pf s2))(p := LstatNotFound) = pf_lstat (hs_pf s)"
            using c(2) by (auto simp: c(3) fs_create_def)
          then show ?thesis using f fin res True Inl by simp
        next
          case (Inr rr)
          then show ?thesis using f fin res True c(2,3) by fastforce
        qed
      qed
    qed
  qed
qed

end
