(* ===== verification/Capture_Properties.thy ===== *)
theory Capture_Properties
  imports History_Sink Image_Rollback Storage_Examples
begin

text \<open>
  The properties of the capture side: what an acknowledged pause, a sensitive offer, a stale token and the
  bounded buffers guarantee, with their witnesses.
\<close>

section \<open>Pause\<close>

text \<open>
  C13. An acknowledged pause means that storage accepts no capture: when \<open>set_paused(true)\<close> returns Ok
  after the worker's session has ended (whatever its connections, transfers, sink errors and stop
  requests were), the stored policy no longer admits, the controller reports paused, and no ingest that
  still arrives changes the stored tables.
\<close>

theorem acknowledged_pause_closes_storage:
  assumes "rt_terminal_error rt = None \<longrightarrow> \<not> history_admitted (rt_sink rt)"
    and "verdict_ok history_sink rt v" and "set_paused v spawn_ok ready True max_bytes rt = (Inr (), rt')"
  shows "\<not> history_admitted (rt_sink rt') \<and> is_paused rt' = Inr True \<and>
    (\<forall>tape mime bs. tables_of (snd (sk_ingest history_sink tape mime bs (rt_sink rt'))) = tables_of (rt_sink rt'))"
  using history.set_paused_ok[OF _ assms(2,3)] assms(1) history.ingest_closed by (auto simp: history.runtime_ok_def)

definition demo_outcome :: outcome where
  "demo_outcome =
     \<lparr>oc_refusal = None, oc_engine = sound_engine, oc_uuid = ''a'', oc_owner = (\<lambda>_. Inr ()), oc_io = Inr (),
      oc_now = 100, oc_dev = 1, oc_ino = 2, oc_fts = (\<lambda>_ _. False)\<rparr>"

definition demo_state :: history_state where
  "demo_state =
     \<lparr>hs_closed = False, hs_db = fresh_database, hs_active = None, hs_pf = bare_platform, hs_selection = None,
      hs_tape = (\<lambda>_. demo_outcome)\<rparr>"

definition demo_runtime :: "history_state runtime" where
  "demo_runtime =
     \<lparr>rt_worker = Some \<lparr>wk_session = start_session 16 demo_state, wk_finished = False, wk_limit = 16\<rparr>,
      rt_attached = True, rt_terminal_error = None, rt_sink = demo_state\<rparr>"

definition demo_ended :: "history_state session" where
  "demo_ended = snd (session_run history_sink (\<lambda>_. demo_outcome) True False [] (stop_session (start_session 16 demo_state)))"

lemma fresh_policy: "policy_of demo_state = default_policy" "sp_admission default_policy = False"
  by (simp_all add: demo_state_def policy_of_def fresh_database_def fresh_tables_def default_policy_def)

lemma demo_admission: "\<exists>s. sink_set_admission False demo_state = (Inr (), s)"
proof -
  have p: "default_policy\<lparr>sp_admission := False\<rparr> = default_policy" by (simp add: default_policy_def)
  have v: "valid_policy default_policy"
    by (simp add: valid_policy_def default_policy_def MAX_ENTRY_BYTES_def i64_max_def)
  show ?thesis
    by (simp add: sink_set_admission_def store_get_policy_def store_apply_policy_def store_call_def hist_defs run_job_def
        reply_with_def db_read_def apply_policy_def transaction_def run_body_def apply_policy_body_def sound_engine_def
        demo_state_def demo_outcome_def fresh_database_def fresh_tables_def p v)
qed

lemma demo_tape: "demo_state\<lparr>hs_tape := (\<lambda>_. demo_outcome)\<rparr> = demo_state"
  by (simp add: demo_state_def)

lemma demo_session:
  "session_run history_sink (\<lambda>_. demo_outcome) True False [] (stop_session (start_session 16 demo_state)) = (True, demo_ended)"
  "gate_fence (cs_gate (sn_capture demo_ended)) = Inr ()"
proof -
  obtain s where s: "sink_set_admission False demo_state = (Inr (), s)" using demo_admission by blast
  let ?sn = "stop_session (start_session 16 demo_state)"
  have l: "leave_loop history_sink (\<lambda>_. demo_outcome) ?sn = ?sn\<lparr>sn_sink := s\<rparr>"
    by (simp add: leave_loop_def history_sink_def to_sink_def stop_session_def start_session_def demo_tape s)
  have r: "session_run history_sink (\<lambda>_. demo_outcome) True False [] ?sn = (True, ?sn\<lparr>sn_sink := s\<rparr>)"
    by (simp add: session_run_def l) (simp add: stop_session_def start_session_def new_session_def finish_ingest_def)
  then show "session_run history_sink (\<lambda>_. demo_outcome) True False [] ?sn = (True, demo_ended)"
    by (simp add: demo_ended_def)
  show "gate_fence (cs_gate (sn_capture demo_ended)) = Inr ()"
    unfolding demo_ended_def r by (simp add: stop_session_def start_session_def new_session_def gate_fence_def
        verified_submission_def gate_close_def default_admission_def)
qed

theorem acknowledged_pause_closes_storage_witness:
  "\<exists>rt'. set_paused (StopFinished demo_ended) True ReadyDropped True 16 demo_runtime = (Inr (), rt') \<and>
     \<not> history_admitted (rt_sink rt') \<and> is_paused rt' = Inr True"
proof -
  have "verdict_ok history_sink demo_runtime (StopFinished demo_ended)"
    unfolding verdict_ok_def ended_session_def
    by (intro allI impI exI[of _ "\<lambda>_. demo_outcome"] exI[of _ True] exI[of _ False] exI[of _ "[]"]
        exI[of _ "stop_session (start_session 16 demo_state)"]) (use demo_session(1) in \<open>simp add: demo_runtime_def\<close>)
  moreover obtain rt' where "set_paused (StopFinished demo_ended) True ReadyDropped True 16 demo_runtime = (Inr (), rt')"
    using demo_session(2) by (simp add: set_paused_def runtime_stop_def worker_finish_def demo_runtime_def)
  ultimately show ?thesis
    using acknowledged_pause_closes_storage[of demo_runtime "StopFinished demo_ended" True ReadyDropped 16 rt'] fresh_policy
    by (simp add: demo_runtime_def)
qed

section \<open>The gate and the offers\<close>

text \<open>
  C14. A generation token is dead once the gate has been closed: however closes, resumes, fences and
  submissions of any threads interleave afterwards, a submission with the old token is refused, as long as
  the 64-bit generation counter has not been moved \<open>2 ^ 64 - 1\<close> times.
\<close>

theorem closed_gate_refuses_old_tokens:
  assumes "gate_accepts g (gt_admission s)" and "gate_run (s\<lparr>gt_admission := gate_close (gt_admission s)\<rparr>) evs s'"
    and "sum_list (map bumps evs) < 2 ^ 64 - 1"
  shows "submit_enter g (gt_admission s') \<noteq> Inr True"
  using stale_token_refused[OF assms(2,3,1)] by (simp add: submit_enter_def)

theorem closed_gate_refuses_old_tokens_witness:
  "submit_enter 1 (gate_close (snd (gate_resume default_admission))) \<noteq> Inr True"
  using closed_gate_refuses_old_tokens[of 1 "fresh_gate\<lparr>gt_admission := snd (gate_resume default_admission)\<rparr>" "[]"
      "fresh_gate\<lparr>gt_admission := gate_close (snd (gate_resume default_admission))\<rparr>"] gr_nil
  by (simp add: fresh_gate_def gate_accepts_def gate_resume_def verified_submission_def default_admission_def)

text \<open>
  C15. Content that its owner marked as a password is never read: an offer that announces one of the two
  sensitive markers, before, after or among however many other types, never starts a transfer.
\<close>

theorem sensitive_offer_never_read:
  assumes "v \<in> set mimes" and "sensitive_marker v"
  shows "start setup_ok now \<lparr>pd_offer = i, pd_mimes = fold mimes_add mimes default_mimes, pd_seat = seat\<rparr> s = s"
  using next_rejected[OF fold_marker[OF assms]] by (simp add: start_def split: option.split)

theorem sensitive_offer_never_read_witness:
  "start True 0 \<lparr>pd_offer = 1, pd_mimes = fold mimes_add [''text/plain'', ''x-kde-passwordManagerHint''] default_mimes,
      pd_seat = 7\<rparr> (new_session 16) = new_session 16"
  using sensitive_offer_never_read[of "''x-kde-passwordManagerHint''" "[''text/plain'', ''x-kde-passwordManagerHint'']"]
  by (simp add: sensitive_marker_def)

lemma mimes_next_None: "fst (mimes_next m) = None \<Longrightarrow> snd (mimes_next m) = m"
proof -
  assume n: "fst (mimes_next m) = None"
  have t: "fst (take_first xs) = None \<Longrightarrow> snd (take_first xs) = xs" for xs :: "str option list"
    by (induction xs rule: take_first.induct) (auto split: prod.splits)
  show ?thesis using n t[of "om_choices m"] by (cases "take_first (om_choices m)") (auto simp: mimes_next_def split: if_splits)
qed

lemma mimes_exhausted: "mimes_left m \<le> n \<Longrightarrow> fst (mimes_next (((\<lambda>m. snd (mimes_next m)) ^^ n) m)) = None"
proof (induction n arbitrary: m)
  case 0
  then show ?case using mimes_next_left[of m] by (cases "mimes_next m"; cases "fst (mimes_next m)") auto
next
  case (Suc n)
  show ?case
  proof (cases "fst (mimes_next m)")
    case None
    then have "((\<lambda>m. snd (mimes_next m)) ^^ k) m = m" for k
      by (induction k) (simp_all add: mimes_next_None)
    then show ?thesis using None by (simp add: mimes_next_None)
  next
    case (Some v)
    then have "mimes_left (snd (mimes_next m)) \<le> n"
      using mimes_next_left[of m v "snd (mimes_next m)"] Suc.prems by (simp add: prod_eq_iff)
    then show ?thesis using Suc.IH[of "snd (mimes_next m)"] by (simp add: funpow_Suc_right del: funpow.simps)
  qed
qed

text \<open>
  C16. The fallback over the offered types ends: an offer yields at most six types (one per rank), so after
  six blank transfers the offer is exhausted.
\<close>

theorem offer_fallback_ends:
  "fst (mimes_next (((\<lambda>m. snd (mimes_next m)) ^^ 6) (fold mimes_add mimes default_mimes))) = None"
proof -
  have "mimes_ok (fold mimes_add mimes m)" if "mimes_ok m" for m
    using that by (induction mimes arbitrary: m) (simp_all add: mimes_ok_add)
  then show ?thesis by (intro mimes_exhausted mimes_left_bound) (simp add: mimes_ok_default)
qed

text \<open>
  C17. Whatever a compositor sends and however the threads interleave, the capture state stays bounded: at
  most 16 seats, 64 offers and transfers together, 4 transfers and one queued job; and the byte budget is
  exactly what transfers, queue and ingest thread hold, at most 128 MiB.
\<close>

theorem capture_state_bounded:
  assumes "capture_reachable s"
  shows "length (cs_seats s) \<le> 16 \<and> length (cs_offers s) + length (cs_transfers s) \<le> 64 \<and>
    length (cs_transfers s) \<le> 4 \<and> length (cs_jobs s) \<le> 1 \<and> cs_budget s = held s \<and> held s \<le> 134217728"
  using capture_reachable_inv[OF assms]
  by (auto simp: capture_inv_def sizes_ok_def reserved_def MAX_SEATS_def MAX_OFFERS_def MAX_TRANSFERS_def JOB_CAPACITY_def
      TOTAL_BYTES_def)

text \<open>A session after its gate was opened, a seat appeared and an offer with one type arrived.\<close>

definition demo_capture :: capture_state where
  "demo_capture = offer_mime 5 ''text/plain'' (data_offer 5 7 (add_global 7 ''wl_seat'' 1
     ((new_session 16)\<lparr>cs_gate := snd (gate_resume default_admission)\<rparr>)))"

lemma demo_capture_reachable: "capture_reachable (select True 0 5 demo_capture)"
proof -
  have "capture_reachable ((new_session 16)\<lparr>cs_gate := snd (gate_resume (cs_gate (new_session 16)))\<rparr>)"
    by (rule cr_step[OF cr_new c_resume]) (simp add: new_session_def)
  from cr_step[OF cr_step[OF cr_step[OF cr_step[OF this c_event[of _ "Global 7 ''wl_seat'' 1"]] c_event[of _ "DataOffer 5 7"]]
      c_event[of _ "OfferMime 5 ''text/plain''"]] c_event[of _ "Selection True 0 5"]]
  show ?thesis by (simp add: demo_capture_def new_session_def)
qed

theorem capture_state_bounded_witness:
  "cs_budget (select True 0 5 demo_capture) = held (select True 0 5 demo_capture) \<and>
     held (select True 0 5 demo_capture) \<le> 134217728"
  using capture_state_bounded[OF demo_capture_reachable] by simp

text \<open>
  C18. What reaches storage is well typed: a job in the queue or on the ingest thread has a MIME type of 1 to
  96 bytes that is no sensitive marker, content that is not blank, and no more bytes than the limit.
\<close>

theorem captured_jobs_well_typed:
  assumes "capture_reachable s" and "j \<in> set (cs_jobs s) \<or> cs_ingesting s = Some (j, b)"
  shows "1 \<le> length (cj_mime j) \<and> length (cj_mime j) \<le> 96 \<and> \<not> sensitive_marker (cj_mime j) \<and>
    \<not> list_all is_ascii_whitespace (cj_bytes j) \<and> length (cj_bytes j) \<le> cs_limit s"
proof -
  have "job_ok (cs_limit s) j"
    using capture_reachable_inv[OF assms(1)] assms(2) by (auto simp: capture_inv_def contents_ok_def)
  then show ?thesis by (auto simp: job_ok_def mime_ok_def Suc_le_eq)
qed

definition demo_kernel :: "read_event \<Rightarrow> nat \<Rightarrow> kernel" where
  "demo_kernel ev n = \<lparr>kn_now = 1, kn_read = ev, kn_write_ok = True, kn_rewind_ok = True, kn_setup_ok = True\<rparr>"

definition demo_received :: capture_state where
  "demo_received = receive_all (demo_kernel ReadEof) (receive_all (demo_kernel (ReadBytes (CHR ''h'') ''i''))
     (select True 0 5 demo_capture))"

lemma demo_received_jobs:
  "cs_jobs demo_received = [\<lparr>cj_bytes = ''hi'', cj_mime = ''text/plain'', cj_generation = 1, cj_reserved = 17\<rparr>]"
proof -
  have g: "gate_resume default_admission = (Inr (), default_admission\<lparr>ad_generation := 1, ad_open := True\<rparr>)"
    by (simp add: gate_resume_def verified_submission_def default_admission_def)
  have a: "mimes_add ''text/plain'' default_mimes =
      \<lparr>om_choices = [Some ''text/plain'', None, None, None, None, None], om_count = 1, om_bytes = 10, om_rejected = False\<rparr>"
    by (simp add: mimes_add_def default_mimes_def sensitive_marker_def MAX_OFFERS_def Let_def mime_rank_def before_semicolon_def
        eval_nat_numeral)
  have d: "demo_capture = (new_session 16)\<lparr>cs_gate := default_admission\<lparr>ad_generation := 1, ad_open := True\<rparr>,
      cs_seats := [(7, False)], cs_offers := [(5, \<lparr>pd_offer = 5, pd_mimes = mimes_add ''text/plain'' default_mimes, pd_seat = 7\<rparr>)]\<rparr>"
    by (simp add: demo_capture_def g new_session_def add_global_def MAX_SEATS_def put_assoc_def data_offer_def MAX_OFFERS_def
        offer_mime_def)
  show ?thesis
    by (simp add: demo_received_def d a new_session_def select_def put_assoc_def start_def MAX_TRANSFERS_def gate_admit_def
        mimes_next_def budget_reserve_def checked_add_def u64_max_def TOTAL_BYTES_def new_transfer_def receive_all_def
        receive_one_def demo_kernel_def gate_accepts_def receive_transfer_def IDLE_def TOTAL_def append_transfer_def
        transfer_room_def finish_receiving_def finish_transfer_def JOB_CAPACITY_def is_ascii_whitespace_def default_admission_def)
qed

theorem captured_jobs_well_typed_witness:
  "\<not> list_all is_ascii_whitespace ''hi'' \<and> length ''hi'' \<le> cs_limit demo_received"
proof -
  have "capture_reachable demo_received"
    unfolding demo_received_def using demo_capture_reachable by (intro cr_step[OF _ c_receive])
  from captured_jobs_well_typed[OF this, of "\<lparr>cj_bytes = ''hi'', cj_mime = ''text/plain'', cj_generation = 1, cj_reserved = 17\<rparr>" True]
  show ?thesis by (simp add: demo_received_jobs)
qed

end
