(* ===== verification/Backend_Properties.thy ===== *)
theory Backend_Properties
  imports Image_Rollback Storage_Examples
begin

text \<open>
  The properties of the backend actions and the generated-file registry, with their witnesses.  The witness
  state has the one-entry database of \<open>Storage_Examples\<close>, an engine without faults and a compositor that
  accepts every offer.
\<close>

definition calm_outcome :: outcome where
  "calm_outcome =
     \<lparr>oc_refusal = None, oc_engine = sound_engine, oc_uuid = ''b'', oc_owner = (\<lambda>_. Inr ()), oc_io = Inr (),
      oc_now = 100, oc_dev = 1, oc_ino = 2, oc_fts = (\<lambda>_ _. False)\<rparr>"

definition calm_state :: "tables \<Rightarrow> history_state" where
  "calm_state t =
     \<lparr>hs_closed = False, hs_db = \<lparr>db_tables = t, db_blocked = False\<rparr>, hs_active = None, hs_pf = bare_platform,
      hs_selection = None, hs_tape = (\<lambda>_. calm_outcome)\<rparr>"

lemma calm_simps [simp]:
  "hs_closed (calm_state t) = False" "hs_db (calm_state t) = \<lparr>db_tables = t, db_blocked = False\<rparr>"
  "hs_pf (calm_state t) = bare_platform" "hs_tape (calm_state t) = (\<lambda>_. calm_outcome)" "hs_active (calm_state t) = None"
  "tables_of (calm_state t) = t"
  by (simp_all add: calm_state_def tables_of_def)

lemma calm_outcome_simps [simp]:
  "oc_refusal calm_outcome = None" "oc_engine calm_outcome = sound_engine" "oc_uuid calm_outcome = ''b''"
  "oc_owner calm_outcome off = Inr ()" "oc_io calm_outcome = Inr ()"
  by (simp_all add: calm_outcome_def)

lemma calm_call:
  assumes "validate_request r = Inr ()"
    and "serve bare_platform (oc_fts calm_outcome) sound_engine ''b'' r \<lparr>db_tables = t, db_blocked = False\<rparr> =
      (v, \<lparr>db_tables = t', db_blocked = False\<rparr>)"
  shows "store_call r (calm_state t) = (v, calm_state t')"
  using assms by (simp add: store_call_def hist_defs run_job_def) (simp add: calm_state_def)

section \<open>Reading back and copying\<close>

text \<open>
  C19. Copying an entry publishes exactly its stored content: when \<open>restore_entry\<close> succeeds, the
  selection offers the stored bytes under the resolved MIME type, or, for a file reference to a local image,
  the bytes of that file under the type found in it, never more than the limit; the tables are unchanged and no
  generated file counts as active any more.
\<close>

theorem restore_publishes_stored_content:
  assumes "restore_entry i expected n s = (Inr r, s')"
  shows "\<exists>st off. db_get i expected (tables_of s) = Inr st \<and> hs_selection s' = Some (Published off) \<and>
    hs_active s' = None \<and> tables_of s' = tables_of s \<and>
    (let content = resolve (hs_pf s) (se_mime st) (se_bytes st) (effective_limit n) in
     case local_image content of
       None \<Rightarrow> so_sources off = [(rc_mime content, se_bytes st)] \<and> length (se_bytes st) \<le> n
     | Some src \<Rightarrow> \<exists>bs. read_path (hs_pf s) (li_path src) n = Inr bs \<and> so_sources off = [(li_mime src, bs)] \<and> length bs \<le> n)"
  by (rule restore_entry_ok[OF assms])

lemma demo_get: "db_get ''entry-a'' None demo_one = Inr \<lparr>se_summary = demo_summary, se_mime = ''text/plain'', se_bytes = ''hi''\<rparr>"
  by (simp add: db_get_def demo_summary_one del: rbind_Inr_iff)
    (simp add: demo_one_def demo_summary_def demo_row_def find_entry_def ok_or_def)

lemma demo_restore: "\<exists>r s'. restore_entry ''entry-a'' None 16 (calm_state demo_one) = (Inr r, s')"
proof -
  have c: "store_call (ReqGet ''entry-a'' None) (calm_state demo_one) =
      (Inr (RepEntry \<lparr>se_summary = demo_summary, se_mime = ''text/plain'', se_bytes = ''hi''\<rparr>), calm_state demo_one)"
    by (rule calm_call) (simp_all add: validate_id_def reply_with_def db_read_def sound_engine_def demo_get)
  have v: "validate_mime ''text/plain'' = Inr ()"
    by (simp add: validate_mime_def valid_mime_ascii_def valid_mime_essence_def valid_mime_token_def utf8_eval str_eval
        is_ascii_alphanumeric_def Let_def)
  show ?thesis
    by (simp add: restore_entry_def selected_bytes_def selected_def store_get_def hist_defs c validate_size_def
        effective_limit_def MAX_WAYLAND_SELECTION_BYTES_def publish_entry_def resolved_def resolve_hi local_image_def
        publish_with_def publish_def rc_mime_def v wl_publish_def hand_over_def selection_changed_def
        clear_active_selection_def completed_result_def demo_summary_def)
qed

theorem restore_publishes_stored_content_witness:
  "\<exists>r s' off. restore_entry ''entry-a'' None 16 (calm_state demo_one) = (Inr r, s') \<and>
     hs_selection s' = Some (Published off) \<and> so_sources off = [(''text/plain'', ''hi'')]"
proof -
  obtain r s' where r: "restore_entry ''entry-a'' None 16 (calm_state demo_one) = (Inr r, s')" using demo_restore by blast
  from restore_publishes_stored_content[OF r] show ?thesis
    by (auto simp: demo_get resolve_hi local_image_def rc_mime_def r)
qed

section \<open>Replacement\<close>

text \<open>What a replacement stores is read back under the revision it reports; the revision it names was the stored one.\<close>

lemma replace_sync_readback:
  assumes "good (hs_pf s) (tables_of s)" and "replace_sync i x mime bs s = (Inr rr, s')"
  shows "(\<exists>e. find_entry i (tables_of s) = Some e \<and> er_revision e = x) \<and>
    db_get i (Some (es_revision (ed_entry (rr_entry rr)))) (tables_of s') =
      Inr \<lparr>se_summary = ed_entry (rr_entry rr), se_mime = mime, se_bytes = bs\<rparr>"
proof -
  obtain sm where "replace_body (hs_pf s) i x mime bs (tables_of s) = Inr (sm, tables_of s')" "ed_entry (rr_entry rr) = sm"
    using replace_sync_ok[OF assms(2)] by blast
  then show ?thesis using replace_body_result[OF assms(1), of i x mime bs sm "tables_of s'"] by auto
qed

text \<open>
  A replacement is committed before, and whatever becomes of, its publication: when \<open>replace_sync\<close>
  returns, the new bytes and MIME type are read back under the revision it reports, and the flag it returns
  tells whether the selection was published; when it was, it offers what is stored.
\<close>

lemma replacement_survives_publication:
  assumes "good (hs_pf s) (tables_of s)" and "replace_sync i x mime bs s = (Inr rr, s')"
  shows "db_get i (Some (es_revision (ed_entry (rr_entry rr)))) (tables_of s') =
      Inr \<lparr>se_summary = ed_entry (rr_entry rr), se_mime = mime, se_bytes = bs\<rparr> \<and>
    (rr_selection_published rr \<longrightarrow> (\<exists>off. hs_selection s' = Some (Published off) \<and>
       (let content = resolve (hs_pf s) mime bs (effective_limit MAX_DETAILS_BYTES) in
        local_image content = None \<longrightarrow> so_sources off = [(rc_mime content, bs)])))"
proof -
  obtain sm s1 where rp: "replace_body (hs_pf s) i x mime bs (tables_of s) = Inr (sm, tables_of s')"
    and e: "ed_entry (rr_entry rr) = sm" "tables_of s1 = tables_of s'" "hs_pf s1 = hs_pf s"
    and f: "rr_selection_published rr \<longleftrightarrow> is_ok (fst (restore_entry (es_id sm) (Some (es_revision sm)) MAX_DETAILS_BYTES s1))"
    and s': "s' = snd (restore_entry (es_id sm) (Some (es_revision sm)) MAX_DETAILS_BYTES s1)"
    using replace_sync_ok[OF assms(2)] by blast
  have g: "es_id sm = i" "db_get i (Some (es_revision sm)) (tables_of s') = Inr \<lparr>se_summary = sm, se_mime = mime, se_bytes = bs\<rparr>"
    using replace_body_result[OF assms(1) rp] by auto
  moreover have "\<exists>off. hs_selection s' = Some (Published off) \<and>
       (let content = resolve (hs_pf s) mime bs (effective_limit MAX_DETAILS_BYTES) in
        local_image content = None \<longrightarrow> so_sources off = [(rc_mime content, bs)])" if "rr_selection_published rr"
  proof -
    have "is_ok (fst (restore_entry (es_id sm) (Some (es_revision sm)) MAX_DETAILS_BYTES s1))" using that f by blast
    then obtain r where r: "restore_entry i (Some (es_revision sm)) MAX_DETAILS_BYTES s1 = (Inr r, s')"
      using s' g(1) by (metis is_ok_iff prod.collapse)
    from restore_entry_ok[OF r] g(2) show ?thesis by (auto simp: e Let_def)
  qed
  ultimately show ?thesis using e by simp
qed

lemma demo_replace_sync:
  "\<exists>rr s'. replace_sync ''entry-a'' 1 ''text/plain'' ''hi'' (calm_state demo_one) = (Inr rr, s')"
proof -
  have t: "transaction sound_engine (replace_body bare_platform ''entry-a'' 1 ''text/plain'' ''hi'')
      \<lparr>db_tables = demo_one, db_blocked = False\<rparr> = (Inr (demo_summary\<lparr>es_revision := 2\<rparr>), \<lparr>db_tables = demo_two, db_blocked = False\<rparr>)"
    using transaction_sound(1)[of "\<lparr>db_tables = demo_one, db_blocked = False\<rparr>" "replace_body bare_platform ''entry-a'' 1 ''text/plain'' ''hi''"]
      demo_replace by simp
  have c: "store_call (ReqReplace ''entry-a'' 1 ''text/plain'' ''hi'') (calm_state demo_one) =
      (Inr (RepSummary (demo_summary\<lparr>es_revision := 2\<rparr>)), calm_state demo_two)"
    by (rule calm_call) (simp_all add: validate_id_def validate_input_def MAX_ENTRY_BYTES_def reply_with_def db_replace_def t[simplified])
  obtain q s2 where "restore_entry ''entry-a'' (Some 2) MAX_DETAILS_BYTES (calm_state demo_two) = (q, s2)" by fastforce
  then show ?thesis by (cases q) (simp_all add: replace_sync_def store_replace_def hist_defs c[simplified] demo_summary_def)
qed

lemma replacement_survives_publication_example:
  "\<exists>rr s'. replace_sync ''entry-a'' 1 ''text/plain'' ''hi'' (calm_state demo_one) = (Inr rr, s') \<and>
     db_get ''entry-a'' (Some (es_revision (ed_entry (rr_entry rr)))) (tables_of s') =
       Inr \<lparr>se_summary = ed_entry (rr_entry rr), se_mime = ''text/plain'', se_bytes = ''hi''\<rparr>"
proof -
  obtain rr s' where r: "replace_sync ''entry-a'' 1 ''text/plain'' ''hi'' (calm_state demo_one) = (Inr rr, s')"
    using demo_replace_sync by blast
  with replacement_survives_publication[OF _ r] good_demo_one show ?thesis by simp
qed

section \<open>Wipe\<close>

text \<open>
  A wiped history is empty: when \<open>wipe_entries\<close> succeeds, no entry is left, favorites included, even if
  clearing the caches or removing generated files failed afterwards.
\<close>

lemma wipe_leaves_no_entry:
  assumes "wipe_entries s = (Inr r, s')"
  shows "t_entries (tables_of s') = []"
  by (rule wipe_entries_ok[OF assms])

lemma calm_wipe:
  assumes "wipe_body t = Inr ((), t')" shows "\<exists>r s'. wipe_entries (calm_state t) = (Inr r, s')"
proof -
  have t: "transaction sound_engine wipe_body \<lparr>db_tables = t, db_blocked = False\<rparr> = (Inr (), \<lparr>db_tables = t', db_blocked = False\<rparr>)"
    using transaction_sound(1)[of "\<lparr>db_tables = t, db_blocked = False\<rparr>" wipe_body] assms by simp
  have c: "store_call ReqWipe (calm_state t) = (Inr RepUnit, calm_state t')"
    by (rule calm_call) (simp_all add: reply_with_def db_wipe_def t)
  let ?c = "\<lambda>_. completed_result ''wipe'' ''Clipboard history cleared''"
  have w: "wipe_entries (calm_state t) = hcase (hbind cleanup_backend (\<lambda>_. clear_all)) ?c ?c (calm_state t')"
    by (simp add: wipe_entries_def store_unit_def hbind_def hreturn_def c)
  obtain q s2 where q: "hbind cleanup_backend (\<lambda>_. clear_all) (calm_state t') = (q, s2)" by fastforce
  have "\<exists>r s'. ?c () s2 = (Inr r, s')" by (simp add: completed_result_def hist_defs)
  then show ?thesis unfolding w hcase_def q by (cases q) simp_all
qed

lemma demo_wipe: "\<exists>r s'. wipe_entries (calm_state demo_one) = (Inr r, s')"
  by (rule calm_wipe[where t' = "(delete_entries (\<lambda>_. True) demo_one)\<lparr>t_inline_echoes := [], t_revision := 2\<rparr>"])
    (simp add: wipe_body_def bump_def delete_entries_def demo_two_simps)

lemma wipe_leaves_no_entry_example:
  "\<exists>r s'. wipe_entries (calm_state demo_one) = (Inr r, s') \<and> t_entries (tables_of s') = [] \<and>
     t_entries (tables_of (calm_state demo_one)) \<noteq> []"
  using demo_wipe wipe_leaves_no_entry by (fastforce simp: demo_two_simps)

section \<open>Files\<close>



text \<open>
  C21. Cleanup removes only abandoned files of the daemon: every path whose file a pruning pass unlinks was,
  before the pass, the path of a registered artifact in the daemon's private directory whose current device,
  inode, owner and link count are the recorded ones, old enough, neither produced from nor referenced by a
  live entry, and not the file in the clipboard.
\<close>

theorem only_abandoned_files_unlinked:
  "{p. pf_lstat (hs_pf (snd (prune before s))) p \<noteq> pf_lstat (hs_pf s) p} \<subseteq>
     ar_path ` {rec \<in> set (t_artifacts (tables_of s)). hs_active s \<noteq> Some (ar_path rec) \<and> ar_created_at rec \<le> before \<and>
       \<not> artifact_live (tables_of s) rec \<and> owned_path (hs_pf s) (ar_path rec) \<and>
       (\<exists>m. pf_lstat (hs_pf s) (ar_path rec) = LstatOk m \<and> same_file (hs_pf s) m rec)}"
  using prune_gone[of before s] by (fastforce simp: tables_of_def may_unlink_def)

end
