(* ===== verification/History_Operations.thy ===== *)
theory History_Operations
  imports Backend_Types
begin

text \<open>
  The lifecycle of background image operations (\<open>src/src/history/operation.rs\<close>): registration, the
  commit/cancel race on the phase of \<open>OperationControl\<close>, and the single terminal event.  Every critical
  section of the code is one function on the shared state, and \<open>op_step\<close> interleaves them: the task of an
  operation, its cancellation and other callers.  A control is keyed by the id of its operation; times are
  milliseconds.  The lemmas show that an operation sends a started event and then exactly one terminal
  event, that a cancelled operation cannot commit, and that a committing one cannot be cancelled.
\<close>

section \<open>State\<close>

datatype phase = Editing | Committing | Cancelled | Finished

text \<open>Where the task of an operation is: its work, waiting for the lock with the result of the work,
  between its claim and \<open>finish\<close>, or ended.\<close>

record op_completion =
  oc_status :: str
  oc_message :: str
  oc_warning :: "str option"

datatype job = Working | Claiming "op_completion bresult" | Finishing | Ended

record op_task =
  ot_initial :: operation_result
  ot_action :: str
  ot_files :: "str list"

record operations =
  os_active :: "(str \<times> op_task) list"
  os_cancelling :: "(str \<times> op_task \<times> bool) list"
  os_terminal :: "(nat \<times> operation_result) list"
  os_phase :: "str \<Rightarrow> phase"
  os_job :: "str \<Rightarrow> job"
  os_events :: "operation_result list"
  os_removed :: "str list"

definition no_operations :: operations where
  "no_operations =
     \<lparr>os_active = [], os_cancelling = [], os_terminal = [], os_phase = (\<lambda>_. Editing), os_job = (\<lambda>_. Ended),
      os_events = [], os_removed = []\<rparr>"

section \<open>Terminal results\<close>

definition TERMINAL_AGE :: nat where "TERMINAL_AGE = 300000"
definition TERMINAL_RESULTS :: nat where "TERMINAL_RESULTS = 256"

definition prune_terminal :: "nat \<Rightarrow> (nat \<times> operation_result) list \<Rightarrow> (nat \<times> operation_result) list" where
  "prune_terminal now ts = dropWhile (\<lambda>(at, _). now - at \<ge> TERMINAL_AGE) ts"

definition retain_terminal :: "nat \<Rightarrow> operation_result \<Rightarrow> (nat \<times> operation_result) list \<Rightarrow> (nat \<times> operation_result) list" where
  "retain_terminal now r ts =
    (let ts1 = prune_terminal now ts; ts2 = (if length ts1 = TERMINAL_RESULTS then tl ts1 else ts1)
     in ts2 @ [(now, r)])"

section \<open>Control\<close>

definition begin_commit :: "phase \<Rightarrow> bool \<times> phase" where
  "begin_commit p = (if p = Editing then (True, Committing) else (False, p))"

definition control_cancel :: "phase \<Rightarrow> bool \<times> phase" where
  "control_cancel p = (if p = Editing then (True, Cancelled) else (False, p))"

definition set_phase :: "str \<Rightarrow> phase \<Rightarrow> operations \<Rightarrow> operations" where
  "set_phase i p s = s\<lparr>os_phase := (os_phase s)(i := p)\<rparr>"

definition control_finish :: "str \<Rightarrow> operations \<Rightarrow> operations" where
  "control_finish i s = set_phase i Finished s"

text \<open>\<open>wait\<close> returns in the states where the phase is final.\<close>

definition wait_returns :: "str \<Rightarrow> operations \<Rightarrow> bool" where
  "wait_returns i s \<longleftrightarrow> os_phase s i = Finished"

section \<open>Operations\<close>

definition send_event :: "operation_result \<Rightarrow> operations \<Rightarrow> operations" where
  "send_event r s = s\<lparr>os_events := os_events s @ [r]\<rparr>"

definition drop_task :: "op_task \<Rightarrow> operations \<Rightarrow> operations" where
  "drop_task t s = s\<lparr>os_removed := os_removed s @ ot_files t\<rparr>"

definition set_job :: "str \<Rightarrow> job \<Rightarrow> operations \<Rightarrow> operations" where
  "set_job i j s = s\<lparr>os_job := (os_job s)(i := j)\<rparr>"

text \<open>\<open>start_ok\<close> is false when the runtime has already dropped the new task.\<close>

definition launch :: "str \<Rightarrow> str \<Rightarrow> str \<Rightarrow> str list \<Rightarrow> bool \<Rightarrow> operations \<Rightarrow> operation_result bresult \<times> operations" where
  "launch uuid action message files start_ok s =
    (let operation = (completed uuid action message)\<lparr>or_status := ''started''\<rparr>;
         i = or_id operation;
         task = \<lparr>ot_initial = operation, ot_action = action, ot_files = files\<rparr>;
         s1 = send_event operation (set_job i Working (set_phase i Editing
                (s\<lparr>os_active := (i, task) # without i (os_active s)\<rparr>)))
     in (if start_ok then Inr operation else Inl (operation_error ''Clipboard operation could not start''), s1))"

definition terminal_event :: "str \<Rightarrow> str \<Rightarrow> op_completion bresult \<Rightarrow> operation_result" where
  "terminal_event i action result =
    (case result of
       Inr c \<Rightarrow> (with_id i action (oc_status c) (oc_message c))\<lparr>or_warning := oc_warning c\<rparr>
     | Inl e \<Rightarrow> with_id i action ''failed'' (be_message e))"

definition claim :: "nat \<Rightarrow> str \<Rightarrow> op_completion bresult \<Rightarrow> operations \<Rightarrow> operations" where
  "claim now i result s =
    (case map_of (os_active s) i of
       None \<Rightarrow> s
     | Some t \<Rightarrow>
         (let event = terminal_event i (ot_action t) result
          in send_event event (drop_task t
               (s\<lparr>os_active := without i (os_active s), os_terminal := retain_terminal now event (os_terminal s)\<rparr>))))"

definition op_cancel :: "str \<Rightarrow> operations \<Rightarrow> bool \<times> operations" where
  "op_cancel i s =
    (case map_of (os_active s) i of
       None \<Rightarrow> (False, s)
     | Some t \<Rightarrow>
         (case control_cancel (os_phase s i) of
            (False, _) \<Rightarrow> (False, s)
          | (True, p) \<Rightarrow>
              (True, (set_phase i p s)\<lparr>os_active := without i (os_active s),
                                       os_cancelling := (i, t, False) # os_cancelling s\<rparr>)))"

text \<open>\<open>finish_cancel\<close> in two parts: the task is aborted and awaited and its files go, then the event.\<close>

definition reap :: "str \<Rightarrow> operations \<Rightarrow> operations" where
  "reap i s =
    (case map_of (os_cancelling s) i of
       Some (t, False) \<Rightarrow>
         drop_task t (set_job i Ended (s\<lparr>os_cancelling := (i, t, True) # without i (os_cancelling s)\<rparr>))
     | _ \<Rightarrow> s)"

definition cancelled_event :: "str \<Rightarrow> op_task \<Rightarrow> operation_result" where
  "cancelled_event i t = with_id i (ot_action t) ''cancelled'' ''Image operation cancelled''"

definition finish_cancel :: "nat \<Rightarrow> str \<Rightarrow> operations \<Rightarrow> operations" where
  "finish_cancel now i s =
    (case map_of (os_cancelling s) i of
       Some (t, True) \<Rightarrow>
         control_finish i (send_event (cancelled_event i t)
           (s\<lparr>os_cancelling := without i (os_cancelling s),
              os_terminal := retain_terminal now (cancelled_event i t) (os_terminal s)\<rparr>))
     | _ \<Rightarrow> s)"

definition active_ids :: "operations \<Rightarrow> str set" where
  "active_ids s = set (map fst (os_active s) @ map fst (os_cancelling s))"

definition op_status :: "nat \<Rightarrow> str \<Rightarrow> operations \<Rightarrow> operation_result option \<times> operations" where
  "op_status now i s =
    (let s1 = s\<lparr>os_terminal := prune_terminal now (os_terminal s)\<rparr> in
     (case map_of (os_active s1) i of
        Some t \<Rightarrow> Some (ot_initial t)
      | None \<Rightarrow>
          (case map_of (os_cancelling s1) i of
             Some (t, _) \<Rightarrow> Some (ot_initial t)
           | None \<Rightarrow> map_option snd (find (\<lambda>(_, r). or_id r = i) (os_terminal s1))), s1))"

definition op_contains :: "str \<Rightarrow> operations \<Rightarrow> bool" where
  "op_contains action s \<longleftrightarrow>
     list_ex (\<lambda>(_, t). ot_action t = action) (os_active s) \<or>
     list_ex (\<lambda>(_, t, _). or_action (ot_initial t) = action) (os_cancelling s)"

section \<open>Steps\<close>

text \<open>The id of a new operation is fresh (a version 4 UUID): nothing has been sent under it.\<close>

definition fresh_id :: "str \<Rightarrow> operations \<Rightarrow> bool" where
  "fresh_id i s \<longleftrightarrow> i \<notin> set (map or_id (os_events s))"

inductive op_step :: "operations \<Rightarrow> operations \<Rightarrow> bool" where
  os_launch: "fresh_id (''operation-'' @ uuid) s \<Longrightarrow> op_step s (snd (launch uuid action message files start_ok s))"
| os_commit: "os_job s i = Working \<Longrightarrow> begin_commit (os_phase s i) = (b, p) \<Longrightarrow> op_step s (set_phase i p s)"
| os_worked: "os_job s i = Working \<Longrightarrow> op_step s (set_job i (Claiming r) s)"
| os_claim: "os_job s i = Claiming r \<Longrightarrow> op_step s (set_job i Finishing (claim now i r s))"
| os_finish: "os_job s i = Finishing \<Longrightarrow> op_step s (set_job i Ended (control_finish i s))"
| os_cancel: "op_step s (snd (op_cancel i s))"
| os_reap: "os_job s i = Working \<or> os_job s i = Ended \<Longrightarrow> op_step s (reap i s)"
| os_cancelled: "op_step s (finish_cancel now i s)"
| os_status: "op_step s (snd (op_status now i s))"

inductive_cases op_stepE: "op_step s s'"

inductive op_reachable :: "operations \<Rightarrow> bool" where
  or_none: "op_reachable no_operations"
| or_step: "op_reachable s \<Longrightarrow> op_step s s' \<Longrightarrow> op_reachable s'"

section \<open>Invariant\<close>

definition events_of :: "str \<Rightarrow> operations \<Rightarrow> operation_result list" where
  "events_of i s = filter (\<lambda>r. or_id r = i) (os_events s)"

definition started_ok :: "operations \<Rightarrow> str \<Rightarrow> op_task \<Rightarrow> bool" where
  "started_ok s i t \<longleftrightarrow>
     events_of i s = [ot_initial t] \<and> or_id (ot_initial t) = i \<and> or_status (ot_initial t) = ''started'' \<and>
     or_action (ot_initial t) = ot_action t"

definition active_ok :: "operations \<Rightarrow> bool" where
  "active_ok s \<longleftrightarrow>
     distinct (map fst (os_active s)) \<and>
     (\<forall>i t. (i, t) \<in> set (os_active s) \<longrightarrow>
        started_ok s i t \<and> os_phase s i \<in> {Editing, Committing} \<and> os_job s i \<noteq> Finishing \<and> os_job s i \<noteq> Ended)"

definition cancelling_ok :: "operations \<Rightarrow> bool" where
  "cancelling_ok s \<longleftrightarrow>
     distinct (map fst (os_cancelling s)) \<and>
     (\<forall>i t reaped. (i, t, reaped) \<in> set (os_cancelling s) \<longrightarrow>
        started_ok s i t \<and> os_phase s i \<in> {Cancelled, Finished} \<and> (reaped \<longrightarrow> os_job s i = Ended))"

definition settled_ok :: "operations \<Rightarrow> bool" where
  "settled_ok s \<longleftrightarrow>
     (\<forall>i. i \<notin> active_ids s \<longrightarrow> events_of i s = [] \<or> (\<exists>a b. events_of i s = [a, b] \<and> or_status a = ''started''))"

definition op_inv :: "operations \<Rightarrow> bool" where
  "op_inv s \<longleftrightarrow>
     active_ok s \<and> cancelling_ok s \<and> set (map fst (os_active s)) \<inter> set (map fst (os_cancelling s)) = {} \<and>
     settled_ok s \<and> length (os_terminal s) \<le> TERMINAL_RESULTS"

lemmas op_inv_defs = op_inv_def active_ok_def cancelling_ok_def settled_ok_def

lemma prune_terminal_length: "length ts \<le> n \<Longrightarrow> length (prune_terminal now ts) \<le> n"
  by (simp add: prune_terminal_def) (meson length_dropWhile_le order_trans)

lemma retain_terminal_length [clip_bounds]:
  "length ts \<le> TERMINAL_RESULTS \<Longrightarrow> length (retain_terminal now r ts) \<le> TERMINAL_RESULTS"
  using prune_terminal_length[of ts TERMINAL_RESULTS now]
  by (auto simp: retain_terminal_def Let_def TERMINAL_RESULTS_def)

lemma events_of_send [simp]:
  "events_of j (send_event r s) = events_of j s @ (if or_id r = j then [r] else [])"
  by (simp add: events_of_def send_event_def)

lemma events_of_frame [simp]:
  "events_of j (s\<lparr>os_active := a\<rparr>) = events_of j s" "events_of j (s\<lparr>os_cancelling := c\<rparr>) = events_of j s"
  "events_of j (s\<lparr>os_terminal := t\<rparr>) = events_of j s" "events_of j (set_phase i p s) = events_of j s"
  "events_of j (set_job i k s) = events_of j s" "events_of j (drop_task x s) = events_of j s"
  by (simp_all add: events_of_def set_phase_def set_job_def drop_task_def)

lemma started_ok_events: "events_of i s' = events_of i s \<Longrightarrow> started_ok s' i t = started_ok s i t"
  by (simp add: started_ok_def)

lemma op_parts [simp]:
  "os_active (send_event r s) = os_active s" "os_cancelling (send_event r s) = os_cancelling s"
  "os_terminal (send_event r s) = os_terminal s" "os_phase (send_event r s) = os_phase s" "os_job (send_event r s) = os_job s"
  "os_active (set_phase i p s) = os_active s" "os_cancelling (set_phase i p s) = os_cancelling s"
  "os_terminal (set_phase i p s) = os_terminal s" "os_phase (set_phase i p s) = (os_phase s)(i := p)"
  "os_job (set_phase i p s) = os_job s"
  "os_active (set_job i k s) = os_active s" "os_cancelling (set_job i k s) = os_cancelling s"
  "os_terminal (set_job i k s) = os_terminal s" "os_phase (set_job i k s) = os_phase s"
  "os_job (set_job i k s) = (os_job s)(i := k)"
  "os_active (drop_task x s) = os_active s" "os_cancelling (drop_task x s) = os_cancelling s"
  "os_terminal (drop_task x s) = os_terminal s" "os_phase (drop_task x s) = os_phase s" "os_job (drop_task x s) = os_job s"
  by (simp_all add: send_event_def set_phase_def set_job_def drop_task_def)

lemma active_ids_mem:
  "i \<in> active_ids s \<longleftrightarrow> (\<exists>t. (i, t) \<in> set (os_active s)) \<or> (\<exists>t b. (i, t, b) \<in> set (os_cancelling s))"
  by (force simp: active_ids_def)

lemma op_inv_none: "op_inv no_operations"
  by (simp add: op_inv_defs events_of_def no_operations_def)

text \<open>What the invariant says of one operation.\<close>

lemma op_invD:
  assumes "op_inv s"
  shows "(i, t) \<in> set (os_active s) \<Longrightarrow> started_ok s i t \<and> os_phase s i \<in> {Editing, Committing} \<and>
      os_job s i \<noteq> Finishing \<and> os_job s i \<noteq> Ended \<and> (i, t', b) \<notin> set (os_cancelling s)"
    and "(i, t, b) \<in> set (os_cancelling s) \<Longrightarrow> started_ok s i t \<and> os_phase s i \<in> {Cancelled, Finished} \<and>
      (b \<longrightarrow> os_job s i = Ended) \<and> (i, t') \<notin> set (os_active s)"
    and "i \<notin> active_ids s \<Longrightarrow> events_of i s = [] \<or> (\<exists>a b. events_of i s = [a, b] \<and> or_status a = ''started'')"
proof -
  have dis: "(i, t) \<in> set (os_active s) \<Longrightarrow> (i, t', b) \<in> set (os_cancelling s) \<Longrightarrow> False" for i t t' b
    using assms by (auto simp: op_inv_def) (metis IntI emptyE fst_conv imageI)
  show "(i, t) \<in> set (os_active s) \<Longrightarrow> started_ok s i t \<and> os_phase s i \<in> {Editing, Committing} \<and>
      os_job s i \<noteq> Finishing \<and> os_job s i \<noteq> Ended \<and> (i, t', b) \<notin> set (os_cancelling s)"
    using assms dis[of i t t' b] by (simp add: op_inv_def active_ok_def) blast
  show "(i, t, b) \<in> set (os_cancelling s) \<Longrightarrow> started_ok s i t \<and> os_phase s i \<in> {Cancelled, Finished} \<and>
      (b \<longrightarrow> os_job s i = Ended) \<and> (i, t') \<notin> set (os_active s)"
    using assms dis[of i t' t b] by (simp add: op_inv_def cancelling_ok_def) blast
  show "i \<notin> active_ids s \<Longrightarrow> events_of i s = [] \<or> (\<exists>a b. events_of i s = [a, b] \<and> or_status a = ''started'')"
    using assms by (simp add: op_inv_def settled_ok_def)
qed

lemma op_inv_disjoint: "op_inv s \<Longrightarrow> (i, t) \<in> set (os_active s) \<Longrightarrow> i \<notin> fst ` set (os_cancelling s)"
  by (auto simp: op_inv_def) (metis IntI emptyE fst_conv imageI)

lemma with_id_id [simp]: "or_id (with_id i a st m) = i"
  by (simp add: with_id_def)

lemma fresh_events: "fresh_id i s \<Longrightarrow> events_of i s = []"
  by (auto simp: fresh_id_def events_of_def filter_empty_conv)

lemma op_invI:
  assumes "distinct (map fst (os_active s))" "distinct (map fst (os_cancelling s))"
    "\<And>i t. (i, t) \<in> set (os_active s) \<Longrightarrow> started_ok s i t \<and> os_phase s i \<in> {Editing, Committing} \<and>
      os_job s i \<noteq> Finishing \<and> os_job s i \<noteq> Ended \<and> i \<notin> fst ` set (os_cancelling s)"
    "\<And>i t b. (i, t, b) \<in> set (os_cancelling s) \<Longrightarrow> started_ok s i t \<and> os_phase s i \<in> {Cancelled, Finished} \<and>
      (b \<longrightarrow> os_job s i = Ended)"
    "settled_ok s" "length (os_terminal s) \<le> TERMINAL_RESULTS"
  shows "op_inv s"
  using assms by (fastforce simp: op_inv_def active_ok_def cancelling_ok_def)

lemma launch_inv:
  assumes inv: "op_inv s" and fresh: "fresh_id (''operation-'' @ uuid) s"
  shows "op_inv (snd (launch uuid action message files ok s))"
proof -
  define i where "i = ''operation-'' @ uuid"
  have no: "events_of i s = []" unfolding i_def by (rule fresh_events[OF fresh])
  have new: "i \<notin> active_ids s" using op_invD[OF inv] no by (fastforce simp: active_ids_mem started_ok_def)
  let ?op = "(with_id i action ''completed'' message)\<lparr>or_status := ''started''\<rparr>"
  let ?t = "\<lparr>ot_initial = ?op, ot_action = action, ot_files = files\<rparr>"
  let ?s = "send_event ?op (set_job i Working (set_phase i Editing (s\<lparr>os_active := (i, ?t) # without i (os_active s)\<rparr>)))"
  have s': "snd (launch uuid action message files ok s) = ?s"
    by (simp add: launch_def Let_def completed_def with_id_def i_def)
  have ev: "events_of j ?s = (if j = i then [?op] else events_of j s)" for j using no by (simp add: with_id_def)
  have st: "started_ok ?s j t = started_ok s j t" if "j \<noteq> i" for j t
    using that by (intro started_ok_events) (simp add: ev[of j] with_id_def)
  have sti: "started_ok ?s i ?t" unfolding started_ok_def ev by (simp add: with_id_def)
  have ids: "active_ids ?s = insert i (active_ids s)" by (auto simp: active_ids_def)
  have "op_inv ?s"
  proof (rule op_invI)
    show "settled_ok ?s" using op_invD(3)[OF inv] by (simp add: settled_ok_def ids ev)
    show "distinct (map fst (os_active ?s))" using inv by (simp add: op_inv_defs without_distinct)
    show "distinct (map fst (os_cancelling ?s))" "length (os_terminal ?s) \<le> TERMINAL_RESULTS"
      using inv by (simp_all add: op_inv_defs)
  next
    fix j t assume "(j, t) \<in> set (os_active ?s)"
    then show "started_ok ?s j t \<and> os_phase ?s j \<in> {Editing, Committing} \<and> os_job ?s j \<noteq> Finishing \<and>
        os_job ?s j \<noteq> Ended \<and> j \<notin> fst ` set (os_cancelling ?s)"
      using st sti op_invD(1)[OF inv, of j t] new by (cases "j = i") (auto simp: active_ids_mem)
  next
    fix j t b assume "(j, t, b) \<in> set (os_cancelling ?s)"
    then show "started_ok ?s j t \<and> os_phase ?s j \<in> {Cancelled, Finished} \<and> (b \<longrightarrow> os_job ?s j = Ended)"
      using st op_invD(2)[OF inv, of j t b] new by (cases "j = i") (auto simp: active_ids_mem)
  qed
  then show ?thesis by (simp only: s')
qed

text \<open>Both ends of an operation take it out of the lists and send its terminal event.\<close>

lemma ended_inv:
  assumes inv: "op_inv s" and mem: "i \<in> active_ids s" and r: "or_id r = i"
    and s': "os_active s' = without i (os_active s)" "os_cancelling s' = without i (os_cancelling s)"
      "os_terminal s' = retain_terminal now r (os_terminal s)"
      "\<And>j. events_of j s' = events_of j s @ (if or_id r = j then [r] else [])"
      "\<And>j. j \<noteq> i \<Longrightarrow> os_phase s' j = os_phase s j \<and> os_job s' j = os_job s j"
  shows "op_inv s'"
proof (rule op_invI)
  have ev: "events_of j s' = events_of j s" if "j \<noteq> i" for j using that s'(4) r by simp
  have st: "started_ok s' j t = started_ok s j t" if "j \<noteq> i" for j t
    using that by (intro started_ok_events) (simp add: ev)
  have "\<exists>a. events_of i s = [a] \<and> or_status a = ''started''"
    using mem op_invD(1,2)[OF inv] by (fastforce simp: active_ids_mem started_ok_def)
  then have evi: "\<exists>a b. events_of i s' = [a, b] \<and> or_status a = ''started''" using s'(4)[of i] r by auto
  have ids: "active_ids s' = active_ids s - {i}" by (auto simp: active_ids_def s')
  show "settled_ok s'" unfolding settled_ok_def ids
    using evi op_invD(3)[OF inv] ev by (metis Diff_iff insertE empty_iff)
  show "distinct (map fst (os_active s'))" "distinct (map fst (os_cancelling s'))"
    using inv by (simp_all add: op_inv_defs s' without_distinct)
  show "length (os_terminal s') \<le> TERMINAL_RESULTS" using inv retain_terminal_length by (simp add: op_inv_def s')
  fix j t
  show "(j, t) \<in> set (os_active s') \<Longrightarrow> started_ok s' j t \<and> os_phase s' j \<in> {Editing, Committing} \<and>
      os_job s' j \<noteq> Finishing \<and> os_job s' j \<noteq> Ended \<and> j \<notin> fst ` set (os_cancelling s')"
    using op_invD(1)[OF inv, of j t] op_inv_disjoint[OF inv, of j t] st[of j t] s'(5)[of j] by (simp add: s'(1,2))
  fix b
  show "(j, t, b) \<in> set (os_cancelling s') \<Longrightarrow> started_ok s' j t \<and> os_phase s' j \<in> {Cancelled, Finished} \<and>
      (b \<longrightarrow> os_job s' j = Ended)" for t
    using op_invD(2)[OF inv, of j t b] st[of j t] s'(5)[of j] by (simp add: s'(1,2))
qed

lemma terminal_event_id: "or_id (terminal_event i a r) = i"
  by (cases r) (simp_all add: terminal_event_def with_id_def)

lemma claim_inv:
  assumes inv: "op_inv s" and job: "os_job s i = Claiming r"
  shows "op_inv (set_job i Finishing (claim now i r s))"
proof (cases "map_of (os_active s) i")
  case None
  then have na: "(i, t) \<notin> set (os_active s)" for t by (force simp: map_of_eq_None_iff)
  have nr: "(i, t, True) \<notin> set (os_cancelling s)" for t using op_invD(2)[OF inv, of i t True] job by auto
  show ?thesis
  proof (rule op_invI)
    show "settled_ok (set_job i Finishing (claim now i r s))"
      using inv None by (simp add: claim_def op_inv_def settled_ok_def active_ids_def)
  next
    fix j t assume "(j, t) \<in> set (os_active (set_job i Finishing (claim now i r s)))"
    then show "started_ok (set_job i Finishing (claim now i r s)) j t \<and>
        os_phase (set_job i Finishing (claim now i r s)) j \<in> {Editing, Committing} \<and>
        os_job (set_job i Finishing (claim now i r s)) j \<noteq> Finishing \<and> os_job (set_job i Finishing (claim now i r s)) j \<noteq> Ended \<and>
        j \<notin> fst ` set (os_cancelling (set_job i Finishing (claim now i r s)))"
      using op_invD(1)[OF inv, of j t] op_inv_disjoint[OF inv, of j t] na[of t] None
      by (cases "j = i") (simp_all add: claim_def started_ok_def)
  next
    fix j t b assume "(j, t, b) \<in> set (os_cancelling (set_job i Finishing (claim now i r s)))"
    then show "started_ok (set_job i Finishing (claim now i r s)) j t \<and>
        os_phase (set_job i Finishing (claim now i r s)) j \<in> {Cancelled, Finished} \<and>
        (b \<longrightarrow> os_job (set_job i Finishing (claim now i r s)) j = Ended)"
      using op_invD(2)[OF inv, of j t b] nr[of t] None by (auto simp: claim_def started_ok_def)
  qed (use inv None in \<open>simp_all add: op_inv_defs claim_def\<close>)
next
  case (Some t)
  have i: "(i, t) \<in> set (os_active s)" by (rule map_of_SomeD[OF Some])
  then have "i \<notin> fst ` set (os_cancelling s)" using op_invD(1)[OF inv, of i t] by force
  then show ?thesis using i
    by (intro ended_inv[OF inv, of i "terminal_event i (ot_action t) r" _ now])
      (auto simp: claim_def Some Let_def terminal_event_id active_ids_mem without_absent)
qed

lemma finish_cancel_inv:
  assumes inv: "op_inv s"
  shows "op_inv (finish_cancel now i s)"
proof (cases "\<exists>t. map_of (os_cancelling s) i = Some (t, True)")
  case False
  then have "finish_cancel now i s = s" by (auto simp: finish_cancel_def split: option.splits bool.splits)
  then show ?thesis using inv by simp
next
  case True
  then obtain t where t: "map_of (os_cancelling s) i = Some (t, True)" by blast
  have i: "(i, t, True) \<in> set (os_cancelling s)" by (rule map_of_SomeD[OF t])
  then have "i \<notin> fst ` set (os_active s)" using op_invD(2)[OF inv, of i t True] by force
  then show ?thesis using i
    by (intro ended_inv[OF inv, of i "cancelled_event i t" _ now])
      (auto simp: finish_cancel_def t control_finish_def cancelled_event_def with_id_def active_ids_mem without_absent)
qed

lemma cancel_inv:
  assumes inv: "op_inv s"
  shows "op_inv (snd (op_cancel i s))"
proof (cases "\<exists>t. map_of (os_active s) i = Some t \<and> os_phase s i = Editing")
  case False
  then have "snd (op_cancel i s) = s"
    by (auto simp: op_cancel_def control_cancel_def split: option.splits)
  then show ?thesis using inv by simp
next
  case True
  then obtain t where t: "map_of (os_active s) i = Some t" "os_phase s i = Editing" by blast
  let ?s = "(set_phase i Cancelled s)\<lparr>os_active := without i (os_active s), os_cancelling := (i, t, False) # os_cancelling s\<rparr>"
  have s': "snd (op_cancel i s) = ?s" by (simp add: op_cancel_def control_cancel_def t)
  have i: "(i, t) \<in> set (os_active s)" by (rule map_of_SomeD[OF t(1)])
  note d = op_inv_disjoint[OF inv i]
  have ev: "events_of j ?s = events_of j s" for j by (simp add: events_of_def set_phase_def)
  have st: "started_ok ?s j u = started_ok s j u" for j u by (rule started_ok_events[OF ev])
  have "op_inv ?s"
  proof (rule op_invI)
    have "active_ids ?s = active_ids s" using i by (force simp: active_ids_def)
    then show "settled_ok ?s" using inv by (simp add: op_inv_def settled_ok_def ev)
  next
    fix j u assume "(j, u) \<in> set (os_active ?s)"
    then show "started_ok ?s j u \<and> os_phase ?s j \<in> {Editing, Committing} \<and> os_job ?s j \<noteq> Finishing \<and>
        os_job ?s j \<noteq> Ended \<and> j \<notin> fst ` set (os_cancelling ?s)"
      using op_invD(1)[OF inv, of j u] op_inv_disjoint[OF inv, of j u] st[of j u] by simp
  next
    fix j u b assume "(j, u, b) \<in> set (os_cancelling ?s)"
    then show "started_ok ?s j u \<and> os_phase ?s j \<in> {Cancelled, Finished} \<and> (b \<longrightarrow> os_job ?s j = Ended)"
      using op_invD(1)[OF inv i] op_invD(2)[OF inv, of j u b] st[of j u] by auto
  qed (use inv d in \<open>simp_all add: op_inv_defs without_distinct\<close>)
  then show ?thesis by (simp only: s')
qed

lemma reap_inv:
  assumes inv: "op_inv s"
  shows "op_inv (reap i s)"
proof (cases "\<exists>t. map_of (os_cancelling s) i = Some (t, False)")
  case False
  then have "reap i s = s" by (auto simp: reap_def split: option.splits bool.splits)
  then show ?thesis using inv by simp
next
  case True
  then obtain t where t: "map_of (os_cancelling s) i = Some (t, False)" by blast
  let ?s = "reap i s"
  have i: "(i, t, False) \<in> set (os_cancelling s)" by (rule map_of_SomeD[OF t])
  have parts: "os_active ?s = os_active s" "os_cancelling ?s = (i, t, True) # without i (os_cancelling s)"
    "os_phase ?s = os_phase s" "os_job ?s = (os_job s)(i := Ended)" "os_terminal ?s = os_terminal s"
    "\<And>j. events_of j ?s = events_of j s" by (simp_all add: reap_def t)
  have st: "started_ok ?s j u = started_ok s j u" for j u by (rule started_ok_events[OF parts(6)])
  show ?thesis
  proof (rule op_invI)
    have "active_ids ?s = active_ids s" using i by (force simp: active_ids_def parts)
    then show "settled_ok ?s" using inv by (simp add: op_inv_def settled_ok_def parts)
  next
    fix j u assume j: "(j, u) \<in> set (os_active ?s)"
    then have "j \<noteq> i" using i op_inv_disjoint[OF inv, of j u] parts(1) by force
    then show "started_ok ?s j u \<and> os_phase ?s j \<in> {Editing, Committing} \<and> os_job ?s j \<noteq> Finishing \<and>
        os_job ?s j \<noteq> Ended \<and> j \<notin> fst ` set (os_cancelling ?s)"
      using j op_invD(1)[OF inv, of j u] op_inv_disjoint[OF inv, of j u] st[of j u] parts by simp
  next
    fix j u b assume "(j, u, b) \<in> set (os_cancelling ?s)"
    then show "started_ok ?s j u \<and> os_phase ?s j \<in> {Cancelled, Finished} \<and> (b \<longrightarrow> os_job ?s j = Ended)"
      using op_invD(2)[OF inv i] op_invD(2)[OF inv, of j u b] st[of j u] parts by auto
  qed (use inv in \<open>simp_all add: op_inv_defs without_distinct parts\<close>)
qed

text \<open>Steps that only move a phase or a job.\<close>

lemma move_inv:
  assumes inv: "op_inv s"
    and same: "os_active s' = os_active s" "os_cancelling s' = os_cancelling s" "os_terminal s' = os_terminal s"
      "\<And>j. events_of j s' = events_of j s"
    and act: "\<And>j t. (j, t) \<in> set (os_active s) \<Longrightarrow> os_phase s' j \<in> {Editing, Committing} \<and> os_job s' j \<noteq> Finishing \<and> os_job s' j \<noteq> Ended"
    and can: "\<And>j t b. (j, t, b) \<in> set (os_cancelling s) \<Longrightarrow> os_phase s' j \<in> {Cancelled, Finished} \<and> (b \<longrightarrow> os_job s' j = Ended)"
  shows "op_inv s'"
proof (rule op_invI)
  have st: "started_ok s' j u = started_ok s j u" for j u by (rule started_ok_events[OF same(4)])
  show "settled_ok s'" using inv by (simp add: op_inv_def settled_ok_def active_ids_def same)
  fix j u
  show "(j, u) \<in> set (os_active s') \<Longrightarrow> started_ok s' j u \<and> os_phase s' j \<in> {Editing, Committing} \<and>
      os_job s' j \<noteq> Finishing \<and> os_job s' j \<noteq> Ended \<and> j \<notin> fst ` set (os_cancelling s')"
    using op_invD(1)[OF inv, of j u] op_inv_disjoint[OF inv, of j u] st[of j u] act[of j u] by (simp add: same)
  show "(j, u, b) \<in> set (os_cancelling s') \<Longrightarrow> started_ok s' j u \<and> os_phase s' j \<in> {Cancelled, Finished} \<and>
      (b \<longrightarrow> os_job s' j = Ended)" for u b
    using op_invD(2)[OF inv, of j u b] st[of j u] can[of j u b] by (simp add: same)
qed (use inv in \<open>simp_all add: op_inv_defs same\<close>)

lemma op_step_inv: "op_step s s' \<Longrightarrow> op_inv s \<Longrightarrow> op_inv s'"
proof (induction rule: op_step.induct)
  case (os_commit s i b p)
  have "p \<in> {Editing, Committing}" if "os_phase s i \<in> {Editing, Committing}" using os_commit(2) that by (auto simp: begin_commit_def split: if_splits)
  moreover have "p = os_phase s i" if "os_phase s i \<in> {Cancelled, Finished}" using os_commit(2) that by (auto simp: begin_commit_def split: if_splits)
  ultimately show ?case
    using op_invD(1)[OF os_commit(3)] op_invD(2)[OF os_commit(3)] by (intro move_inv[OF os_commit(3)]) (auto, blast)
next
  case (os_worked s i r)
  show ?case using op_invD(1)[OF os_worked(2)] op_invD(2)[OF os_worked(2), of i _ True] op_invD(2)[OF os_worked(2)] os_worked(1)
    by (intro move_inv[OF os_worked(2)]) auto
next
  case (os_finish s i)
  show ?case using op_invD(1)[OF os_finish(2)] op_invD(2)[OF os_finish(2)] os_finish(1)
    by (intro move_inv[OF os_finish(2)]) (auto simp: control_finish_def)
next
  case (os_status s now i)
  then show ?case by (auto simp: op_status_def Let_def op_inv_defs started_ok_def active_ids_def prune_terminal_length)
qed (auto intro: launch_inv claim_inv cancel_inv reap_inv finish_cancel_inv)

lemma op_reachable_inv: "op_reachable s \<Longrightarrow> op_inv s"
  by (induction rule: op_reachable.induct) (auto intro: op_inv_none op_step_inv)

section \<open>The abstract lifecycle\<close>

text \<open>What a client of the event stream may rely on: an operation is absent, running, or has ended with one
  result, and only moves forward.\<close>

datatype life = Absent | Running | Done operation_result

definition lifecycle :: "operations \<Rightarrow> str \<Rightarrow> life" where
  "lifecycle s i = (case events_of i s of [] \<Rightarrow> Absent | [_] \<Rightarrow> Running | _ # r # _ \<Rightarrow> Done r)"

inductive life_step :: "(str \<Rightarrow> life) \<Rightarrow> (str \<Rightarrow> life) \<Rightarrow> bool" where
  l_start: "a i = Absent \<Longrightarrow> life_step a (a(i := Running))"
| l_end: "a i = Running \<Longrightarrow> life_step a (a(i := Done r))"

lemma lifecycle_same: "(\<And>j. events_of j s' = events_of j s) \<Longrightarrow> lifecycle s' = lifecycle s"
  by (simp add: lifecycle_def fun_eq_iff)

lemma lifecycle_send:
  assumes "\<And>j. events_of j s' = events_of j s @ (if or_id r = j then [r] else [])" "length (events_of (or_id r) s) < 2"
  shows "life_step (lifecycle s) (lifecycle s')"
proof (cases "events_of (or_id r) s")
  case Nil
  then have "lifecycle s' = (lifecycle s)(or_id r := Running)" using assms(1) by (auto simp: lifecycle_def fun_eq_iff)
  with Nil show ?thesis by (simp add: lifecycle_def l_start)
next
  case (Cons x xs)
  then have "events_of (or_id r) s = [x]" using assms(2) by (cases xs) auto
  then have "lifecycle s' = (lifecycle s)(or_id r := Done r)" "lifecycle s (or_id r) = Running"
    using assms(1) by (auto simp: lifecycle_def fun_eq_iff)
  then show ?thesis by (simp add: l_end)
qed

lemma pending_running:
  "op_inv s \<Longrightarrow> i \<in> active_ids s \<Longrightarrow> \<exists>a. events_of i s = [a] \<and> or_status a = ''started''"
  using op_invD(1,2)[of s i] by (fastforce simp: active_ids_mem started_ok_def)

lemma op_step_lifecycle:
  assumes "op_step s s'" and inv: "op_inv s"
  shows "lifecycle s' = lifecycle s \<or> life_step (lifecycle s) (lifecycle s')"
  using assms(1)
proof cases
  case (os_launch uuid action message files start_ok)
  let ?op = "(with_id (''operation-'' @ uuid) action ''completed'' message)\<lparr>or_status := ''started''\<rparr>"
  have i: "or_id ?op = ''operation-'' @ uuid" by (simp add: with_id_def)
  have "events_of (or_id ?op) s = []" unfolding i by (rule fresh_events[OF os_launch(2)])
  then have "life_step (lifecycle s) (lifecycle s')" unfolding os_launch(1)
    by (intro lifecycle_send[of _ _ ?op]) (simp_all add: launch_def Let_def completed_def with_id_def)
  then show ?thesis ..
next
  case (os_claim i r now)
  show ?thesis
  proof (cases "map_of (os_active s) i")
    case None
    then show ?thesis using os_claim by (intro disjI1 lifecycle_same) (simp add: claim_def)
  next
    case (Some t)
    then have "i \<in> active_ids s" by (auto simp: active_ids_mem dest: map_of_SomeD)
    then have "life_step (lifecycle s) (lifecycle s')" using pending_running[OF inv, of i] unfolding os_claim(1)
      by (intro lifecycle_send[of _ _ "terminal_event i (ot_action t) r"]) (auto simp: claim_def Some Let_def terminal_event_id)
    then show ?thesis ..
  qed
next
  case (os_cancelled now i)
  show ?thesis
  proof (cases "\<exists>t. map_of (os_cancelling s) i = Some (t, True)")
    case False
    then have "s' = s" using os_cancelled by (auto simp: finish_cancel_def split: option.splits bool.splits)
    then show ?thesis by simp
  next
    case True
    then obtain t where t: "map_of (os_cancelling s) i = Some (t, True)" by blast
    then have "i \<in> active_ids s" by (auto simp: active_ids_mem dest: map_of_SomeD)
    then have "life_step (lifecycle s) (lifecycle s')" using pending_running[OF inv, of i] unfolding os_cancelled
      by (intro lifecycle_send[of _ _ "cancelled_event i t"]) (auto simp: finish_cancel_def t control_finish_def cancelled_event_def)
    then show ?thesis ..
  qed
qed (auto intro!: lifecycle_same simp: control_finish_def op_cancel_def reap_def op_status_def Let_def
    split: option.splits bool.splits prod.splits)

section \<open>Every pending operation can end\<close>

lemma cancelling_can_end:
  assumes inv: "op_inv s" and c: "(i, t, b) \<in> set (os_cancelling s)"
  shows "\<exists>s'. op_step\<^sup>*\<^sup>* s s' \<and> i \<notin> active_ids s'"
proof -
  have dist: "distinct (map fst (os_cancelling s))" using inv by (simp add: op_inv_defs)
  have m: "map_of (os_cancelling s) i = Some (t, b)" using c dist by simp
  have na: "i \<notin> fst ` set (os_active s)" using op_invD(2)[OF inv c] by force
  have reaped: "\<exists>s'. op_step\<^sup>*\<^sup>* s1 s' \<and> i \<notin> active_ids s'"
    if "map_of (os_cancelling s1) i = Some (t, True)" "os_active s1 = os_active s" for s1
    using that na by (intro exI[of _ "finish_cancel 0 i s1"] conjI r_into_rtranclp os_cancelled)
      (auto simp: finish_cancel_def active_ids_def control_finish_def)
  have idle: "\<exists>s'. op_step\<^sup>*\<^sup>* s1 s' \<and> i \<notin> active_ids s'"
    if "map_of (os_cancelling s1) i = Some (t, b)" "os_active s1 = os_active s" "os_job s1 i = Working \<or> os_job s1 i = Ended" for s1
  proof (cases b)
    case True
    then show ?thesis using that reaped by simp
  next
    case False
    then have "\<exists>s'. op_step\<^sup>*\<^sup>* (reap i s1) s' \<and> i \<notin> active_ids s'" using that by (intro reaped) (simp_all add: reap_def)
    then show ?thesis using os_reap[OF that(3)] by (meson converse_rtranclp_into_rtranclp)
  qed
  have finishing: "\<exists>s'. op_step\<^sup>*\<^sup>* s1 s' \<and> i \<notin> active_ids s'"
    if "map_of (os_cancelling s1) i = Some (t, b)" "os_active s1 = os_active s" "os_job s1 i = Finishing" for s1
  proof -
    have "\<exists>s'. op_step\<^sup>*\<^sup>* (set_job i Ended (control_finish i s1)) s' \<and> i \<notin> active_ids s'"
      using that by (intro idle) (simp_all add: control_finish_def)
    then show ?thesis using os_finish[OF that(3)] by (meson converse_rtranclp_into_rtranclp)
  qed
  show ?thesis
  proof (cases "os_job s i")
    case (Claiming r)
    have "map_of (os_active s) i = None" using na by (simp add: map_of_eq_None_iff)
    then have "claim 0 i r s = s" by (simp add: claim_def)
    then have "\<exists>s'. op_step\<^sup>*\<^sup>* (set_job i Finishing (claim 0 i r s)) s' \<and> i \<notin> active_ids s'"
      using m by (intro finishing) simp_all
    then show ?thesis using os_claim[OF Claiming] by (meson converse_rtranclp_into_rtranclp)
  qed (use m idle finishing in auto)
qed

lemma pending_can_end:
  assumes inv: "op_inv s" and p: "i \<in> active_ids s"
  shows "\<exists>s'. op_step\<^sup>*\<^sup>* s s' \<and> i \<notin> active_ids s'"
proof (cases "\<exists>t. (i, t) \<in> set (os_active s)")
  case False
  then show ?thesis using p cancelling_can_end[OF inv] by (auto simp: active_ids_mem)
next
  case True
  then obtain t where t: "(i, t) \<in> set (os_active s)" by blast
  have dist: "distinct (map fst (os_active s))" using inv by (simp add: op_inv_defs)
  have claims: "\<exists>s'. op_step\<^sup>*\<^sup>* s1 s' \<and> i \<notin> active_ids s'"
    if "os_active s1 = os_active s" "os_cancelling s1 = os_cancelling s" "os_job s1 i = Claiming r" for s1 r
    using that t dist op_inv_disjoint[OF inv t]
    by (intro exI[of _ "set_job i Finishing (claim 0 i r s1)"] conjI r_into_rtranclp os_claim)
      (auto simp: claim_def active_ids_def Let_def)
  have "os_job s i = Working \<or> (\<exists>r. os_job s i = Claiming r)"
    using op_invD(1)[OF inv t] by (cases "os_job s i") auto
  then show ?thesis
  proof (elim disjE exE)
    assume w: "os_job s i = Working"
    have "\<exists>s'. op_step\<^sup>*\<^sup>* (set_job i (Claiming (Inl engine_failed)) s) s' \<and> i \<notin> active_ids s'" for engine_failed
      by (intro claims) simp_all
    then show ?thesis using os_worked[OF w] by (meson converse_rtranclp_into_rtranclp)
  qed (use claims in auto)
qed

end
