(* ===== verification/Operation_Properties.thy ===== *)
theory Operation_Properties
  imports History_Operations
begin

text \<open>
  The properties of background operations, with witnesses on one cancelled operation, and the one ordering
  the code's comment does not hold for: a waiter may be woken before the terminal event is published.
\<close>

definition demo_id :: str where "demo_id = ''operation-u''"

definition demo_started :: operations where
  "demo_started = snd (launch ''u'' ''annotate'' ''Image editor started'' [''/run/edit.png''] True no_operations)"

lemma demo_started_reachable: "op_reachable demo_started"
  unfolding demo_started_def
  by (rule or_step[OF or_none os_launch]) (simp add: fresh_id_def no_operations_def)

lemma demo_started_active: "demo_id \<in> active_ids demo_started"
  by (simp add: demo_started_def launch_def Let_def completed_def with_id_def active_ids_def demo_id_def)

text \<open>
  C22. An operation reports its start and then exactly one end: in every reachable state an id has no
  event, or it is pending with its started event only, or it is settled with the started event and one
  terminal event; cancellation, completion and failure never both report.
\<close>

theorem operation_ends_once:
  assumes "op_reachable s"
  shows "(events_of i s = [] \<and> i \<notin> active_ids s) \<or>
    (\<exists>a. events_of i s = [a] \<and> or_status a = ''started'' \<and> i \<in> active_ids s) \<or>
    (\<exists>a b. events_of i s = [a, b] \<and> or_status a = ''started'' \<and> i \<notin> active_ids s)"
  using op_invD(3)[OF op_reachable_inv[OF assms], of i] pending_running[OF op_reachable_inv[OF assms], of i] by blast

theorem operation_ends_once_witness:
  "\<exists>a. events_of demo_id demo_started = [a] \<and> or_status a = ''started''"
  using operation_ends_once[OF demo_started_reachable, of demo_id] demo_started_active by auto

text \<open>
  C23. The operation table refines the abstract lifecycle absent, running, done: every step of any task,
  cancellation or status call either leaves the lifecycle of all ids alone, or starts one absent id, or
  settles one running id; a settled result never changes.
\<close>

theorem operations_refine_lifecycle:
  assumes "op_reachable s" and "op_step s s'"
  shows "lifecycle s' = lifecycle s \<or> life_step (lifecycle s) (lifecycle s')"
  by (rule op_step_lifecycle[OF assms(2) op_reachable_inv[OF assms(1)]])

theorem operations_refine_lifecycle_witness:
  "lifecycle (snd (op_cancel demo_id demo_started)) = lifecycle demo_started \<or>
     life_step (lifecycle demo_started) (lifecycle (snd (op_cancel demo_id demo_started)))"
  by (rule operations_refine_lifecycle[OF demo_started_reachable os_cancel])

text \<open>
  C24. No operation hangs in the table: from every reachable state a pending operation has a finite
  sequence of steps after which it is settled, whether it is editing, committing, being cancelled, or lost
  the race between its completion and its cancellation.
\<close>

theorem pending_operation_can_settle:
  assumes "op_reachable s" and "i \<in> active_ids s"
  shows "\<exists>s'. op_step\<^sup>*\<^sup>* s s' \<and> i \<notin> active_ids s'"
  by (rule pending_can_end[OF op_reachable_inv[OF assms(1)] assms(2)])

theorem pending_operation_can_settle_witness:
  "\<exists>s'. op_step\<^sup>*\<^sup>* demo_started s' \<and> demo_id \<notin> active_ids s'"
  by (rule pending_operation_can_settle[OF demo_started_reachable demo_started_active])

text \<open>
  A committing operation keeps its files and its registration: \<open>cancel\<close> refuses it.
\<close>

lemma committing_not_cancelled: "os_phase s i = Committing \<Longrightarrow> op_cancel i s = (False, s)"
  by (simp add: op_cancel_def control_cancel_def split: option.split)

section \<open>Waking before publishing\<close>

text \<open>
  The comment on \<open>complete\<close> says that the terminal event is published before waiters are woken.  When the
  work of an operation returns just after a cancellation took it out of the active table, \<open>complete\<close> finds
  nothing to claim but still finishes the control: \<open>wait\<close>, and with it \<open>stop\<close>, returns while the operation
  is still pending, its terminal event unsent and its files not yet removed.
\<close>

definition demo_race :: operations where
  "demo_race =
    (let s1 = set_job demo_id (Claiming (Inl (operation_error ''Image edit was cancelled''))) demo_started;
         s2 = snd (op_cancel demo_id s1);
         s3 = set_job demo_id Finishing (claim 0 demo_id (Inl (operation_error ''Image edit was cancelled'')) s2)
     in set_job demo_id Ended (control_finish demo_id s3))"

lemma demo_race_reachable: "op_reachable demo_race"
proof -
  let ?r = "Inl (operation_error ''Image edit was cancelled'')"
  let ?s1 = "set_job demo_id (Claiming ?r) demo_started"
  have j: "os_job demo_started demo_id = Working"
    by (simp add: demo_started_def launch_def Let_def completed_def demo_id_def)
  have a: "map_of (os_active demo_started) demo_id \<noteq> None" "os_phase demo_started demo_id = Editing"
    by (simp_all add: demo_started_def launch_def Let_def completed_def demo_id_def)
  have 1: "op_reachable ?s1" by (rule or_step[OF demo_started_reachable os_worked[OF j]])
  have 2: "op_reachable (snd (op_cancel demo_id ?s1))" by (rule or_step[OF 1 os_cancel])
  have c: "os_job (snd (op_cancel demo_id ?s1)) demo_id = Claiming ?r"
    using a by (auto simp: op_cancel_def control_cancel_def)
  have 3: "op_reachable (set_job demo_id Finishing (claim 0 demo_id ?r (snd (op_cancel demo_id ?s1))))"
    by (rule or_step[OF 2 os_claim[OF c]])
  show ?thesis unfolding demo_race_def Let_def by (rule or_step[OF 3 os_finish]) simp
qed

text \<open>
  C25. The wake-up of a waiter does not imply that the outcome is published: there is an interleaving (the
  operation's work ends, then a cancellation takes it off the table, then the completion runs) in which
  \<open>wait\<close> returns while the operation has sent its started event only, still counts as active, and its
  staged files are not yet removed.
\<close>

theorem woken_before_published:
  "op_reachable demo_race \<and> wait_returns demo_id demo_race \<and> demo_id \<in> active_ids demo_race \<and>
     lifecycle demo_race demo_id = Running \<and> os_removed demo_race = []"
proof -
  have race: "demo_race = set_job demo_id Ended (control_finish demo_id (set_job demo_id Finishing
      (set_phase demo_id Cancelled (set_job demo_id (Claiming (Inl (operation_error ''Image edit was cancelled'')))
        demo_started)\<lparr>os_active := [], os_cancelling := [(demo_id, snd (hd (os_active demo_started)), False)]\<rparr>)))"
    by (simp add: demo_race_def Let_def demo_started_def launch_def completed_def demo_id_def op_cancel_def control_cancel_def
        without_def claim_def no_operations_def)
  have r: "os_phase demo_race demo_id = Finished" "demo_id \<in> active_ids demo_race"
    "events_of demo_id demo_race = events_of demo_id demo_started" "os_removed demo_race = os_removed demo_started"
    by (simp_all add: race control_finish_def active_ids_def events_of_def set_job_def set_phase_def)
  have "\<exists>a. events_of demo_id demo_started = [a]" "os_removed demo_started = []"
    using pending_running[OF op_reachable_inv[OF demo_started_reachable] demo_started_active]
    by (auto simp: demo_started_def launch_def Let_def send_event_def set_job_def set_phase_def no_operations_def)
  with r demo_race_reachable show ?thesis by (auto simp: wait_returns_def lifecycle_def)
qed

end
