(* ===== verification/Result_State.thy ===== *)
theory Result_State
  imports Clip_Prelude
begin

text \<open>
  State passing with errors: an operation maps the state to a result and the next state, and an error keeps
  what was done before it.  \<open>sbind\<close> is the \<open>?\<close> operator between two statements; \<open>stry\<close> hands an error on as a
  value.
\<close>

type_synonym ('s, 'e, 'a) fallible = "'s \<Rightarrow> ('e, 'a) result \<times> 's"

type_synonym ('s, 'a) stateful = "('s, str, 'a) fallible"

definition sreturn :: "'a \<Rightarrow> ('s, 'e, 'a) fallible" where "sreturn v s = (Inr v, s)"

definition sfail :: "'e \<Rightarrow> ('s, 'e, 'a) fallible" where "sfail e s = (Inl e, s)"

definition sbind :: "('s, 'e, 'a) fallible \<Rightarrow> ('a \<Rightarrow> ('s, 'e, 'b) fallible) \<Rightarrow> ('s, 'e, 'b) fallible" where
  "sbind m f s = (case m s of (Inl e, s1) \<Rightarrow> (Inl e, s1) | (Inr v, s1) \<Rightarrow> f v s1)"

definition slift :: "('e, 'a) result \<Rightarrow> ('s, 'e, 'a) fallible" where "slift r s = (r, s)"

text \<open>\<open>map_err\<close>, and the result as a value.\<close>

definition smap_err :: "('e \<Rightarrow> 'f) \<Rightarrow> ('s, 'e, 'a) fallible \<Rightarrow> ('s, 'f, 'a) fallible" where
  "smap_err f m s = (case m s of (Inl e, s1) \<Rightarrow> (Inl (f e), s1) | (Inr v, s1) \<Rightarrow> (Inr v, s1))"

definition stry :: "('s, 'e, 'a) fallible \<Rightarrow> ('s, 'e, ('e, 'a) result) fallible" where
  "stry m s = (let (r, s1) = m s in (Inr r, s1))"

lemma sbind_Inr: "sbind m f s = (Inr v, s') \<longleftrightarrow> (\<exists>x s1. m s = (Inr x, s1) \<and> f x s1 = (Inr v, s'))"
  by (auto simp: sbind_def split: prod.splits sum.splits)

lemma smap_err_Inr [simp]: "smap_err f m s = (Inr v, s') \<longleftrightarrow> m s = (Inr v, s')"
  by (auto simp: smap_err_def split: prod.splits sum.splits)

lemma sbind_Inl: "sbind m f s = (Inl e, s') \<longleftrightarrow>
    m s = (Inl e, s') \<or> (\<exists>x s1. m s = (Inr x, s1) \<and> f x s1 = (Inl e, s'))"
  by (auto simp: sbind_def split: prod.splits sum.splits)

end
