(* ===== verification/Settings_Contract.thy ===== *)
theory Settings_Contract
  imports Settings_Manager
begin

text \<open>
  What the settings manager makes of its services.  The locale \<open>capture_services\<close> is the contract: pausing
  keeps the world's invariant and closes admission when it succeeds, policy reads change nothing, applying a
  policy without admission opens nothing.  Inside it, a pause that the manager reports is a closed world that
  the controller confirms.  The interpretation at the end is the capture controller over the history sink
  together with the store.
\<close>

section \<open>Ranges\<close>

definition settings_ok :: "clipboard_settings \<Rightarrow> bool" where
  "settings_ok v \<longleftrightarrow>
     1 \<le> cl_max_entries v \<and> cl_max_entries v \<le> 100000 \<and> 1 \<le> cl_max_favorites v \<and> cl_max_favorites v \<le> 10000 \<and>
     65536 \<le> cl_max_entry_bytes v \<and> cl_max_entry_bytes v \<le> 67108864"

lemma validated_update_Inr:
  "validated_update u c lo hi = Inr v \<longleftrightarrow> (case u of None \<Rightarrow> v = c | Some x \<Rightarrow> v = x \<and> lo \<le> x \<and> x \<le> hi)"
  by (auto simp: validated_update_def split: option.splits)

lemma apply_update_ok:
  assumes "apply_update u v = Inr v'" "settings_ok v" shows "settings_ok v'"
proof -
  obtain a b c where r: "validated_update (su_max_entries u) (cl_max_entries v) 1 100000 = Inr a"
    "validated_update (su_max_favorites u) (cl_max_favorites v) 1 10000 = Inr b"
    "validated_update (su_max_entry_bytes u) (cl_max_entry_bytes v) (64 * 1024) (64 * 1024 * 1024) = Inr c"
    and v': "cl_max_entries v' = a" "cl_max_favorites v' = b" "cl_max_entry_bytes v' = c"
    using assms(1) by (auto simp: apply_update_def)
  have "1 \<le> a \<and> a \<le> 100000" using r(1) assms(2) by (cases "su_max_entries u") (auto simp: validated_update_Inr settings_ok_def)
  moreover have "1 \<le> b \<and> b \<le> 10000" using r(2) assms(2) by (cases "su_max_favorites u") (auto simp: validated_update_Inr settings_ok_def)
  moreover have "65536 \<le> c \<and> c \<le> 67108864" using r(3) assms(2) by (cases "su_max_entry_bytes u") (auto simp: validated_update_Inr settings_ok_def)
  ultimately show ?thesis by (simp add: settings_ok_def v')
qed

lemma default_settings_ok: "settings_ok default_settings"
  by (simp add: settings_ok_def default_settings_def)

lemma validate_loaded_ok:
  "validate_loaded_settings v = Inr w \<Longrightarrow> w = v \<and> settings_ok v \<and> (cl_private_mode v \<longrightarrow> cl_capture_paused v)"
  by (auto simp: validate_loaded_settings_def apply_update_def validated_update_Inr settings_ok_def split: if_splits)

lemma load_settings_ok:
  assumes "load_settings decode f = Inr v"
  shows "settings_ok v \<and> (cl_private_mode v \<longrightarrow> cl_capture_paused v)"
proof (cases f)
  case (SettingsBytes bs)
  with assms show ?thesis using validate_loaded_ok by (cases "decode bs") (auto simp: load_settings_def)
qed (use assms default_settings_ok in \<open>auto simp: load_settings_def default_settings_def\<close>)

lemma settings_policy_valid: "settings_ok v \<Longrightarrow> valid_policy (settings_policy v)"
  by (simp add: settings_ok_def valid_policy_def settings_policy_def MAX_ENTRY_BYTES_def MAX_TOTAL_BYTES_def i64_max_def)

section \<open>Values of the manager\<close>

lemma stateful_world_frames:
  "ms_value (snd (service f s)) = ms_value s" "ms_stopping (snd (service f s)) = ms_stopping s"
  "ms_load_error (snd (service f s)) = ms_load_error s" "ms_disk (snd (service f s)) = ms_disk s"
  "ms_has_path (snd (service f s)) = ms_has_path s"
  "ms_value (snd (record_capture r s)) = ms_value s" "ms_stopping (snd (record_capture r s)) = ms_stopping s"
  "ms_load_error (snd (record_capture r s)) = ms_load_error s" "ms_disk (snd (record_capture r s)) = ms_disk s"
  "ms_has_path (snd (record_capture r s)) = ms_has_path s"
  by (simp_all add: service_def record_capture_def split: prod.splits)

text \<open>Only \<open>save\<close> changes the preference; everything else keeps it with its file.\<close>

definition keeps_value :: "'w manager_state \<Rightarrow> 'w manager_state \<Rightarrow> bool" where
  "keeps_value s s' \<longleftrightarrow>
     ms_value s' = ms_value s \<and> ms_stopping s' = ms_stopping s \<and> ms_load_error s' = ms_load_error s \<and> ms_disk s' = ms_disk s \<and>
     ms_has_path s' = ms_has_path s"

lemma keeps_value_bind:
  assumes "keeps_value s (snd (m s))" "\<And>v s1. m s = (Inr v, s1) \<Longrightarrow> keeps_value s1 (snd (f v s1))"
  shows "keeps_value s (snd (sbind m f s))"
  using assms by (cases "m s"; cases "fst (m s)") (auto simp: sbind_def keeps_value_def)

lemma keeps_value_try [simp]: "keeps_value s (snd (stry m s)) = keeps_value s (snd (m s))"
  by (simp add: stry_def split: prod.splits)

lemma keeps_value_simps [simp]:
  "keeps_value s (snd (service f s))" "keeps_value s (snd (record_capture r s))" "keeps_value s (snd (sreturn v s))"
  "keeps_value s (snd (sfail e s))" "keeps_value s (snd (verify_capture sv b s))"
  by (simp_all add: keeps_value_def stateful_world_frames) (simp_all add: sreturn_def sfail_def verify_capture_def)

lemma keeps_value_parts [simp]:
  "keeps_value s (snd (close_admission sv s))" "keeps_value s (snd (retention_matches sv d s))"
  unfolding close_admission_def retention_matches_def by (rule keeps_value_bind; simp)+

lemma keeps_value_quiesce [simp]: "keeps_value s (snd (quiesce_locked sv s))"
  unfolding quiesce_locked_def by (intro keeps_value_bind) simp_all

lemma keeps_value_apply [simp]: "keeps_value s (snd (apply_capture sv v s))"
proof -
  have "keeps_value s1 (snd (drive_capture sv v s1))" for s1
    unfolding drive_capture_def by (intro keeps_value_bind) (auto intro!: keeps_value_bind)
  then show ?thesis unfolding apply_capture_def by (intro keeps_value_bind) simp_all
qed

lemma set_paused_saved:
  assumes "preferences s = (Inr cur, s)"
    and "save_settings (cur\<lparr>cl_capture_paused := paused, cl_private_mode := paused \<and> priv\<rparr>) s = (Inr u, s1)"
  shows "manager_set_paused sv paused priv s = sbind (apply_capture sv u) (\<lambda>_. get_settings) s1"
  by (simp add: manager_set_paused_def sbind_def[of preferences] Let_def sbind_def[of "stry _"] stry_def assms)

lemma set_paused_unsaved:
  assumes "preferences s = (Inr cur, s)"
    and "save_settings (cur\<lparr>cl_capture_paused := paused, cl_private_mode := paused \<and> priv\<rparr>) s = (Inl e, s1)"
  shows "fst (manager_set_paused sv paused priv s) = Inl e"
  by (simp add: manager_set_paused_def sbind_def Let_def stry_def sfail_def assms split: prod.splits)

section \<open>The contract\<close>

locale capture_services =
  fixes sv :: "'w services" and inv :: "'w \<Rightarrow> bool" and closed :: "'w \<Rightarrow> bool"
  assumes pause_inv: "inv w \<Longrightarrow> inv (snd (sv_set_paused sv b n w))"
    and pause_closes: "inv w \<Longrightarrow> fst (sv_set_paused sv True n w) = Inr () \<Longrightarrow> closed (snd (sv_set_paused sv True n w))"
    and policy_reads: "inv w \<Longrightarrow> inv (snd (sv_policy sv w)) \<and> closed (snd (sv_policy sv w)) = closed w"
    and apply_keeps: "inv w \<Longrightarrow> \<not> sp_admission p \<Longrightarrow>
      inv (snd (sv_apply sv p w)) \<and> (closed w \<longrightarrow> closed (snd (sv_apply sv p w)))"
begin

definition winv :: "'w manager_state \<Rightarrow> bool" where "winv s \<longleftrightarrow> inv (ms_world s)"

definition wclosed :: "'w manager_state \<Rightarrow> bool" where "wclosed s \<longleftrightarrow> inv (ms_world s) \<and> closed (ms_world s)"

lemma record_world [simp]: "ms_world (snd (record_capture r s)) = ms_world s"
  by (simp add: record_capture_def)

lemma close_admission_world:
  "winv s \<Longrightarrow> winv (snd (close_admission sv s)) \<and> (wclosed s \<longrightarrow> wclosed (snd (close_admission sv s)))"
proof -
  assume i: "winv s"
  obtain q w where p: "sv_policy sv (ms_world s) = (q, w)" by fastforce
  have w: "inv w" "closed w = closed (ms_world s)" using policy_reads[of "ms_world s"] i p by (simp_all add: winv_def)
  show ?thesis
  proof (cases q)
    case (Inl e)
    then show ?thesis using w by (simp add: close_admission_def sbind_def service_def p winv_def wclosed_def)
  next
    case (Inr pol)
    obtain r w' where a: "sv_apply sv (pol\<lparr>sp_admission := False\<rparr>) w = (r, w')" by fastforce
    have "inv w' \<and> (closed w \<longrightarrow> closed w')" using apply_keeps[OF w(1), of "pol\<lparr>sp_admission := False\<rparr>"] a by simp
    then show ?thesis using Inr w by (simp add: close_admission_def sbind_def service_def p a winv_def wclosed_def)
  qed
qed

lemma pause_world:
  "winv s \<Longrightarrow> winv (snd (service (sv_set_paused sv b n) s))"
  "winv s \<Longrightarrow> service (sv_set_paused sv True n) s = (Inr (), s') \<Longrightarrow> wclosed s'"
  using pause_inv pause_closes by (auto simp: winv_def wclosed_def service_def split: prod.splits) (metis fst_conv snd_conv)+

text \<open>A pause that was driven to the end.\<close>

lemma drive_capture_paused:
  assumes "winv s" "cl_capture_paused v" "drive_capture sv v s = (Inr (), s')"
  shows "wclosed s' \<and> sv_is_paused sv (ms_world s') = Inr True"
proof -
  obtain s1 s2 where p: "service (sv_set_paused sv True (cl_max_entry_bytes v)) s = (Inr (), s1)"
    and c: "close_admission sv s1 = (Inr (), s2)" and f: "verify_capture sv True s2 = (Inr (), s')"
    using assms(2,3) by (auto simp: drive_capture_def sbind_Inr sreturn_def)
  have "wclosed s1" using pause_world(2)[OF assms(1) p] .
  then have "wclosed s2" using close_admission_world[of s1] c by (simp add: winv_def wclosed_def)
  then show ?thesis using f by (auto simp: verify_capture_def split: if_splits)
qed

lemma apply_capture_paused:
  assumes "winv s" "cl_capture_paused v" "apply_capture sv v s = (Inr (), s')"
  shows "wclosed s' \<and> sv_is_paused sv (ms_world s') = Inr True \<and> ms_capture_verified s'"
proof -
  obtain s1 q s2 where r: "s1 = snd (record_capture (Inl ''Capture transition is not yet verified'') s)"
    and d: "drive_capture sv v s1 = (q, s2)" and f: "record_capture q s2 = (Inr (), s')"
    using assms(3) by (auto simp: apply_capture_def sbind_def stry_def split: prod.splits)
  have q: "q = Inr ()" "s' = s2\<lparr>ms_capture_verified := True, ms_capture_error := None\<rparr>" using f by (auto simp: record_capture_def)
  have "winv s1" using assms(1) r by (simp add: winv_def)
  from drive_capture_paused[OF this assms(2)] d q show ?thesis by (simp add: wclosed_def)
qed

lemma set_paused_confirmed:
  assumes "winv s" "manager_set_paused sv True priv s = (Inr v, s')"
  shows "wclosed s' \<and> sv_is_paused sv (ms_world s') = Inr True \<and> ms_capture_verified s' \<and> v = ms_value s' \<and>
    cl_capture_paused v \<and> cl_private_mode v = priv \<and> (ms_has_path s' \<longrightarrow> ms_disk s' = Some v)"
proof -
  obtain cur where cur: "preferences s = (Inr cur, s)" using assms(2) by (auto simp: manager_set_paused_def sbind_Inr preferences_def)
  let ?u = "cur\<lparr>cl_capture_paused := True, cl_private_mode := priv\<rparr>"
  obtain q s1 where sv: "save_settings ?u s = (q, s1)" by fastforce
  have q: "q = Inr ?u"
  proof (cases q)
    case (Inl e)
    then show ?thesis using set_paused_unsaved[OF cur, of True priv e s1 sv] sv assms(2) by simp
  qed (use sv in \<open>auto simp: save_settings_def sbind_Inr commit_settings_def\<close>)
  have s1: "ms_value s1 = ?u" "ms_world s1 = ms_world s" "ms_has_path s1 \<longrightarrow> ms_disk s1 = Some ?u"
    using sv q by (auto simp: save_settings_def sbind_Inr persist_def commit_settings_def Let_def split: if_splits sum.splits)
  have "sbind (apply_capture sv ?u) (\<lambda>_. get_settings) s1 = (Inr v, s')"
    using set_paused_saved[OF cur, of True priv ?u s1 sv] sv q assms(2) by simp
  then obtain s2 where ac: "apply_capture sv ?u s1 = (Inr (), s2)" and g: "get_settings s2 = (Inr v, s')"
    by (auto simp: sbind_Inr)
  have "winv s1" using assms(1) s1(2) by (simp add: winv_def)
  from apply_capture_paused[OF this _ ac] have w: "wclosed s2" "sv_is_paused sv (ms_world s2) = Inr True" "ms_capture_verified s2" by simp_all
  have k: "ms_value s2 = ?u" "ms_disk s2 = ms_disk s1" "ms_has_path s2 = ms_has_path s1"
    using keeps_value_apply[of s1 sv ?u] ac s1 by (simp_all add: keeps_value_def)
  have "s' = s2" "v = ?u" using g w(3) k(1) by (auto simp: get_settings_def validated_state_def split: if_splits option.splits)
  with w k s1(3) show ?thesis by simp
qed

end

end
