(* ===== verification/Settings_World.thy ===== *)
theory Settings_World
  imports Settings_Contract
begin

text \<open>
  The services of a running daemon: the capture controller over the history sink, and the policy calls of
  the store behind it.  A script answers for the outside: how the worker's session went when it is joined,
  and the outcomes of the storage calls.  The interpretation discharges the contract of the settings
  manager, so a pause reported by the settings reaches the stored policy.
\<close>

record worker_script =
  ws_tape :: "nat \<Rightarrow> outcome"
  ws_spawn_ok :: bool
  ws_skip :: bool
  ws_rounds :: "(nat \<Rightarrow> outcome) round list"
  ws_timed_out :: bool
  ws_panicked :: bool
  ws_ready :: ready_verdict

record capture_world =
  cw_runtime :: "history_state runtime"
  cw_script :: "nat \<Rightarrow> worker_script"

text \<open>The session of the worker runs to its end, or the wait gives up.\<close>

definition script_verdict :: "worker_script \<Rightarrow> history_state runtime \<Rightarrow> history_state stop_verdict" where
  "script_verdict ws rt =
    (case rt_worker rt of
       None \<Rightarrow> StopTimedOut
     | Some w \<Rightarrow>
         if ws_panicked ws then StopPanicked
         else if ws_timed_out ws then StopTimedOut
         else let (ended, sn) = session_run history_sink (ws_tape ws) (ws_spawn_ok ws) (ws_skip ws) (ws_rounds ws)
                                  (start_session (wk_limit w) (rt_sink rt))
              in if ended then StopFinished sn else StopTimedOut)"

definition next_script :: "capture_world \<Rightarrow> worker_script" where
  "next_script cw = cw_script cw 0"

definition advance :: "capture_world \<Rightarrow> capture_world" where
  "advance cw = cw\<lparr>cw_script := (\<lambda>n. cw_script cw (Suc n))\<rparr>"

definition world_set_paused :: "bool \<Rightarrow> nat \<Rightarrow> capture_world \<Rightarrow> (str, unit) result \<times> capture_world" where
  "world_set_paused paused n cw =
    (let ws = next_script cw;
         (r, rt) = set_paused (script_verdict ws (cw_runtime cw)) (ws_spawn_ok ws) (ws_ready ws) paused n (cw_runtime cw)
     in (r, (advance cw)\<lparr>cw_runtime := rt\<rparr>))"

definition world_call :: "'a hist \<Rightarrow> capture_world \<Rightarrow> (str, 'a) result \<times> capture_world" where
  "world_call m cw =
    (let (r, s) = m ((rt_sink (cw_runtime cw))\<lparr>hs_tape := ws_tape (next_script cw)\<rparr>)
     in (case r of Inl e \<Rightarrow> Inl (be_message e) | Inr v \<Rightarrow> Inr v,
         (advance cw)\<lparr>cw_runtime := (cw_runtime cw)\<lparr>rt_sink := s\<rparr>\<rparr>))"

definition daemon_services :: "capture_world services" where
  "daemon_services =
     \<lparr>sv_set_paused = world_set_paused, sv_is_paused = (\<lambda>cw. is_paused (cw_runtime cw)),
      sv_policy = world_call store_get_policy, sv_apply = (\<lambda>p. world_call (store_apply_policy p))\<rparr>"

section \<open>The contract\<close>

definition world_ok :: "capture_world \<Rightarrow> bool" where
  "world_ok cw \<longleftrightarrow> rt_terminal_error (cw_runtime cw) = None \<longrightarrow> \<not> history_admitted (rt_sink (cw_runtime cw))"

definition world_closed :: "capture_world \<Rightarrow> bool" where
  "world_closed cw \<longleftrightarrow> \<not> history_admitted (rt_sink (cw_runtime cw))"

lemma world_ok_runtime: "world_ok cw = history.runtime_ok (cw_runtime cw)"
  by (simp add: world_ok_def history.runtime_ok_def)

lemma script_verdict_ok: "verdict_ok history_sink rt (script_verdict ws rt)"
proof -
  have "ended_session history_sink (wk_limit w) (rt_sink rt) sn"
    if "rt_worker rt = Some w" "script_verdict ws rt = StopFinished sn" for w sn
    using that unfolding ended_session_def script_verdict_def
    by (intro exI[of _ "ws_tape ws"] exI[of _ "ws_spawn_ok ws"] exI[of _ "ws_skip ws"] exI[of _ "ws_rounds ws"]
        exI[of _ "start_session (wk_limit w) (rt_sink rt)"]) (auto split: if_splits prod.splits)
  moreover have "script_verdict ws rt \<noteq> StopFinished sn" if "rt_worker rt = None" for sn
    using that by (simp add: script_verdict_def)
  ultimately show ?thesis by (cases "rt_worker rt") (auto simp: verdict_ok_def)
qed

lemma world_parts [simp]:
  "cw_runtime (advance cw) = cw_runtime cw" "cw_runtime (cw\<lparr>cw_runtime := rt\<rparr>) = rt"
  by (simp_all add: advance_def)

lemma world_call_policy:
  "rt_terminal_error (cw_runtime (snd (world_call m cw))) = rt_terminal_error (cw_runtime cw)"
  "policy_of (rt_sink (cw_runtime (snd (world_call m cw)))) =
     policy_of (snd (m ((rt_sink (cw_runtime cw))\<lparr>hs_tape := ws_tape (next_script cw)\<rparr>)))"
  by (simp_all add: world_call_def split: prod.splits)

lemma apply_closed_policy:
  assumes "\<not> sp_admission p"
  shows "policy_of (snd (store_apply_policy p s)) = policy_of s \<or> \<not> history_admitted (snd (store_apply_policy p s))"
  using store_apply_policy_state(1)[of p s] assms apply_policy_body_policy by (fastforce simp: policy_of_tables)

interpretation daemon: capture_services daemon_services world_ok world_closed
proof unfold_locales
  fix w b n assume "world_ok w"
  then show "world_ok (snd (sv_set_paused daemon_services b n w))"
    using history.set_paused_runtime_ok[OF _ script_verdict_ok]
    by (auto simp: daemon_services_def world_set_paused_def Let_def world_ok_runtime split: prod.splits) (metis snd_conv)
next
  fix w n assume "world_ok w" "fst (sv_set_paused daemon_services True n w) = Inr ()"
  then show "world_closed (snd (sv_set_paused daemon_services True n w))"
    using history.set_paused_ok[OF _ script_verdict_ok]
    by (auto simp: daemon_services_def world_set_paused_def Let_def world_ok_runtime world_closed_def split: prod.splits)
next
  fix w assume "world_ok w"
  then show "world_ok (snd (sv_policy daemon_services w)) \<and> world_closed (snd (sv_policy daemon_services w)) = world_closed w"
    by (simp add: daemon_services_def world_ok_def world_closed_def world_call_policy get_policy_policy)
next
  fix w and p :: store_policy assume "world_ok w" "\<not> sp_admission p"
  then show "world_ok (snd (sv_apply daemon_services p w)) \<and> (world_closed w \<longrightarrow> world_closed (snd (sv_apply daemon_services p w)))"
    using apply_closed_policy[of p "(rt_sink (cw_runtime w))\<lparr>hs_tape := ws_tape (next_script w)\<rparr>"]
    by (auto simp: daemon_services_def world_ok_def world_closed_def world_call_policy)
qed

end
