(* ===== verification/Settings_Properties.thy ===== *)
theory Settings_Properties
  imports Settings_World
begin

text \<open>
  The properties of the settings manager with their witnesses: a reported pause reaches the stored policy, and
  no accepted or loaded setting is refused by the store.
\<close>

section \<open>Pause, from the preference to the stored policy\<close>

text \<open>
  C26. A pause the settings manager reports is real and durable.  When \<open>set_paused(true, private)\<close> returns
  Ok in a daemon whose capture controller and store satisfy their invariant, then, whatever the worker's
  session did before it ended and whatever the store answered, the stored policy admits nothing, the
  controller itself reports paused, the transition is recorded as verified, the capture view shows the
  requested mode, and the preference is on disk when there is a settings file.
\<close>

theorem settings_pause_confirmed:
  assumes "world_ok (ms_world s)" and "manager_set_paused daemon_services True private s = (Inr v, s')"
  shows "\<not> history_admitted (rt_sink (cw_runtime (ms_world s'))) \<and> is_paused (cw_runtime (ms_world s')) = Inr True \<and>
    capture_view_of s' = \<lparr>cv_desired_paused = True, cv_desired_private_mode = private, cv_paused = Some True,
       cv_private_mode = private, cv_verified = True, cv_error = ms_capture_error s'\<rparr> \<and>
    v = ms_value s' \<and> (ms_has_path s' \<longrightarrow> ms_disk s' = Some v)"
  using daemon.set_paused_confirmed[OF _ assms(2)] assms(1)
  by (auto simp: daemon.winv_def daemon.wclosed_def world_closed_def capture_view_of_def daemon_services_def)

definition calm_script :: worker_script where
  "calm_script =
     \<lparr>ws_tape = (\<lambda>_. demo_outcome), ws_spawn_ok = True, ws_skip = False, ws_rounds = [], ws_timed_out = False,
      ws_panicked = False, ws_ready = Ready (Inr ())\<rparr>"

definition calm_manager :: "capture_world manager_state" where
  "calm_manager =
     \<lparr>ms_value = default_settings\<lparr>cl_capture_paused := False\<rparr>, ms_load_error = None, ms_capture_verified = False,
      ms_capture_error = None, ms_has_path = True, ms_disk = None, ms_writes = (\<lambda>_. Inr ()), ms_stopping = False,
      ms_world = \<lparr>cw_runtime = demo_runtime\<lparr>rt_worker := None\<rparr>, cw_script = (\<lambda>_. calm_script)\<rparr>\<rparr>"

lemma calm_policy: "store_get_policy demo_state = (Inr default_policy, demo_state)"
  by (simp add: store_get_policy_def store_call_def hist_defs run_job_def reply_with_def db_read_def demo_state_def
      sound_engine_def demo_outcome_def fresh_database_def fresh_tables_def)

lemma calm_apply: "store_apply_policy default_policy demo_state = (Inr (), demo_state)"
proof -
  have v: "valid_policy default_policy"
    by (simp add: valid_policy_def default_policy_def MAX_ENTRY_BYTES_def i64_max_def)
  show ?thesis
    by (simp add: store_apply_policy_def store_call_def hist_defs run_job_def reply_with_def apply_policy_def transaction_def
        run_body_def apply_policy_body_def sound_engine_def demo_state_def demo_outcome_def fresh_database_def
        fresh_tables_def v)
qed

lemma calm_world_calls:
  assumes "rt_sink (cw_runtime cw) = demo_state" and "cw_script cw = (\<lambda>_. calm_script)"
  shows "world_call store_get_policy cw = (Inr default_policy, cw)"
    and "world_call (store_apply_policy default_policy) cw = (Inr (), cw)"
  using assms demo_tape
  by (simp_all add: world_call_def next_script_def calm_script_def calm_policy calm_apply advance_def)

lemma calm_pause: "world_set_paused True n (ms_world calm_manager) = (Inr (), ms_world calm_manager)"
  by (simp add: world_set_paused_def Let_def next_script_def advance_def calm_manager_def set_paused_def runtime_stop_def
      demo_runtime_def)

lemma calm_manager_pauses: "\<exists>v s'. manager_set_paused daemon_services True True calm_manager = (Inr v, s') \<and> ms_has_path s'"
proof -
  let ?w = "ms_world calm_manager"
  have p: "default_policy\<lparr>sp_admission := False\<rparr> = default_policy" by (simp add: default_policy_def)
  have c: "rt_sink (cw_runtime ?w) = demo_state" "cw_script ?w = (\<lambda>_. calm_script)"
    "is_paused (cw_runtime ?w) = Inr True"
    by (simp_all add: calm_manager_def demo_runtime_def is_paused_def)
  note calls = calm_world_calls[OF c(1,2)]
  have a: "apply_capture daemon_services u s = (Inr (), s\<lparr>ms_capture_verified := True, ms_capture_error := None\<rparr>)"
    if "ms_world s = ?w" "cl_capture_paused u" for u s
    using that c(3) calm_pause calls
    by (simp add: apply_capture_def drive_capture_def close_admission_def verify_capture_def record_capture_def sbind_def
        stry_def service_def sreturn_def daemon_services_def Let_def p)
  let ?u = "(ms_value calm_manager)\<lparr>cl_capture_paused := True, cl_private_mode := True \<and> True\<rparr>"
  have pr: "preferences calm_manager = (Inr (ms_value calm_manager), calm_manager)"
    by (simp add: preferences_def validated_state_def calm_manager_def)
  obtain s1 where s1: "save_settings ?u calm_manager = (Inr ?u, s1)" "ms_world s1 = ?w" "ms_value s1 = ?u"
    "ms_has_path s1" "\<not> ms_stopping s1" "ms_load_error s1 = None"
    by (simp add: save_settings_def persist_def commit_settings_def sbind_def Let_def calm_manager_def)
  then show ?thesis
    by (simp add: set_paused_saved[OF pr s1(1)] sbind_def a get_settings_def validated_state_def)
qed

theorem settings_pause_confirmed_witness:
  "\<exists>v s'. manager_set_paused daemon_services True True calm_manager = (Inr v, s') \<and> ms_disk s' = Some v \<and>
     cv_paused (capture_view_of s') = Some True \<and> is_paused (cw_runtime (ms_world s')) = Inr True"
proof -
  have "world_ok (ms_world calm_manager)" by (simp add: world_ok_def calm_manager_def demo_runtime_def fresh_policy)
  then show ?thesis using calm_manager_pauses settings_pause_confirmed[of calm_manager True] by fastforce
qed

section \<open>Ranges\<close>

text \<open>
  C27. The settings a manager can hold are in range, and the store accepts them: an update that is applied
  to settings in range (the defaults, or what was loaded from a settings file) yields settings in range, a loaded
  file never asks for private mode without a pause, and the policy made of such settings passes the store's
  own validation, so synchronising retention is never refused for its values.
\<close>

theorem settings_always_acceptable:
  "settings_ok default_settings \<and>
   (load_settings decode f = Inr w \<longrightarrow> settings_ok w \<and> (cl_private_mode w \<longrightarrow> cl_capture_paused w)) \<and>
   (settings_ok v \<longrightarrow> valid_policy (settings_policy v) \<and> (\<forall>v'. apply_update u v = Inr v' \<longrightarrow> settings_ok v'))"
  using default_settings_ok load_settings_ok apply_update_ok settings_policy_valid by blast

theorem settings_always_acceptable_witness:
  "settings_ok (default_settings\<lparr>cl_max_entries := 7\<rparr>) \<and> valid_policy (settings_policy default_settings)"
proof -
  let ?u = "\<lparr>su_max_entries = Some 7, su_max_favorites = None, su_max_entry_bytes = None, su_collapse_self_echoes = None\<rparr>"
  have "apply_update ?u default_settings = Inr (default_settings\<lparr>cl_max_entries := 7\<rparr>)"
    by (simp add: apply_update_def validated_update_def default_settings_def)
  then show ?thesis
    using settings_always_acceptable[of "\<lambda>_. None" NoPath default_settings default_settings ?u] by blast
qed

end
