(* ===== verification/Paste_Sessions.thy ===== *)
theory Paste_Sessions
  imports Result_State Rust_Str
begin

text \<open>
  The paste sessions of the picker (\<open>src/src/session.rs\<close>): a session remembers the window that had the focus,
  is armed after a successful publication, and pastes once, when its owner reports that the picker is hidden.
  Times are milliseconds.  The manager carries a log, newest event first, of what its sessions did; it is
  history only, no operation reads it.  A session that leaves the table is dropped, which aborts its running
  paste task.  The steps interleave the operations of any number of callers with time and task completion.
\<close>

section \<open>State\<close>

definition SESSION_TTL :: nat where "SESSION_TTL = 300 * 1000"
definition SESSION_TTL_MS :: nat where "SESSION_TTL_MS = 300000"

record session_view =
  vw_id :: str
  vw_target_available :: bool
  vw_paste_mode :: str
  vw_expires_in_ms :: nat
  vw_state :: str

record target =
  tg_address :: str
  tg_class :: str

datatype paste_task = TaskRunning | TaskFinished

record paste_session =
  ps_target :: "target option"
  ps_owner :: "str option"
  ps_expires :: nat
  ps_pending :: bool
  ps_hidden :: bool
  ps_task :: "paste_task option"

datatype session_event =
    Begun str "str option" "target option" nat
  | Armed str "str option"
  | Pasting str target nat
  | Pasted str
  | Aborted str
  | Gone str

record session_manager =
  sm_sessions :: "(str \<times> paste_session) list"
  sm_now :: nat
  sm_log :: "session_event list"

definition session_views :: "str \<Rightarrow> bool \<Rightarrow> str \<Rightarrow> session_view" where
  "session_views i target_available state =
     \<lparr>vw_id = i, vw_target_available = target_available,
      vw_paste_mode = (if target_available then ''copy-paste'' else ''copy-only''),
      vw_expires_in_ms = SESSION_TTL_MS, vw_state = state\<rparr>"

section \<open>The target window\<close>

definition valid_window_address :: "str \<Rightarrow> bool" where
  "valid_window_address address \<longleftrightarrow>
     (case strip_prefix address ''0x'' of
        None \<Rightarrow> False
      | Some value \<Rightarrow> value \<noteq> [] \<and> list_all is_ascii_hexdigit value) \<and> address \<noteq> ''0x0''"

text \<open>The output of a command that ran in time: its success and its standard output.\<close>

type_synonym command_output = "(bool \<times> bytes) option"

definition active_target :: "(bytes \<Rightarrow> target option) \<Rightarrow> command_output \<Rightarrow> target option" where
  "active_target decode output =
    (case output of
       None \<Rightarrow> None
     | Some (success, stdout) \<Rightarrow>
         if \<not> success then None
         else case decode stdout of
           None \<Rightarrow> None
         | Some t \<Rightarrow>
             (let t1 = t\<lparr>tg_address := trim (tg_address t)\<rparr>
              in if valid_window_address (tg_address t1) then Some t1 else None))"

section \<open>Operations\<close>

definition dropped :: "(str \<times> paste_session) list \<Rightarrow> session_event list" where
  "dropped xs = concat (map (\<lambda>(i, s). (if ps_task s = Some TaskRunning then [Aborted i] else []) @ [Gone i]) xs)"

text \<open>\<open>HashMap::retain\<close> drops what it removes.\<close>

definition retain_sessions :: "(paste_session \<Rightarrow> bool) \<Rightarrow> session_manager \<Rightarrow> session_manager" where
  "retain_sessions keep m =
     m\<lparr>sm_sessions := filter (\<lambda>(i, s). keep s) (sm_sessions m),
       sm_log := dropped (filter (\<lambda>(i, s). \<not> keep s) (sm_sessions m)) @ sm_log m\<rparr>"

definition remove_session :: "str \<Rightarrow> session_manager \<Rightarrow> session_manager" where
  "remove_session i m =
     m\<lparr>sm_sessions := without i (sm_sessions m),
       sm_log := dropped (filter (\<lambda>e. fst e = i) (sm_sessions m)) @ sm_log m\<rparr>"

definition put_session :: "str \<Rightarrow> paste_session \<Rightarrow> session_event list \<Rightarrow> session_manager \<Rightarrow> session_manager" where
  "put_session i s events m =
     m\<lparr>sm_sessions := (i, s) # without i (sm_sessions m), sm_log := events @ sm_log m\<rparr>"

definition remove_expired :: "session_manager \<Rightarrow> session_manager" where
  "remove_expired m = retain_sessions (\<lambda>s. ps_expires s > sm_now m) m"

text \<open>\<open>begin\<close> is \<open>remove_expired\<close>, the query of the active window, and the insertion under a fresh UUID.\<close>

definition insert_session :: "str \<Rightarrow> str option \<Rightarrow> target option \<Rightarrow> session_manager \<Rightarrow> session_view \<times> session_manager" where
  "insert_session uuid owner target m =
    (let i = ''session-'' @ uuid;
         s = \<lparr>ps_target = target, ps_owner = owner, ps_expires = sm_now m + SESSION_TTL, ps_pending = False,
              ps_hidden = False, ps_task = None\<rparr>
     in (session_views i (target \<noteq> None) ''active'', put_session i s [Begun i owner target (sm_now m)] m))"

definition begin_session ::
    "(bytes \<Rightarrow> target option) \<Rightarrow> command_output \<Rightarrow> str \<Rightarrow> str option \<Rightarrow> session_manager \<Rightarrow> session_view \<times> session_manager" where
  "begin_session decode output uuid owner m =
     insert_session uuid owner (active_target decode output) (remove_expired m)"

definition with_session ::
    "str \<Rightarrow> str option \<Rightarrow> (paste_session \<Rightarrow> 'a \<times> paste_session \<times> session_event list) \<Rightarrow>
       (session_manager, 'a) stateful" where
  "with_session i owner use_session m =
    (case map_of (sm_sessions m) i of
       None \<Rightarrow> (Inl ''Paste session is unknown or expired'', m)
     | Some s \<Rightarrow>
         if ps_owner s \<noteq> owner \<or> ps_hidden s then (Inl ''Paste session is unknown or expired'', m)
         else if ps_expires s \<le> sm_now m then (Inl ''Paste session expired'', remove_session i m)
         else (let (v, s', events) = use_session s in (Inr v, put_session i s' events m)))"

definition validate_paste :: "str \<Rightarrow> str option \<Rightarrow> (session_manager, bool) stateful" where
  "validate_paste i owner = with_session i owner (\<lambda>s. (ps_target s \<noteq> None, s, []))"

definition arm_paste :: "str \<Rightarrow> str option \<Rightarrow> session_manager \<Rightarrow> bool \<times> session_manager" where
  "arm_paste i owner m =
    (let (r, m1) = with_session i owner (\<lambda>s.
           let pending = ps_target s \<noteq> None
           in (pending, s\<lparr>ps_pending := pending\<rparr>, if pending then [Armed i owner] else [])) m
     in (case r of Inl _ \<Rightarrow> False | Inr v \<Rightarrow> v, m1))"

definition hide_with :: "str \<Rightarrow> str option \<Rightarrow> (session_manager, session_view) stateful" where
  "hide_with i owner m =
     with_session i owner (\<lambda>s.
       let s1 = s\<lparr>ps_hidden := True\<rparr>;
           paste = (if ps_pending s then ps_target s else None)
       in (session_views i (ps_target s \<noteq> None) ''hidden'',
           if paste \<noteq> None then s1\<lparr>ps_task := Some TaskRunning\<rparr> else s1,
           case paste of None \<Rightarrow> [] | Some t \<Rightarrow> [Pasting i t (sm_now m)])) m"

text \<open>One turn of the loop of \<open>wait\<close>; \<open>None\<close> is another turn after the sleep.\<close>

definition wait_poll :: "str \<Rightarrow> str option \<Rightarrow> session_manager \<Rightarrow> (str, session_view option) result" where
  "wait_poll i owner m =
    (case map_of (sm_sessions m) i of
       None \<Rightarrow> Inl ''Hidden paste session is unknown or cancelled''
     | Some s \<Rightarrow>
         if ps_owner s \<noteq> owner \<or> \<not> ps_hidden s then Inl ''Hidden paste session is unknown or cancelled''
         else if ps_expires s \<le> sm_now m then Inl ''Paste session expired''
         else if ps_task s = Some TaskRunning then Inr None
         else Inr (Some (session_views i (ps_target s \<noteq> None) ''finished'')))"

definition end_session :: "str \<Rightarrow> str option \<Rightarrow> session_manager \<Rightarrow> session_view \<times> session_manager" where
  "end_session i owner m =
    (case map_of (sm_sessions m) i of
       None \<Rightarrow> (session_views i False ''ended'', m)
     | Some s \<Rightarrow>
         if ps_owner s = owner then (session_views i (ps_target s \<noteq> None) ''ended'', remove_session i m)
         else (session_views i False ''ended'', m))"

definition release_owner :: "str \<Rightarrow> session_manager \<Rightarrow> session_manager" where
  "release_owner owner = retain_sessions (\<lambda>s. ps_owner s \<noteq> Some owner)"

definition session_owners :: "session_manager \<Rightarrow> str list \<times> session_manager" where
  "session_owners m =
    (let m1 = remove_expired m in (List.map_filter (\<lambda>(i, s). ps_owner s) (sm_sessions m1), m1))"

text \<open>The spawned task comes to its end.\<close>

definition task_ends :: "str \<Rightarrow> session_manager \<Rightarrow> session_manager" where
  "task_ends i m =
    (case map_of (sm_sessions m) i of
       Some s \<Rightarrow> if ps_task s = Some TaskRunning then put_session i (s\<lparr>ps_task := Some TaskFinished\<rparr>) [Pasted i] m else m
     | None \<Rightarrow> m)"

section \<open>The paste task\<close>

definition dispatch_succeeded :: "command_output \<Rightarrow> bool" where
  "dispatch_succeeded output =
    (case output of None \<Rightarrow> False | Some (success, stdout) \<Rightarrow> success \<and> trim (from_utf8_lossy stdout) = ''ok'')"

text \<open>A command line, and the answers of the commands in the order they run.\<close>

type_synonym command = "str list"

definition hyprland_dispatch :: "(nat \<Rightarrow> command_output) \<Rightarrow> str \<Rightarrow> str \<Rightarrow> str \<Rightarrow> command list \<times> bool" where
  "hyprland_dispatch answers lua legacy_dispatcher legacy_argument =
    (let first = [''hyprctl'', ''dispatch'', lua];
         second = [''hyprctl'', ''dispatch'', legacy_dispatcher, legacy_argument]
     in if dispatch_succeeded (answers 0) then ([first], True)
        else ([first, second], dispatch_succeeded (answers 1)))"

definition is_terminal :: "str \<Rightarrow> bool" where
  "is_terminal class_name \<longleftrightarrow>
     to_ascii_lowercase class_name \<in>
       {''com.mitchellh.ghostty'', ''ghostty'', ''alacritty'', ''kitty'', ''foot'', ''footclient'', ''org.wezfurlong.wezterm'',
        ''org.gnome.terminal'', ''org.gnome.console'', ''org.kde.konsole'', ''konsole'', ''ptyxis''}"

definition paste_after_hidden :: "(nat \<Rightarrow> command_output) \<Rightarrow> target \<Rightarrow> command list" where
  "paste_after_hidden answers t =
    (let selector = ''address:'' @ tg_address t;
         lua_focus = ''hl.dsp.focus({ window = '' @ [CHR 0x27] @ selector @ [CHR 0x27] @ '' })'';
         (focus, _) = hyprland_dispatch answers lua_focus ''focuswindow'' selector;
         modifiers = (if is_terminal (tg_class t) then ''CTRL SHIFT'' else ''CTRL'');
         legacy_shortcut = modifiers @ '',V,'' @ selector;
         lua_shortcut = ''hl.dsp.send_shortcut({ mods = '' @ [CHR 0x27] @ modifiers @ [CHR 0x27] @ '', key = '' @
           [CHR 0x27] @ ''V'' @ [CHR 0x27] @ '', window = '' @ [CHR 0x27] @ selector @ [CHR 0x27] @ '' })'';
         (shortcut, pasted) = hyprland_dispatch (\<lambda>n. answers (n + length focus)) lua_shortcut ''sendshortcut'' legacy_shortcut
     in focus @ shortcut @
        (if pasted then []
         else [[''notify-send'', ''-a'', ''Clipboard'', ''Copied; paste manually'', ''The original target is unavailable.'']]))"

section \<open>Interleavings\<close>

definition no_sessions :: session_manager where
  "no_sessions = \<lparr>sm_sessions = [], sm_now = 0, sm_log = []\<rparr>"

fun event_id :: "session_event \<Rightarrow> str" where
  "event_id (Begun i _ _ _) = i"
| "event_id (Armed i _) = i"
| "event_id (Pasting i _ _) = i"
| "event_id (Pasted i) = i"
| "event_id (Aborted i) = i"
| "event_id (Gone i) = i"

text \<open>A UUID is not used twice.\<close>

definition unused_uuid :: "str \<Rightarrow> session_manager \<Rightarrow> bool" where
  "unused_uuid uuid m \<longleftrightarrow> list_all (\<lambda>e. event_id e \<noteq> ''session-'' @ uuid) (sm_log m)"

inductive session_step :: "session_manager \<Rightarrow> session_manager \<Rightarrow> bool" where
  ss_begin: "unused_uuid uuid m \<Longrightarrow> session_step m (snd (insert_session uuid owner (active_target decode output) m))"
| ss_expire: "session_step m (remove_expired m)"
| ss_validate: "session_step m (snd (validate_paste i owner m))"
| ss_arm: "session_step m (snd (arm_paste i owner m))"
| ss_hide: "session_step m (snd (hide_with i owner m))"
| ss_end: "session_step m (snd (end_session i owner m))"
| ss_release: "session_step m (release_owner o1 m)"
| ss_owners: "session_step m (snd (session_owners m))"
| ss_task: "session_step m (task_ends i m)"
| ss_time: "session_step m (m\<lparr>sm_now := sm_now m + d\<rparr>)"

inductive session_reachable :: "session_manager \<Rightarrow> bool" where
  sr_init: "session_reachable no_sessions"
| sr_step: "session_reachable m \<Longrightarrow> session_step m m' \<Longrightarrow> session_reachable m'"

end
