(* ===== verification/Paste_Facts.thy ===== *)
theory Paste_Facts
  imports Paste_Sessions
begin

text \<open>
  The invariant of the paste sessions: the log is legal event by event, every live session agrees with its
  part of the log, and a paste that was started is running in a live session, done, or aborted.
\<close>

section \<open>The invariant\<close>

definition event_ok :: "session_event list \<Rightarrow> session_event \<Rightarrow> bool" where
  "event_ok past e =
    (case e of
       Begun i owner t n \<Rightarrow> i \<notin> event_id ` set past
     | Armed i owner \<Rightarrow> Gone i \<notin> set past
     | Pasting i t n \<Rightarrow>
         (\<exists>owner n0. Begun i owner (Some t) n0 \<in> set past \<and> Armed i owner \<in> set past \<and> n < n0 + SESSION_TTL) \<and>
         Gone i \<notin> set past \<and> (\<forall>t' n'. Pasting i t' n' \<notin> set past) \<and> valid_window_address (tg_address t)
     | _ \<Rightarrow> True)"

fun log_ok :: "session_event list \<Rightarrow> bool" where
  "log_ok [] = True"
| "log_ok (e # past) = (event_ok past e \<and> log_ok past)"

definition session_ok :: "session_event list \<Rightarrow> str \<Rightarrow> paste_session \<Rightarrow> bool" where
  "session_ok log i s \<longleftrightarrow>
     (\<exists>n. Begun i (ps_owner s) (ps_target s) n \<in> set log \<and> ps_expires s = n + SESSION_TTL) \<and>
     (\<forall>t. ps_target s = Some t \<longrightarrow> valid_window_address (tg_address t)) \<and>
     (ps_pending s \<longrightarrow> Armed i (ps_owner s) \<in> set log) \<and> Gone i \<notin> set log \<and>
     (ps_task s = None \<longleftrightarrow> (\<forall>t n. Pasting i t n \<notin> set log)) \<and> (\<not> ps_hidden s \<longrightarrow> ps_task s = None) \<and>
     (ps_task s = Some TaskFinished \<longrightarrow> Pasted i \<in> set log)"

definition tasks_settled :: "session_manager \<Rightarrow> bool" where
  "tasks_settled m \<longleftrightarrow>
     (\<forall>i t n. Pasting i t n \<in> set (sm_log m) \<longrightarrow>
        i \<in> fst ` set (sm_sessions m) \<or> Pasted i \<in> set (sm_log m) \<or> Aborted i \<in> set (sm_log m))"

definition session_inv :: "session_manager \<Rightarrow> bool" where
  "session_inv m \<longleftrightarrow>
     distinct (map fst (sm_sessions m)) \<and> (\<forall>(i, s) \<in> set (sm_sessions m). session_ok (sm_log m) i s) \<and>
     log_ok (sm_log m) \<and> tasks_settled m"

lemmas session_inv_defs = session_inv_def tasks_settled_def

section \<open>Dropping\<close>

lemma dropped_events:
  "e \<in> set (dropped xs) \<longleftrightarrow> (\<exists>i s. (i, s) \<in> set xs \<and> (e = Gone i \<or> e = Aborted i \<and> ps_task s = Some TaskRunning))"
  by (force simp: dropped_def)

lemma dropped_log_ok: "log_ok (dropped xs @ past) = log_ok past"
proof (induction xs)
  case (Cons x xs)
  then show ?case by (cases x) (auto simp: dropped_def event_ok_def)
qed (simp add: dropped_def)

lemma session_ok_mono:
  assumes "session_ok past j s" "\<forall>e \<in> set events. event_id e \<noteq> j"
  shows "session_ok (events @ past) j s"
proof -
  have "Gone j \<notin> set events" "\<And>t n. Pasting j t n \<notin> set events" using assms(2) by auto
  then show ?thesis using assms(1) unfolding session_ok_def by auto
qed

lemma inv_dropped:
  assumes inv: "session_inv m"
    and m': "sm_sessions m' = filter keep (sm_sessions m)"
      "sm_log m' = dropped (filter (\<lambda>e. \<not> keep e) (sm_sessions m)) @ sm_log m"
  shows "session_inv m'"
proof -
  let ?gone = "dropped (filter (\<lambda>e. \<not> keep e) (sm_sessions m))"
  have d: "distinct (map fst (sm_sessions m))" using inv by (simp add: session_inv_def)
  note only = eq_key_imp_eq_value[OF d]
  have "session_ok (?gone @ sm_log m) i s" if "(i, s) \<in> set (sm_sessions m)" "keep (i, s)" for i s
  proof (rule session_ok_mono)
    show "session_ok (sm_log m) i s" using inv that(1) by (auto simp: session_inv_def)
    show "\<forall>e \<in> set ?gone. event_id e \<noteq> i" using only[OF that(1)] that(2) by (auto simp: dropped_events)
  qed
  moreover have "i \<in> fst ` set (filter keep (sm_sessions m)) \<or> Pasted i \<in> set (?gone @ sm_log m) \<or> Aborted i \<in> set (?gone @ sm_log m)"
    if "Pasting i t n \<in> set (sm_log m)" for i t n
  proof (cases "i \<in> fst ` set (sm_sessions m)")
    case True
    then obtain s where s: "(i, s) \<in> set (sm_sessions m)" by auto
    then have ok: "session_ok (sm_log m) i s" using inv by (auto simp: session_inv_def)
    then have "ps_task s \<noteq> None" using that by (auto simp: session_ok_def)
    then consider "ps_task s = Some TaskRunning" | "ps_task s = Some TaskFinished" by (metis not_None_eq paste_task.exhaust)
    then show ?thesis
    proof cases
      case 1
      then show ?thesis using s by (cases "keep (i, s)") (force simp: dropped_events)+
    next
      case 2
      then show ?thesis using ok by (simp add: session_ok_def)
    qed
  next
    case False
    then have "Pasted i \<in> set (sm_log m) \<or> Aborted i \<in> set (sm_log m)" using inv that unfolding session_inv_defs by blast
    then show ?thesis by auto
  qed
  ultimately show ?thesis
    using inv d by (auto simp: session_inv_defs m' dropped_log_ok distinct_map_filter dropped_events)
qed

lemma inv_retain: "session_inv m \<Longrightarrow> session_inv (retain_sessions keep m)"
  by (rule inv_dropped[where keep = "\<lambda>(i, s). keep s"]) (simp_all add: retain_sessions_def case_prod_unfold)

lemma inv_remove: "session_inv m \<Longrightarrow> session_inv (remove_session i m)"
  by (rule inv_dropped[where keep = "\<lambda>e. fst e \<noteq> i"]) (simp_all add: remove_session_def without_def)

section \<open>Changing one session\<close>

lemma inv_put:
  assumes inv: "session_inv m" and ids: "\<forall>e \<in> set events. event_id e = i"
    and ok: "session_ok (events @ sm_log m) i s" and log: "log_ok (events @ sm_log m)"
  shows "session_inv (put_session i s events m)"
proof -
  have "session_ok (events @ sm_log m) j s'" if "(j, s') \<in> set (sm_sessions m)" "j \<noteq> i" for j s'
    using session_ok_mono[of "sm_log m" j s' events] that ids inv by (auto simp: session_inv_def)
  moreover have "j = i \<or> j \<in> fst ` set (sm_sessions m) \<or> Pasted j \<in> set (events @ sm_log m) \<or> Aborted j \<in> set (events @ sm_log m)"
    if "Pasting j t n \<in> set (events @ sm_log m)" for j t n
    using that ids inv unfolding session_inv_defs by (cases "Pasting j t n \<in> set events") (fastforce dest!: bspec)+
  ultimately show ?thesis
    using inv ok log by (auto simp: session_inv_defs put_session_def without_distinct)
qed

lemma with_session_inv:
  assumes inv: "session_inv m"
    and use: "\<And>s. map_of (sm_sessions m) i = Some s \<Longrightarrow> ps_owner s = owner \<Longrightarrow> \<not> ps_hidden s \<Longrightarrow> sm_now m < ps_expires s \<Longrightarrow>
      session_ok (sm_log m) i s \<Longrightarrow>
      (\<forall>e \<in> set (snd (snd (f s))). event_id e = i) \<and> session_ok (snd (snd (f s)) @ sm_log m) i (fst (snd (f s))) \<and>
      log_ok (snd (snd (f s)) @ sm_log m)"
  shows "session_inv (snd (with_session i owner f m))"
proof (cases "map_of (sm_sessions m) i")
  case None
  then show ?thesis using inv by (simp add: with_session_def)
next
  case (Some s)
  have ok: "session_ok (sm_log m) i s" using inv map_of_SomeD[OF Some] by (auto simp: session_inv_def)
  consider "ps_owner s \<noteq> owner \<or> ps_hidden s" | "ps_owner s = owner" "\<not> ps_hidden s" "ps_expires s \<le> sm_now m" |
    "ps_owner s = owner" "\<not> ps_hidden s" "sm_now m < ps_expires s" by fastforce
  then show ?thesis
  proof cases
    case 3
    then show ?thesis using inv_put[OF inv] use[OF Some 3 ok] by (auto simp: with_session_def Some split: prod.splits)
  qed (use inv inv_remove[OF inv] in \<open>auto simp: with_session_def Some\<close>)
qed

lemma inv_insert:
  assumes "session_inv m" "unused_uuid uuid m"
  shows "session_inv (snd (insert_session uuid owner (active_target decode output) m))"
proof -
  let ?i = "''session-'' @ uuid"
  have fresh: "?i \<notin> event_id ` set (sm_log m)" using assms(2) by (auto simp: unused_uuid_def list_all_iff)
  have "valid_window_address (tg_address t)" if "active_target decode output = Some t" for t
    using that by (auto simp: active_target_def Let_def split: option.splits if_splits)
  moreover have "Pasting ?i t n \<notin> set (sm_log m) \<and> Gone ?i \<notin> set (sm_log m)" for t n
    using fresh by (metis event_id.simps(3,6) image_eqI)
  ultimately show ?thesis unfolding insert_session_def Let_def snd_conv
    by (intro inv_put[OF assms(1)]) (use assms(1) fresh in \<open>auto simp: session_ok_def event_ok_def session_inv_def\<close>)
qed

lemma inv_arm: "session_inv m \<Longrightarrow> session_inv (snd (arm_paste i owner m))"
  unfolding arm_paste_def Let_def case_prod_unfold snd_conv
  by (rule with_session_inv) (auto simp: session_ok_def event_ok_def session_inv_def)

lemma inv_validate: "session_inv m \<Longrightarrow> session_inv (snd (validate_paste i owner m))"
  unfolding validate_paste_def by (rule with_session_inv) (auto simp: session_inv_def)

lemma inv_hide: "session_inv m \<Longrightarrow> session_inv (snd (hide_with i owner m))"
  unfolding hide_with_def Let_def
proof (rule with_session_inv, goal_cases)
  case (2 s)
  obtain n where b: "Begun i (ps_owner s) (ps_target s) n \<in> set (sm_log m)" "ps_expires s = n + SESSION_TTL"
    using 2(6) by (auto simp: session_ok_def)
  have "event_ok (sm_log m) (Pasting i t (sm_now m))" if "ps_pending s" "ps_target s = Some t" for t
    unfolding event_ok_def session_event.case
    by (intro conjI exI[of _ "ps_owner s"] exI[of _ n]) (use 2 b that in \<open>auto simp: session_ok_def\<close>)
  with 2 show ?case
    by (cases "ps_pending s"; cases "ps_target s") (auto simp: session_ok_def session_inv_def)
qed

lemma inv_task: "session_inv m \<Longrightarrow> session_inv (task_ends i m)"
proof -
  assume inv: "session_inv m"
  have "session_ok (Pasted i # sm_log m) i (s\<lparr>ps_task := Some TaskFinished\<rparr>)"
    if "map_of (sm_sessions m) i = Some s" "ps_task s = Some TaskRunning" for s
    using inv map_of_SomeD[OF that(1)] that(2) by (auto simp: session_inv_def session_ok_def)
  then show ?thesis using inv inv_put[OF inv, of "[Pasted i]" i]
    by (auto simp: task_ends_def session_inv_def event_ok_def split: option.split)
qed

lemma session_step_inv: "session_step m m' \<Longrightarrow> session_inv m \<Longrightarrow> session_inv m'"
proof (induction rule: session_step.induct)
  case (ss_end m i owner)
  then show ?case using inv_remove[of m i] by (auto simp: end_session_def split: option.split)
next
  case (ss_time m d)
  then show ?case by (simp add: session_inv_defs)
qed (simp_all add: inv_insert inv_arm inv_validate inv_hide inv_task inv_retain remove_expired_def release_owner_def
      session_owners_def Let_def)

lemma session_reachable_inv: "session_reachable m \<Longrightarrow> session_inv m"
proof (induction rule: session_reachable.induct)
  case sr_init
  then show ?case by (simp add: session_inv_defs no_sessions_def)
qed (rule session_step_inv)

section \<open>Consequences\<close>

lemma log_ok_split: "log_ok (later @ e # past) \<Longrightarrow> event_ok past e"
  by (induction later) auto

lemma pasting_once:
  assumes "log_ok (later @ Pasting i t n # past)" shows "Pasting i t' n' \<notin> set later \<union> set past"
proof
  assume "Pasting i t' n' \<in> set later \<union> set past"
  then consider "Pasting i t' n' \<in> set past" | a b where "later = a @ Pasting i t' n' # b" by (auto simp: in_set_conv_decomp)
  then show False
  proof cases
    case 1
    then show ?thesis using log_ok_split[OF assms] by (auto simp: event_ok_def)
  next
    case (2 a b)
    then show ?thesis using log_ok_split[of a "Pasting i t' n'" "b @ Pasting i t n # past"] assms by (auto simp: event_ok_def)
  qed
qed

lemma begun_once:
  "log_ok log \<Longrightarrow> Begun i o1 t1 n1 \<in> set log \<Longrightarrow> Begun i o2 t2 n2 \<in> set log \<Longrightarrow> o1 = o2 \<and> t1 = t2 \<and> n1 = n2"
proof (induction log)
  case (Cons e past)
  have "i \<notin> event_id ` set past" if "e = Begun i o' t' n'" for o' t' n' using Cons.prems(1) that by (simp add: event_ok_def)
  moreover have "i \<in> event_id ` set past" if "Begun i o' t' n' \<in> set past" for o' t' n' using that by (metis event_id.simps(1) imageI)
  ultimately show ?case using Cons by auto
qed simp

lemma released_tasks:
  assumes "session_reachable m" "Begun i (Some owner) tg n0 \<in> set (sm_log m)" "Pasting i t n \<in> set (sm_log m)"
  shows "Pasted i \<in> set (sm_log (release_owner owner m)) \<or> Aborted i \<in> set (sm_log (release_owner owner m))"
proof (rule ccontr)
  let ?m = "release_owner owner m"
  assume n: "\<not> ?thesis"
  have inv: "session_inv ?m" using session_reachable_inv assms(1) sr_step ss_release by blast
  have log: "set (sm_log m) \<subseteq> set (sm_log ?m)" by (simp add: release_owner_def retain_sessions_def)
  then have "i \<in> fst ` set (sm_sessions ?m)" using inv n assms(3) unfolding session_inv_defs by blast
  then obtain s where s: "(i, s) \<in> set (sm_sessions ?m)" by auto
  then have "session_ok (sm_log ?m) i s" using inv by (auto simp: session_inv_def)
  then obtain k where "Begun i (ps_owner s) (ps_target s) k \<in> set (sm_log ?m)" by (auto simp: session_ok_def)
  then have "ps_owner s = Some owner" using begun_once[of "sm_log ?m"] inv log assms(2) by (auto simp: session_inv_def)
  then show False using s by (simp add: release_owner_def retain_sessions_def)
qed

section \<open>The commands of a paste\<close>

text \<open>An address is a hexadecimal number, so it cannot end the quoted Lua string it is put in.\<close>

lemma valid_address_plain:
  assumes "valid_window_address a" shows "\<forall>c \<in> set a. is_ascii_alphanumeric c"
proof -
  obtain v where v: "a = ''0x'' @ v" "list_all is_ascii_hexdigit v"
    using assms by (auto simp: valid_window_address_def split: option.splits)
  have "is_ascii_alphanumeric c" if "is_ascii_hexdigit c" for c
    using that by (auto simp: is_ascii_hexdigit_def is_ascii_alphanumeric_def Let_def)
  moreover have "is_ascii_alphanumeric (CHR ''0'')" "is_ascii_alphanumeric (CHR ''x'')"
    by (simp_all add: is_ascii_alphanumeric_def)
  ultimately show ?thesis using v(2) unfolding v(1) list_all_iff by simp
qed

end
