(* ===== verification/Paste_Properties.thy ===== *)
theory Paste_Properties
  imports Paste_Facts
begin

text \<open>
  What the owner of a paste session can rely on, over every interleaving of the session operations, with a
  witness run.
\<close>

text \<open>
  C28. Input is injected only on an armed, live session, once.  In every reachable log, a started paste goes
  to the window that had the focus when its session began, whose address is a hexadecimal number (so it cannot
  leave the quoted string of the dispatched command); its owner had armed the session before, less than five
  minutes had passed, the session had not been ended, released or expired, and no other paste of that session is
  started before or after.  When the owner is released, every paste it started has ended or is aborted.
\<close>

theorem paste_only_when_armed:
  assumes "session_reachable m" and "sm_log m = later @ Pasting i t n # past"
  shows "(\<exists>owner n0. Begun i owner (Some t) n0 \<in> set past \<and> Armed i owner \<in> set past \<and> n < n0 + SESSION_TTL \<and>
      (\<forall>o1. owner = Some o1 \<longrightarrow> Pasted i \<in> set (sm_log (release_owner o1 m)) \<or> Aborted i \<in> set (sm_log (release_owner o1 m)))) \<and>
    Gone i \<notin> set past \<and> (\<forall>t' n'. Pasting i t' n' \<notin> set later \<union> set past) \<and>
    (\<forall>c \<in> set (tg_address t). is_ascii_alphanumeric c)"
proof -
  have log: "log_ok (later @ Pasting i t n # past)"
    using session_reachable_inv[OF assms(1)] assms(2) by (simp add: session_inv_def)
  from log_ok_split[OF log] obtain owner n0 where b: "Begun i owner (Some t) n0 \<in> set past" "Armed i owner \<in> set past"
    "n < n0 + SESSION_TTL" and g: "Gone i \<notin> set past" and a: "valid_window_address (tg_address t)"
    by (auto simp: event_ok_def)
  have "Pasted i \<in> set (sm_log (release_owner o1 m)) \<or> Aborted i \<in> set (sm_log (release_owner o1 m))" if "owner = Some o1" for o1
    by (rule released_tasks[OF assms(1), of i o1 "Some t" n0 t n]) (use b(1) that assms(2) in auto)
  with b g show ?thesis using pasting_once[OF log] valid_address_plain[OF a] by blast
qed

definition demo_target :: target where
  "demo_target = \<lparr>tg_address = ''0x12'', tg_class = ''kitty''\<rparr>"

definition demo_begun :: session_manager where
  "demo_begun = snd (insert_session ''a'' (Some '':1'') (active_target (\<lambda>_. Some demo_target) (Some (True, []))) no_sessions)"

definition demo_hidden :: session_manager where
  "demo_hidden = snd (hide_with ''session-a'' (Some '':1'') (snd (arm_paste ''session-a'' (Some '':1'') demo_begun)))"

lemma demo_hidden_reachable: "session_reachable demo_hidden"
proof -
  have "session_reachable demo_begun" unfolding demo_begun_def
    by (rule sr_step[OF sr_init ss_begin]) (simp add: unused_uuid_def no_sessions_def)
  then show ?thesis unfolding demo_hidden_def using sr_step ss_arm ss_hide by blast
qed

lemma demo_target_active: "active_target (\<lambda>_. Some demo_target) (Some (True, [])) = Some demo_target"
proof -
  have "trim ''0x12'' = ''0x12''" by code_simp
  moreover have "valid_window_address ''0x12''" by code_simp
  ultimately show ?thesis by (simp add: active_target_def demo_target_def)
qed

lemma demo_hidden_log:
  "sm_log demo_hidden =
     [] @ Pasting ''session-a'' demo_target 0 # [Armed ''session-a'' (Some '':1''), Begun ''session-a'' (Some '':1'') (Some demo_target) 0]"
  by (simp add: demo_hidden_def demo_begun_def demo_target_active insert_session_def arm_paste_def hide_with_def with_session_def
      put_session_def no_sessions_def SESSION_TTL_def Let_def)

theorem paste_only_when_armed_witness:
  "Pasted ''session-a'' \<in> set (sm_log (release_owner '':1'' demo_hidden)) \<or>
   Aborted ''session-a'' \<in> set (sm_log (release_owner '':1'' demo_hidden))"
  using paste_only_when_armed[OF demo_hidden_reachable demo_hidden_log] by auto

end
