(* ===== verification/Operation_Book.thy ===== *)
theory Operation_Book
  imports Result_State Backend_Types
begin

text \<open>
  Errors of the API (\<open>ApiError\<close> of \<open>src/src/actions.rs\<close>), the owner registry of started operations
  (\<open>src/src/api/operations.rs\<close>) and the observation clock of the history (\<open>src/src/api/history.rs\<close>).  Times are
  milliseconds.  The steps interleave the requests of any owners: a request that may start an operation first
  takes a reservation, registers at most one operation under it, and drops it.  The lemmas bound the active
  operations, overall and per owner, and the size of the registry.
\<close>

section \<open>Errors\<close>

record api_error =
  ae_code :: str
  ae_message :: str
  ae_retryable :: bool

definition api_error_new :: "str \<Rightarrow> str \<Rightarrow> api_error" where
  "api_error_new code message = \<lparr>ae_code = code, ae_message = message, ae_retryable = False\<rparr>"

definition validation_error :: "str \<Rightarrow> api_error" where
  "validation_error message = api_error_new ''validation-error'' message"

definition unsupported_error :: "str \<Rightarrow> api_error" where
  "unsupported_error message = api_error_new ''unsupported-method'' message"

definition from_backend_error :: "backend_error \<Rightarrow> api_error" where
  "from_backend_error e =
     \<lparr>ae_code = error_code (be_kind e), ae_message = be_message e, ae_retryable = retryable (be_kind e)\<rparr>"

section \<open>The registry\<close>

definition RETENTION :: nat where "RETENTION = 300 * 1000"
definition MAX_ACTIVE :: nat where "MAX_ACTIVE = 64"
definition MAX_OWNER_ACTIVE :: nat where "MAX_OWNER_ACTIVE = 16"
definition MAX_RECORDS :: nat where "MAX_RECORDS = 256"

record op_record =
  rc_owner :: "str option"
  rc_operation :: operation_result
  rc_revision :: nat
  rc_updated :: nat

definition record_active :: "op_record \<Rightarrow> bool" where
  "record_active r \<longleftrightarrow> or_status (rc_operation r) = ''started''"

record book =
  bk_records :: "(str \<times> op_record) list"
  bk_pending :: "(str \<times> str option) list"

definition book_prune :: "nat \<Rightarrow> book \<Rightarrow> book" where
  "book_prune now b =
     b\<lparr>bk_records := filter (\<lambda>(i, r). record_active r \<or> now - rc_updated r < RETENTION) (bk_records b)\<rparr>"

definition active_records :: "book \<Rightarrow> op_record list" where
  "active_records b = filter record_active (map snd (bk_records b))"

definition book_reserve :: "nat \<Rightarrow> str \<Rightarrow> str option \<Rightarrow> book \<Rightarrow> (api_error, str) result \<times> book" where
  "book_reserve now uuid owner b =
    (let b1 = book_prune now b;
         active = length (bk_pending b1) + length (active_records b1);
         own = length (filter (\<lambda>p. snd p = owner) (bk_pending b1)) +
           length (filter (\<lambda>r. rc_owner r = owner) (active_records b1))
     in if active \<ge> MAX_ACTIVE \<or> own \<ge> MAX_OWNER_ACTIVE
        then (Inl (api_error_new ''busy'' ''Too many active clipboard operations''), b1)
        else (Inr uuid, b1\<lparr>bk_pending := (uuid, owner) # without uuid (bk_pending b1)\<rparr>))"

text \<open>\<open>Drop for Reservation\<close>.\<close>

definition drop_reserved :: "str \<Rightarrow> book \<Rightarrow> book" where
  "drop_reserved uuid b = b\<lparr>bk_pending := without uuid (bk_pending b)\<rparr>"

definition oldest_inactive :: "book \<Rightarrow> str option" where
  "oldest_inactive b =
    (case sort_key (\<lambda>(i, r). rc_updated r) (filter (\<lambda>(i, r). \<not> record_active r) (bk_records b)) of
       [] \<Rightarrow> None
     | (i, _) # _ \<Rightarrow> Some i)"

definition make_room :: "book \<Rightarrow> book" where
  "make_room b =
    (if length (bk_records b) \<ge> MAX_RECORDS
     then case oldest_inactive b of None \<Rightarrow> b | Some i \<Rightarrow> b\<lparr>bk_records := without i (bk_records b)\<rparr>
     else b)"

definition book_register :: "nat \<Rightarrow> operation_result \<Rightarrow> str option \<Rightarrow> book \<Rightarrow> book" where
  "book_register now operation owner b =
    (let b1 = make_room (book_prune now b)
     in b1\<lparr>bk_records := (or_id operation, \<lparr>rc_owner = owner, rc_operation = operation, rc_revision = 1, rc_updated = now\<rparr>)
             # without (or_id operation) (bk_records b1)\<rparr>)"

text \<open>\<open>may_start\<close>: the action is the field of the request's parameters.\<close>

definition may_start :: "str \<Rightarrow> str option \<Rightarrow> bool" where
  "may_start method action \<longleftrightarrow>
     method = ''clipboard.capture.interactive'' \<or> (method = ''clipboard.entry.action'' \<and> action = Some ''annotate'')"

text \<open>
  \<open>refresh_operation\<close> of \<open>src/src/api.rs\<close>: the status the backend keeps, and its table of active operations
  when it keeps none, are read under the lock of the book; the second component is the emitted record.
\<close>

definition refreshed :: "operation_result option bresult \<Rightarrow> str set bresult \<Rightarrow> str \<Rightarrow> op_record \<Rightarrow> operation_result option" where
  "refreshed status active i r =
    (case status of
       Inl _ \<Rightarrow> None
     | Inr (Some current) \<Rightarrow> Some current
     | Inr None \<Rightarrow>
         (case active of
            Inl _ \<Rightarrow> None
          | Inr ids \<Rightarrow>
              if i \<in> ids then None
              else Some (with_id i (or_action (rc_operation r)) ''unknown'' ''Operation outcome is unavailable; do not replay'')))"

definition refresh_operation ::
    "nat \<Rightarrow> operation_result option bresult \<Rightarrow> str set bresult \<Rightarrow> str \<Rightarrow> book \<Rightarrow> op_record option \<times> book" where
  "refresh_operation now status active i b =
    (case map_of (bk_records b) i of
       None \<Rightarrow> (None, b)
     | Some r \<Rightarrow>
         if \<not> record_active r then (None, b)
         else case refreshed status active i r of
           None \<Rightarrow> (None, b)
         | Some current \<Rightarrow>
             if rc_operation r = current then (None, b)
             else (let r' = r\<lparr>rc_operation := current, rc_revision := rc_revision r + 1, rc_updated := now\<rparr>
                   in (Some r', b\<lparr>bk_records := (i, r') # without i (bk_records b)\<rparr>)))"

section \<open>The observation clock\<close>

record clock =
  ck_token :: "nat option"
  ck_revision :: nat

definition MAX_OBSERVATION :: nat where "MAX_OBSERVATION = 9007199254740991"

definition clock_advance :: "(clock, api_error, unit) fallible" where
  "clock_advance c =
    (if ck_revision c \<ge> MAX_OBSERVATION
     then (Inl (api_error_new ''history-unavailable'' ''History observation clock exhausted; restart required''), c)
     else (Inr (), c\<lparr>ck_revision := ck_revision c + 1\<rparr>))"

definition clock_observe :: "nat \<Rightarrow> (clock, api_error, nat) fallible" where
  "clock_observe token c =
    (if ck_token c = Some token then (Inr (ck_revision c), c)
     else case clock_advance c of
       (Inl e, c1) \<Rightarrow> (Inl e, c1)
     | (Inr _, c1) \<Rightarrow> (Inr (ck_revision c1), c1\<lparr>ck_token := Some token\<rparr>))"

definition clock_invalidate :: "clock \<Rightarrow> clock" where
  "clock_invalidate c = c\<lparr>ck_token := None\<rparr>"

text \<open>Observations of one clock, newest first: the token seen and the revision handed out.\<close>

inductive observed :: "clock \<Rightarrow> (nat \<times> nat) list \<Rightarrow> bool" where
  ob_start: "observed \<lparr>ck_token = None, ck_revision = 0\<rparr> []"
| ob_observe: "observed c ps \<Longrightarrow> clock_observe token c = (Inr r, c') \<Longrightarrow> observed c' ((token, r) # ps)"
| ob_failed: "observed c ps \<Longrightarrow> clock_observe token c = (Inl e, c') \<Longrightarrow> observed c' ps"
| ob_invalidate: "observed c ps \<Longrightarrow> observed (clock_invalidate c) ps"

text \<open>
  A revision stands for one token: two observations with the same revision saw the same token, and later
  observations have no smaller revision, whatever outages lie between.
\<close>

definition clock_ok :: "clock \<Rightarrow> (nat \<times> nat) list \<Rightarrow> bool" where
  "clock_ok c ps \<longleftrightarrow>
     (\<forall>p \<in> set ps. snd p \<le> ck_revision c \<and> (snd p = ck_revision c \<longrightarrow> ck_token c = None \<or> ck_token c = Some (fst p)))"

definition revisions_ok :: "(nat \<times> nat) list \<Rightarrow> bool" where
  "revisions_ok ps \<longleftrightarrow>
     (\<forall>p \<in> set ps. \<forall>q \<in> set ps. snd p = snd q \<longrightarrow> fst p = fst q) \<and> sorted_wrt (\<lambda>a b. snd b \<le> snd a) ps"

lemma revisions_cons:
  assumes "revisions_ok ps" "\<And>p. p \<in> set ps \<Longrightarrow> snd p \<le> r" "\<And>p. p \<in> set ps \<Longrightarrow> snd p = r \<Longrightarrow> fst p = t"
  shows "revisions_ok ((t, r) # ps)"
proof -
  have "fst p = fst q" if "p \<in> insert (t, r) (set ps)" "q \<in> insert (t, r) (set ps)" "snd p = snd q" for p q
    using that assms(1,3) unfolding revisions_ok_def by (metis fst_conv insertE snd_conv)
  moreover have "sorted_wrt (\<lambda>a b. snd b \<le> snd a) ((t, r) # ps)" using assms(1,2) by (simp add: revisions_ok_def)
  ultimately show ?thesis unfolding revisions_ok_def list.set by blast
qed

lemma clock_observe_Inr:
  "clock_observe t c = (Inr r, c') \<Longrightarrow>
     (ck_token c = Some t \<and> c' = c \<and> r = ck_revision c) \<or>
     (ck_token c' = Some t \<and> ck_revision c' = r \<and> r = Suc (ck_revision c))"
  by (cases "ck_token c = Some t") (auto simp: clock_observe_def clock_advance_def split: if_split_asm)

lemma observed_inv: "observed c ps \<Longrightarrow> clock_ok c ps \<and> revisions_ok ps"
proof (induction rule: observed.induct)
  case ob_start
  then show ?case by (simp add: clock_ok_def revisions_ok_def)
next
  case (ob_observe c ps token r c')
  consider "ck_token c = Some token" "c' = c" "r = ck_revision c" |
    "ck_token c' = Some token" "ck_revision c' = r" "r = Suc (ck_revision c)"
    using clock_observe_Inr[OF ob_observe.hyps(2)] by argo
  then show ?case
  proof cases
    case 1
    have "revisions_ok ((token, r) # ps)"
      using ob_observe.IH 1 by (intro revisions_cons) (simp_all add: clock_ok_def)
    then show ?thesis using ob_observe.IH 1 by (simp add: clock_ok_def)
  next
    case 2
    have "\<forall>p \<in> set ps. snd p \<le> ck_revision c" using ob_observe.IH by (auto simp: clock_ok_def)
    then have lt: "snd p < r" if "p \<in> set ps" for p using that unfolding 2(3) by (simp add: less_Suc_eq_le)
    have "revisions_ok ((token, r) # ps)" using ob_observe.IH by (intro revisions_cons) (auto dest: lt)
    moreover have "clock_ok c' ((token, r) # ps)" unfolding clock_ok_def using lt 2(1,2) by (auto dest: lt)
    ultimately show ?thesis by simp
  qed
next
  case (ob_failed c ps token e c')
  then have "c' = c" by (auto simp: clock_observe_def clock_advance_def split: if_splits)
  then show ?case using ob_failed by simp
next
  case (ob_invalidate c ps)
  then show ?case by (auto simp: clock_ok_def clock_invalidate_def)
qed

section \<open>Reservations\<close>

text \<open>The book with the reservations under which an operation was registered.\<close>

record book_state =
  bs_book :: book
  bs_used :: "str list"
  bs_now :: nat

inductive book_step :: "book_state \<Rightarrow> book_state \<Rightarrow> bool" where
  bk_reserve: "uuid \<notin> fst ` set (bk_pending (bs_book s)) \<Longrightarrow> uuid \<notin> set (bs_used s) \<Longrightarrow>
    book_step s (s\<lparr>bs_book := snd (book_reserve (bs_now s) uuid owner (bs_book s))\<rparr>)"
| bk_register: "(uuid, owner) \<in> set (bk_pending (bs_book s)) \<Longrightarrow> uuid \<notin> set (bs_used s) \<Longrightarrow>
    or_id operation \<notin> fst ` set (bk_records (bs_book s)) \<Longrightarrow>
    book_step s (s\<lparr>bs_book := book_register (bs_now s) operation owner (bs_book s), bs_used := uuid # bs_used s\<rparr>)"
| bk_drop: "book_step s (s\<lparr>bs_book := drop_reserved uuid (bs_book s)\<rparr>)"
| bk_refresh: "book_step s (s\<lparr>bs_book := snd (refresh_operation (bs_now s) status active i (bs_book s))\<rparr>)"
| bk_prune: "book_step s (s\<lparr>bs_book := book_prune (bs_now s) (bs_book s)\<rparr>)"
| bk_time: "book_step s (s\<lparr>bs_now := bs_now s + d\<rparr>)"

inductive book_reachable :: "book_state \<Rightarrow> bool" where
  br_init: "book_reachable \<lparr>bs_book = \<lparr>bk_records = [], bk_pending = []\<rparr>, bs_used = [], bs_now = n\<rparr>"
| br_step: "book_reachable s \<Longrightarrow> book_step s s' \<Longrightarrow> book_reachable s'"

section \<open>Bounds\<close>

text \<open>Reservations not used yet and active records, of the owners in \<open>P\<close>.\<close>

definition free_pending :: "(str option \<Rightarrow> bool) \<Rightarrow> book_state \<Rightarrow> nat" where
  "free_pending P s = length (filter (\<lambda>(u, owner). u \<notin> set (bs_used s) \<and> P owner) (bk_pending (bs_book s)))"

definition active_count :: "(str option \<Rightarrow> bool) \<Rightarrow> book \<Rightarrow> nat" where
  "active_count P b = length (filter (\<lambda>(i, r). record_active r \<and> P (rc_owner r)) (bk_records b))"

definition load :: "(str option \<Rightarrow> bool) \<Rightarrow> book_state \<Rightarrow> nat" where
  "load P s = free_pending P s + active_count P (bs_book s)"

definition book_inv :: "book_state \<Rightarrow> bool" where
  "book_inv s \<longleftrightarrow>
     load (\<lambda>_. True) s \<le> MAX_ACTIVE \<and> (\<forall>owner. load (\<lambda>x. x = owner) s \<le> MAX_OWNER_ACTIVE) \<and>
     length (bk_records (bs_book s)) \<le> MAX_RECORDS \<and> distinct (map fst (bk_records (bs_book s))) \<and>
     distinct (map fst (bk_pending (bs_book s)))"

lemma filter_conj_le: "length (filter (\<lambda>x. A x \<and> B x) xs) \<le> length (filter B xs)"
  by (induction xs) auto

lemma filter_without_le: "length (filter Q (without i xs)) \<le> length (filter Q xs)"
  by (induction xs) (auto simp: without_def)

lemma filter_without_less: "(i, v) \<in> set xs \<Longrightarrow> Q (i, v) \<Longrightarrow> length (filter Q (without i xs)) < length (filter Q xs)"
  using filter_without_le[of Q i] by (induction xs) (auto simp: without_def less_Suc_eq_le)

lemma active_prune [simp]: "active_count P (book_prune now b) = active_count P b"
  unfolding active_count_def book_prune_def by (auto intro!: arg_cong[of _ _ length] filter_cong)

lemma prune_parts [simp]: "bk_pending (book_prune now b) = bk_pending b"
  by (simp add: book_prune_def)

lemma prune_records:
  "length (bk_records (book_prune now b)) \<le> length (bk_records b)"
  "distinct (map fst (bk_records b)) \<Longrightarrow> distinct (map fst (bk_records (book_prune now b)))"
  by (simp_all add: book_prune_def distinct_map_filter)

lemma active_records_count: "length (filter (\<lambda>r. P (rc_owner r)) (active_records b)) = active_count P b"
  unfolding active_records_def active_count_def by (induction "bk_records b" arbitrary: b) (auto simp: filter_map o_def split_def)

lemma load_mono:
  assumes "bs_used s' = bs_used s" "bk_pending (bs_book s') = bk_pending (bs_book s)"
    "active_count P (bs_book s') \<le> active_count P (bs_book s)"
  shows "load P s' \<le> load P s"
  using assms by (simp add: load_def free_pending_def)

lemma make_room_parts:
  "bk_pending (make_room b) = bk_pending b" "active_count P (make_room b) \<le> active_count P b"
  "fst ` set (bk_records (make_room b)) \<subseteq> fst ` set (bk_records b)"
  "distinct (map fst (bk_records b)) \<Longrightarrow> distinct (map fst (bk_records (make_room b)))"
  by (auto simp: make_room_def active_count_def filter_without_le without_distinct split: option.splits)

lemma make_room_length:
  assumes "length (bk_records b) \<le> MAX_RECORDS" "active_count (\<lambda>_. True) b < MAX_RECORDS"
  shows "length (bk_records (make_room b)) < MAX_RECORDS"
proof (cases "length (bk_records b) < MAX_RECORDS")
  case False
  let ?idle = "filter (\<lambda>(i, r). \<not> record_active r) (bk_records b)"
  have "length ?idle + active_count (\<lambda>_. True) b = length (bk_records b)"
    using sum_length_filter_compl[of "\<lambda>(i, r). record_active r" "bk_records b"] by (simp add: active_count_def split_def add.commute)
  then have "?idle \<noteq> []" using False assms by auto
  then obtain i r rest where s: "sort_key (\<lambda>(i, r). rc_updated r) ?idle = (i, r) # rest"
    by (metis list.exhaust length_0_conv length_sort surj_pair)
  then have "(i, r) \<in> set (bk_records b)"
    by (metis (no_types, lifting) filter_is_subset list.set_intros(1) set_sort subsetD)
  then have "length (without i (bk_records b)) < length (bk_records b)"
    using filter_without_less[of i r "bk_records b" "\<lambda>_. True"] by simp
  then show ?thesis using False assms(1) by (simp add: make_room_def oldest_inactive_def s)
qed (simp add: make_room_def)

lemma register_load:
  assumes "(uuid, owner) \<in> set (bk_pending (bs_book s))" "uuid \<notin> set (bs_used s)"
    and "s' = s\<lparr>bs_book := book_register now operation owner (bs_book s), bs_used := uuid # bs_used s\<rparr>"
  shows "load P s' \<le> load P s"
proof -
  let ?b = "make_room (book_prune now (bs_book s))" and ?r = "\<lparr>rc_owner = owner, rc_operation = operation, rc_revision = 1, rc_updated = now\<rparr>"
  let ?free = "filter (\<lambda>(u, w). u \<notin> set (bs_used s) \<and> P w) (bk_pending (bs_book s))"
  have f: "free_pending P s' = length (filter (\<lambda>(u, w). u \<notin> set (bs_used s) \<and> P w) (without uuid (bk_pending (bs_book s))))"
    unfolding free_pending_def assms(3) without_def filter_filter
    by (auto simp: book_register_def Let_def make_room_parts intro!: arg_cong[of _ _ length] filter_cong)
  have le: "free_pending P s' \<le> free_pending P s" unfolding f by (simp add: free_pending_def filter_without_le)
  have less: "free_pending P s' < free_pending P s" if "P owner"
    unfolding f using filter_without_less[OF assms(1)] assms(2) that by (simp add: free_pending_def)
  have "active_count P (bs_book s') \<le> active_count P ?b + (if P owner then 1 else 0)"
    using filter_without_le[of "\<lambda>(i, r). record_active r \<and> P (rc_owner r)" "or_id operation" "bk_records ?b"]
    by (auto simp: assms(3) book_register_def Let_def active_count_def)
  also have "active_count P ?b \<le> active_count P (bs_book s)" using make_room_parts(2)[of P "book_prune now (bs_book s)"] by simp
  finally show ?thesis using le less unfolding load_def by (cases "P owner") auto
qed

lemma reserve_load:
  assumes "book_reserve now uuid owner (bs_book s) = (r, b)" "uuid \<notin> fst ` set (bk_pending (bs_book s))"
    and "load (\<lambda>_. True) s \<le> MAX_ACTIVE" "\<forall>w. load (\<lambda>x. x = w) s \<le> MAX_OWNER_ACTIVE"
  shows "load (\<lambda>_. True) (s\<lparr>bs_book := b\<rparr>) \<le> MAX_ACTIVE \<and> (\<forall>w. load (\<lambda>x. x = w) (s\<lparr>bs_book := b\<rparr>) \<le> MAX_OWNER_ACTIVE)"
proof (cases r)
  case (Inl e)
  then have "b = book_prune now (bs_book s)" using assms(1) by (auto simp: book_reserve_def Let_def split: if_splits)
  then have "load P (s\<lparr>bs_book := b\<rparr>) = load P s" for P by (simp add: load_def free_pending_def)
  then show ?thesis using assms(3,4) by simp
next
  case (Inr u)
  let ?b = "book_prune now (bs_book s)"
  have b: "b = ?b\<lparr>bk_pending := (uuid, owner) # bk_pending ?b\<rparr>"
    and lim: "length (bk_pending ?b) + length (active_records ?b) < MAX_ACTIVE"
      "length (filter (\<lambda>p. snd p = owner) (bk_pending ?b)) + length (filter (\<lambda>r. rc_owner r = owner) (active_records ?b)) < MAX_OWNER_ACTIVE"
    using assms(1,2) Inr by (auto simp: book_reserve_def Let_def without_absent split: if_splits)
  have act: "active_count P b = active_count P (bs_book s)" for P using active_prune[of P now "bs_book s"] by (simp add: b active_count_def)
  have free: "free_pending P (s\<lparr>bs_book := b\<rparr>) \<le> free_pending P s + (if P owner then 1 else 0)" for P
    by (simp add: b free_pending_def)
  have all: "free_pending P s \<le> length (filter (\<lambda>p. P (snd p)) (bk_pending (bs_book s)))" for P
    unfolding free_pending_def split_def by (rule filter_conj_le)
  have "load (\<lambda>_. True) (s\<lparr>bs_book := b\<rparr>) \<le> MAX_ACTIVE"
    using lim(1) free[of "\<lambda>_. True"] all[of "\<lambda>_. True"] active_records_count[of "\<lambda>_. True" ?b] by (simp add: load_def act)
  moreover have "load (\<lambda>x. x = w) (s\<lparr>bs_book := b\<rparr>) \<le> MAX_OWNER_ACTIVE" for w
  proof (cases "w = owner")
    case True
    then show ?thesis using lim(2) free[of "\<lambda>x. x = w"] all[of "\<lambda>x. x = w"] active_records_count[of "\<lambda>x. x = w" ?b]
      by (simp add: load_def act)
  next
    case False
    then show ?thesis using free[of "\<lambda>x. x = w"] assms(4) by (simp add: load_def act) (meson add_le_mono1 le_trans)
  qed
  ultimately show ?thesis by blast
qed

lemma refresh_cases:
  obtains "snd (refresh_operation now status active i b) = b"
  | r current where "(i, r) \<in> set (bk_records b)" "record_active r"
    "snd (refresh_operation now status active i b) = b\<lparr>bk_records :=
       (i, r\<lparr>rc_operation := current, rc_revision := rc_revision r + 1, rc_updated := now\<rparr>) # without i (bk_records b)\<rparr>"
proof -
  have "snd (refresh_operation now status active i b) = b \<or> (\<exists>r current. (i, r) \<in> set (bk_records b) \<and> record_active r \<and>
      snd (refresh_operation now status active i b) = b\<lparr>bk_records :=
        (i, r\<lparr>rc_operation := current, rc_revision := rc_revision r + 1, rc_updated := now\<rparr>) # without i (bk_records b)\<rparr>)"
    by (auto simp: refresh_operation_def Let_def dest!: map_of_SomeD split: option.split)
  then show thesis using that by blast
qed

lemma refresh_parts:
  "bk_pending (snd (refresh_operation now status active i b)) = bk_pending b"
  "length (bk_records (snd (refresh_operation now status active i b))) \<le> length (bk_records b)"
  by (cases rule: refresh_cases[of now status active i b]; use filter_without_less[of i _ "bk_records b" "\<lambda>_. True"] in force)+

lemma refresh_distinct:
  "distinct (map fst (bk_records b)) \<Longrightarrow> distinct (map fst (bk_records (snd (refresh_operation now status active i b))))"
  by (cases rule: refresh_cases[of now status active i b]) (simp_all add: without_distinct)

lemma refresh_active: "active_count P (snd (refresh_operation now status active i b)) \<le> active_count P b"
proof (cases rule: refresh_cases[of now status active i b])
  case (2 r current)
  show ?thesis
  proof (cases "P (rc_owner r)")
    case True
    then show ?thesis using filter_without_less[OF 2(1), of "\<lambda>(i, r). record_active r \<and> P (rc_owner r)"] 2(2)
      unfolding active_count_def 2(3) by simp
  next
    case False
    then show ?thesis unfolding active_count_def 2(3) by (simp add: filter_without_le)
  qed
qed simp

lemma book_step_inv: "book_step s s' \<Longrightarrow> book_inv s \<Longrightarrow> book_inv s'"
proof (induction rule: book_step.induct)
  case (bk_reserve uuid s owner)
  obtain r b where b: "book_reserve (bs_now s) uuid owner (bs_book s) = (r, b)" by fastforce
  have "b = book_prune (bs_now s) (bs_book s) \<or>
      b = (book_prune (bs_now s) (bs_book s))\<lparr>bk_pending := (uuid, owner) # without uuid (bk_pending (bs_book s))\<rparr>"
    using b by (auto simp: book_reserve_def Let_def split: if_splits)
  then have "length (bk_records b) \<le> length (bk_records (bs_book s))"
    "distinct (map fst (bk_records (bs_book s))) \<longrightarrow> distinct (map fst (bk_records b))"
    "distinct (map fst (bk_pending (bs_book s))) \<longrightarrow> distinct (map fst (bk_pending b))"
    using prune_records[where now = "bs_now s" and b = "bs_book s"] by (elim disjE; simp add: without_distinct)+
  with reserve_load[OF b bk_reserve(1)] bk_reserve(3) show ?case by (auto simp: book_inv_def b)
next
  case (bk_register uuid owner s operation)
  let ?s = "s\<lparr>bs_book := book_register (bs_now s) operation owner (bs_book s), bs_used := uuid # bs_used s\<rparr>"
  let ?p = "book_prune (bs_now s) (bs_book s)"
  have load: "load P ?s \<le> load P s" for P by (rule register_load[OF bk_register(1,2) refl])
  have "active_count (\<lambda>_. True) ?p < MAX_RECORDS" using bk_register(4) by (simp add: book_inv_def load_def MAX_ACTIVE_def MAX_RECORDS_def)
  then have len: "length (bk_records (make_room ?p)) < MAX_RECORDS"
    using bk_register(4) prune_records(1)[of "bs_now s" "bs_book s"] by (intro make_room_length) (auto simp: book_inv_def)
  have "length (without (or_id operation) (bk_records (make_room ?p))) \<le> length (bk_records (make_room ?p))"
    using filter_without_le[of "\<lambda>_. True"] by simp
  then have "length (bk_records (bs_book ?s)) \<le> MAX_RECORDS" using len by (simp add: book_register_def Let_def)
  moreover have "distinct (map fst (bk_records (bs_book ?s)))" "bk_pending (bs_book ?s) = bk_pending (bs_book s)"
    using bk_register(4) by (simp_all add: book_register_def Let_def without_distinct make_room_parts prune_records book_inv_def)
  ultimately show ?case using bk_register(4) load unfolding book_inv_def by (metis le_trans)
next
  case (bk_drop s uuid)
  have "load P (s\<lparr>bs_book := drop_reserved uuid (bs_book s)\<rparr>) \<le> load P s" for P
    by (simp add: load_def free_pending_def active_count_def drop_reserved_def filter_without_le)
  with bk_drop show ?case unfolding book_inv_def by (simp add: drop_reserved_def without_distinct) (meson le_trans)
next
  case (bk_refresh s status active i)
  have "load P (s\<lparr>bs_book := snd (refresh_operation (bs_now s) status active i (bs_book s))\<rparr>) \<le> load P s" for P
    by (rule load_mono) (simp_all add: refresh_parts refresh_active)
  with bk_refresh show ?case unfolding book_inv_def
    using refresh_parts[of "bs_now s" status active i "bs_book s"] by (simp add: refresh_distinct) (meson le_trans)
next
  case (bk_prune s)
  have "load P (s\<lparr>bs_book := book_prune (bs_now s) (bs_book s)\<rparr>) = load P s" for P by (simp add: load_def free_pending_def)
  with bk_prune show ?case using prune_records[where now = "bs_now s" and b = "bs_book s"] by (auto simp: book_inv_def)
next
  case (bk_time s d)
  then show ?case by (simp add: book_inv_def load_def free_pending_def)
qed

lemma book_reachable_inv: "book_reachable s \<Longrightarrow> book_inv s"
proof (induction rule: book_reachable.induct)
  case (br_init n)
  then show ?case by (simp add: book_inv_def load_def free_pending_def active_count_def)
qed (rule book_step_inv)

end
