(* ===== verification/History_Search.thy ===== *)
theory History_Search
  imports Backend_Facts Operation_Book
begin

text \<open>
  Search with continuation cursors (\<open>src/src/history_search.rs\<close>) and the query method of the entry service
  (\<open>ClipboardService::query\<close> of \<open>src/src/actions.rs\<close>).  A cursor is bound by a message authentication code to the
  query, the picker's generation, the caller and the echo policy.  JSON, HMAC-SHA256 and hexadecimal coding are
  external crates: the record \<open>codec\<close>; what the code relies on is \<open>codec_laws\<close>.  Calls of the backend run on the
  history state; \<open>now\<close> is the time since the start of the process in seconds.
\<close>

section \<open>The backend of the services\<close>

type_synonym 'a served = "(history_state, api_error, 'a) fallible"

definition backend_call :: "'a hist \<Rightarrow> 'a served" where
  "backend_call m = smap_err from_backend_error (run_backend m)"

section \<open>Cursors\<close>

definition CURSOR_SECONDS :: nat where "CURSOR_SECONDS = 120"

record cursor =
  cu_token :: nat
  cu_offset :: nat
  cu_expires :: nat

record cursor_scope =
  sc_query :: str
  sc_generation :: nat
  sc_owner :: "str option"
  sc_collapse :: bool

record codec =
  cd_body :: "cursor \<Rightarrow> str"
  cd_parse :: "str \<Rightarrow> cursor option"
  cd_message :: "str \<Rightarrow> cursor_scope \<Rightarrow> bytes"
  cd_mac :: "bytes \<Rightarrow> bytes \<Rightarrow> bytes"
  cd_hex :: "bytes \<Rightarrow> str"
  cd_unhex :: "str \<Rightarrow> bytes option"

record query_params =
  qp_query :: str
  qp_generation :: nat
  qp_offset :: nat
  qp_limit :: nat
  qp_cursor_mode :: bool
  qp_cursor :: "str option"

definition scope_of :: "query_params \<Rightarrow> str option \<Rightarrow> bool \<Rightarrow> cursor_scope" where
  "scope_of params owner collapse =
     \<lparr>sc_query = qp_query params, sc_generation = qp_generation params, sc_owner = owner, sc_collapse = collapse\<rparr>"

definition stale_cursor :: api_error where
  "stale_cursor = api_error_new ''stale-cursor'' ''Clipboard history changed or the cursor expired; refresh the query''"

definition cursor_check :: "cursor \<Rightarrow> nat \<Rightarrow> (api_error, unit) result" where
  "cursor_check c token = (if cu_token c = token then Inr () else Inl stale_cursor)"

definition cursor_mac :: "codec \<Rightarrow> bytes \<Rightarrow> str \<Rightarrow> cursor_scope \<Rightarrow> bytes" where
  "cursor_mac cd key body scope = cd_mac cd key (cd_message cd body scope)"

definition cursor_decode :: "codec \<Rightarrow> bytes \<Rightarrow> nat \<Rightarrow> str \<Rightarrow> cursor_scope \<Rightarrow> (api_error, cursor) result" where
  "cursor_decode cd key now value scope =
    (if length value > 512 then Inl stale_cursor
     else rbind (ok_or (rsplit_once (CHR ''|'') value) stale_cursor) (\<lambda>(body, tag).
          rbind (ok_or (cd_unhex cd tag) stale_cursor) (\<lambda>bs.
          if bs \<noteq> cursor_mac cd key body scope then Inl stale_cursor
          else rbind (ok_or (cd_parse cd body) stale_cursor) (\<lambda>c.
            if cu_expires c \<le> now then Inl stale_cursor else Inr c))))"

definition cursor_encode :: "codec \<Rightarrow> bytes \<Rightarrow> cursor \<Rightarrow> cursor_scope \<Rightarrow> str" where
  "cursor_encode cd key c scope =
    (let body = cd_body cd c in body @ ''|'' @ cd_hex cd (cursor_mac cd key body scope))"

section \<open>Queries\<close>

record search_page =
  sp_revision :: nat
  sp_generation :: nat
  sp_current :: "entry_summary option"
  sp_entries :: "entry_summary list"
  sp_has_more :: bool
  sp_next_cursor :: "str option"
  sp_total :: nat
  sp_offset :: nat

definition search_result ::
    "codec \<Rightarrow> bytes \<Rightarrow> history_page \<Rightarrow> cursor \<Rightarrow> query_params \<Rightarrow> str option \<Rightarrow> bool \<Rightarrow> search_page" where
  "search_result cd key page c params owner collapse =
    (let consumed = saturating_add (cu_offset c) (length (hp_entries page)) in
     \<lparr>sp_revision = cu_token c, sp_generation = qp_generation params, sp_current = hp_current page,
      sp_entries = hp_entries page, sp_has_more = hp_has_more page,
      sp_next_cursor = (if hp_has_more page
         then Some (cursor_encode cd key \<lparr>cu_token = cu_token c, cu_offset = consumed, cu_expires = cu_expires c\<rparr>
                      (scope_of params owner collapse))
         else None),
      sp_total = hp_total page, sp_offset = cu_offset c\<rparr>)"

text \<open>\<open>permits\<close> is what is left of the two permits of the admission semaphore.\<close>

definition search_query ::
    "codec \<Rightarrow> bytes \<Rightarrow> nat \<Rightarrow> nat \<Rightarrow> query_params \<Rightarrow> str option \<Rightarrow> bool \<Rightarrow> search_page served" where
  "search_query cd key now permits params owner collapse =
    (if permits = 0 then sfail (api_error_new ''busy'' ''Clipboard search is busy'')
     else sbind (backend_call store_revision) (\<lambda>token.
          sbind (slift (case qp_cursor params of
                   Some value \<Rightarrow> cursor_decode cd key now value (scope_of params owner collapse)
                 | None \<Rightarrow> Inr \<lparr>cu_token = token, cu_offset = 0, cu_expires = now + CURSOR_SECONDS\<rparr>)) (\<lambda>c.
          sbind (slift (cursor_check c token)) (\<lambda>_.
          sbind (backend_call (query_sync
                   \<lparr>hq_query = qp_query params, hq_generation = qp_generation params, hq_offset = cu_offset c,
                    hq_limit = qp_limit params, hq_collapse_self_echoes = collapse\<rparr>)) (\<lambda>page.
          sbind (backend_call store_revision) (\<lambda>after.
          sbind (slift (cursor_check c after)) (\<lambda>_.
            sreturn (search_result cd key page c params owner collapse))))))))"

datatype query_reply = Paged history_page | Searched search_page

definition service_query ::
    "codec \<Rightarrow> bytes \<Rightarrow> nat \<Rightarrow> nat \<Rightarrow> query_params \<Rightarrow> bool \<Rightarrow> str option \<Rightarrow> query_reply served" where
  "service_query cd key now permits params collapse owner =
    (if length (qp_query params) > MAX_QUERY_BYTES then sfail (validation_error ''Search query exceeds 4096 bytes'')
     else if \<not> (1 \<le> qp_limit params \<and> qp_limit params \<le> MAX_QUERY_LIMIT)
     then sfail (validation_error ''limit must be between 1 and 200'')
     else if qp_cursor_mode params
     then (if qp_offset params \<noteq> 0 then sfail (validation_error ''Use next_cursor, not offsets, in cursor mode'')
           else sbind (search_query cd key now permits params owner collapse) (\<lambda>r. sreturn (Searched r)))
     else if qp_cursor params \<noteq> None then sfail (validation_error ''A cursor requires cursor mode'')
     else sbind (backend_call (query_sync
            \<lparr>hq_query = qp_query params, hq_generation = qp_generation params, hq_offset = qp_offset params,
             hq_limit = qp_limit params, hq_collapse_self_echoes = collapse\<rparr>)) (\<lambda>page. sreturn (Paged page)))"

section \<open>What the cursors rely on\<close>

definition in_range :: "cursor \<Rightarrow> bool" where
  "in_range c \<longleftrightarrow> cu_token c \<le> u64_max \<and> cu_offset c \<le> u64_max \<and> cu_expires c \<le> u64_max"

text \<open>
  The JSON text of a cursor is read back and is short, hexadecimal text is read back and has no separator, and
  the code of HMAC-SHA256 is 32 bytes.
\<close>

definition codec_laws :: "codec \<Rightarrow> bool" where
  "codec_laws cd \<longleftrightarrow>
     (\<forall>c. in_range c \<longrightarrow> cd_parse cd (cd_body cd c) = Some c \<and> length (cd_body cd c) \<le> 256) \<and>
     (\<forall>bs. cd_unhex cd (cd_hex cd bs) = Some bs \<and> CHR ''|'' \<notin> set (cd_hex cd bs) \<and> length (cd_hex cd bs) = 2 * length bs) \<and>
     (\<forall>key msg. length (cd_mac cd key msg) = 32)"

lemma split_once_none: "c \<notin> set xs \<Longrightarrow> split_once [c] (xs @ c # ys) = Some (xs, ys)"
  by (induction xs) (auto simp: starts_with_def)

lemma rsplit_once_append: "c \<notin> set b \<Longrightarrow> rsplit_once c (a @ c # b) = Some (a, b)"
  by (simp add: rsplit_once_def split_once_none)

lemma cursor_roundtrip:
  assumes "codec_laws cd" "in_range c" "now < cu_expires c"
  shows "cursor_decode cd key now (cursor_encode cd key c scope) scope = Inr c"
proof -
  let ?tag = "cd_hex cd (cursor_mac cd key (cd_body cd c) scope)"
  have "length ?tag = 64" "CHR ''|'' \<notin> set ?tag" "cd_unhex cd ?tag = Some (cursor_mac cd key (cd_body cd c) scope)"
    using assms(1) by (simp_all add: codec_laws_def cursor_mac_def)
  moreover have "cd_parse cd (cd_body cd c) = Some c" "length (cd_body cd c) \<le> 256"
    using assms(1,2) by (simp_all add: codec_laws_def)
  ultimately show ?thesis using assms(3)
    by (simp add: cursor_decode_def cursor_encode_def Let_def rsplit_once_append)
qed

text \<open>Whatever a client sends, an accepted cursor carries the code of its own text in the caller's scope.\<close>

lemma cursor_decode_ok:
  assumes "cursor_decode cd key now value scope = Inr c"
  shows "\<exists>body tag. value = body @ ''|'' @ tag \<and> cd_unhex cd tag = Some (cursor_mac cd key body scope) \<and>
    cd_parse cd body = Some c \<and> now < cu_expires c"
  using assms by (auto simp: cursor_decode_def not_le split: if_splits dest!: rsplit_once_Some)

text \<open>A cursor issued in one scope is refused in another, unless the two codes collide.\<close>

lemma cursor_scope_bound:
  assumes "codec_laws cd" and "cursor_decode cd key now (cursor_encode cd key c scope) scope' = Inr c'"
  shows "cursor_mac cd key (cd_body cd c) scope = cursor_mac cd key (cd_body cd c) scope'"
proof -
  let ?tag = "cd_hex cd (cursor_mac cd key (cd_body cd c) scope)"
  have "CHR ''|'' \<notin> set ?tag" "cd_unhex cd ?tag = Some (cursor_mac cd key (cd_body cd c) scope)"
    using assms(1) by (simp_all add: codec_laws_def)
  then show ?thesis using assms(2)
    by (auto simp: cursor_decode_def cursor_encode_def Let_def rsplit_once_append split: if_splits)
qed

end
