(* ===== verification/Search_Facts.thy ===== *)
theory Search_Facts
  imports History_Search
begin

text \<open>
  Following a cursor: the pages a client gets by handing back each \<open>next_cursor\<close> are consecutive windows of the
  literal search result, as long as the stored entries do not change.
\<close>

section \<open>Storage calls behind a query\<close>

definition recalls :: "history_state \<Rightarrow> bool" where
  "recalls s \<longleftrightarrow> (\<forall>n. fts_recall (oc_fts (hs_tape s n)))"

lemma store_revision_ok:
  assumes "store_revision s = (Inr v, s')"
  shows "v = t_revision (tables_of s) \<and> tables_of s' = tables_of s \<and> hs_pf s' = hs_pf s \<and> (recalls s \<longrightarrow> recalls s')"
proof -
  obtain rep s1 where c: "store_call ReqRevision s = (Inr rep, s1)"
    and k: "(case rep of RepRevision v \<Rightarrow> hreturn v | _ \<Rightarrow> hfail engine_error) s1 = (Inr v, s')"
    using assms unfolding store_revision_def hbind_Inr by blast
  have r: "rep = RepRevision v" "s1 = s'" using k by (cases rep; simp add: hreturn_def hfail_def)+
  show ?thesis
    using c r by (cases rule: store_call_cases[of ReqRevision s])
      (auto simp: run_job_def reply_with_def db_read_def tables_of_def recalls_def split: if_splits option.splits)
qed

lemma query_sync_ok:
  assumes "query_sync q s = (Inr p, s')"
  shows "db_query (hs_pf s) (oc_fts (hs_tape s 0)) q (tables_of s) = Inr p"
proof -
  obtain page s0 where q0: "store_query q s = (Inr page, s0)"
    and h: "hcase reconcile (\<lambda>_. hreturn page) (\<lambda>_. hreturn page) s0 = (Inr p, s')"
    using assms unfolding query_sync_def hbind_Inr by blast
  obtain rr s2 where "reconcile s0 = (rr, s2)" by fastforce
  then have "page = p" using h by (cases rr) (simp_all add: hcase_def hreturn_def)
  with q0 have q: "store_query q s = (Inr p, s0)" by simp
  obtain rep s1 where c: "store_call (ReqQuery q) s = (Inr rep, s1)"
    and k: "(case rep of RepPage v \<Rightarrow> hreturn v | _ \<Rightarrow> hfail engine_error) s1 = (Inr p, s0)"
    using q unfolding store_query_def hbind_Inr by blast
  have "rep = RepPage p" using k by (cases rep; simp add: hreturn_def hfail_def)+
  then show ?thesis
    using c by (cases rule: store_call_cases[of "ReqQuery q" s])
      (auto simp: run_job_def reply_with_def db_read_def tables_of_def split: if_splits option.splits)
qed

lemma backend_call_Inr: "backend_call m s = (Inr v, s') \<longleftrightarrow> m s = (Inr v, s') \<and> \<not> hs_closed s"
  by (auto simp: backend_call_def run_backend_def hbind_Inr ensure_running_def)

text \<open>The literal search result, in the order of the pages.\<close>

definition listed :: "platform \<Rightarrow> str \<Rightarrow> bool \<Rightarrow> tables \<Rightarrow> str list" where
  "listed pf query collapse t =
     map er_id (sort_key history_key (reference_matches pf (pf_lowercase pf (trim query)) collapse t))"

lemma ordered_listed:
  assumes "store_ok pf t" "fts_recall fts" "valid_utf8 (pf_lowercase pf (trim (hq_query q)))"
  shows "ordered_ids pf fts q t = listed pf (hq_query q) (hq_collapse_self_echoes q) t"
  using query_matches_reference[OF assms] by (simp add: ordered_ids_def listed_def)

lemma search_query_ok:
  assumes "search_query cd key now permits p owner collapse s = (Inr r, s')" "store_ok (hs_pf s) (tables_of s)" "recalls s"
    and "valid_utf8 (pf_lowercase (hs_pf s) (trim (qp_query p)))" "1 \<le> qp_limit p" "qp_limit p \<le> MAX_QUERY_LIMIT"
  shows "\<exists>c. (case qp_cursor p of
        Some v \<Rightarrow> cursor_decode cd key now v (scope_of p owner collapse) = Inr c
      | None \<Rightarrow> c = \<lparr>cu_token = t_revision (tables_of s), cu_offset = 0, cu_expires = now + CURSOR_SECONDS\<rparr>) \<and>
    cu_token c = t_revision (tables_of s) \<and> sp_offset r = cu_offset c \<and>
    (let ids = listed (hs_pf s) (qp_query p) collapse (tables_of s) in
      map es_id (sp_entries r) = take (qp_limit p) (drop (min (cu_offset c) i64_max) ids) \<and> sp_total r = length ids \<and>
      (sp_next_cursor r \<noteq> None \<longleftrightarrow> min (cu_offset c) i64_max + qp_limit p < length ids)) \<and>
    (\<forall>v. sp_next_cursor r = Some v \<longrightarrow> v = cursor_encode cd key
       \<lparr>cu_token = cu_token c, cu_offset = saturating_add (cu_offset c) (length (sp_entries r)), cu_expires = cu_expires c\<rparr>
       (scope_of p owner collapse))"
proof -
  let ?q = "\<lambda>c. \<lparr>hq_query = qp_query p, hq_generation = qp_generation p, hq_offset = cu_offset c, hq_limit = qp_limit p,
    hq_collapse_self_echoes = collapse\<rparr>"
  obtain token s1 c page s2 where rv: "store_revision s = (Inr token, s1)"
    and c: "(case qp_cursor p of Some value \<Rightarrow> cursor_decode cd key now value (scope_of p owner collapse)
      | None \<Rightarrow> Inr \<lparr>cu_token = token, cu_offset = 0, cu_expires = now + CURSOR_SECONDS\<rparr>) = Inr c"
    and ck: "cursor_check c token = Inr ()" and pg: "query_sync (?q c) s1 = (Inr page, s2)"
    and r: "r = search_result cd key page c p owner collapse"
    using assms(1) by (auto simp: search_query_def sbind_Inr slift_def sreturn_def sfail_def backend_call_Inr split: if_splits)
  have t: "token = t_revision (tables_of s)" "tables_of s1 = tables_of s" "hs_pf s1 = hs_pf s" "recalls s1"
    using store_revision_ok[OF rv] assms(3) by auto
  have rec: "fts_recall (oc_fts (hs_tape s1 0))" using t(4) by (simp add: recalls_def)
  have ids: "ordered_ids (hs_pf s) (oc_fts (hs_tape s1 0)) (?q c) (tables_of s) = listed (hs_pf s) (qp_query p) collapse (tables_of s)"
    using ordered_listed[OF assms(2) rec, of "?q c"] assms(4) by simp
  have "db_query (hs_pf s) (oc_fts (hs_tape s1 0)) (?q c) (tables_of s) = Inr page"
    using query_sync_ok[OF pg] t by simp
  with db_query_page[OF assms(2), of "oc_fts (hs_tape s1 0)" "?q c"] assms(6)
  have w: "map es_id (hp_entries page) = take (qp_limit p) (drop (min (cu_offset c) i64_max) (listed (hs_pf s) (qp_query p) collapse (tables_of s)))"
    "hp_total page = length (listed (hs_pf s) (qp_query p) collapse (tables_of s))"
    "hp_has_more page \<longleftrightarrow> min (cu_offset c) i64_max + qp_limit p < hp_total page"
    unfolding ids by auto
  show ?thesis
    using c ck t(1) w by (intro exI[of _ c]) (auto simp: r search_result_def Let_def cursor_check_def split: option.splits if_splits)
qed

end
