(* ===== verification/Rust_Numbers.thy ===== *)
theory Rust_Numbers
  imports Rust_Str
begin

text \<open>
  Decimal numbers as the Rust standard library reads and writes them: \<open>Display\<close> of an integer is \<open>nat_str\<close> with a
  sign, \<open>FromStr\<close> takes an optional sign and digits and refuses what leaves the width of the type.
\<close>

section \<open>Digits\<close>

definition is_digit :: "char \<Rightarrow> bool" where
  "is_digit c \<longleftrightarrow> 48 \<le> (of_char c :: nat) \<and> (of_char c :: nat) \<le> 57"

definition digits_value :: "str \<Rightarrow> nat" where
  "digits_value = foldl (\<lambda>n c. 10 * n + (of_char c - 48)) 0"

lemma digit_char: "d < 10 \<Longrightarrow> is_digit (char_of (48 + d)) \<and> (of_char (char_of (48 + d) :: char) :: nat) - 48 = d"
  by (simp add: is_digit_def)

lemma nat_str_digits: "list_all is_digit (nat_str n) \<and> nat_str n \<noteq> [] \<and> digits_value (nat_str n) = n"
proof (induction n rule: nat_str.induct)
  case (1 n)
  show ?case
  proof (cases "n < 10")
    case True
    then show ?thesis using digit_char[OF True] by (simp add: nat_str.simps[of n] digits_value_def)
  next
    case False
    have "n mod 10 < 10" by simp
    then show ?thesis using digit_char[of "n mod 10"] 1[OF False] False
      by (subst (1 2 3) nat_str.simps[of n]) (simp add: digits_value_def)
  qed
qed

lemma nat_str_length: "n < 10 ^ Suc k \<Longrightarrow> length (nat_str n) \<le> Suc k"
proof (induction k arbitrary: n)
  case 0
  then show ?case by (simp add: nat_str.simps[of n])
next
  case (Suc k)
  then have "n div 10 < 10 ^ Suc k" by (simp add: less_mult_imp_div_less)
  from Suc.IH[OF this] show ?case by (simp add: nat_str.simps[of n])
qed

lemma nat_str_not_nil [simp]: "nat_str n \<noteq> []"
  using nat_str_digits by blast

lemma nat_str_all: "c \<in> set (nat_str n) \<Longrightarrow> is_digit c"
  using nat_str_digits[of n] by (auto simp: list_all_iff)

section \<open>Reading and writing\<close>

definition parse_nat :: "nat \<Rightarrow> str \<Rightarrow> nat option" where
  "parse_nat limit s =
    (if s = [] \<or> \<not> list_all is_digit s then None
     else if digits_value s \<le> limit then Some (digits_value s) else None)"

definition parse_u32 :: "str \<Rightarrow> nat option" where
  "parse_u32 s = parse_nat (2 ^ 32 - 1) (if s \<noteq> [] \<and> hd s = CHR ''+'' then tl s else s)"

definition parse_i32 :: "str \<Rightarrow> int option" where
  "parse_i32 s =
    (if s \<noteq> [] \<and> hd s = CHR ''-'' then map_option (\<lambda>n. - int n) (parse_nat (2 ^ 31) (tl s))
     else map_option int (parse_nat (2 ^ 31 - 1) (if s \<noteq> [] \<and> hd s = CHR ''+'' then tl s else s)))"

definition int_str :: "int \<Rightarrow> str" where
  "int_str i = (if i < 0 then ''-'' @ nat_str (nat (- i)) else nat_str (nat i))"

lemma parse_nat_str: "n \<le> limit \<Longrightarrow> parse_nat limit (nat_str n) = Some n"
  using nat_str_digits[of n] by (simp add: parse_nat_def)

lemma nat_str_hd: "is_digit (hd (nat_str n))"
  using nat_str_all[of "hd (nat_str n)" n] by simp

lemma sign_not_digit: "\<not> is_digit (CHR ''-'')" "\<not> is_digit (CHR ''+'')" "\<not> is_digit (CHR '','')" "\<not> is_digit (CHR '' '')"
  "\<not> is_digit (CHR ''x'')"
  by (simp_all add: is_digit_def)

lemma parse_u32_str: "n < 2 ^ 32 \<Longrightarrow> parse_u32 (nat_str n) = Some n"
  using nat_str_hd[of n] sign_not_digit by (auto simp: parse_u32_def intro!: parse_nat_str)

lemma parse_i32_str: "- (2 ^ 31) \<le> i \<Longrightarrow> i < 2 ^ 31 \<Longrightarrow> parse_i32 (int_str i) = Some i"
  using nat_str_hd[of "nat i"] sign_not_digit
  by (cases "i < 0") (auto simp: parse_i32_def int_str_def parse_nat_str nat_le_iff zless_nat_eq_int_zless)

lemma parse_u32_range: "parse_u32 s = Some n \<Longrightarrow> n < 2 ^ 32"
  by (auto simp: parse_u32_def parse_nat_def split: if_splits)

lemma parse_i32_range: "parse_i32 s = Some i \<Longrightarrow> - (2 ^ 31) \<le> i \<and> i < 2 ^ 31"
  by (auto simp: parse_i32_def parse_nat_def split: if_splits)

end
