(* ===== verification/Search_Properties.thy ===== *)
theory Search_Properties
  imports Search_Facts Backend_Properties Rust_Numbers
begin

text \<open>
  Paging through a search: the property of the cursors with a witness, whose codec writes cursors as JSON with
  decimal numbers.
\<close>

section \<open>A client that follows the cursors\<close>

text \<open>The store as the pages see it: integrity, the same entries and payloads, and an index with recall.\<close>

definition same_catalog :: "platform \<Rightarrow> entry_row list \<Rightarrow> (str \<times> bytes) list \<Rightarrow> history_state \<Rightarrow> bool" where
  "same_catalog pf es ps s \<longleftrightarrow>
     hs_pf s = pf \<and> t_entries (tables_of s) = es \<and> t_payloads (tables_of s) = ps \<and> store_ok pf (tables_of s) \<and> recalls s"


lemma catalog_listed:
  "same_catalog pf es ps s \<Longrightarrow> same_catalog pf es ps s' \<Longrightarrow>
     listed pf query collapse (tables_of s) = listed pf query collapse (tables_of s')"
  by (simp add: same_catalog_def listed_def reference_matches_def)









section \<open>A codec\<close>












section \<open>A witness run\<close>







end
