(* ===== verification/Entry_Actions.thy ===== *)
theory Entry_Actions
  imports Paste_Sessions History_Search History_Operations
begin

text \<open>
  The entry service (\<open>ClipboardService\<close> of \<open>src/src/actions.rs\<close>) over the asynchronous methods of the backend
  (\<open>src/src/history.rs\<close>): details, actions on an entry, paste, edit leases and publications, in the order of
  the file.  Times are milliseconds of the session manager.  What stands outside is in the state: how the
  background operations drain when they are stopped, whether the runtime starts a task, and what the desktop
  answers to a launch.  A handler is atomic here; its guards are re-checked by the code after each wait, and
  those checks are part of the handlers.
\<close>

section \<open>State\<close>

record edit_lease =
  el_owner :: "str option"
  el_entry_id :: str
  el_revision :: nat
  el_mime :: str
  el_expires :: nat

record desktop =
  dk_spawns :: "str list \<Rightarrow> bool"
  dk_reveals :: "str \<Rightarrow> (str, unit) result"
  dk_launched :: "str list list"

record clip_service =
  ac_history :: history_state
  ac_operations :: operations
  ac_drain :: "operations \<Rightarrow> unit bresult \<times> operations"
  ac_starts :: bool
  ac_sessions :: session_manager
  ac_edits :: "(str \<times> edit_lease) list"
  ac_desktop :: desktop

type_synonym 'a act = "(clip_service, api_error, 'a) fallible"

definition ac_now :: "clip_service \<Rightarrow> nat" where
  "ac_now c = sm_now (ac_sessions c)"

definition on_history :: "'a hist \<Rightarrow> 'a act" where
  "on_history m c = (let (r, s) = backend_call m (ac_history c) in (r, c\<lparr>ac_history := s\<rparr>))"

definition on_sessions :: "(session_manager \<Rightarrow> 'a \<times> session_manager) \<Rightarrow> 'a act" where
  "on_sessions f c = (let (v, m) = f (ac_sessions c) in (Inr v, c\<lparr>ac_sessions := m\<rparr>))"

definition edit_error :: "str \<Rightarrow> api_error" where
  "edit_error message = api_error_new ''edit-error'' message"

definition stale_target :: "str \<Rightarrow> api_error" where
  "stale_target message = api_error_new ''stale-target'' message"

definition on_session :: "(session_manager, 'a) stateful \<Rightarrow> 'a act" where
  "on_session f c =
    (let (r, m) = f (ac_sessions c)
     in (case r of Inl e \<Rightarrow> Inl (stale_target e) | Inr v \<Rightarrow> Inr v, c\<lparr>ac_sessions := m\<rparr>))"

section \<open>Backend methods\<close>

definition launch_annotation :: "annotation_stage \<Rightarrow> operation_result act" where
  "launch_annotation staged c =
    (let oc = hs_tape (ac_history c) 0;
         (r, ops) = launch (oc_uuid oc) ''annotate'' ''Image editor started'' [as_input staged, as_output staged]
                      (ac_starts c) (ac_operations c)
     in (case r of Inl e \<Rightarrow> Inl (from_backend_error e) | Inr v \<Rightarrow> Inr v,
         c\<lparr>ac_operations := ops, ac_history := snd (draw (ac_history c))\<rparr>))"

definition stop_operations :: "unit act" where
  "stop_operations c =
    (let (r, ops) = ac_drain c (ac_operations c)
     in (case r of Inl e \<Rightarrow> Inl (from_backend_error e) | Inr v \<Rightarrow> Inr v, c\<lparr>ac_operations := ops\<rparr>))"

definition backend_mutate :: "str \<Rightarrow> nat option \<Rightarrow> backend_mutation \<Rightarrow> operation_result act" where
  "backend_mutate i expected mutation =
     sbind (slift (case require_revision mutation expected of Inl e \<Rightarrow> Inl (from_backend_error e) | Inr _ \<Rightarrow> Inr ())) (\<lambda>_.
     sbind (if mutation = Wipe \<or> mutation = Cleanup then stop_operations else sreturn ()) (\<lambda>_.
       case mutation of
         Annotate max_bytes \<Rightarrow> sbind (on_history (stage_annotation i expected max_bytes)) launch_annotation
       | _ \<Rightarrow> on_history (mutate_sync i expected mutation)))"

section \<open>Validation\<close>

definition MAX_EDIT_BYTES :: nat where "MAX_EDIT_BYTES = 256 * 1024"
definition MAX_DELETE_ENTRIES :: nat where "MAX_DELETE_ENTRIES = 5000"

definition validate_entry_id :: "str \<Rightarrow> (api_error, unit) result" where
  "validate_entry_id i = (if i \<noteq> [] then Inr () else Inl (validation_error ''entry_id is required''))"

definition validate_revision :: "nat option \<Rightarrow> nat \<Rightarrow> (api_error, unit) result" where
  "validate_revision expected actual =
    (case expected of
       Some revision \<Rightarrow>
         if revision \<noteq> actual
         then Inl \<lparr>ae_code = ''stale-entry'', ae_message = ''Clipboard entry changed; refresh and try again'', ae_retryable = True\<rparr>
         else Inr ()
     | None \<Rightarrow> Inr ())"

fun unique_ids :: "str list \<Rightarrow> entry_target list \<Rightarrow> (api_error, unit) result" where
  "unique_ids seen [] = Inr ()"
| "unique_ids seen (g # gs) =
     rbind (validate_entry_id (et_opaque_id g)) (\<lambda>_.
       if et_opaque_id g \<in> set seen then Inl (validation_error ''entries must not contain duplicates'')
       else unique_ids (et_opaque_id g # seen) gs)"

definition validate_delete_targets :: "entry_target list \<Rightarrow> (api_error, unit) result" where
  "validate_delete_targets entries =
    (if \<not> (1 \<le> length entries \<and> length entries \<le> MAX_DELETE_ENTRIES)
     then Inl (validation_error ''entries must contain between 1 and 5000 clipboard entries'')
     else unique_ids [] entries)"

definition validate_action :: "entry_details \<Rightarrow> str \<Rightarrow> (api_error, unit) result" where
  "validate_action details action =
    (let kind = es_kind (ed_entry details);
         allowed =
           (if action \<in> {''copy'', ''delete'', ''favorite'', ''unfavorite'', ''pin-current'', ''cleanup''} then True
            else if action = ''paste'' then kind \<noteq> Binary
            else if action = ''image-as-file'' \<or> action = ''annotate'' then kind = Image
            else if action = ''open-url'' then kind = Link
            else if action = ''open-file'' \<or> action = ''reveal-file'' then ed_files details \<noteq> []
            else False)
     in if allowed then Inr () else Inl (validation_error ''action is unsafe for this clipboard type''))"

definition required_mutation :: "str \<Rightarrow> nat \<Rightarrow> (api_error, backend_mutation) result" where
  "required_mutation action max_bytes =
     ok_or (for_action action max_bytes) (validation_error ''unsupported entry action'')"

definition editable_value :: "entry_details \<Rightarrow> (api_error, str) result" where
  "editable_value details =
    (if es_kind (ed_entry details) \<notin> {Text, Link, Html, Json, Color} \<or> ed_preview_truncated details
     then Inl (edit_error ''Clipboard entry is not safely editable'')
     else rbind (ok_or (ed_text details) (edit_error ''Clipboard entry is not valid UTF-8 text'')) (\<lambda>value.
       if length value \<le> MAX_EDIT_BYTES then Inr value
       else Inl (edit_error ''Clipboard entry exceeds the editable text limit'')))"

definition load_details :: "str \<Rightarrow> nat option \<Rightarrow> entry_details act" where
  "load_details i revision =
     sbind (slift (validate_entry_id i)) (\<lambda>_.
     sbind (on_history (details_sync i MAX_EDIT_BYTES)) (\<lambda>details.
     sbind (slift (validate_revision revision (es_revision (ed_entry details)))) (\<lambda>_.
       sreturn details)))"

definition delete_entries_request :: "entry_target list \<Rightarrow> operation_result act" where
  "delete_entries_request entries =
     sbind (slift (validate_delete_targets entries)) (\<lambda>_. on_history (remove_entries entries))"

section \<open>Publishing\<close>

definition service_publish :: "str \<Rightarrow> bytes \<Rightarrow> nat \<Rightarrow> operation_result act" where
  "service_publish mime bs max_entry_bytes =
    (if bs = [] then sfail (validation_error ''clipboard content must not be empty'')
     else on_history (publish_sync mime bs max_entry_bytes))"

definition service_publish_text :: "str \<Rightarrow> nat \<Rightarrow> operation_result act" where
  "service_publish_text text max_bytes = service_publish ''text/plain;charset=utf-8'' text max_bytes"

definition service_publish_sensitive :: "str \<Rightarrow> nat \<Rightarrow> operation_result act" where
  "service_publish_sensitive text seconds =
     sbind (slift (case validate_sensitive text seconds of Inl e \<Rightarrow> Inl (validation_error e) | Inr _ \<Rightarrow> Inr ())) (\<lambda>_.
       on_history (publish_sensitive_sync text seconds))"

definition service_publish_files :: "file_selection \<Rightarrow> nat \<Rightarrow> operation_result act" where
  "service_publish_files selection max_entry_bytes =
     sbind (slift (case validate_file_selection selection of Inl e \<Rightarrow> Inl (validation_error e) | Inr _ \<Rightarrow> Inr ())) (\<lambda>_.
       on_history (publish_files_sync selection max_entry_bytes))"

section \<open>Launching\<close>

definition launch_error :: "str \<Rightarrow> api_error" where
  "launch_error message = from_backend_error (operation_error message)"

definition api_invalid :: "str \<Rightarrow> api_error" where
  "api_invalid message = from_backend_error (invalid_data message)"

definition spawn :: "str list \<Rightarrow> unit act" where
  "spawn cmd c =
    (if dk_spawns (ac_desktop c) cmd
     then (Inr (), c\<lparr>ac_desktop := (ac_desktop c)\<lparr>dk_launched := cmd # dk_launched (ac_desktop c)\<rparr>\<rparr>)
     else (Inl (launch_error ''Application launch failed''), c))"

definition finished :: "str \<Rightarrow> str \<Rightarrow> operation_result act" where
  "finished action message c =
    (Inr (completed (oc_uuid (hs_tape (ac_history c) 0)) action message), c\<lparr>ac_history := snd (draw (ac_history c))\<rparr>)"

definition complete_text :: "entry_details \<Rightarrow> (api_error, str) result" where
  "complete_text details =
    (if ed_preview_truncated details then Inl (api_invalid ''Clipboard text is too large to launch safely'')
     else ok_or (ed_text details) (api_invalid ''Clipboard entry is not valid UTF-8 text''))"

definition selected_file :: "entry_details \<Rightarrow> nat option \<Rightarrow> (api_error, file_preview) result" where
  "selected_file details index =
    (let n = (case index of None \<Rightarrow> 0 | Some n \<Rightarrow> n)
     in if n < length (ed_files details) then Inr (ed_files details ! n)
        else Inl (validation_error ''file_index does not identify a clipboard file''))"

definition open_url :: "str \<Rightarrow> operation_result act" where
  "open_url value c =
    (case pf_url_parse (hs_pf (ac_history c)) (trim value) of
       None \<Rightarrow> (Inl (api_invalid ''URL is malformed''), c)
     | Some url \<Rightarrow>
         if url_scheme url \<noteq> ''http'' \<and> url_scheme url \<noteq> ''https''
         then (Inl (api_invalid ''Only HTTP and HTTPS URLs can be opened directly''), c)
         else sbind (spawn [''xdg-open'', url_string url]) (\<lambda>_. finished ''open-url'' ''URL opened'') c)"

definition existing_local_path :: "platform \<Rightarrow> file_preview \<Rightarrow> (api_error, str) result" where
  "existing_local_path pf file =
     rbind (ok_or (url_path pf (fp_uri file)) (api_invalid ''Clipboard entry is not a local file'')) (\<lambda>path.
       if pf_exists pf path then Inr path
       else Inl (from_backend_error (not_found ''Clipboard file no longer exists'')))"

definition open_file :: "file_preview \<Rightarrow> operation_result act" where
  "open_file file c =
     sbind (slift (existing_local_path (hs_pf (ac_history c)) file)) (\<lambda>path.
     sbind (spawn [''xdg-open'', path]) (\<lambda>_. finished ''open-file'' ''File opened'')) c"

definition reveal_file :: "file_preview \<Rightarrow> operation_result act" where
  "reveal_file file c =
     sbind (slift (existing_local_path (hs_pf (ac_history c)) file)) (\<lambda>path.
     sbind (slift (ok_or (pf_file_url (hs_pf (ac_history c)) path) (api_invalid ''Clipboard entry is not a local file''))) (\<lambda>uri.
     sbind (slift (case dk_reveals (ac_desktop c) uri of Inl e \<Rightarrow> Inl (launch_error e) | Inr _ \<Rightarrow> Inr ())) (\<lambda>_.
       finished ''reveal-file'' ''File revealed''))) c"

definition launch_action :: "str \<Rightarrow> nat option \<Rightarrow> entry_details \<Rightarrow> operation_result act" where
  "launch_action action file_index details =
    (if action = ''open-url'' then sbind (slift (complete_text details)) open_url
     else if action = ''open-file'' then sbind (slift (selected_file details file_index)) open_file
     else if action = ''reveal-file'' then sbind (slift (selected_file details file_index)) reveal_file
     else sfail (validation_error ''unsupported launch action''))"

end
