(* ===== verification/Entry_Requests.thy ===== *)
theory Entry_Requests
  imports Entry_Actions
begin

text \<open>
  The requests of the entry service that involve sessions and leases (\<open>src/src/actions.rs\<close>): actions on an entry,
  paste, and the edit of a text under a lease of one minute that its owner can commit or cancel once.  Requests
  arrive decoded; a JSON decoder that refuses the parameters is the error of \<open>decode\<close>, before any state is read.
\<close>

section \<open>Actions\<close>

record action_params =
  ap_entry_id :: str
  ap_revision :: nat
  ap_action :: str
  ap_session_id :: "str option"
  ap_file_index :: "nat option"

definition paste_feedback :: "bool \<Rightarrow> str \<Rightarrow> str \<times> str" where
  "paste_feedback has_target action =
    (if action = ''image-as-file''
     then (if has_target then (''paste-prepared'', ''Image file link prepared; hide the picker'')
           else (''completed'', ''Image file link copied; paste manually''))
     else (if has_target then (''paste-prepared'', ''Paste prepared; hide the picker'')
           else (''completed'', ''Copied; paste manually'')))"

definition service_validate_paste :: "str option \<Rightarrow> str option \<Rightarrow> bool act" where
  "service_validate_paste session_id owner =
    (case session_id of
       Some i \<Rightarrow> on_session (validate_paste i owner)
     | None \<Rightarrow> sreturn False)"

definition service_arm :: "bool \<Rightarrow> str \<Rightarrow> str option \<Rightarrow> bool act" where
  "service_arm wanted session_id owner = (if wanted then on_sessions (arm_paste session_id owner) else sreturn False)"

definition service_paste :: "action_params \<Rightarrow> nat \<Rightarrow> str option \<Rightarrow> operation_result act" where
  "service_paste params max_entry_bytes owner =
     sbind (slift (ok_or (ap_session_id params) (validation_error ''session_id is required for paste''))) (\<lambda>session_id.
     sbind (service_validate_paste (Some session_id) owner) (\<lambda>has_target.
     sbind (slift (required_mutation (ap_action params) max_entry_bytes)) (\<lambda>mutation.
     sbind (backend_mutate (ap_entry_id params) (Some (ap_revision params)) mutation) (\<lambda>operation.
     sbind (service_arm has_target session_id owner) (\<lambda>armed.
       let (status, message) = paste_feedback armed (ap_action params)
       in sreturn (operation\<lparr>or_status := status, or_message := message, or_action := ap_action params\<rparr>))))))"

definition execute_action :: "action_params \<Rightarrow> entry_details \<Rightarrow> nat \<Rightarrow> str option \<Rightarrow> operation_result act" where
  "execute_action params details max_entry_bytes owner =
    (if ap_action params \<in> {''open-url'', ''open-file'', ''reveal-file''}
     then launch_action (ap_action params) (ap_file_index params) details
     else if ap_action params \<in> {''paste'', ''image-as-file''} then service_paste params max_entry_bytes owner
     else sbind (slift (required_mutation (ap_action params) max_entry_bytes)) (\<lambda>mutation.
          sbind (backend_mutate (ap_entry_id params) (Some (ap_revision params)) mutation) (\<lambda>operation.
            sreturn (operation\<lparr>or_action := ap_action params\<rparr>))))"

definition entry_action :: "action_params \<Rightarrow> nat \<Rightarrow> str option \<Rightarrow> operation_result act" where
  "entry_action params max_entry_bytes owner =
     sbind (load_details (ap_entry_id params) (Some (ap_revision params))) (\<lambda>details.
     sbind (slift (validate_action details (ap_action params))) (\<lambda>_.
       execute_action params details max_entry_bytes owner))"

section \<open>Edits\<close>

record edit_view =
  ev_id :: str
  ev_entry_id :: str
  ev_revision :: nat
  ev_mime :: str
  ev_value :: str
  ev_max_bytes :: nat
  ev_expires_in_ms :: nat

definition insert_edit :: "str \<Rightarrow> edit_lease \<Rightarrow> unit act" where
  "insert_edit i lease c = (Inr (), c\<lparr>ac_edits := (i, lease) # without i (ac_edits c)\<rparr>)"

definition remove_edit :: "str \<Rightarrow> unit act" where
  "remove_edit i c = (Inr (), c\<lparr>ac_edits := without i (ac_edits c)\<rparr>)"

definition new_edit_id :: "str act" where
  "new_edit_id c = (Inr (''edit-'' @ oc_uuid (hs_tape (ac_history c) 0)), c\<lparr>ac_history := snd (draw (ac_history c))\<rparr>)"

definition begin_edit :: "str \<Rightarrow> nat option \<Rightarrow> str option \<Rightarrow> edit_view act" where
  "begin_edit entry_id revision owner =
     sbind (load_details entry_id revision) (\<lambda>details.
     sbind (slift (editable_value details)) (\<lambda>value.
     sbind new_edit_id (\<lambda>i. \<lambda>c.
       let entry = ed_entry details;
           lease = \<lparr>el_owner = owner, el_entry_id = es_id entry, el_revision = es_revision entry, el_mime = es_mime entry,
                    el_expires = ac_now c + 60 * 1000\<rparr>
       in sbind (insert_edit i lease) (\<lambda>_.
            sreturn \<lparr>ev_id = i, ev_entry_id = es_id entry, ev_revision = es_revision entry, ev_mime = es_mime entry,
                     ev_value = value, ev_max_bytes = MAX_EDIT_BYTES, ev_expires_in_ms = 60000\<rparr>) c)))"

definition lease_replace :: "edit_lease \<Rightarrow> str \<Rightarrow> nat \<Rightarrow> replacement_result act" where
  "lease_replace lease value max_entry_bytes c =
    (if el_expires lease \<le> ac_now c then (Inl (edit_error ''Edit session expired''), c)
     else if length value > min MAX_EDIT_BYTES max_entry_bytes
     then (Inl (edit_error ''Edited text exceeds the configured limit''), c)
     else sbind (on_history (store_entry_revision (el_entry_id lease))) (\<lambda>revision.
          sbind (slift (validate_revision (Some (el_revision lease)) revision)) (\<lambda>_.
            on_history (replace_sync (el_entry_id lease) (el_revision lease) (el_mime lease) value))) c)"

record commit_params =
  cm_edit_id :: str
  cm_value :: str
  cm_paste_session_id :: "str option"

record prepared_paste =
  pr_session_id :: str
  pr_prepared :: bool
  pr_message :: str

definition take_lease :: "str \<Rightarrow> str option \<Rightarrow> edit_lease act" where
  "take_lease i owner c =
    (case map_of (ac_edits c) i of
       Some lease \<Rightarrow>
         if el_owner lease = owner then sbind (remove_edit i) (\<lambda>_. sreturn lease) c
         else (Inl (edit_error ''Edit session is unknown or already used''), c)
     | None \<Rightarrow> (Inl (edit_error ''Edit session is unknown or already used''), c))"

definition commit_edit :: "commit_params \<Rightarrow> nat \<Rightarrow> str option \<Rightarrow> (replacement_result \<times> prepared_paste option) act" where
  "commit_edit params max_entry_bytes owner =
     sbind (service_validate_paste (cm_paste_session_id params) owner) (\<lambda>paste_target.
     sbind (take_lease (cm_edit_id params) owner) (\<lambda>lease.
     sbind (lease_replace lease (cm_value params) max_entry_bytes) (\<lambda>replacement.
       case cm_paste_session_id params of
         None \<Rightarrow> sreturn (replacement, None)
       | Some session_id \<Rightarrow>
           sbind (service_arm (rr_selection_published replacement \<and> paste_target) session_id owner) (\<lambda>prepared.
             sreturn (replacement, Some
               \<lparr>pr_session_id = session_id, pr_prepared = prepared,
                pr_message =
                  (if prepared then ''Paste prepared; hide the picker''
                   else if rr_selection_published replacement then ''Text saved and copied; paste manually''
                   else ''Text saved, but clipboard publication failed; paste was not prepared'')\<rparr>)))))"

definition cancel_edit :: "str \<Rightarrow> str option \<Rightarrow> clip_service \<Rightarrow> bool \<times> clip_service" where
  "cancel_edit i owner c =
    (case map_of (ac_edits c) i of
       Some lease \<Rightarrow> if el_owner lease = owner then (True, c\<lparr>ac_edits := without i (ac_edits c)\<rparr>) else (False, c)
     | None \<Rightarrow> (False, c))"

section \<open>Dispatch\<close>

datatype entry_request =
    EntryAction action_params
  | EditBegin str "nat option"
  | EditCommit commit_params
  | EditCancel str
  | UnknownEntry str

datatype entry_reply =
    ActionDone operation_result
  | EditBegun edit_view
  | EditCommitted replacement_result "prepared_paste option"
  | EditCancelled str bool

definition live_edits :: "clip_service \<Rightarrow> clip_service" where
  "live_edits c = c\<lparr>ac_edits := filter (\<lambda>(i, lease). el_expires lease > ac_now c) (ac_edits c)\<rparr>"

definition dispatch_entry :: "entry_request \<Rightarrow> nat \<Rightarrow> str option \<Rightarrow> entry_reply act" where
  "dispatch_entry request max_entry_bytes owner c =
    (let c1 = live_edits c in
     case request of
       EntryAction params \<Rightarrow> sbind (entry_action params max_entry_bytes owner) (\<lambda>r. sreturn (ActionDone r)) c1
     | EditBegin i revision \<Rightarrow> sbind (begin_edit i revision owner) (\<lambda>v. sreturn (EditBegun v)) c1
     | EditCommit params \<Rightarrow> sbind (commit_edit params max_entry_bytes owner) (\<lambda>(r, p). sreturn (EditCommitted r p)) c1
     | EditCancel i \<Rightarrow> (let (b, c2) = cancel_edit i owner c1 in (Inr (EditCancelled i b), c2))
     | UnknownEntry _ \<Rightarrow> (Inl (unsupported_error ''Unsupported entry method''), c1))"

datatype session_request = SessionBegin | SessionEnd str | SessionWait str | SessionHidden str | UnknownSession str

text \<open>A wait whose session is still pasting is polled again; \<open>None\<close> is that poll.\<close>

definition dispatch_session ::
    "(bytes \<Rightarrow> target option) \<Rightarrow> command_output \<Rightarrow> str \<Rightarrow> session_request \<Rightarrow> str option \<Rightarrow> session_view option act" where
  "dispatch_session decode output uuid request owner =
    (case request of
       SessionBegin \<Rightarrow> sbind (on_sessions (begin_session decode output uuid owner)) (\<lambda>v. sreturn (Some v))
     | SessionEnd i \<Rightarrow> sbind (on_sessions (end_session i owner)) (\<lambda>v. sreturn (Some v))
     | SessionWait i \<Rightarrow> on_session (\<lambda>m. (wait_poll i owner m, m))
     | SessionHidden i \<Rightarrow> sbind (on_session (hide_with i owner)) (\<lambda>v. sreturn (Some v))
     | UnknownSession _ \<Rightarrow> sfail (unsupported_error ''Unsupported session method''))"

section \<open>Owners\<close>

definition service_clear :: "clip_service \<Rightarrow> clip_service" where
  "service_clear c = c\<lparr>ac_edits := []\<rparr>"

definition service_release_owner :: "str \<Rightarrow> clip_service \<Rightarrow> clip_service" where
  "service_release_owner owner c =
     c\<lparr>ac_sessions := release_owner owner (ac_sessions c),
       ac_edits := filter (\<lambda>(i, lease). el_owner lease \<noteq> Some owner) (ac_edits c)\<rparr>"

definition service_owners :: "clip_service \<Rightarrow> str list \<times> clip_service" where
  "service_owners c =
    (let (owners, m) = session_owners (ac_sessions c);
         c1 = live_edits (c\<lparr>ac_sessions := m\<rparr>)
     in (owners @ List.map_filter (\<lambda>(i, lease). el_owner lease) (ac_edits c1), c1))"

definition service_wipe :: "operation_result act" where
  "service_wipe = backend_mutate [] None Wipe"

definition service_cancel :: "str \<Rightarrow> clip_service \<Rightarrow> bool \<times> clip_service" where
  "service_cancel i c = (let (b, ops) = op_cancel i (ac_operations c) in (b, c\<lparr>ac_operations := ops\<rparr>))"

end
