(* ===== verification/Service_Facts.thy ===== *)
theory Service_Facts
  imports Entry_Requests Search_Facts Paste_Facts
begin

text \<open>
  Facts of the entry service: what its requests leave alone, when a lease is taken, what a committed edit stores,
  and that a paste is armed only behind a publication that succeeded.
\<close>

section \<open>Frames\<close>

lemma on_history_parts [simp]:
  "ac_edits (snd (on_history m c)) = ac_edits c" "ac_sessions (snd (on_history m c)) = ac_sessions c"
  by (simp_all add: on_history_def split: prod.splits)

lemma on_history_Inr:
  "on_history m c = (Inr v, c') \<longleftrightarrow> (\<exists>s. m (ac_history c) = (Inr v, s) \<and> \<not> hs_closed (ac_history c) \<and> c' = c\<lparr>ac_history := s\<rparr>)"
proof -
  have "on_history m c = (Inr v, c') \<longleftrightarrow> (\<exists>s. backend_call m (ac_history c) = (Inr v, s) \<and> c' = c\<lparr>ac_history := s\<rparr>)"
    by (cases "backend_call m (ac_history c)") (auto simp: on_history_def)
  then show ?thesis by (auto simp: backend_call_Inr)
qed

lemma on_session_Inr:
  "on_session f c = (Inr v, c') \<longleftrightarrow> (\<exists>m. f (ac_sessions c) = (Inr v, m) \<and> c' = c\<lparr>ac_sessions := m\<rparr>)"
  by (auto simp: on_session_def split: prod.splits sum.splits)

lemma service_arm_Inr:
  "service_arm wanted i owner c = (Inr b, c') \<longleftrightarrow>
     (if wanted then \<exists>m. arm_paste i owner (ac_sessions c) = (b, m) \<and> c' = c\<lparr>ac_sessions := m\<rparr> else \<not> b \<and> c' = c)"
  by (auto simp: service_arm_def on_sessions_def sreturn_def split: prod.splits)

lemma validate_paste_time: "sm_now (snd (validate_paste i owner m)) = sm_now m"
  by (simp add: validate_paste_def with_session_def put_session_def remove_session_def split: option.splits)

lemma service_validate_frame:
  assumes "service_validate_paste i owner c = (Inr b, c')"
  shows "ac_edits c' = ac_edits c \<and> ac_history c' = ac_history c \<and> ac_now c' = ac_now c"
proof (cases i)
  case (Some k)
  then obtain m where m: "validate_paste k owner (ac_sessions c) = (Inr b, m)" "c' = c\<lparr>ac_sessions := m\<rparr>"
    using assms by (auto simp: service_validate_paste_def on_session_Inr)
  then have "sm_now m = sm_now (ac_sessions c)" using validate_paste_time[of k owner "ac_sessions c"] by simp
  then show ?thesis by (simp add: m(2) ac_now_def)
qed (use assms in \<open>simp add: service_validate_paste_def sreturn_def\<close>)

text \<open>Arming succeeds only with a target and is then in the log.\<close>

lemma arm_paste_armed:
  assumes "arm_paste i owner m = (True, m')"
  shows "Armed i owner \<in> set (sm_log m') \<and> (\<exists>s. map_of (sm_sessions m') i = Some s \<and> ps_pending s \<and> ps_owner s = owner \<and> ps_target s \<noteq> None)"
  using assms by (auto simp: arm_paste_def with_session_def put_session_def Let_def split: option.splits if_splits prod.splits)

section \<open>Edits\<close>

lemma take_lease_Inr:
  "take_lease i owner c = (Inr lease, c') \<longleftrightarrow>
     map_of (ac_edits c) i = Some lease \<and> el_owner lease = owner \<and> c' = c\<lparr>ac_edits := without i (ac_edits c)\<rparr>"
  by (auto simp: take_lease_def remove_edit_def sbind_def sreturn_def split: option.splits if_splits)

lemma store_entry_revision_frame:
  assumes "store_entry_revision i s = (Inr v, s')" shows "tables_of s' = tables_of s \<and> hs_pf s' = hs_pf s"
proof -
  have "same_store s (snd (store_entry_revision i s))"
    unfolding store_entry_revision_def
    by (rule same_store_bind) (auto intro!: store_call_same simp: read_request_db split: store_reply.splits)
  then show ?thesis using assms by (simp add: same_store_def tables_of_def)
qed

lemma lease_replace_Inr:
  assumes "lease_replace lease value n c = (Inr rr, c')"
  shows "ac_now c < el_expires lease \<and> length value \<le> min MAX_EDIT_BYTES n \<and> ac_edits c' = ac_edits c \<and> ac_sessions c' = ac_sessions c \<and>
    (\<exists>s. replace_sync (el_entry_id lease) (el_revision lease) (el_mime lease) value s = (Inr rr, ac_history c') \<and>
         tables_of s = tables_of (ac_history c) \<and> hs_pf s = hs_pf (ac_history c))"
proof -
  have t: "ac_now c < el_expires lease" "length value \<le> min MAX_EDIT_BYTES n"
    using assms unfolding lease_replace_def by (auto split: if_splits)
  obtain r c1 where r: "on_history (store_entry_revision (el_entry_id lease)) c = (Inr r, c1)"
    and p: "on_history (replace_sync (el_entry_id lease) (el_revision lease) (el_mime lease) value) c1 = (Inr rr, c')"
    using assms t by (auto simp: lease_replace_def sbind_Inr slift_def not_le)
  obtain s1 where s1: "store_entry_revision (el_entry_id lease) (ac_history c) = (Inr r, s1)" "c1 = c\<lparr>ac_history := s1\<rparr>"
    using r by (auto simp: on_history_Inr)
  obtain s2 where "replace_sync (el_entry_id lease) (el_revision lease) (el_mime lease) value s1 = (Inr rr, s2)" "c' = c1\<lparr>ac_history := s2\<rparr>"
    using p s1(2) by (auto simp: on_history_Inr)
  then show ?thesis using t s1 store_entry_revision_frame[OF s1(1)] by auto
qed

lemma commit_edit_Inr:
  assumes "commit_edit params n owner c = (Inr (rr, pp), c')"
  obtains lease s where "map_of (ac_edits c) (cm_edit_id params) = Some lease" "el_owner lease = owner"
    "ac_now c < el_expires lease" "length (cm_value params) \<le> min MAX_EDIT_BYTES n"
    "replace_sync (el_entry_id lease) (el_revision lease) (el_mime lease) (cm_value params) s = (Inr rr, ac_history c')"
    "tables_of s = tables_of (ac_history c)" "hs_pf s = hs_pf (ac_history c)"
    "ac_edits c' = without (cm_edit_id params) (ac_edits c)"
    "\<forall>p. pp = Some p \<and> pr_prepared p \<longrightarrow> rr_selection_published rr \<and> Armed (pr_session_id p) owner \<in> set (sm_log (ac_sessions c'))"
proof -
  obtain b c1 lease c2 c3 where v: "service_validate_paste (cm_paste_session_id params) owner c = (Inr b, c1)"
    and t: "take_lease (cm_edit_id params) owner c1 = (Inr lease, c2)"
    and r: "lease_replace lease (cm_value params) n c2 = (Inr rr, c3)"
    and k: "(case cm_paste_session_id params of None \<Rightarrow> pp = None \<and> c' = c3
      | Some i \<Rightarrow> \<exists>a m. service_arm (rr_selection_published rr \<and> b) i owner c3 = (Inr a, c') \<and> pp = Some \<lparr>pr_session_id = i, pr_prepared = a, pr_message = m\<rparr>)"
    using assms unfolding commit_edit_def by (cases "cm_paste_session_id params") (auto simp: sbind_Inr sreturn_def)
  note vf = service_validate_frame[OF v]
  have lease: "map_of (ac_edits c) (cm_edit_id params) = Some lease" "el_owner lease = owner" "c2 = c1\<lparr>ac_edits := without (cm_edit_id params) (ac_edits c)\<rparr>"
    using t vf by (auto simp: take_lease_Inr)
  have c2: "ac_now c2 = ac_now c" "ac_history c2 = ac_history c" using lease(3) vf by (simp_all add: ac_now_def)
  have c': "ac_history c' = ac_history c3" "ac_edits c' = ac_edits c3"
    using k by (cases "cm_paste_session_id params"; auto simp: service_arm_Inr split: if_splits)+
  have arm: "\<forall>p. pp = Some p \<and> pr_prepared p \<longrightarrow> rr_selection_published rr \<and> Armed (pr_session_id p) owner \<in> set (sm_log (ac_sessions c'))"
    using k arm_paste_armed by (cases "cm_paste_session_id params") (auto simp: service_arm_Inr split: if_splits)
  show thesis using that lease lease_replace_Inr[OF r] c2 c' arm by auto
qed

text \<open>A commit whose lease is gone fails whoever sends it.\<close>

lemma commit_edit_unknown:
  assumes "map_of (ac_edits c) (cm_edit_id params) = None" shows "\<not> is_ok (fst (commit_edit params n owner c))"
proof
  assume "is_ok (fst (commit_edit params n owner c))"
  then obtain rr pp c' where "commit_edit params n owner c = (Inr (rr, pp), c')" by (metis is_ok_iff prod.collapse)
  then show False using assms by (elim commit_edit_Inr) simp
qed

section \<open>Paste\<close>

lemma service_paste_prepared:
  assumes "service_paste params n owner c = (Inr op, c')" "or_status op = ''paste-prepared''"
  shows "\<exists>i operation c1 c2 mutation. ap_session_id params = Some i \<and> for_action (ap_action params) n = Some mutation \<and>
    backend_mutate (ap_entry_id params) (Some (ap_revision params)) mutation c1 = (Inr operation, c2) \<and>
    ac_history c1 = ac_history c \<and> ac_history c' = ac_history c2 \<and> Armed i owner \<in> set (sm_log (ac_sessions c'))"
proof -
  obtain i where i: "ap_session_id params = Some i" using assms(1) by (auto simp: service_paste_def sbind_Inr slift_def)
  obtain b c1 where v: "service_validate_paste (Some i) owner c = (Inr b, c1)"
    and k: "sbind (slift (required_mutation (ap_action params) n)) (\<lambda>mutation.
       sbind (backend_mutate (ap_entry_id params) (Some (ap_revision params)) mutation) (\<lambda>operation.
       sbind (service_arm b i owner) (\<lambda>armed.
         let (status, message) = paste_feedback armed (ap_action params)
         in sreturn (operation\<lparr>or_status := status, or_message := message, or_action := ap_action params\<rparr>)))) c1 = (Inr op, c')"
    using assms(1) i by (auto simp: service_paste_def sbind_Inr slift_def)
  obtain mutation operation c2 a where fa: "for_action (ap_action params) n = Some mutation"
    and m: "backend_mutate (ap_entry_id params) (Some (ap_revision params)) mutation c1 = (Inr operation, c2)"
    and arm: "service_arm b i owner c2 = (Inr a, c')" and st: "or_status op = fst (paste_feedback a (ap_action params))"
    using k by (auto simp: sbind_Inr slift_def sreturn_def required_mutation_def split_def Let_def)
  have "a" using assms(2) st by (cases a) (auto simp: paste_feedback_def split: if_splits)
  then obtain mgr where ar: "arm_paste i owner (ac_sessions c2) = (True, mgr)" "c' = c2\<lparr>ac_sessions := mgr\<rparr>"
    using arm by (auto simp: service_arm_Inr split: if_splits)
  have "ac_history c1 = ac_history c" using service_validate_frame[OF v] by simp
  then show ?thesis using i fa m ar arm_paste_armed[OF ar(1)]
    by (intro exI[of _ i] exI[of _ operation] exI[of _ c1] exI[of _ c2] exI[of _ mutation]) simp
qed

end
