(* ===== verification/Service_Properties.thy ===== *)
theory Service_Properties
  imports Service_Facts Backend_Properties
begin

text \<open>
  The entry service: an edit is committed at most once, by the owner of its lease, before it expires, and against
  the revision it was begun with.
\<close>

section \<open>Leases\<close>

text \<open>
  C30. A lease is good for one commit: when \<open>commit_edit\<close> succeeds, the lease was the caller's and had not
  expired, the entry still had the revision the edit began with, the new text is read back under the revision the
  reply names with the MIME type of the lease, a paste is prepared only behind a selection that was published,
  and no later commit of that edit succeeds, whoever sends it.
\<close>

theorem edit_committed_once:
  assumes "good (hs_pf (ac_history c)) (tables_of (ac_history c))"
    and "commit_edit params n owner c = (Inr (rr, pp), c')"
  shows "\<exists>lease. map_of (ac_edits c) (cm_edit_id params) = Some lease \<and> el_owner lease = owner \<and>
    ac_now c < el_expires lease \<and> length (cm_value params) \<le> min MAX_EDIT_BYTES n \<and>
    (\<exists>e. find_entry (el_entry_id lease) (tables_of (ac_history c)) = Some e \<and> er_revision e = el_revision lease) \<and>
    db_get (el_entry_id lease) (Some (es_revision (ed_entry (rr_entry rr)))) (tables_of (ac_history c')) =
      Inr \<lparr>se_summary = ed_entry (rr_entry rr), se_mime = el_mime lease, se_bytes = cm_value params\<rparr> \<and>
    (\<forall>p. pp = Some p \<and> pr_prepared p \<longrightarrow>
       rr_selection_published rr \<and> Armed (pr_session_id p) owner \<in> set (sm_log (ac_sessions c'))) \<and>
    (\<forall>again m other. cm_edit_id again = cm_edit_id params \<longrightarrow> \<not> is_ok (fst (commit_edit again m other c')))"
proof -
  obtain lease s where l: "map_of (ac_edits c) (cm_edit_id params) = Some lease" "el_owner lease = owner"
      "ac_now c < el_expires lease" "length (cm_value params) \<le> min MAX_EDIT_BYTES n"
    and r: "replace_sync (el_entry_id lease) (el_revision lease) (el_mime lease) (cm_value params) s = (Inr rr, ac_history c')"
    and s: "tables_of s = tables_of (ac_history c)" "hs_pf s = hs_pf (ac_history c)"
    and e: "ac_edits c' = without (cm_edit_id params) (ac_edits c)"
    and p: "\<forall>p. pp = Some p \<and> pr_prepared p \<longrightarrow>
       rr_selection_published rr \<and> Armed (pr_session_id p) owner \<in> set (sm_log (ac_sessions c'))"
    using commit_edit_Inr[OF assms(2)] by blast
  have "map_of (ac_edits c') (cm_edit_id params) = None" by (simp add: e map_of_without)
  then have again: "\<not> is_ok (fst (commit_edit again m other c'))" if "cm_edit_id again = cm_edit_id params" for again m other
    using that by (intro commit_edit_unknown) simp
  show ?thesis using replace_sync_readback[OF _ r] assms(1) l p again unfolding s by blast
qed

definition demo_lease :: edit_lease where
  "demo_lease = \<lparr>el_owner = Some ''picker'', el_entry_id = ''entry-a'', el_revision = 1, el_mime = ''text/plain'', el_expires = 60000\<rparr>"

definition demo_service :: clip_service where
  "demo_service = \<lparr>ac_history = calm_state demo_one, ac_operations = no_operations,
     ac_drain = (\<lambda>ops. (Inr (), ops)), ac_starts = True,
     ac_sessions = \<lparr>sm_sessions = [], sm_now = 0, sm_log = []\<rparr>, ac_edits = [(''edit-1'', demo_lease)],
     ac_desktop = \<lparr>dk_spawns = (\<lambda>_. True), dk_reveals = (\<lambda>_. Inr ()), dk_launched = []\<rparr>\<rparr>"

definition demo_commit :: commit_params where
  "demo_commit = \<lparr>cm_edit_id = ''edit-1'', cm_value = ''hi'', cm_paste_session_id = None\<rparr>"

lemma demo_summary_rev: "es_revision demo_summary = 1"
  by (simp add: demo_summary_def)

lemma demo_revision_call: "store_entry_revision ''entry-a'' (calm_state demo_one) = (Inr 1, calm_state demo_one)"
proof -
  have "store_call (ReqEntryRevision ''entry-a'') (calm_state demo_one) = (Inr (RepRevision 1), calm_state demo_one)"
    by (rule calm_call) (simp_all add: validate_id_def reply_with_def db_read_def sound_engine_def demo_summary_one demo_summary_rev)
  then show ?thesis by (simp add: store_entry_revision_def hist_defs)
qed

lemma demo_commit_runs: "\<exists>rr c'. commit_edit demo_commit 1000 (Some ''picker'') demo_service = (Inr (rr, None), c')"
proof -
  obtain rr s' where r: "replace_sync ''entry-a'' 1 ''text/plain'' ''hi'' (calm_state demo_one) = (Inr rr, s')"
    using demo_replace_sync by blast
  have "on_history (replace_sync ''entry-a'' 1 ''text/plain'' ''hi'') (demo_service\<lparr>ac_edits := []\<rparr>) =
      (Inr rr, demo_service\<lparr>ac_edits := [], ac_history := s'\<rparr>)"
    using r by (simp add: on_history_Inr demo_service_def)
  moreover have "on_history (store_entry_revision ''entry-a'') (demo_service\<lparr>ac_edits := []\<rparr>) = (Inr 1, demo_service\<lparr>ac_edits := []\<rparr>)"
    by (simp add: on_history_Inr demo_revision_call demo_service_def)
  ultimately have "lease_replace demo_lease ''hi'' 1000 (demo_service\<lparr>ac_edits := []\<rparr>) = (Inr rr, demo_service\<lparr>ac_edits := [], ac_history := s'\<rparr>)"
    by (simp add: lease_replace_def demo_lease_def sbind_def slift_def validate_revision_def MAX_EDIT_BYTES_def)
      (simp add: demo_service_def ac_now_def)
  moreover have "take_lease ''edit-1'' (Some ''picker'') demo_service = (Inr demo_lease, demo_service\<lparr>ac_edits := []\<rparr>)"
    by (simp add: take_lease_Inr) (simp add: demo_service_def demo_lease_def without_def)
  ultimately show ?thesis
    by (simp add: commit_edit_def demo_commit_def service_validate_paste_def sbind_def sreturn_def)
qed

theorem edit_committed_once_witness:
  "\<exists>rr c'. commit_edit demo_commit 1000 (Some ''picker'') demo_service = (Inr (rr, None), c') \<and>
     db_get ''entry-a'' (Some (es_revision (ed_entry (rr_entry rr)))) (tables_of (ac_history c')) =
       Inr \<lparr>se_summary = ed_entry (rr_entry rr), se_mime = ''text/plain'', se_bytes = ''hi''\<rparr> \<and>
     \<not> is_ok (fst (commit_edit demo_commit 1000 (Some ''thief'') c'))"
proof -
  obtain rr c' where r: "commit_edit demo_commit 1000 (Some ''picker'') demo_service = (Inr (rr, None), c')"
    using demo_commit_runs by blast
  have "good (hs_pf (ac_history demo_service)) (tables_of (ac_history demo_service))"
    using good_demo_one by (simp add: demo_service_def)
  from edit_committed_once[OF this r]
  show ?thesis using r by (auto simp: demo_service_def demo_commit_def demo_lease_def)
qed

end
