(* ===== verification/Screenshots.thy ===== *)
theory Screenshots
  imports Entry_Actions Rust_Numbers
begin

text \<open>
  Captures of the screen (\<open>src/src/history/screenshot.rs\<close>) and the image editor they may go through
  (\<open>src/src/editor.rs\<close>).  An external command answers by its argument vector: how the child ended, what it
  printed, and what it wrote to the file system.  The geometry a selector prints is parsed and printed again
  before it reaches the next command line, so no other text of the selector does.
\<close>

section \<open>External commands\<close>

datatype child_exit = SpawnFailed str | TimedOut | WaitFailed str | Exited "int option"

record child_run =
  cr_exit :: child_exit
  cr_output :: "(str, bytes) result"
  cr_files :: "(str \<times> lstat_result \<times> (str, nat \<times> bytes) result) list"

text \<open>What a path is and holds after a child wrote it; the rest of the platform is not its business.\<close>

definition write_path :: "str \<times> lstat_result \<times> (str, nat \<times> bytes) result \<Rightarrow> platform \<Rightarrow> platform" where
  "write_path w pf =
    (let (p, meta, contents) = w
     in pf\<lparr>pf_lstat := (pf_lstat pf)(p := meta), pf_exists := (pf_exists pf)(p := (meta \<noteq> LstatNotFound)),
           pf_open := (pf_open pf)(p := contents)\<rparr>)"

type_synonym commands = "str list \<Rightarrow> child_run"

definition started :: "child_run \<Rightarrow> bool" where
  "started r \<longleftrightarrow> (case cr_exit r of SpawnFailed _ \<Rightarrow> False | _ \<Rightarrow> True)"

text \<open>A child that started may have written before it ended, however it ended.\<close>

definition run_child :: "commands \<Rightarrow> str list \<Rightarrow> child_run hist" where
  "run_child env argv s =
    (let r = env argv in (Inr r, if started r then s\<lparr>hs_pf := fold write_path (cr_files r) (hs_pf s)\<rparr> else s))"

definition capture_status :: "child_exit \<Rightarrow> unit bresult" where
  "capture_status e =
    (case e of
       SpawnFailed _ \<Rightarrow> Inl (operation_error ''Could not start screenshot capture'')
     | TimedOut \<Rightarrow> Inl (operation_error ''Screenshot capture timed out'')
     | WaitFailed m \<Rightarrow> Inl (operation_error m)
     | Exited code \<Rightarrow> if code = Some 0 then Inr () else Inl (operation_error ''Screenshot capture failed''))"

definition capture_command :: "commands \<Rightarrow> str list \<Rightarrow> unit hist" where
  "capture_command env argv = hbind (run_child env argv) (\<lambda>r. hlift (capture_status (cr_exit r)))"

section \<open>The editor\<close>

definition INPUT_PLACEHOLDER :: str where "INPUT_PLACEHOLDER = ''{input}''"
definition OUTPUT_PLACEHOLDER :: str where "OUTPUT_PLACEHOLDER = ''{output}''"

definition default_editor :: "str list" where
  "default_editor =
     [''satty'', ''--filename'', INPUT_PLACEHOLDER, ''--output-filename'', OUTPUT_PLACEHOLDER, ''--resize'', ''smart'',
      ''--early-exit'', ''--actions-on-enter'', ''save-to-file'', ''--actions-on-escape'', ''exit'',
      ''--actions-on-right-click'', ''save-to-file'', ''--save-after-copy'', ''--copy-command'', ''cat >/dev/null'']"

definition new_editor :: "str list \<Rightarrow> (str, str list) result" where
  "new_editor argv =
    (if argv = [] \<or> hd argv = [] then Inl ''command must name an executable''
     else if INPUT_PLACEHOLDER \<notin> set (tl argv) then Inl (''command is missing the '' @ INPUT_PLACEHOLDER @ '' argument'')
     else if OUTPUT_PLACEHOLDER \<notin> set (tl argv) then Inl (''command is missing the '' @ OUTPUT_PLACEHOLDER @ '' argument'')
     else Inr argv)"

text \<open>The JSON decoder is a parameter; the variable is unset, not UTF-8, or a text.\<close>

definition editor_from_json :: "(str \<Rightarrow> str list option) \<Rightarrow> str \<Rightarrow> (str, str list) result" where
  "editor_from_json parse value = rbind (ok_or (parse value) ''command must be a JSON array of strings'') new_editor"

definition configured_editor :: "(str \<Rightarrow> str list option) \<Rightarrow> bytes option \<Rightarrow> str list" where
  "configured_editor parse env =
    (case env of
       None \<Rightarrow> default_editor
     | Some value \<Rightarrow>
         (case rbind (ok_or (from_utf8 value) ''value is not UTF-8'') (editor_from_json parse) of
            Inr argv \<Rightarrow> argv
          | Inl _ \<Rightarrow> default_editor))"

definition editor_command :: "str list \<Rightarrow> str \<Rightarrow> str \<Rightarrow> str list" where
  "editor_command argv input output =
     hd argv # map (\<lambda>a. if a = INPUT_PLACEHOLDER then input else if a = OUTPUT_PLACEHOLDER then output else a) (tl argv)"

definition editor_status :: "child_exit \<Rightarrow> unit bresult" where
  "editor_status e =
    (case e of
       SpawnFailed m \<Rightarrow> Inl (operation_error m)
     | TimedOut \<Rightarrow> Inl (operation_error ''deadline has elapsed'')
     | WaitFailed m \<Rightarrow> Inl (operation_error m)
     | Exited code \<Rightarrow> if code = Some 0 then Inr () else Inl (operation_error ''Image editor exited unsuccessfully''))"

definition run_editor :: "commands \<Rightarrow> str list \<Rightarrow> str \<Rightarrow> str \<Rightarrow> unit hist" where
  "run_editor env argv input output =
     hbind (run_child env (editor_command argv input output)) (\<lambda>r. hlift (editor_status (cr_exit r)))"

section \<open>Geometry\<close>

definition invalid_region :: backend_error where
  "invalid_region = operation_error ''Invalid screenshot region''"

definition parse_pair :: "(str \<Rightarrow> 'a option) \<Rightarrow> str \<Rightarrow> char \<Rightarrow> ('a \<times> 'a) bresult" where
  "parse_pair parse value separator =
     rbind (ok_or (split_once [separator] value) invalid_region) (\<lambda>(a, b).
     rbind (ok_or (parse a) invalid_region) (\<lambda>x. rbind (ok_or (parse b) invalid_region) (\<lambda>y. Inr (x, y))))"

definition geometry :: "int \<Rightarrow> int \<Rightarrow> nat \<Rightarrow> nat \<Rightarrow> str" where
  "geometry x y width height =
     int_str x @ '','' @ int_str y @ '' '' @ nat_str width @ ''x'' @ nat_str height"

definition parse_geometry :: "str \<Rightarrow> str bresult" where
  "parse_geometry value =
     rbind (ok_or (split_once '' '' (trim value)) invalid_region) (\<lambda>(position, size).
     rbind (parse_pair parse_i32 position (CHR '','')) (\<lambda>(x, y).
     rbind (parse_pair parse_u32 size (CHR ''x'')) (\<lambda>(width, height).
       if valid_dimensions width height then Inr (geometry x y width height) else Inl invalid_region)))"

definition selector_argv :: "str list" where
  "selector_argv = [''slurp'', ''-f'', ''%x,%y %wx%h'']"

text \<open>What the selector printed is read up to one byte over the limit, before its status is asked for.\<close>

definition selected_region :: "child_run \<Rightarrow> str option bresult" where
  "selected_region r =
    (case cr_exit r of
       SpawnFailed m \<Rightarrow> Inl (operation_error m)
     | TimedOut \<Rightarrow> Inl (operation_error ''deadline has elapsed'')
     | e \<Rightarrow>
         (case cr_output r of
            Inl m \<Rightarrow> Inl (operation_error m)
          | Inr out \<Rightarrow>
              if length (take 129 out) > 128 then Inl invalid_region
              else (case e of
                WaitFailed m \<Rightarrow> Inl (operation_error m)
              | Exited code \<Rightarrow>
                  if code = Some 1 then Inr None
                  else if code \<noteq> Some 0 then Inl (operation_error ''Region selector failed'')
                  else (case from_utf8 out of
                    None \<Rightarrow> Inl (operation_error ''invalid utf-8 sequence'')
                  | Some value \<Rightarrow> rbind (parse_geometry value) (\<lambda>g. Inr (Some g))))))"

definition select_region :: "commands \<Rightarrow> str option hist" where
  "select_region env = hbind (run_child env selector_argv) (\<lambda>r. hlift (selected_region r))"

section \<open>Publication\<close>

definition publish_capture :: "str \<Rightarrow> nat \<Rightarrow> unit hist" where
  "publish_capture path max_bytes =
     hbind (hget hs_pf) (\<lambda>pf.
     hbind (hlift (ok_or (read_edited_image pf path max_bytes) (operation_error ''Screenshot is not a valid bounded PNG''))) (\<lambda>bs.
     hbind (publish_with (\<lambda>own. publish own ''image/png'' bs (min max_bytes MAX_THUMBNAIL_BYTES))) (\<lambda>_.
       selection_changed)))"

text \<open>\<open>StagedCapture\<close>: the staged file is removed when the capture ends, however it ends.\<close>

definition staged_capture :: "str \<Rightarrow> 'a hist \<Rightarrow> 'a hist" where
  "staged_capture path m s = (let (r, s1) = m s in (r, snd (remove_file path s1)))"

record screenshot_region =
  sr_x :: int
  sr_y :: int
  sr_width :: nat
  sr_height :: nat

definition screenshot_directory :: "str hist" where
  "screenshot_directory = runtime_directory ''clip-daemon/screenshots''"

definition capture_region :: "commands \<Rightarrow> screenshot_region \<Rightarrow> nat \<Rightarrow> operation_result hist" where
  "capture_region env region max_bytes =
    (if \<not> valid_dimensions (sr_width region) (sr_height region) then hfail invalid_region
     else hbind screenshot_directory (\<lambda>directory.
          hbind (unique_path directory ''png'') (\<lambda>path.
          hbind (write_private path []) (\<lambda>_.
            staged_capture path
              (hbind (capture_command env
                 [''grim'', ''-g'', geometry (sr_x region) (sr_y region) (sr_width region) (sr_height region), path]) (\<lambda>_.
               hbind (publish_capture path max_bytes) (\<lambda>_.
                 completed_result ''screenshot'' ''Screenshot published to the Wayland clipboard'')))))))"

section \<open>Interactive captures\<close>

datatype screenshot_mode = Region | Screen

record interactive_screenshot =
  is_mode :: screenshot_mode
  is_annotate :: bool

definition grab :: "commands \<Rightarrow> screenshot_mode \<Rightarrow> str \<Rightarrow> bool hist" where
  "grab env mode input =
    (case mode of
       Screen \<Rightarrow> hbind (capture_command env [''grim'', input]) (\<lambda>_. hreturn True)
     | Region \<Rightarrow>
         hbind (select_region env) (\<lambda>g.
           case g of
             None \<Rightarrow> hreturn False
           | Some region \<Rightarrow> hbind (capture_command env [''grim'', ''-g'', region, input]) (\<lambda>_. hreturn True)))"

definition edit_capture :: "commands \<Rightarrow> str list \<Rightarrow> str \<Rightarrow> str \<Rightarrow> nat \<Rightarrow> bool hist" where
  "edit_capture env editor input output max_bytes =
     hbind (hget hs_pf) (\<lambda>pf.
       if read_edited_image pf input max_bytes = None
       then hfail (operation_error ''Screenshot is not a valid bounded PNG'')
       else hbind (run_editor env editor input output) (\<lambda>_. hget (\<lambda>s. pf_exists (hs_pf s) output)))"

definition cancelled_screenshot :: op_completion where
  "cancelled_screenshot = \<lparr>oc_status = ''cancelled'', oc_message = ''Screenshot cancelled'', oc_warning = None\<rparr>"

text \<open>\<open>commits\<close> is the answer of \<open>begin_commit\<close> on the control of the operation.\<close>

definition capture ::
    "commands \<Rightarrow> str list \<Rightarrow> interactive_screenshot \<Rightarrow> str \<Rightarrow> str \<Rightarrow> nat \<Rightarrow> bool \<Rightarrow> op_completion hist" where
  "capture env editor request input output max_bytes commits =
     hbind (grab env (is_mode request) input) (\<lambda>grabbed.
       if \<not> grabbed then hreturn cancelled_screenshot
       else hbind (if is_annotate request then edit_capture env editor input output max_bytes else hreturn True) (\<lambda>edited.
         if \<not> edited \<or> \<not> commits then hreturn cancelled_screenshot
         else hbind (publish_capture (if is_annotate request then output else input) max_bytes) (\<lambda>_.
                hreturn \<lparr>oc_status = ''completed'', oc_message = ''Screenshot copied'', oc_warning = None\<rparr>)))"

definition notification :: "operation_result \<Rightarrow> str list option" where
  "notification event =
    (if or_status event = ''cancelled'' then None
     else Some [''notify-send'', ''-a'', ''clip-daemon'', ''Screenshot'', or_message event])"

section \<open>Annotations\<close>

text \<open>\<open>Path::is_file\<close>, which follows links.\<close>

definition is_file_path :: "platform \<Rightarrow> str \<Rightarrow> bool" where
  "is_file_path pf p =
    (case pf_canonicalize pf p of
       None \<Rightarrow> False
     | Some q \<Rightarrow> (case lstat_ok pf q of None \<Rightarrow> False | Some m \<Rightarrow> fm_is_file m))"

text \<open>The task behind an annotation (\<open>src/src/history/mutation.rs\<close>).\<close>

definition run_annotation :: "commands \<Rightarrow> str list \<Rightarrow> annotation_stage \<Rightarrow> bool \<Rightarrow> op_completion hist" where
  "run_annotation env editor staged commits =
     hbind (run_editor env editor (as_input staged) (as_output staged)) (\<lambda>_.
     hbind (hget hs_pf) (\<lambda>pf.
       if \<not> is_file_path pf (as_output staged) then hfail (operation_error ''Image edit was cancelled'')
       else if \<not> commits then hfail (operation_error ''Image edit was cancelled before commit'')
       else hbind (apply_annotation (as_opaque_id staged) (as_revision staged) (as_output staged) (as_max_bytes staged)) (\<lambda>c.
              hreturn \<lparr>oc_status = ''completed'', oc_message = ec_message c, oc_warning = ec_warning c\<rparr>)))"

section \<open>Requests\<close>

definition stage_screenshot :: "(str \<times> str) hist" where
  "stage_screenshot =
     hbind screenshot_directory (\<lambda>directory.
     hbind (unique_path directory ''png'') (\<lambda>input.
     hbind (unique_path directory ''png'') (\<lambda>output.
     hbind (write_private input []) (\<lambda>_. hreturn (input, output)))))"

definition launch_staged :: "str \<times> str \<Rightarrow> operation_result act" where
  "launch_staged staged c =
    (let (r, ops) = launch (oc_uuid (hs_tape (ac_history c) 0)) ''screenshot'' ''Screenshot started'' [fst staged, snd staged]
                      (ac_starts c) (ac_operations c)
     in (case r of Inl e \<Rightarrow> Inl (from_backend_error e) | Inr v \<Rightarrow> Inr v,
         c\<lparr>ac_operations := ops, ac_history := snd (draw (ac_history c))\<rparr>))"

definition service_interactive :: "operation_result act" where
  "service_interactive =
     sbind (on_history (hreturn ())) (\<lambda>_. \<lambda>c.
       if op_contains ''screenshot'' (ac_operations c)
       then (Inl (launch_error ''A screenshot is already in progress''), c)
       else sbind (on_history stage_screenshot) launch_staged c)"

definition service_screenshot :: "commands \<Rightarrow> screenshot_region \<Rightarrow> nat \<Rightarrow> operation_result act" where
  "service_screenshot env region max_entry_bytes =
    (if \<not> valid_dimensions (sr_width region) (sr_height region)
     then sfail (validation_error ''screenshot dimensions exceed the 16384-pixel edge or 32-megapixel limit'')
     else on_history (capture_region env region max_entry_bytes))"

end
