(* ===== verification/Screenshot_Properties.thy ===== *)
theory Screenshot_Properties
  imports Screenshots Backend_Properties
begin

text \<open>
  Captures of the screen: only a canonical bounded geometry of the selector reaches the capture command, and an
  interactive capture publishes only after it has won the race against its cancellation, and only a decoded PNG.
\<close>

section \<open>Geometry\<close>

lemma utf8_ascii: "(\<And>c. c \<in> set bs \<Longrightarrow> (of_char c :: nat) < 128) \<Longrightarrow> utf8_chunks bs = map (\<lambda>c. (Some (of_char c), [c])) bs"
  by (induction bs) (simp_all add: utf8_step_def byte_at_def Let_def)

lemma chars_ascii: "(\<And>c. c \<in> set bs \<Longrightarrow> (of_char c :: nat) < 128) \<Longrightarrow> chars bs = map (\<lambda>c. (of_char c, [c])) bs"
  by (simp add: chars_def utf8_ascii)

lemma of_chars_single: "of_chars (map (\<lambda>c. (of_char c, [c])) bs) = bs"
  by (induction bs) simp_all

lemma newline_space: "is_whitespace 10"
  by (simp add: is_whitespace_def)

lemma trim_newline:
  assumes "\<And>c. c \<in> set s \<Longrightarrow> (of_char c :: nat) < 128" "s \<noteq> []" "\<not> is_whitespace (of_char (hd s))" "\<not> is_whitespace (of_char (last s))"
  shows "trim (s @ ''\<newline>'') = s"
proof -
  have c: "chars (s @ ''\<newline>'') = map (\<lambda>c. (of_char c, [c])) (s @ ''\<newline>'')"
    using assms(1) by (intro chars_ascii) auto
  have d: "dropWhile (is_whitespace \<circ> fst) (map (\<lambda>c. (of_char c, [c])) (s @ ''\<newline>'')) = map (\<lambda>c. (of_char c, [c])) (s @ ''\<newline>'')"
    using assms(2,3) by (cases s) simp_all
  have "dropWhile (is_whitespace \<circ> fst) (rev (map (\<lambda>c. (of_char c, [c])) (s @ ''\<newline>''))) = rev (map (\<lambda>c. (of_char c, [c])) s)"
    using assms(2,4) by (cases s rule: rev_cases) (simp_all add: newline_space)
  then show ?thesis unfolding trim_def trim_chars_def c d by (simp add: of_chars_single)
qed

lemma int_str_chars: "c \<in> set (int_str i) \<Longrightarrow> is_digit c \<or> c = CHR ''-''"
  using nat_str_all by (auto simp: int_str_def split: if_splits)

lemma geometry_chars: "c \<in> set (geometry x y w h) \<Longrightarrow> is_digit c \<or> c \<in> set ''-, x''"
  using nat_str_all int_str_chars by (auto simp: geometry_def)

lemma geometry_ends:
  "is_digit (hd (geometry x y w h)) \<or> hd (geometry x y w h) = CHR ''-''" "is_digit (last (geometry x y w h))"
proof -
  have "int_str x \<noteq> []" by (simp add: int_str_def)
  then show "is_digit (hd (geometry x y w h)) \<or> hd (geometry x y w h) = CHR ''-''"
    using int_str_chars[of "hd (int_str x)" x] by (simp add: geometry_def)
  show "is_digit (last (geometry x y w h))"
    using nat_str_all[of "last (nat_str h)" h] by (simp add: geometry_def)
qed

lemma digit_plain: "is_digit c \<Longrightarrow> (of_char c :: nat) < 128 \<and> \<not> is_whitespace (of_char c)"
  by (simp add: is_digit_def is_whitespace_def)

lemma trim_geometry: "trim (geometry x y w h @ ''\<newline>'') = geometry x y w h"
proof (rule trim_newline)
  show "(of_char c :: nat) < 128" if "c \<in> set (geometry x y w h)" for c
    using geometry_chars[OF that] digit_plain by auto
  show "geometry x y w h \<noteq> []" by (simp add: geometry_def)
  show "\<not> is_whitespace (of_char (hd (geometry x y w h)))"
    using geometry_ends(1)[of x y w h] digit_plain by (auto simp: is_whitespace_def)
  show "\<not> is_whitespace (of_char (last (geometry x y w h)))"
    using geometry_ends(2)[of x y w h] digit_plain by blast
qed

lemma parse_geometry_exact:
  assumes "- (2 ^ 31) \<le> x" "x < 2 ^ 31" "- (2 ^ 31) \<le> y" "y < 2 ^ 31" "valid_dimensions w h"
  shows "parse_geometry (geometry x y w h @ ''\<newline>'') = Inr (geometry x y w h)"
proof -
  have no: "CHR '' '' \<notin> set (int_str x @ '','' @ int_str y)" "CHR '','' \<notin> set (int_str x)" "CHR ''x'' \<notin> set (nat_str w)"
    using int_str_chars nat_str_all sign_not_digit by fastforce+
  have s: "split_once '' '' (geometry x y w h) = Some (int_str x @ '','' @ int_str y, nat_str w @ ''x'' @ nat_str h)"
    using split_once_none[OF no(1), of "nat_str w @ ''x'' @ nat_str h"] by (simp add: geometry_def)
  have n: "w < 2 ^ 32" "h < 2 ^ 32" using assms(5) by (simp_all add: valid_dimensions_def)
  have p: "parse_pair parse_i32 (int_str x @ '','' @ int_str y) (CHR '','') = Inr (x, y)"
    using split_once_none[OF no(2), of "int_str y"] by (simp add: parse_pair_def parse_i32_str[OF assms(1,2)] parse_i32_str[OF assms(3,4)] ok_or_def)
  have q: "parse_pair parse_u32 (nat_str w @ ''x'' @ nat_str h) (CHR ''x'') = Inr (w, h)"
    using split_once_none[OF no(3), of "nat_str h"] by (simp add: parse_pair_def parse_u32_str[OF n(1)] parse_u32_str[OF n(2)] ok_or_def)
  show ?thesis unfolding parse_geometry_def trim_geometry s using assms(5) by (simp only: ok_or_def option.case rbind.simps prod.case p q if_True)
qed

lemma parse_pair_Inr: "parse_pair f v c = Inr (x, y) \<Longrightarrow> \<exists>a b. f a = Some x \<and> f b = Some y"
  by (auto simp: parse_pair_def ok_or_def split: option.splits)

lemma parse_geometry_Inr:
  assumes "parse_geometry v = Inr g"
  shows "\<exists>x y w h. g = geometry x y w h \<and> - (2 ^ 31) \<le> x \<and> x < 2 ^ 31 \<and> - (2 ^ 31) \<le> y \<and> y < 2 ^ 31 \<and> valid_dimensions w h"
proof -
  obtain p x y w h where p: "parse_pair parse_i32 p (CHR '','') = Inr (x, y)" and d: "valid_dimensions w h" "g = geometry x y w h"
    using assms unfolding parse_geometry_def by (fastforce split: if_splits)
  obtain a b where "parse_i32 a = Some x" "parse_i32 b = Some y" using parse_pair_Inr[OF p] by blast
  then show ?thesis using d parse_i32_range[of a x] parse_i32_range[of b y] by blast
qed

text \<open>
  The geometry handed to the capture command is the program's own text: what the selector printed is
  accepted only as two 32-bit coordinates and dimensions within 16384 pixels a side and 32 megapixels, and is
  passed on as the canonical print of those four numbers; every such region, printed with a newline, is accepted
  as itself.
\<close>

lemma selected_region_canonical:
  "(selected_region r = Inr (Some g) \<longrightarrow>
      (\<exists>x y w h. g = geometry x y w h \<and> - (2 ^ 31) \<le> x \<and> x < 2 ^ 31 \<and> - (2 ^ 31) \<le> y \<and> y < 2 ^ 31 \<and> valid_dimensions w h)) \<and>
   (- (2 ^ 31) \<le> x \<and> x < 2 ^ 31 \<and> - (2 ^ 31) \<le> y \<and> y < 2 ^ 31 \<and> valid_dimensions w h \<longrightarrow>
      parse_geometry (geometry x y w h @ ''\<newline>'') = Inr (geometry x y w h))"
proof -
  have "\<exists>x y w h. g = geometry x y w h \<and> - (2 ^ 31) \<le> x \<and> x < 2 ^ 31 \<and> - (2 ^ 31) \<le> y \<and> y < 2 ^ 31 \<and> valid_dimensions w h"
    if sel: "selected_region r = Inr (Some g)"
  proof -
    obtain v where "parse_geometry v = Inr g"
      using sel by (auto simp: selected_region_def split: child_exit.splits sum.splits if_splits option.splits)
    then show ?thesis by (rule parse_geometry_Inr)
  qed
  then show ?thesis using parse_geometry_exact by blast
qed

lemma selected_region_canonical_example:
  "parse_geometry (geometry (- 1920) 0 1920 1080 @ ''\<newline>'') = Inr (geometry (- 1920) 0 1920 1080)"
  using selected_region_canonical[of undefined undefined "- 1920" 0 1920 1080] by (simp add: valid_dimensions_def)

section \<open>Publication\<close>

text \<open>What commands do before the publication: nothing to the store, the selection or the image codec.\<close>

definition quiet :: "history_state \<Rightarrow> history_state \<Rightarrow> bool" where
  "quiet s s' \<longleftrightarrow> hs_db s' = hs_db s \<and> hs_selection s' = hs_selection s \<and>
     pf_decodes (hs_pf s') = pf_decodes (hs_pf s) \<and> pf_guess_format (hs_pf s') = pf_guess_format (hs_pf s)"

lemma quiet_trans: "quiet a b \<Longrightarrow> quiet b c \<Longrightarrow> quiet a c"
  by (simp add: quiet_def)

lemma quiet_bind:
  "quiet s (snd (m s)) \<Longrightarrow> (\<And>v s1. m s = (Inr v, s1) \<Longrightarrow> quiet s1 (snd (f v s1))) \<Longrightarrow> quiet s (snd (hbind m f s))"
  by (rule hbind_rel[where R = quiet]) (auto intro: quiet_trans)

lemma write_paths_codec:
  "pf_decodes (fold write_path ws pf) = pf_decodes pf \<and> pf_guess_format (fold write_path ws pf) = pf_guess_format pf"
  by (induction ws arbitrary: pf) (simp_all add: write_path_def split_def)

lemma quiet_simps [simp]:
  "quiet s (snd (hreturn v s))" "quiet s (snd (hfail e s))" "quiet s (snd (hlift r s))" "quiet s (snd (hget g s))"
  "quiet s (snd (run_child env argv s))"
  by (simp_all add: quiet_def hist_defs run_child_def Let_def write_paths_codec)

lemma capture_command_quiet [simp]: "quiet s (snd (capture_command env argv s))"
  unfolding capture_command_def by (rule quiet_bind) simp_all

lemma grab_quiet: "quiet s (snd (grab env mode input s))"
  unfolding grab_def select_region_def
  by (auto intro!: quiet_bind split: screenshot_mode.splits option.splits)

lemma edit_capture_quiet: "quiet s (snd (edit_capture env editor input output n s))"
  unfolding edit_capture_def run_editor_def by (auto intro!: quiet_bind)

lemma clear_active_selection_frame:
  "hs_selection (snd (clear_active_selection s)) = hs_selection s" "hs_db (snd (clear_active_selection s)) = hs_db s"
  by (simp_all add: clear_active_selection_def hist_defs)

lemma read_edited_image_Some:
  "read_edited_image pf p n = Some bs \<Longrightarrow>
     pf_guess_format pf bs = Some ''image/png'' \<and> pf_decodes pf bs \<and> length bs \<le> min n MAX_THUMBNAIL_BYTES"
  using read_path_bounded[of pf p "min n MAX_THUMBNAIL_BYTES"]
  by (auto simp: read_edited_image_def Let_def split: option.splits if_splits sum.splits)

definition png_published :: "platform \<Rightarrow> nat \<Rightarrow> history_state \<Rightarrow> bool" where
  "png_published pf n s \<longleftrightarrow>
     (\<exists>off bs. hs_selection s = Some (Published off) \<and> so_sources off = [(''image/png'', bs)] \<and>
        pf_guess_format pf bs = Some ''image/png'' \<and> pf_decodes pf bs \<and> length bs \<le> min n MAX_THUMBNAIL_BYTES)"

lemma publish_capture_result:
  assumes "publish_capture path n s = (r, s')"
  shows "hs_db s' = hs_db s \<and> (is_ok r \<longrightarrow> png_published (hs_pf s) n s')"
proof (cases "read_edited_image (hs_pf s) path n")
  case None
  then show ?thesis using assms by (auto simp: publish_capture_def hist_defs ok_or_def)
next
  case (Some bs)
  let ?m = "publish_with (\<lambda>own. publish own ''image/png'' bs (min n MAX_THUMBNAIL_BYTES))"
  obtain q s1 where q: "?m s = (q, s1)" by fastforce
  have db: "hs_db s1 = hs_db s" using publish_with_same[of s] q unfolding same_store_def by (metis snd_conv)
  have run: "hbind ?m (\<lambda>_. selection_changed) s = (r, s')"
    using assms Some by (simp add: publish_capture_def hbind_def hget_def hlift_def ok_or_def)
  show ?thesis
  proof (cases q)
    case (Inl e)
    then show ?thesis using run q db by (auto simp: hbind_def)
  next
    case (Inr u)
    then obtain own off where o: "publish own ''image/png'' bs (min n MAX_THUMBNAIL_BYTES) = Inr off" "hs_selection s1 = Some off"
      using publish_with_ok[of _ s s1] q by (metis (full_types) old.unit.exhaust)
    have "png_published (hs_pf s) n s1"
      using publish_ok[OF o(1)] o(2) read_edited_image_Some[OF Some] by (simp add: png_published_def)
    moreover have "selection_changed s1 = (r, s')" using run q Inr by (simp add: hbind_def)
    then have "hs_selection s' = hs_selection s1 \<and> hs_db s' = hs_db s1"
      using clear_active_selection_frame[of s1] by (simp add: selection_changed_def)
    ultimately show ?thesis using db by (simp add: png_published_def)
  qed
qed

text \<open>
  C33. An interactive capture publishes only what it may: whatever the selector, the capture command and the
  editor do, the stored history is unchanged, the selection changes only if the operation won its commit against
  a cancellation, and a capture that reports completion published a bounded PNG that decodes.
\<close>

theorem interactive_capture_commits_first:
  assumes "capture env editor request input output n commits s = (r, s')"
  shows "hs_db s' = hs_db s \<and> (hs_selection s' \<noteq> hs_selection s \<longrightarrow> commits) \<and>
    (\<forall>c. r = Inr c \<and> oc_status c = ''completed'' \<longrightarrow> commits \<and> png_published (hs_pf s) n s')"
proof -
  define work where "work = hbind (grab env (is_mode request) input) (\<lambda>grabbed.
       if \<not> grabbed then hreturn False
       else if is_annotate request then edit_capture env editor input output n else hreturn True)"
  define path where "path = (if is_annotate request then output else input)"
  obtain q s1 where w: "work s = (q, s1)" by fastforce
  have "quiet s (snd (work s))"
    unfolding work_def by (auto intro!: quiet_bind grab_quiet edit_capture_quiet)
  then have quiet: "quiet s s1" by (simp add: w)
  have "capture env editor request input output n commits s = hbind work (\<lambda>done.
      if \<not> done \<or> \<not> commits then hreturn cancelled_screenshot
      else hbind (publish_capture path n) (\<lambda>_. hreturn \<lparr>oc_status = ''completed'', oc_message = ''Screenshot copied'', oc_warning = None\<rparr>)) s"
    by (auto simp: capture_def work_def path_def hist_defs split: prod.splits sum.splits)
  then have run: "hbind work (\<lambda>done. if \<not> done \<or> \<not> commits then hreturn cancelled_screenshot
      else hbind (publish_capture path n) (\<lambda>_. hreturn \<lparr>oc_status = ''completed'', oc_message = ''Screenshot copied'', oc_warning = None\<rparr>)) s = (r, s')"
    using assms by simp
  consider e where "q = Inl e" | d where "q = Inr d" "\<not> d \<or> \<not> commits" | "q = Inr True" "commits"
    by (cases q) auto
  then show ?thesis
  proof cases
    case 1
    then show ?thesis using run w quiet by (auto simp: hbind_def quiet_def)
  next
    case 2
    then show ?thesis using run w quiet by (auto simp: hbind_def quiet_def hreturn_def cancelled_screenshot_def)
  next
    case 3
    obtain p s2 where p: "publish_capture path n s1 = (p, s2)" by fastforce
    have "s' = s2 \<and> is_ok r = is_ok p" using run w 3 p by (cases p) (auto simp: hbind_def hreturn_def)
    then show ?thesis using publish_capture_result[OF p] quiet 3 by (auto simp: quiet_def png_published_def)
  qed
qed

definition demo_request :: interactive_screenshot where
  "demo_request = \<lparr>is_mode = Screen, is_annotate = False\<rparr>"

definition demo_grim :: commands where
  "demo_grim = (\<lambda>_. \<lparr>cr_exit = Exited (Some 0), cr_output = Inr [], cr_files =
     [(''/in'', LstatOk \<lparr>fm_is_file = True, fm_is_dir = False, fm_len = 3, fm_dev = 1, fm_ino = 2, fm_uid = 1000, fm_nlink = 1, fm_mode = 33152\<rparr>,
       Inr (3, ''png''))]\<rparr>)"

definition demo_codec :: platform where
  "demo_codec = bare_platform\<lparr>pf_guess_format := (\<lambda>_. Some ''image/png''), pf_decodes := (\<lambda>_. True)\<rparr>"

lemma demo_grabbed:
  "grab demo_grim Screen ''/in'' ((calm_state demo_one)\<lparr>hs_pf := demo_codec\<rparr>) =
     (Inr True, (calm_state demo_one)\<lparr>hs_pf := write_path (hd (cr_files (demo_grim []))) demo_codec\<rparr>)"
  by (simp add: grab_def capture_command_def run_child_def hist_defs demo_grim_def started_def capture_status_def)

lemma demo_read:
  "read_edited_image (write_path (hd (cr_files (demo_grim []))) demo_codec) ''/in'' 1000 = Some ''png''"
  by (simp add: read_edited_image_def demo_grim_def demo_codec_def write_path_def lstat_ok_def MAX_THUMBNAIL_BYTES_def read_path_def
      read_selection_def validate_size_def effective_limit_def MAX_WAYLAND_SELECTION_BYTES_def)

lemma demo_png_mime: "validate_mime ''image/png'' = Inr ()"
  by (simp add: validate_mime_def valid_mime_ascii_def valid_mime_essence_def valid_mime_token_def utf8_eval str_eval
      is_ascii_alphanumeric_def Let_def)

lemma demo_capture:
  "\<exists>s' c. capture demo_grim default_editor demo_request ''/in'' ''/out'' 1000 True ((calm_state demo_one)\<lparr>hs_pf := demo_codec\<rparr>) = (Inr c, s') \<and>
     oc_status c = ''completed''"
  by (simp add: capture_def demo_request_def hbind_def demo_grabbed hreturn_def publish_capture_def hget_def hlift_def demo_read ok_or_def
      publish_with_def draw_def publish_def demo_png_mime validate_size_def effective_limit_def MAX_WAYLAND_SELECTION_BYTES_def
      MAX_THUMBNAIL_BYTES_def wl_publish_def hand_over_def selection_changed_def clear_active_selection_def hset_active_def)

theorem interactive_capture_commits_first_witness:
  "\<exists>s'. png_published demo_codec 1000 s' \<and>
     snd (capture demo_grim default_editor demo_request ''/in'' ''/out'' 1000 True ((calm_state demo_one)\<lparr>hs_pf := demo_codec\<rparr>)) = s'"
proof -
  obtain s' c where r: "capture demo_grim default_editor demo_request ''/in'' ''/out'' 1000 True ((calm_state demo_one)\<lparr>hs_pf := demo_codec\<rparr>) = (Inr c, s')"
    "oc_status c = ''completed''" using demo_capture by blast
  show ?thesis using interactive_capture_commits_first[OF r(1)] r by simp
qed

end
