(* ===== verification/Api_Service.thy ===== *)
theory Api_Service
  imports Settings_World Entry_Requests Screenshots
begin

text \<open>
  The API of the daemon (\<open>src/src/api.rs\<close>): requests of owners are dispatched to the entry service, the settings
  manager, the registry of started operations and the challenges of a wipe; receipts are stamped and events go to
  the audience that may see them.  Requests arrive decoded and replies are the data before JSON; the request for a
  thumbnail is in \<open>Api_Streams\<close>.  The history the entry service works on and the one behind the capture
  controller of the settings are the same store: it lives in the world of the settings and is lent to every call of
  the entry service.  Every request is one function here; the guards the code re-checks after a wait are in it.
\<close>

section \<open>State\<close>

datatype event_audience = Everyone | Owner "str option"

record wipe_challenge =
  wc_owner :: "str option"
  wc_expires :: nat

type_synonym publication = "str \<times> nat"

datatype api_data =
    OperationData operation_result "publication option"
  | RevisionData nat publication
  | HistoryData query_reply publication nat
  | DetailsData entry_details
  | EntryData entry_reply
  | SessionData "session_view option"
  | ChallengeData str
  | SettingsData clipboard_settings capture_view retention_view
  | UpdatedData clipboard_settings
  | PausedData clipboard_settings

record lifecycle_event =
  le_stream :: str
  le_event :: str
  le_data :: api_data
  le_audience :: event_audience

record api_service =
  ax_epoch :: str
  ax_clock :: clock
  ax_challenges :: "(str \<times> wipe_challenge) list"
  ax_settings :: "capture_world manager_state"
  ax_actions :: clip_service
  ax_events :: "lifecycle_event list"
  ax_book :: book

type_synonym 'a api = "(api_service, api_error, 'a) fallible"

definition visible_to :: "lifecycle_event \<Rightarrow> str option \<Rightarrow> bool" where
  "visible_to e owner = (case le_audience e of Everyone \<Rightarrow> True | Owner expected \<Rightarrow> expected = owner)"

definition STREAM_OPERATION :: str where "STREAM_OPERATION = ''clipboard.operation''"
definition STREAM_CAPTURE :: str where "STREAM_CAPTURE = ''clipboard.capture.changed''"
definition STREAM_SESSION :: str where "STREAM_SESSION = ''clipboard.session''"

text \<open>\<open>with_settings\<close>.\<close>

definition new_api :: "str \<Rightarrow> capture_world manager_state \<Rightarrow> clip_service \<Rightarrow> api_service" where
  "new_api epoch settings actions =
     \<lparr>ax_epoch = epoch, ax_clock = \<lparr>ck_token = None, ck_revision = 0\<rparr>, ax_challenges = [], ax_settings = settings,
      ax_actions = actions, ax_events = [], ax_book = \<lparr>bk_records = [], bk_pending = []\<rparr>\<rparr>"

definition ax_now :: "api_service \<Rightarrow> nat" where
  "ax_now s = ac_now (ax_actions s)"

definition shared_history :: "api_service \<Rightarrow> history_state" where
  "shared_history s = rt_sink (cw_runtime (ms_world (ax_settings s)))"

definition lend_history :: "api_service \<Rightarrow> clip_service" where
  "lend_history s = (ax_actions s)\<lparr>ac_history := (shared_history s)\<lparr>hs_tape := hs_tape (ac_history (ax_actions s))\<rparr>\<rparr>"

definition return_history :: "clip_service \<Rightarrow> api_service \<Rightarrow> api_service" where
  "return_history c s =
    (let m = ax_settings s; w = ms_world m; rt = cw_runtime w
     in s\<lparr>ax_actions := c, ax_settings := m\<lparr>ms_world := w\<lparr>cw_runtime := rt\<lparr>rt_sink := ac_history c\<rparr>\<rparr>\<rparr>\<rparr>)"

definition on_actions :: "'a act \<Rightarrow> 'a api" where
  "on_actions f s = (let (r, c) = f (lend_history s) in (r, return_history c s))"

definition settings_error :: "str \<Rightarrow> api_error" where
  "settings_error message = api_error_new ''settings-error'' message"

definition on_settings :: "(capture_world manager_state, 'a) stateful \<Rightarrow> 'a api" where
  "on_settings f s =
    (let (r, m) = f (ax_settings s)
     in (case r of Inl e \<Rightarrow> Inl (settings_error e) | Inr v \<Rightarrow> Inr v, s\<lparr>ax_settings := m\<rparr>))"

definition fresh_uuid :: "str api" where
  "fresh_uuid s =
    (let c = ax_actions s
     in (Inr (oc_uuid (hs_tape (ac_history c) 0)), s\<lparr>ax_actions := c\<lparr>ac_history := snd (draw (ac_history c))\<rparr>\<rparr>))"

definition max_entry_bytes :: "nat api" where
  "max_entry_bytes = sbind (on_settings get_settings) (\<lambda>v. sreturn (cl_max_entry_bytes v))"

section \<open>Life of the service\<close>

definition api_initialize :: "api_service \<Rightarrow> api_service" where
  "api_initialize s =
     snd (on_settings (reconcile_capture daemon_services) (snd (on_settings (initialize_retention daemon_services) s)))"

definition api_stop_capture :: "unit api" where
  "api_stop_capture = on_settings (stop_capture daemon_services)"

section \<open>Observations\<close>

definition change_token :: "nat api" where
  "change_token = on_actions (on_history store_revision)"

definition observe_token :: "nat \<Rightarrow> nat api" where
  "observe_token token s = (let (r, ck) = clock_observe token (ax_clock s) in (r, s\<lparr>ax_clock := ck\<rparr>))"

definition observe_history :: "(nat \<times> publication) api" where
  "observe_history s =
    (case change_token s of
       (Inl e, s1) \<Rightarrow> (Inl e, s1\<lparr>ax_clock := clock_invalidate (ax_clock s1)\<rparr>)
     | (Inr token, s1) \<Rightarrow>
         sbind (observe_token token) (\<lambda>revision. sreturn (token, (ax_epoch s, revision))) s1)"

section \<open>Operations\<close>

definition emit_event :: "lifecycle_event \<Rightarrow> api_service \<Rightarrow> api_service" where
  "emit_event e s = s\<lparr>ax_events := e # ax_events s\<rparr>"

definition emit_operation :: "op_record \<Rightarrow> api_service \<Rightarrow> api_service" where
  "emit_operation r s =
     emit_event \<lparr>le_stream = STREAM_OPERATION, le_event = or_status (rc_operation r),
       le_data = OperationData (rc_operation r) (Some (ax_epoch s, rc_revision r)), le_audience = Owner (rc_owner r)\<rparr> s"

definition api_refresh :: "str \<Rightarrow> api_service \<Rightarrow> api_service" where
  "api_refresh i s =
    (case map_of (bk_records (ax_book s)) i of
       None \<Rightarrow> s
     | Some r \<Rightarrow>
         if \<not> record_active r then s
         else (let c = ax_actions s;
                   (status, ops) = op_status (ax_now s) i (ac_operations c);
                   (emitted, b) = refresh_operation (ax_now s) (Inr status) (Inr (active_ids ops)) i (ax_book s);
                   s1 = s\<lparr>ax_actions := c\<lparr>ac_operations := ops\<rparr>, ax_book := b\<rparr>
               in case emitted of None \<Rightarrow> s1 | Some r' \<Rightarrow> emit_operation r' s1))"

definition prune_book :: "api_service \<Rightarrow> api_service" where
  "prune_book s = s\<lparr>ax_book := book_prune (ax_now s) (ax_book s)\<rparr>"

definition refresh_operations :: "api_service \<Rightarrow> api_service" where
  "refresh_operations s = prune_book (fold api_refresh (map fst (bk_records (ax_book s))) s)"

definition track_operation :: "operation_result \<Rightarrow> str option \<Rightarrow> api_service \<Rightarrow> api_service" where
  "track_operation initial owner s =
    (let c = ax_actions s;
         (status, ops) = op_status (ax_now s) (or_id initial) (ac_operations c);
         current = (case status of None \<Rightarrow> initial | Some r \<Rightarrow> r);
         s1 = s\<lparr>ax_actions := c\<lparr>ac_operations := ops\<rparr>, ax_book := book_register (ax_now s) current owner (ax_book s)\<rparr>
     in case map_of (bk_records (ax_book s1)) (or_id current) of
          None \<Rightarrow> s1
        | Some r \<Rightarrow> emit_operation r s1)"

definition operation_unknown :: api_error where
  "operation_unknown = api_error_new ''operation-unknown'' ''Operation outcome is unknown or expired; do not replay''"

definition api_operation_status :: "str \<Rightarrow> str option \<Rightarrow> api_data api" where
  "api_operation_status i owner s =
    (if i = [] \<or> length i > 256 then (Inl (validation_error ''Invalid operation identity''), s)
     else let s1 = prune_book (api_refresh i s)
          in case map_of (bk_records (ax_book s1)) i of
               None \<Rightarrow> (Inl operation_unknown, s1)
             | Some r \<Rightarrow>
                 if rc_owner r = owner then (Inr (OperationData (rc_operation r) (Some (ax_epoch s1, rc_revision r))), s1)
                 else (Inl operation_unknown, s1))"

text \<open>The cancellation of the backend, waited for: the task is reaped and its terminal event sent.\<close>

definition backend_cancel :: "str \<Rightarrow> api_service \<Rightarrow> bool \<times> api_service" where
  "backend_cancel i s =
    (let (b, c) = service_cancel i (ax_actions s)
     in (b, s\<lparr>ax_actions :=
               (if b then c\<lparr>ac_operations := finish_cancel (ax_now s) i (reap i (ac_operations c))\<rparr> else c)\<rparr>))"

definition cancel_operation_owned :: "str \<Rightarrow> str option \<Rightarrow> api_service \<Rightarrow> bool \<times> api_service" where
  "cancel_operation_owned i owner s =
    (let s1 = refresh_operations s
     in case map_of (bk_records (ax_book s1)) i of
          None \<Rightarrow> (False, s1)
        | Some r \<Rightarrow>
            if rc_owner r = owner \<and> record_active r
            then (let (b, s2) = backend_cancel i s1 in (b, api_refresh i s2))
            else (False, s1))"

section \<open>Wipe\<close>

definition WIPE_TTL :: nat where "WIPE_TTL = 30 * 1000"

definition live_challenges :: "api_service \<Rightarrow> api_service" where
  "live_challenges s = s\<lparr>ax_challenges := filter (\<lambda>(i, w). wc_expires w > ax_now s) (ax_challenges s)\<rparr>"

definition insert_challenge :: "str \<Rightarrow> wipe_challenge \<Rightarrow> unit api" where
  "insert_challenge i w s = (Inr (), s\<lparr>ax_challenges := (i, w) # without i (ax_challenges s)\<rparr>)"

definition prepare_wipe :: "str option \<Rightarrow> api_data api" where
  "prepare_wipe owner =
     sbind fresh_uuid (\<lambda>uuid. \<lambda>s.
       let i = ''challenge-'' @ uuid; s1 = live_challenges s
       in sbind (insert_challenge i \<lparr>wc_owner = owner, wc_expires = ax_now s + WIPE_TTL\<rparr>) (\<lambda>_. sreturn (ChallengeData i)) s1)"

definition stale_action :: "str \<Rightarrow> api_error" where
  "stale_action message = api_error_new ''stale-action'' message"

definition take_challenge :: "str \<Rightarrow> str option \<Rightarrow> wipe_challenge api" where
  "take_challenge i owner s =
    (case map_of (ax_challenges s) i of
       Some w \<Rightarrow>
         if wc_owner w = owner then (Inr w, s\<lparr>ax_challenges := without i (ax_challenges s)\<rparr>)
         else (Inl (stale_action ''wipe challenge is unknown or already used''), s)
     | None \<Rightarrow> (Inl (stale_action ''wipe challenge is unknown or already used''), s))"

definition clear_edits :: "unit act" where
  "clear_edits c = (Inr (), service_clear c)"

definition resume_warning :: "(api_error, unit) result \<Rightarrow> operation_result \<Rightarrow> operation_result" where
  "resume_warning r op =
    (case r of
       Inr _ \<Rightarrow> op
     | Inl e \<Rightarrow> op\<lparr>or_warning := Some (''History was wiped; capture remains stopped: '' @ ae_message e)\<rparr>)"

definition commit_wipe :: "str \<Rightarrow> str \<Rightarrow> str option \<Rightarrow> api_data api" where
  "commit_wipe challenge_id response owner =
    (if response \<noteq> ''WIPE'' then sfail (validation_error ''wipe confirmation must be WIPE'')
     else sbind (take_challenge challenge_id owner) (\<lambda>challenge. \<lambda>s.
       if wc_expires challenge \<le> ax_now s then (Inl (stale_action ''wipe challenge expired''), s)
       else sbind (on_settings (quiesce_locked daemon_services)) (\<lambda>_.
            sbind (on_actions clear_edits) (\<lambda>_.
            sbind (on_actions service_wipe) (\<lambda>operation.
            sbind (stry (on_settings (resume_guard daemon_services))) (\<lambda>resumed.
              sreturn (OperationData (resume_warning resumed operation) None))))) s))"

end
