(* ===== verification/Api_Facts.thy ===== *)
theory Api_Facts
  imports Api_Service Service_Facts Backend_Properties
begin

text \<open>
  Facts of the API: what the settings manager does to a world whose capture has stopped and whose history is empty,
  and what a committed wipe went through.  \<open>triple\<close> is a Hoare triple over the world of the settings; it covers
  success and failure alike.
\<close>

section \<open>Triples over the world\<close>

definition triple :: "('w \<Rightarrow> bool) \<Rightarrow> ('w manager_state, 'a) stateful \<Rightarrow> ('w \<Rightarrow> bool) \<Rightarrow> bool" where
  "triple P m Q \<longleftrightarrow> (\<forall>s. P (ms_world s) \<longrightarrow> Q (ms_world (snd (m s))))"

lemma triple_use: "triple P m Q \<Longrightarrow> P (ms_world s) \<Longrightarrow> m s = (r, s') \<Longrightarrow> Q (ms_world s')"
  by (metis triple_def snd_conv)

lemma triple_bind:
  assumes "triple P m R" "\<And>v. triple R (f v) Q" "\<And>w. R w \<Longrightarrow> Q w"
  shows "triple P (sbind m f) Q"
  using assms unfolding triple_def sbind_def by (force split: prod.splits sum.splits)

lemma triple_weaken: "triple P m R \<Longrightarrow> (\<And>w. R w \<Longrightarrow> Q w) \<Longrightarrow> triple P m Q"
  by (auto simp: triple_def)

lemma triple_try [simp]: "triple P (stry m) Q = triple P m Q"
  by (simp add: triple_def stry_def split_def Let_def)

lemma triple_pure [simp]:
  "triple P (sreturn v) P" "triple P (sfail e) P" "triple P (slift r) P" "triple P (verify_capture sv b) P"
  "triple P (record_capture q) P" "triple P preferences P"
  by (simp_all add: triple_def sreturn_def sfail_def slift_def verify_capture_def record_capture_def preferences_def)

lemma triple_service: "triple P (service f) Q \<longleftrightarrow> (\<forall>w. P w \<longrightarrow> Q (snd (f w)))"
  unfolding triple_def service_def
  by (auto simp: split_def Let_def) (metis manager_state.select_convs(9))

section \<open>An empty history stays empty\<close>

definition emptied :: "capture_world \<Rightarrow> bool" where
  "emptied w \<longleftrightarrow> t_entries (tables_of (rt_sink (cw_runtime w))) = []"

definition idle :: "capture_world \<Rightarrow> bool" where
  "idle w \<longleftrightarrow> rt_worker (cw_runtime w) = None"

lemma tables_tape [simp]: "tables_of (s\<lparr>hs_tape := t\<rparr>) = tables_of s"
  by (simp add: tables_of_def)

lemma apply_policy_entries:
  assumes "t_entries (tables_of s) = []" shows "t_entries (tables_of (snd (store_apply_policy p s))) = []"
proof -
  have "t_entries t' = []" if a: "apply_policy_body p (tables_of s) = Inr ((), t')" for t'
  proof (cases "t_policy (tables_of s) = p")
    case False
    let ?t = "(tables_of s)\<lparr>t_policy := p\<rparr>"
    obtain t1 where ret: "retain p None ?t = Inr t1" and e: "t_entries t' = t_entries t1"
      using a False by (auto simp: apply_policy_body_def bump_Inr split: if_splits)
    have "t1 = retain_chain p [] ?t" using retain_result[OF ret] by simp
    then show ?thesis using retain_chain_rows[of _ p "[]" ?t] assms e by (cases "t_entries t1") auto
  qed (use a assms in \<open>simp add: apply_policy_body_def\<close>)
  then show ?thesis using store_apply_policy_state(1)[of p s] assms by metis
qed

lemma world_call_parts:
  "rt_worker (cw_runtime (snd (world_call m cw))) = rt_worker (cw_runtime cw)"
  "rt_sink (cw_runtime (snd (world_call m cw))) = snd (m ((rt_sink (cw_runtime cw))\<lparr>hs_tape := ws_tape (next_script cw)\<rparr>))"
  by (simp_all add: world_call_def split: prod.splits)

lemma policy_triples:
  "triple emptied (service (sv_policy daemon_services)) emptied" "triple emptied (service (sv_apply daemon_services p)) emptied"
  "triple (\<lambda>w. idle w \<and> emptied w) (service (sv_policy daemon_services)) (\<lambda>w. idle w \<and> emptied w)"
  by (simp_all add: triple_service daemon_services_def emptied_def idle_def world_call_parts store_get_policy_state apply_policy_entries)

lemma set_paused_idle:
  assumes "rt_worker rt = None" shows "rt_sink (snd (set_paused v sp rd b n rt)) = rt_sink rt"
  using assms by (auto simp: set_paused_def runtime_stop_def Let_def split: option.splits)

lemma pause_triple: "triple (\<lambda>w. idle w \<and> emptied w) (service (sv_set_paused daemon_services b n)) emptied"
proof -
  have "rt_sink (cw_runtime (snd (world_set_paused b n w))) = rt_sink (cw_runtime w)" if "idle w" for w
    using set_paused_idle[of "cw_runtime w"] that
    by (auto simp: world_set_paused_def idle_def Let_def split: prod.splits) (metis snd_conv)
  then show ?thesis by (simp add: triple_service daemon_services_def emptied_def)
qed

lemma close_admission_triple: "triple emptied (close_admission daemon_services) emptied"
  unfolding close_admission_def by (rule triple_bind[where R = emptied]) (simp_all add: policy_triples)

lemma quiesce_triple: "triple (\<lambda>w. idle w \<and> emptied w) (quiesce_locked daemon_services) emptied"
  unfolding quiesce_locked_def
  by (rule triple_bind[where R = "\<lambda>w. idle w \<and> emptied w"], simp)
    (auto intro!: triple_bind[where R = emptied] simp: pause_triple close_admission_triple)

lemma retention_triple:
  "triple (\<lambda>w. idle w \<and> emptied w) (retention_matches daemon_services v) (\<lambda>w. idle w \<and> emptied w)"
  unfolding retention_matches_def
  by (rule triple_bind[where R = "\<lambda>w. idle w \<and> emptied w"]) (simp_all add: policy_triples)

lemma drive_triple: "triple (\<lambda>w. idle w \<and> emptied w) (drive_capture daemon_services v) emptied"
proof -
  let ?P = "\<lambda>w. idle w \<and> emptied w"
  have a: "triple ?P (if cl_capture_paused v then sreturn True else retention_matches daemon_services v) ?P"
    by (simp add: retention_triple)
  have b: "triple ?P (sbind (quiesce_locked daemon_services) (\<lambda>_. sfail e :: (capture_world manager_state, unit) stateful)) emptied" for e
    by (rule triple_bind[OF quiesce_triple]) simp_all
  have c: "triple emptied (sbind (if cl_capture_paused v then close_admission daemon_services else sreturn ())
      (\<lambda>_. verify_capture daemon_services (cl_capture_paused v))) emptied"
    by (rule triple_bind[where R = emptied]) (simp_all add: close_admission_triple)
  have d: "triple ?P (if \<not> ok then sbind (quiesce_locked daemon_services) (\<lambda>_. sfail e)
      else sbind (service (sv_set_paused daemon_services (cl_capture_paused v) (cl_max_entry_bytes v))) (\<lambda>_.
        sbind (if cl_capture_paused v then close_admission daemon_services else sreturn ())
          (\<lambda>_. verify_capture daemon_services (cl_capture_paused v)))) emptied" for ok e
    using b triple_bind[OF pause_triple c] by (cases ok) (simp_all only: if_True if_False simp_thms)
  show ?thesis unfolding drive_capture_def by (rule triple_bind[OF a d]) simp
qed

lemma resume_triple: "triple (\<lambda>w. idle w \<and> emptied w) (resume_guard daemon_services) emptied"
proof -
  let ?P = "\<lambda>w. idle w \<and> emptied w"
  have a: "triple ?P (apply_capture daemon_services v) emptied" for v
    unfolding apply_capture_def
    by (rule triple_bind[where R = ?P], simp)
      (auto intro!: triple_bind[where R = emptied] simp: drive_triple)
  show ?thesis unfolding resume_guard_def by (rule triple_bind[where R = ?P]) (simp_all add: a)
qed

text \<open>Once capture is quiesced there is no worker.\<close>

lemma set_paused_stops:
  "set_paused v sp rd True n rt = (Inr (), rt') \<Longrightarrow> rt_worker rt' = None"
  by (auto simp: set_paused_def runtime_stop_def Let_def split: option.splits prod.splits sum.splits if_splits)

lemma quiesce_idle:
  assumes "quiesce_locked daemon_services m = (Inr (), m')" shows "idle (ms_world m')"
proof -
  obtain m1 where p: "service (sv_set_paused daemon_services True 0) (snd (record_capture (Inl ''Capture is quiesced for a policy transition'') m)) = (Inr (), m1)"
    and c: "close_admission daemon_services m1 = (Inr (), m')"
    using assms by (auto simp: quiesce_locked_def sbind_Inr stry_def Let_def split_def)
  have i: "idle (ms_world m1)" using p set_paused_stops
    by (auto simp: service_def daemon_services_def world_set_paused_def idle_def Let_def split: prod.splits)
  have "triple idle (close_admission daemon_services) idle" unfolding close_admission_def
    by (rule triple_bind[where R = idle]) (simp_all add: triple_service daemon_services_def idle_def world_call_parts)
  from triple_use[OF this i c] show ?thesis .
qed

section \<open>Wipe\<close>

lemma on_settings_Inr:
  "on_settings f s = (Inr v, s') \<longleftrightarrow> (\<exists>m. f (ax_settings s) = (Inr v, m) \<and> s' = s\<lparr>ax_settings := m\<rparr>)"
  by (auto simp: on_settings_def split: prod.splits sum.splits)

lemma on_actions_Inr:
  "on_actions f s = (Inr v, s') \<longleftrightarrow> (\<exists>c. f (lend_history s) = (Inr v, c) \<and> s' = return_history c s)"
  by (auto simp: on_actions_def split: prod.splits)

lemma return_history_parts [simp]:
  "ax_challenges (return_history c s) = ax_challenges s" "ax_actions (return_history c s) = c"
  "rt_worker (cw_runtime (ms_world (ax_settings (return_history c s)))) = rt_worker (cw_runtime (ms_world (ax_settings s)))"
  "rt_sink (cw_runtime (ms_world (ax_settings (return_history c s)))) = ac_history c"
  by (simp_all add: return_history_def Let_def)

lemma stry_Inr: "stry m s = (Inr r, s') \<longleftrightarrow> m s = (r, s')"
  by (auto simp: stry_def split: prod.splits)

lemma take_challenge_Inr:
  "take_challenge i owner s = (Inr w, s') \<longleftrightarrow>
     map_of (ax_challenges s) i = Some w \<and> wc_owner w = owner \<and> s' = s\<lparr>ax_challenges := without i (ax_challenges s)\<rparr>"
  by (auto simp: take_challenge_def split: option.splits if_splits)

lemma service_wipe_Inr:
  assumes "service_wipe c = (Inr op, c')"
  shows "t_entries (tables_of (ac_history c')) = [] \<and> ac_edits c' = ac_edits c"
proof -
  obtain c1 where d: "stop_operations c = (Inr (), c1)" and m: "on_history (mutate_sync [] None Wipe) c1 = (Inr op, c')"
    using assms by (auto simp: service_wipe_def backend_mutate_def sbind_Inr slift_def)
  have "ac_edits c1 = ac_edits c" using d by (auto simp: stop_operations_def split: prod.splits sum.splits)
  moreover obtain s where "mutate_sync [] None Wipe (ac_history c1) = (Inr op, s)" "c' = c1\<lparr>ac_history := s\<rparr>"
    using m by (auto simp: on_history_Inr)
  ultimately show ?thesis using wipe_entries_ok[of "ac_history c1" op s]
    by (auto simp: mutate_sync_def hbind_Inr hlift_def split: if_splits)
qed

lemma commit_wipe_Inr:
  assumes "commit_wipe i response owner s = (Inr data, s')"
  shows "response = ''WIPE'' \<and>
    (\<exists>w. map_of (ax_challenges s) i = Some w \<and> wc_owner w = owner \<and> ax_now s < wc_expires w) \<and>
    ax_challenges s' = without i (ax_challenges s) \<and> emptied (ms_world (ax_settings s')) \<and> ac_edits (ax_actions s') = []"
proof -
  have resp: "response = ''WIPE''" using assms by (auto simp: commit_wipe_def sfail_def split: if_splits)
  obtain w s1 where t: "take_challenge i owner s = (Inr w, s1)" and live: "ax_now s1 < wc_expires w"
    and k: "sbind (on_settings (quiesce_locked daemon_services)) (\<lambda>_.
            sbind (on_actions clear_edits) (\<lambda>_.
            sbind (on_actions service_wipe) (\<lambda>operation.
            sbind (stry (on_settings (resume_guard daemon_services))) (\<lambda>resumed.
              sreturn (OperationData (resume_warning resumed operation) None))))) s1 = (Inr data, s')"
    using assms resp by (auto simp: commit_wipe_def sbind_Inr not_le split: if_splits)
  obtain s2 s3 s4 op r where q: "on_settings (quiesce_locked daemon_services) s1 = (Inr (), s2)"
    and c: "on_actions clear_edits s2 = (Inr (), s3)" and wp: "on_actions service_wipe s3 = (Inr op, s4)"
    and re: "on_settings (resume_guard daemon_services) s4 = (r, s')"
    using k unfolding sbind_Inr stry_Inr by (auto simp: sreturn_def)
  obtain m2 where m2: "quiesce_locked daemon_services (ax_settings s1) = (Inr (), m2)" "s2 = s1\<lparr>ax_settings := m2\<rparr>"
    using q by (auto simp: on_settings_Inr)
  have s3: "s3 = return_history (service_clear (lend_history s2)) s2"
    using c by (auto simp: on_actions_Inr clear_edits_def)
  obtain c4 where c4: "service_wipe (lend_history s3) = (Inr op, c4)" "s4 = return_history c4 s3"
    using wp by (auto simp: on_actions_Inr)
  note w4 = service_wipe_Inr[OF c4(1)]
  have "idle (ms_world (ax_settings s4)) \<and> emptied (ms_world (ax_settings s4))"
    using quiesce_idle[OF m2(1)] w4 by (simp add: idle_def emptied_def c4(2) s3 m2(2))
  moreover obtain r' m5 where m5: "resume_guard daemon_services (ax_settings s4) = (r', m5)" "s' = s4\<lparr>ax_settings := m5\<rparr>"
    using re by (auto simp: on_settings_def split: prod.splits)
  ultimately have "emptied (ms_world m5)" using triple_use[OF resume_triple _ m5(1)] by simp
  moreover have "ac_edits (ax_actions s') = []" using w4 by (simp add: m5(2) c4(2) s3 lend_history_def service_clear_def)
  moreover have "ax_now s1 = ax_now s" using t by (auto simp: take_challenge_Inr ax_now_def)
  ultimately show ?thesis using resp t live by (auto simp: take_challenge_Inr m5(2) c4(2) s3 m2(2))
qed

lemma commit_wipe_unknown:
  assumes "map_of (ax_challenges s) i = None" shows "\<not> is_ok (fst (commit_wipe i response owner s))"
proof
  assume "is_ok (fst (commit_wipe i response owner s))"
  then obtain data s' where "commit_wipe i response owner s = (Inr data, s')" by (metis is_ok_iff prod.collapse)
  from commit_wipe_Inr[OF this] show False using assms by simp
qed

end
