(* ===== verification/Api_Dispatch.thy ===== *)
theory Api_Dispatch
  imports Api_Service
begin

text \<open>
  Dispatch of the API's methods, receipts and lifecycle events (\<open>src/src/api.rs\<close>), and what a subscription makes
  of them (\<open>src/src/daemon/subscription.rs\<close>).  \<open>api_env\<close> holds what stands outside a request: the codec and key of
  the cursors and the permits of the search, the compositor's answer for a session's target, and the external
  commands.  A decoder that refuses the parameters of a query does so after the first observation, as in the code;
  the other methods decode before they read any state.
\<close>

section \<open>Requests\<close>

record api_env =
  ev_codec :: codec
  ev_key :: bytes
  ev_permits :: nat
  ev_decode :: "bytes \<Rightarrow> target option"
  ev_output :: command_output
  ev_commands :: commands

datatype api_request =
    OperationStatus str
  | QueryHistory "(api_error, query_params) result"
  | RevisionHistory
  | Details str "nat option"
  | Entry entry_request
  | DeleteEntries "entry_target list"
  | Session session_request
  | WipePrepare
  | WipeCommit str str
  | WipeOther
  | SetPaused bool bool
  | Interactive interactive_screenshot
  | Screenshot screenshot_region
  | GetSettings
  | UpdateSettings settings_update
  | PublishSensitiveText str nat
  | PublishText str
  | PublishFiles file_selection
  | UnknownMethod str

fun method_of :: "api_request \<Rightarrow> str" where
  "method_of (OperationStatus _) = ''clipboard.operation.status''"
| "method_of (QueryHistory _) = ''clipboard.history.query''"
| "method_of RevisionHistory = ''clipboard.history.revision''"
| "method_of (Details _ _) = ''clipboard.entry.details''"
| "method_of (Entry r) =
     (case r of
        EntryAction _ \<Rightarrow> ''clipboard.entry.action''
      | EditBegin _ _ \<Rightarrow> ''clipboard.entry.edit.begin''
      | EditCommit _ \<Rightarrow> ''clipboard.entry.edit.commit''
      | EditCancel _ \<Rightarrow> ''clipboard.entry.edit.cancel''
      | UnknownEntry m \<Rightarrow> ''clipboard.entry.'' @ m)"
| "method_of (DeleteEntries _) = ''clipboard.entries.delete''"
| "method_of (Session r) =
     (case r of
        SessionBegin \<Rightarrow> ''clipboard.session.begin''
      | SessionEnd _ \<Rightarrow> ''clipboard.session.end''
      | SessionWait _ \<Rightarrow> ''clipboard.session.wait''
      | SessionHidden _ \<Rightarrow> ''clipboard.session.hidden''
      | UnknownSession m \<Rightarrow> ''clipboard.session.'' @ m)"
| "method_of WipePrepare = ''clipboard.history.wipe.prepare''"
| "method_of (WipeCommit _ _) = ''clipboard.history.wipe.commit''"
| "method_of WipeOther = ''clipboard.history.wipe.''"
| "method_of (SetPaused _ _) = ''clipboard.capture.setPaused''"
| "method_of (Interactive _) = ''clipboard.capture.interactive''"
| "method_of (Screenshot _) = ''clipboard.capture.screenshot''"
| "method_of GetSettings = ''clipboard.settings.get''"
| "method_of (UpdateSettings _) = ''clipboard.settings.update''"
| "method_of (PublishSensitiveText _ _) = ''clipboard.selection.publishSensitive''"
| "method_of (PublishText _) = ''clipboard.selection.publishText''"
| "method_of (PublishFiles _) = ''clipboard.selection.publishFiles''"
| "method_of (UnknownMethod m) = m"

definition action_of :: "api_request \<Rightarrow> str option" where
  "action_of r = (case r of Entry (EntryAction p) \<Rightarrow> Some (ap_action p) | _ \<Rightarrow> None)"

section \<open>Methods\<close>

definition operation_data :: "operation_result api \<Rightarrow> api_data api" where
  "operation_data m = sbind m (\<lambda>op. sreturn (OperationData op None))"

definition entry_data :: "entry_reply \<Rightarrow> api_data" where
  "entry_data r = (case r of ActionDone op \<Rightarrow> OperationData op None | _ \<Rightarrow> EntryData r)"

definition history_revision :: "api_data api" where
  "history_revision = sbind observe_history (\<lambda>(token, p). sreturn (RevisionData token p))"

definition stale_history :: api_error where
  "stale_history = api_error_new ''stale-history'' ''History changed during the query; refresh without replaying effects''"

definition query_history :: "api_env \<Rightarrow> (api_error, query_params) result \<Rightarrow> str option \<Rightarrow> api_data api" where
  "query_history env params owner =
     sbind (on_settings get_settings) (\<lambda>settings.
     sbind change_token (\<lambda>before.
     sbind (observe_token before) (\<lambda>_.
     sbind (slift params) (\<lambda>p. \<lambda>s.
       sbind (on_actions (\<lambda>c.
           let (r, h) = service_query (ev_codec env) (ev_key env) (ax_now s div 1000) (ev_permits env) p
                          (cl_collapse_self_echoes settings) owner (ac_history c)
           in (r, c\<lparr>ac_history := h\<rparr>))) (\<lambda>reply.
       sbind change_token (\<lambda>after.
       sbind (observe_token after) (\<lambda>revision.
         if before \<noteq> after then sfail stale_history
         else sreturn (HistoryData reply (ax_epoch s, revision) after)))) s))))"

definition api_get_settings :: "api_data api" where
  "api_get_settings =
     sbind (stry (on_settings (refresh_capture daemon_services))) (\<lambda>_.
     sbind (on_settings get_settings) (\<lambda>settings. \<lambda>s.
     sbind (on_settings (retention_state daemon_services)) (\<lambda>retention.
       sreturn (SettingsData settings (capture_view_of (ax_settings s)) retention)) s))"

definition dispatch_policy :: "api_env \<Rightarrow> api_request \<Rightarrow> api_data api" where
  "dispatch_policy env r =
    (case r of
       SetPaused paused private_mode \<Rightarrow>
         sbind (on_settings (manager_set_paused daemon_services paused private_mode)) (\<lambda>v. sreturn (PausedData v))
     | Interactive _ \<Rightarrow> sbind max_entry_bytes (\<lambda>_. operation_data (on_actions service_interactive))
     | Screenshot region \<Rightarrow>
         sbind max_entry_bytes (\<lambda>n. operation_data (on_actions (service_screenshot (ev_commands env) region n)))
     | GetSettings \<Rightarrow> api_get_settings
     | UpdateSettings u \<Rightarrow> sbind (on_settings (update_settings daemon_services u)) (\<lambda>v. sreturn (UpdatedData v))
     | PublishSensitiveText text seconds \<Rightarrow> operation_data (on_actions (service_publish_sensitive text seconds))
     | PublishText text \<Rightarrow> sbind max_entry_bytes (\<lambda>n. operation_data (on_actions (service_publish_text text n)))
     | PublishFiles selection \<Rightarrow> sbind max_entry_bytes (\<lambda>n. operation_data (on_actions (service_publish_files selection n)))
     | _ \<Rightarrow> sfail (api_error_new ''unsupported-method'' (''Unsupported clip-api method: '' @ method_of r)))"

definition dispatch_wipe :: "api_request \<Rightarrow> str option \<Rightarrow> api_data api" where
  "dispatch_wipe r owner =
    (case r of
       WipePrepare \<Rightarrow> prepare_wipe owner
     | WipeCommit i response \<Rightarrow> commit_wipe i response owner
     | _ \<Rightarrow> sfail (unsupported_error ''Unsupported wipe method''))"

definition dispatch_method :: "api_env \<Rightarrow> api_request \<Rightarrow> str option \<Rightarrow> api_data api" where
  "dispatch_method env r owner =
    (case r of
       OperationStatus i \<Rightarrow> api_operation_status i owner
     | RevisionHistory \<Rightarrow> history_revision
     | Details i revision \<Rightarrow> sbind (on_actions (load_details i revision)) (\<lambda>d. sreturn (DetailsData d))
     | Entry e \<Rightarrow> sbind max_entry_bytes (\<lambda>n. sbind (on_actions (dispatch_entry e n owner)) (\<lambda>d. sreturn (entry_data d)))
     | DeleteEntries entries \<Rightarrow> operation_data (on_actions (delete_entries_request entries))
     | Session q \<Rightarrow>
         sbind fresh_uuid (\<lambda>uuid.
         sbind (on_actions (dispatch_session (ev_decode env) (ev_output env) uuid q owner)) (\<lambda>v. sreturn (SessionData v)))
     | WipePrepare \<Rightarrow> dispatch_wipe r owner
     | WipeCommit _ _ \<Rightarrow> dispatch_wipe r owner
     | WipeOther \<Rightarrow> dispatch_wipe r owner
     | QueryHistory p \<Rightarrow> query_history env p owner
     | _ \<Rightarrow> dispatch_policy env r)"

section \<open>Receipts and events\<close>

definition started_operation :: "api_data \<Rightarrow> operation_result option" where
  "started_operation d =
    (case d of OperationData op _ \<Rightarrow> if or_status op = ''started'' then Some op else None | _ \<Rightarrow> None)"

definition stamp_receipt :: "str \<Rightarrow> api_data \<Rightarrow> api_data" where
  "stamp_receipt epoch d = (case d of OperationData op None \<Rightarrow> OperationData op (Some (epoch, 1)) | _ \<Rightarrow> d)"

definition operation_event :: "api_data \<Rightarrow> str option \<Rightarrow> lifecycle_event option" where
  "operation_event d owner =
    (case d of
       OperationData op _ \<Rightarrow>
         if or_status op \<noteq> ''started''
         then Some \<lparr>le_stream = STREAM_OPERATION, le_event = or_status op, le_data = d, le_audience = Owner owner\<rparr>
         else None
     | _ \<Rightarrow> None)"

definition policy_stream :: "str \<Rightarrow> api_data \<Rightarrow> (str \<times> str) option" where
  "policy_stream method d =
    (if method = ''clipboard.capture.setPaused'' \<or> method = ''clipboard.capture.screenshot''
     then Some (STREAM_CAPTURE, ''changed'')
     else if method = ''clipboard.session.begin''
     then Some (STREAM_SESSION,
       (case d of SessionData (Some v) \<Rightarrow> if vw_target_available v then ''completed'' else ''fallback'' | _ \<Rightarrow> ''fallback''))
     else if method = ''clipboard.session.hidden'' \<or> method = ''clipboard.session.end''
     then Some (STREAM_SESSION, ''completed'')
     else if method = ''clipboard.entry.action''
     then (case d of
             OperationData op _ \<Rightarrow>
               if or_action op \<in> {''paste'', ''image-as-file''} then Some (STREAM_SESSION, or_status op) else None
           | _ \<Rightarrow> None)
     else None)"

definition policy_event :: "str \<Rightarrow> api_data \<Rightarrow> str option \<Rightarrow> lifecycle_event option" where
  "policy_event method d owner =
     map_option (\<lambda>(stream, event).
       \<lparr>le_stream = stream, le_event = event, le_data = d,
        le_audience = (if method = ''clipboard.capture.setPaused'' then Everyone else Owner owner)\<rparr>) (policy_stream method d)"

definition publish_lifecycle :: "str \<Rightarrow> api_data \<Rightarrow> str option \<Rightarrow> api_service \<Rightarrow> api_service" where
  "publish_lifecycle method d owner s =
     fold emit_event (List.map_filter id [operation_event d owner, policy_event method d owner]) s"

definition dispatch_reserved :: "api_env \<Rightarrow> api_request \<Rightarrow> str option \<Rightarrow> api_data api" where
  "dispatch_reserved env r owner s =
    (let status_request = (case r of OperationStatus _ \<Rightarrow> True | _ \<Rightarrow> False) in
     case dispatch_method env r owner s of
       (Inl e, s1) \<Rightarrow> (Inl e, s1)
     | (Inr d, s1) \<Rightarrow>
         (case (if status_request then None else started_operation d) of
            Some op \<Rightarrow> api_operation_status (or_id op) owner (track_operation op owner s1)
          | None \<Rightarrow>
              (let d1 = stamp_receipt (ax_epoch s1) d
               in (Inr d1, if status_request then s1 else publish_lifecycle (method_of r) d1 owner s1))))"

definition release_reservation :: "str \<Rightarrow> api_service \<Rightarrow> api_service" where
  "release_reservation i s = s\<lparr>ax_book := drop_reserved i (ax_book s)\<rparr>"

definition reserve_operation :: "str option \<Rightarrow> str api" where
  "reserve_operation owner =
     sbind fresh_uuid (\<lambda>uuid. \<lambda>s.
       let (r, b) = book_reserve (ax_now s) uuid owner (ax_book s) in (r, s\<lparr>ax_book := b\<rparr>))"

definition dispatch_owned :: "api_env \<Rightarrow> api_request \<Rightarrow> str option \<Rightarrow> api_data api" where
  "dispatch_owned env r owner s =
    (let s1 = refresh_operations s in
     if may_start (method_of r) (action_of r)
     then (case reserve_operation owner s1 of
             (Inl e, s2) \<Rightarrow> (Inl e, s2)
           | (Inr i, s2) \<Rightarrow> (let (q, s3) = dispatch_reserved env r owner s2 in (q, release_reservation i s3)))
     else dispatch_reserved env r owner s1)"

definition publish_selection_owned :: "str \<Rightarrow> bytes \<Rightarrow> str option \<Rightarrow> api_data api" where
  "publish_selection_owned mime bs owner =
     sbind max_entry_bytes (\<lambda>n.
     sbind (operation_data (on_actions (service_publish mime bs n))) (\<lambda>d. \<lambda>s.
       let d1 = stamp_receipt (ax_epoch s) d
       in (Inr d1, publish_lifecycle ''clipboard.selection.publish'' d1 owner s)))"

section \<open>Owners\<close>

definition cancel_owned :: "str \<Rightarrow> api_service \<Rightarrow> api_service" where
  "cancel_owned i s = api_refresh i (snd (backend_cancel i s))"

definition api_release_owner :: "str \<Rightarrow> api_service \<Rightarrow> api_service" where
  "api_release_owner owner s =
    (let s1 = s\<lparr>ax_actions := service_release_owner owner (ax_actions s)\<rparr>;
         ids = map fst (filter (\<lambda>(i, r). record_active r \<and> rc_owner r = Some owner) (bk_records (ax_book s1)));
         s2 = fold cancel_owned ids s1
     in s2\<lparr>ax_challenges := filter (\<lambda>(i, w). wc_owner w \<noteq> Some owner) (ax_challenges s2)\<rparr>)"

definition resource_owners :: "api_service \<Rightarrow> str set \<times> api_service" where
  "resource_owners s =
    (let (owners, c) = service_owners (ax_actions s);
         running = List.map_filter rc_owner (active_records (ax_book s));
         s1 = live_challenges (s\<lparr>ax_actions := c\<rparr>)
     in (set (owners @ running @ List.map_filter (\<lambda>(i, w). wc_owner w) (ax_challenges s1)), s1))"

section \<open>Subscriptions\<close>

definition STREAM_HISTORY :: str where "STREAM_HISTORY = ''clipboard.history.changed''"
definition STREAM_CURRENT :: str where "STREAM_CURRENT = ''clipboard.current.changed''"

definition STREAMS :: "str list" where
  "STREAMS = [STREAM_HISTORY, STREAM_CURRENT, STREAM_OPERATION, STREAM_CAPTURE, STREAM_SESSION]"

record requested_streams =
  rs_history :: bool
  rs_current :: bool
  rs_lifecycle :: bool

definition parse_streams :: "str list \<Rightarrow> requested_streams option" where
  "parse_streams streams =
    (if streams = [] \<or> list_ex (\<lambda>x. x \<notin> set STREAMS) streams then None
     else Some \<lparr>rs_history = (STREAM_HISTORY \<in> set streams), rs_current = (STREAM_CURRENT \<in> set streams),
                rs_lifecycle = (STREAM_OPERATION \<in> set streams \<or> STREAM_CAPTURE \<in> set streams \<or> STREAM_SESSION \<in> set streams)\<rparr>)"

definition watches_clipboard :: "requested_streams \<Rightarrow> bool" where
  "watches_clipboard r \<longleftrightarrow> rs_history r \<or> rs_current r"

record history_watch =
  hw_previous :: "(nat \<times> publication) option"
  hw_unavailable :: bool

datatype history_update = Changed "nat \<times> publication" | Unavailable api_error

definition watch_update ::
    "(api_error, nat \<times> publication) result \<Rightarrow> history_watch \<Rightarrow> history_update option \<times> history_watch" where
  "watch_update result w =
    (case result of
       Inr observation \<Rightarrow>
         if hw_unavailable w \<or> hw_previous w \<noteq> Some observation
         then (Some (Changed observation), \<lparr>hw_previous = Some observation, hw_unavailable = False\<rparr>)
         else (None, w\<lparr>hw_unavailable := False\<rparr>)
     | Inl e \<Rightarrow>
         if \<not> hw_unavailable w then (Some (Unavailable e), w\<lparr>hw_unavailable := True\<rparr>) else (None, w))"

text \<open>One tick of the poll: without receivers the watch is forgotten.\<close>

definition watch_tick :: "nat \<Rightarrow> history_watch \<Rightarrow> api_service \<Rightarrow> history_update option \<times> history_watch \<times> api_service" where
  "watch_tick receivers w s =
    (if receivers = 0 then (None, \<lparr>hw_previous = None, hw_unavailable = False\<rparr>, s)
     else let (r, s1) = observe_history s; (u, w1) = watch_update r w in (u, w1, s1))"

definition delivered :: "str list \<Rightarrow> str \<Rightarrow> lifecycle_event \<Rightarrow> bool" where
  "delivered streams owner e \<longleftrightarrow> visible_to e (Some owner) \<and> le_stream e \<in> set streams"

definition lag_events :: "str list \<Rightarrow> (str \<times> str) list" where
  "lag_events streams = map (\<lambda>x. (x, ''gap'')) (filter (\<lambda>x. x \<in> {STREAM_OPERATION, STREAM_CAPTURE, STREAM_SESSION}) streams)"

text \<open>The streams a history update is emitted on, with the event of each.\<close>

definition update_events :: "requested_streams \<Rightarrow> history_update \<Rightarrow> (str \<times> str) list" where
  "update_events r u =
    (let (a, b) = (case u of Changed _ \<Rightarrow> (''reset'', ''changed'') | Unavailable _ \<Rightarrow> (''unavailable'', ''unavailable''))
     in (if rs_history r then [(STREAM_HISTORY, a)] else []) @ (if rs_current r then [(STREAM_CURRENT, b)] else []))"

end
