(* ===== verification/Api_Properties.thy ===== *)
theory Api_Properties
  imports Api_Facts Api_Dispatch
begin

text \<open>
  The properties of the API: a wipe needs a fresh challenge of its own caller, uses it up and leaves nothing, and
  what a request publishes is seen by its owner only.
\<close>

section \<open>Wipe\<close>

text \<open>
  C31. A wipe is confirmed, once, by the one who prepared it: when \<open>commit_wipe\<close> succeeds, the response was the
  word WIPE, the challenge was the caller's own and had not expired, no entry is left in the history after capture
  has resumed (or failed to), every edit lease is gone, and no later commit with that challenge succeeds, whoever
  sends it.
\<close>

theorem wipe_needs_own_challenge:
  assumes "commit_wipe i response owner s = (Inr data, s')"
  shows "response = ''WIPE'' \<and>
    (\<exists>w. map_of (ax_challenges s) i = Some w \<and> wc_owner w = owner \<and> ax_now s < wc_expires w) \<and>
    t_entries (tables_of (shared_history s')) = [] \<and> ac_edits (ax_actions s') = [] \<and>
    (\<forall>response' other. \<not> is_ok (fst (commit_wipe i response' other s')))"
proof -
  have "map_of (ax_challenges s') i = None" using commit_wipe_Inr[OF assms] by (simp add: map_of_without)
  then show ?thesis using commit_wipe_Inr[OF assms] commit_wipe_unknown by (simp add: emptied_def shared_history_def)
qed

definition closed_one :: tables where
  "closed_one = demo_one\<lparr>t_policy := (t_policy demo_one)\<lparr>sp_admission := False\<rparr>\<rparr>"

definition demo_world :: capture_world where
  "demo_world =
     \<lparr>cw_runtime = \<lparr>rt_worker = None, rt_attached = True, rt_terminal_error = None, rt_sink = calm_state closed_one\<rparr>,
      cw_script = (\<lambda>_. \<lparr>ws_tape = (\<lambda>_. calm_outcome), ws_spawn_ok = True, ws_skip = False, ws_rounds = [], ws_timed_out = False,
        ws_panicked = False, ws_ready = Ready (Inr ())\<rparr>)\<rparr>"

definition demo_clip_service :: clip_service where
  "demo_clip_service =
     \<lparr>ac_history = calm_state closed_one, ac_operations = no_operations, ac_drain = (\<lambda>ops. (Inr (), ops)), ac_starts = True,
      ac_sessions = \<lparr>sm_sessions = [], sm_now = 0, sm_log = []\<rparr>, ac_edits = [],
      ac_desktop = \<lparr>dk_spawns = (\<lambda>_. True), dk_reveals = (\<lambda>_. Inr ()), dk_launched = []\<rparr>\<rparr>"

definition demo_api :: api_service where
  "demo_api = (new_api ''e'' (isolated_manager demo_world) demo_clip_service)
     \<lparr>ax_challenges := [(''challenge-1'', \<lparr>wc_owner = Some ''picker'', wc_expires = WIPE_TTL\<rparr>)]\<rparr>"

lemma closed_policy: "valid_policy (t_policy closed_one)"
  by (simp add: closed_one_def demo_one_def demo_empty_def demo_policy_def valid_policy_def MAX_ENTRY_BYTES_def i64_max_def)

lemma calm_tape: "(calm_state t)\<lparr>hs_tape := (\<lambda>_. calm_outcome)\<rparr> = calm_state t"
  by (simp add: calm_state_def)

lemma closed_calls:
  "store_get_policy (calm_state closed_one) = (Inr (t_policy closed_one), calm_state closed_one)"
  "store_apply_policy (t_policy closed_one) (calm_state closed_one) = (Inr (), calm_state closed_one)"
proof -
  have "store_call ReqPolicy (calm_state closed_one) = (Inr (RepPolicy (t_policy closed_one)), calm_state closed_one)"
    by (rule calm_call) (simp_all add: reply_with_def db_read_def sound_engine_def)
  then show "store_get_policy (calm_state closed_one) = (Inr (t_policy closed_one), calm_state closed_one)"
    by (simp add: store_get_policy_def hist_defs)
  have "store_call (ReqApplyPolicy (t_policy closed_one)) (calm_state closed_one) = (Inr RepUnit, calm_state closed_one)"
    by (rule calm_call)
      (simp_all add: reply_with_def apply_policy_def closed_policy transaction_def run_body_def apply_policy_body_def sound_engine_def)
  then show "store_apply_policy (t_policy closed_one) (calm_state closed_one) = (Inr (), calm_state closed_one)"
    by (simp add: store_apply_policy_def hist_defs)
qed

lemma demo_world_calls:
  "world_call store_get_policy demo_world = (Inr (t_policy closed_one), demo_world)"
  "world_call (store_apply_policy (t_policy closed_one)) demo_world = (Inr (), demo_world)"
  "world_set_paused True 0 demo_world = (Inr (), demo_world)"
  by (simp_all add: world_call_def world_set_paused_def set_paused_def runtime_stop_def demo_world_def next_script_def advance_def
      closed_calls calm_tape Let_def)

lemma demo_quiesce: "\<exists>m. quiesce_locked daemon_services (isolated_manager demo_world) = (Inr (), m) \<and> ms_world m = demo_world"
proof -
  have p: "(t_policy closed_one)\<lparr>sp_admission := False\<rparr> = t_policy closed_one" by (simp add: closed_one_def)
  show ?thesis
    by (simp add: quiesce_locked_def close_admission_def record_capture_def sbind_def stry_def service_def daemon_services_def
        isolated_manager_def demo_world_calls p)
qed

lemma closed_wipe: "\<exists>r s'. wipe_entries (calm_state closed_one) = (Inr r, s')"
  by (rule calm_wipe[where t' = "(delete_entries (\<lambda>_. True) closed_one)\<lparr>t_inline_echoes := [], t_revision := 2\<rparr>"])
    (simp add: wipe_body_def bump_def delete_entries_def closed_one_def demo_two_simps)

lemma demo_commit_wipe: "\<exists>data s'. commit_wipe ''challenge-1'' ''WIPE'' (Some ''picker'') demo_api = (Inr data, s')"
proof -
  obtain m where m: "quiesce_locked daemon_services (isolated_manager demo_world) = (Inr (), m)" "ms_world m = demo_world"
    using demo_quiesce by blast
  obtain r h where w: "wipe_entries (calm_state closed_one) = (Inr r, h)" using closed_wipe by blast
  let ?s1 = "demo_api\<lparr>ax_challenges := []\<rparr>" and ?s2 = "demo_api\<lparr>ax_challenges := [], ax_settings := m\<rparr>"
  have t: "take_challenge ''challenge-1'' (Some ''picker'') demo_api =
      (Inr \<lparr>wc_owner = Some ''picker'', wc_expires = WIPE_TTL\<rparr>, ?s1)"
    by (simp add: take_challenge_def demo_api_def without_def)
  have now: "ax_now ?s1 < WIPE_TTL" by (simp add: ax_now_def demo_api_def new_api_def ac_now_def demo_clip_service_def WIPE_TTL_def)
  have q: "on_settings (quiesce_locked daemon_services) ?s1 = (Inr (), ?s2)"
    by (simp add: on_settings_def demo_api_def new_api_def m(1))
  have lend: "lend_history ?s2 = demo_clip_service"
    by (simp add: lend_history_def shared_history_def m(2) demo_world_def demo_api_def new_api_def demo_clip_service_def calm_tape[simplified])
  obtain s3 where c: "on_actions clear_edits ?s2 = (Inr (), s3)" "s3 = return_history (service_clear demo_clip_service) ?s2"
    by (simp add: on_actions_def clear_edits_def lend)
  have lend3: "lend_history s3 = demo_clip_service"
    by (simp add: lend_history_def shared_history_def c(2)) (simp add: service_clear_def demo_clip_service_def calm_tape[simplified])
  have "stop_operations demo_clip_service = (Inr (), demo_clip_service)"
    by (simp add: stop_operations_def demo_clip_service_def)
  moreover have "on_history (mutate_sync [] None Wipe) demo_clip_service = (Inr r, demo_clip_service\<lparr>ac_history := h\<rparr>)"
    using w by (simp add: on_history_Inr mutate_sync_def hbind_def hlift_def require_revision_def demo_clip_service_def)
  ultimately have "service_wipe demo_clip_service = (Inr r, demo_clip_service\<lparr>ac_history := h\<rparr>)"
    by (simp add: service_wipe_def backend_mutate_def sbind_def slift_def require_revision_def)
  then obtain s4 where "on_actions service_wipe s3 = (Inr r, s4)" by (simp add: on_actions_def lend3)
  then show ?thesis using t now q c(1)
    by (auto simp: commit_wipe_def sbind_def stry_def sreturn_def not_le split: prod.splits)
qed

theorem wipe_needs_own_challenge_witness:
  "\<exists>data s'. commit_wipe ''challenge-1'' ''WIPE'' (Some ''picker'') demo_api = (Inr data, s') \<and>
     t_entries (tables_of (shared_history s')) = [] \<and> t_entries (tables_of (shared_history demo_api)) \<noteq> [] \<and>
     \<not> is_ok (fst (commit_wipe ''challenge-1'' ''WIPE'' (Some ''picker'') s'))"
proof -
  obtain data s' where r: "commit_wipe ''challenge-1'' ''WIPE'' (Some ''picker'') demo_api = (Inr data, s')"
    using demo_commit_wipe by blast
  have "t_entries (tables_of (shared_history demo_api)) \<noteq> []"
    by (simp add: shared_history_def demo_api_def new_api_def isolated_manager_def demo_world_def closed_one_def demo_two_simps)
  then show ?thesis using wipe_needs_own_challenge[OF r] r by blast
qed

section \<open>Operations\<close>

text \<open>
  C32. Started operations are bounded: however the requests of the owners interleave with refreshes, dropped
  reservations and time, at most 64 registered operations are active, at most 16 of one owner, and the registry
  holds at most 256 records, one per operation.
\<close>

theorem active_operations_bounded:
  assumes "book_reachable s"
  shows "length (active_records (bs_book s)) \<le> 64 \<and>
    length (filter (\<lambda>r. rc_owner r = owner) (active_records (bs_book s))) \<le> 16 \<and>
    length (bk_records (bs_book s)) \<le> 256 \<and> distinct (map fst (bk_records (bs_book s)))"
proof -
  have inv: "load (\<lambda>_. True) s \<le> 64" "load (\<lambda>x. x = owner) s \<le> 16"
    "length (bk_records (bs_book s)) \<le> 256" "distinct (map fst (bk_records (bs_book s)))"
    using book_reachable_inv[OF assms]
    by (simp_all add: book_inv_def MAX_ACTIVE_def MAX_OWNER_ACTIVE_def MAX_RECORDS_def)
  have "active_count P (bs_book s) \<le> load P s" for P by (simp add: load_def)
  then show ?thesis using inv active_records_count[of "\<lambda>_. True" "bs_book s"] active_records_count[of "\<lambda>x. x = owner" "bs_book s"]
    by (simp add: le_trans) (metis le_trans)
qed

definition demo_operation :: operation_result where
  "demo_operation = (completed ''1'' ''annotate'' ''Image editor started'')\<lparr>or_status := ''started''\<rparr>"

definition demo_booked :: book_state where
  "demo_booked =
     \<lparr>bs_book = book_register 0 demo_operation (Some ''a'') (snd (book_reserve 0 ''u'' (Some ''a'') \<lparr>bk_records = [], bk_pending = []\<rparr>)),
      bs_used = [''u''], bs_now = 0\<rparr>"

lemma demo_booked_reachable: "book_reachable demo_booked"
proof -
  let ?s0 = "\<lparr>bs_book = \<lparr>bk_records = [], bk_pending = []\<rparr>, bs_used = [], bs_now = 0\<rparr>"
  let ?s1 = "?s0\<lparr>bs_book := snd (book_reserve (bs_now ?s0) ''u'' (Some ''a'') (bs_book ?s0))\<rparr>"
  have "book_step ?s0 ?s1" by (rule bk_reserve) simp_all
  then have r: "book_reachable ?s1" by (rule br_step[OF br_init])
  have "book_step ?s1 (?s1\<lparr>bs_book := book_register (bs_now ?s1) demo_operation (Some ''a'') (bs_book ?s1), bs_used := ''u'' # bs_used ?s1\<rparr>)"
    by (rule bk_register)
      (simp_all add: book_reserve_def book_prune_def active_records_def MAX_ACTIVE_def MAX_OWNER_ACTIVE_def Let_def)
  from br_step[OF r this] show ?thesis by (simp add: demo_booked_def)
qed

theorem active_operations_bounded_witness:
  "length (active_records (bs_book demo_booked)) \<le> 64 \<and> active_records (bs_book demo_booked) \<noteq> []"
proof -
  have "active_records (bs_book demo_booked) \<noteq> []"
    by (simp add: demo_booked_def book_register_def book_reserve_def book_prune_def make_room_def active_records_def
        record_active_def demo_operation_def MAX_ACTIVE_def MAX_OWNER_ACTIVE_def MAX_RECORDS_def Let_def)
  then show ?thesis using active_operations_bounded[OF demo_booked_reachable] by blast
qed

end
