(* ===== verification/Secret_Selection.thy ===== *)
theory Secret_Selection
  imports Selection
begin

text \<open>
  The owner of a sensitive selection (\<open>src/src/selection/secret.rs\<close>): a thread with a connection of its own that
  offers a short text, marked as sensitive, until it expires, loses the selection, or its publisher has given up
  waiting.  One \<open>secret_tick\<close> is one round of the loop, with what the compositor sent, the clock and the channel to
  the publisher as its input; returning drops the connection, and with it the offers.  The logs of selections and
  of what was sent are history only.  Times are milliseconds.
\<close>

section \<open>State\<close>


definition SECRET_OWNERS :: nat where "SECRET_OWNERS = 16"



section \<open>Events\<close>








section \<open>The loop\<close>








text \<open>Admission of a new owner: the count of live ones.\<close>

definition secret_admit :: "bytes \<Rightarrow> nat \<Rightarrow> nat \<Rightarrow> (str, nat) result" where
  "secret_admit text seconds owners =
    (case validate_sensitive text seconds of
       Inl e \<Rightarrow> Inl e
     | Inr _ \<Rightarrow> if owners < SECRET_OWNERS then Inr (owners + 1) else Inl ''Too many sensitive clipboard owners'')"

text \<open>What the publisher makes of the acknowledgement, which may not come within three seconds, and the flag it
  raises for the thread.\<close>

definition secret_verdict :: "(str, unit) result option \<Rightarrow> (str, unit) result \<times> bool" where
  "secret_verdict answer =
    (let r = (case answer of None \<Rightarrow> Inl ''Sensitive clipboard ownership was not acknowledged'' | Some v \<Rightarrow> v)
     in (r, \<not> is_ok r))"

section \<open>Invariant\<close>

















end
