(* ===== verification/Daemon_Owners.thy ===== *)
theory Daemon_Owners
  imports Api_Dispatch
begin

text \<open>
  Callers of the daemon and the life of what they hold (\<open>src/src/daemon/owner.rs\<close>, the calls of
  \<open>src/src/daemon.rs\<close> and \<open>src/src/daemon/socket.rs\<close>).  A caller on the bus is probed before and after its call,
  a socket session is asked whether it is closed; a caller that is gone has what it held released.  The service
  boundary, the monitor of bus names and the registry of subscriptions are libraries: their answers are arguments.
\<close>

section \<open>Callers\<close>

datatype caller = Dbus str | Socket str

fun caller_id :: "caller \<Rightarrow> str" where
  "caller_id (Dbus owner) = owner"
| "caller_id (Socket owner) = owner"

text \<open>One probe of a bus name: the stopped flag, the answer of the monitor (\<open>None\<close> an error), the flag again.\<close>

record probe =
  pb_stopped :: bool
  pb_owned :: "bool option"
  pb_stopped_after :: bool

definition alive :: "probe \<Rightarrow> bool" where
  "alive p \<longleftrightarrow> \<not> pb_stopped p \<and> (case pb_owned p of Some b \<Rightarrow> b | None \<Rightarrow> False) \<and> \<not> pb_stopped_after p"

record liveness =
  lv_first :: probe
  lv_last :: probe
  lv_closed_first :: bool
  lv_closed_last :: bool

definition caller_unavailable :: api_error where
  "caller_unavailable = api_error_new ''owner-unavailable'' ''Clipboard caller is unavailable''"

definition owners_dispatch :: "probe \<Rightarrow> probe \<Rightarrow> api_env \<Rightarrow> api_request \<Rightarrow> str \<Rightarrow> api_data api" where
  "owners_dispatch before after env r owner s =
    (if \<not> alive before then (Inl caller_unavailable, api_release_owner owner s)
     else let (response, s1) = dispatch_owned env r (Some owner) s
          in (response, if \<not> alive after then api_release_owner owner s1 else s1))"

definition caller_dispatch :: "liveness \<Rightarrow> api_env \<Rightarrow> api_request \<Rightarrow> caller \<Rightarrow> api_data api" where
  "caller_dispatch lv env r c s =
    (case c of
       Dbus owner \<Rightarrow> owners_dispatch (lv_first lv) (lv_last lv) env r owner s
     | Socket owner \<Rightarrow>
         if lv_closed_first lv then (Inl caller_unavailable, s)
         else let (response, s1) = dispatch_owned env r (Some owner) s
              in (response, if lv_closed_last lv then api_release_owner owner s1 else s1))"

section \<open>Calls\<close>

datatype daemon_reply =
    BoundaryReply str
  | ErrorReply api_error
  | DataReply api_data
  | CancelledReply str str

definition reply_of :: "(api_error, api_data) result \<Rightarrow> daemon_reply" where
  "reply_of r = (case r of Inl e \<Rightarrow> ErrorReply e | Inr d \<Rightarrow> DataReply d)"

definition outcome_unknown :: api_error where
  "outcome_unknown = api_error_new ''outcome-unknown'' ''Clipboard outcome is unknown; do not replay''"

text \<open>
  \<open>boundary\<close> answers with the response that refuses a call, \<open>parse\<close> reads the parameters, and \<open>joined\<close> tells
  whether the task of the call could be joined and its response encoded.
\<close>

definition call_owned ::
    "(str option \<Rightarrow> str \<Rightarrow> str \<Rightarrow> str option) \<Rightarrow> (str \<Rightarrow> str \<Rightarrow> api_request option) \<Rightarrow> bool \<Rightarrow> liveness \<Rightarrow> api_env \<Rightarrow>
       str \<Rightarrow> str \<Rightarrow> caller \<Rightarrow> api_service \<Rightarrow> daemon_reply \<times> api_service" where
  "call_owned boundary parse joined lv env method params_json c s =
    (case boundary (Some (caller_id c)) method params_json of
       Some response \<Rightarrow> (BoundaryReply response, s)
     | None \<Rightarrow>
         (case parse method params_json of
            None \<Rightarrow> (ErrorReply (validation_error ''Invalid params JSON''), s)
          | Some r \<Rightarrow>
              let (response, s1) = caller_dispatch lv env r c s
              in (if joined then reply_of response else ErrorReply outcome_unknown, s1)))"

text \<open>The method \<open>call\<close> of the bus: a message without a sender is refused before anything is read.\<close>

definition bus_call ::
    "(str option \<Rightarrow> str \<Rightarrow> str \<Rightarrow> str option) \<Rightarrow> (str \<Rightarrow> str \<Rightarrow> api_request option) \<Rightarrow> bool \<Rightarrow> liveness \<Rightarrow> api_env \<Rightarrow>
       str \<Rightarrow> str \<Rightarrow> str option \<Rightarrow> api_service \<Rightarrow> daemon_reply \<times> api_service" where
  "bus_call boundary parse joined lv env method params_json sender s =
    (case sender of
       None \<Rightarrow> (ErrorReply caller_unavailable, s)
     | Some owner \<Rightarrow> call_owned boundary parse joined lv env method params_json (Dbus owner) s)"

definition bus_publish ::
    "(str option \<Rightarrow> str \<Rightarrow> nat \<Rightarrow> str option) \<Rightarrow> str \<Rightarrow> bytes \<Rightarrow> str option \<Rightarrow> api_service \<Rightarrow> daemon_reply \<times> api_service" where
  "bus_publish boundary mime bs sender s =
    (case boundary sender mime (length bs) of
       Some response \<Rightarrow> (BoundaryReply response, s)
     | None \<Rightarrow> let (response, s1) = publish_selection_owned mime bs sender s in (reply_of response, s1))"

definition request_not_found :: api_error where
  "request_not_found =
     api_error_new ''request-not-found'' ''No owned cancellable request; an operation may already be committing''"

text \<open>\<open>subscription\<close> is the answer of the registry, which cancels a subscription of that owner.\<close>

definition daemon_cancel ::
    "(str option \<Rightarrow> str \<Rightarrow> str option) \<Rightarrow> (str \<Rightarrow> str option \<Rightarrow> bool) \<Rightarrow> str \<Rightarrow> str option \<Rightarrow>
       api_service \<Rightarrow> daemon_reply \<times> api_service" where
  "daemon_cancel boundary subscription i owner s =
    (case boundary owner i of
       Some response \<Rightarrow> (BoundaryReply response, s)
     | None \<Rightarrow>
         if subscription i owner then (CancelledReply i ''subscription'', s)
         else let (b, s1) = cancel_operation_owned i owner s
              in (if b then CancelledReply i ''operation'' else ErrorReply request_not_found, s1))"

text \<open>\<open>disconnected\<close> of the socket; the interface is missing once the connection has closed.\<close>

definition socket_disconnected :: "bool \<Rightarrow> str \<Rightarrow> api_service \<Rightarrow> api_service" where
  "socket_disconnected served owner s = (if served then api_release_owner owner s else s)"

section \<open>Losses\<close>

definition bus_name :: "str \<Rightarrow> bool" where
  "bus_name owner \<longleftrightarrow> (case owner of [] \<Rightarrow> False | c # _ \<Rightarrow> c = CHR '':'')"

text \<open>The owners are a hash set: \<open>order\<close> is the order it is walked in.\<close>

type_synonym walk = "str set \<Rightarrow> str list"

definition release_where :: "walk \<Rightarrow> (str \<Rightarrow> bool) \<Rightarrow> api_service \<Rightarrow> api_service" where
  "release_where order P s =
    (let (owners, s1) = resource_owners s
     in fold (\<lambda>owner s. if P owner then api_release_owner owner s else s) (filter bus_name (order owners)) s1)"

text \<open>A loss of one name, a lagged monitor with the probes it answers then, and the end of the monitor.\<close>

datatype loss = Lost str | Lagged "str \<Rightarrow> probe" | Stopped

definition owners_shutdown :: "walk \<Rightarrow> api_service \<Rightarrow> api_service" where
  "owners_shutdown order = release_where order (\<lambda>_. True)"

text \<open>The watcher over the losses it receives; it returns at the end of the monitor.\<close>

fun watch_losses :: "walk \<Rightarrow> loss list \<Rightarrow> api_service \<Rightarrow> bool \<times> api_service" where
  "watch_losses order [] s = (False, s)"
| "watch_losses order (Lost owner # es) s = watch_losses order es (api_release_owner owner s)"
| "watch_losses order (Lagged probes # es) s = watch_losses order es (release_where order (\<lambda>owner. \<not> alive (probes owner)) s)"
| "watch_losses order (Stopped # es) s = (True, owners_shutdown order s)"

section \<open>What an owner holds\<close>

text \<open>An operation that a cancellation can still stop.\<close>

definition cancellable :: "str \<Rightarrow> operations \<Rightarrow> bool" where
  "cancellable i ops \<longleftrightarrow> map_of (os_active ops) i \<noteq> None \<and> os_phase ops i = Editing"

definition running_of :: "str \<Rightarrow> api_service \<Rightarrow> str list" where
  "running_of owner s = map fst (filter (\<lambda>(i, r). record_active r \<and> rc_owner r = Some owner) (bk_records (ax_book s)))"

definition sessions_of :: "str option \<Rightarrow> api_service \<Rightarrow> (str \<times> paste_session) list" where
  "sessions_of owner s = filter (\<lambda>(i, x). ps_owner x = owner) (sm_sessions (ac_sessions (ax_actions s)))"

definition leases_of :: "str option \<Rightarrow> api_service \<Rightarrow> (str \<times> edit_lease) list" where
  "leases_of owner s = filter (\<lambda>(i, x). el_owner x = owner) (ac_edits (ax_actions s))"

definition challenges_of :: "str option \<Rightarrow> api_service \<Rightarrow> (str \<times> wipe_challenge) list" where
  "challenges_of owner s = filter (\<lambda>(i, x). wc_owner x = owner) (ax_challenges s)"

definition holds_nothing :: "str \<Rightarrow> api_service \<Rightarrow> bool" where
  "holds_nothing owner s \<longleftrightarrow>
     sessions_of (Some owner) s = [] \<and> leases_of (Some owner) s = [] \<and> challenges_of (Some owner) s = [] \<and>
     list_all (\<lambda>i. \<not> cancellable i (ac_operations (ax_actions s))) (running_of owner s)"

text \<open>What a caller may still use: its sessions, leases and challenges that have not expired.\<close>

definition live_holdings ::
    "str option \<Rightarrow> api_service \<Rightarrow> (str \<times> paste_session) list \<times> (str \<times> edit_lease) list \<times> (str \<times> wipe_challenge) list" where
  "live_holdings owner s =
     (filter (\<lambda>(i, x). ps_expires x > ax_now s) (sessions_of owner s),
      filter (\<lambda>(i, x). el_expires x > ax_now s) (leases_of owner s),
      filter (\<lambda>(i, x). wc_expires x > ax_now s) (challenges_of owner s))"

text \<open>The caller was found to be gone by one of the checks of its call; a session that had closed before is refused.\<close>

definition found_gone :: "liveness \<Rightarrow> caller \<Rightarrow> bool" where
  "found_gone lv c \<longleftrightarrow>
     (case c of
        Dbus _ \<Rightarrow> \<not> alive (lv_first lv) \<or> \<not> alive (lv_last lv)
      | Socket _ \<Rightarrow> \<not> lv_closed_first lv \<and> lv_closed_last lv)"

text \<open>A walk visits the owners of a finite set, and the monitor of the bus reports names of the bus.\<close>

definition walks :: "walk \<Rightarrow> bool" where
  "walks order \<longleftrightarrow> (\<forall>owners. finite owners \<longrightarrow> set (order owners) = owners)"

definition bus_loss :: "loss \<Rightarrow> bool" where
  "bus_loss l \<longleftrightarrow> (case l of Lost owner \<Rightarrow> bus_name owner | _ \<Rightarrow> True)"

end
