(* ===== verification/Daemon_Properties.thy ===== *)
theory Daemon_Properties
  imports Daemon_Owners Api_Properties
begin

text \<open>
  What a caller of the daemon leaves behind: a release takes what the owner held and nothing of another owner, a
  call of a caller that has gone leaves nothing, and the loss of the bus does not touch the owners of the socket.
\<close>

section \<open>Cancellation of one operation\<close>

lemma op_status_cancellable [simp]: "cancellable j (snd (op_status now i ops)) = cancellable j ops"
  by (simp add: cancellable_def op_status_def Let_def)

lemma reap_parts [simp]: "os_active (reap i ops) = os_active ops" "os_phase (reap i ops) = os_phase ops"
  by (simp_all add: reap_def drop_task_def set_job_def split: option.split prod.split bool.split)

lemma finish_cancel_parts:
  "os_active (finish_cancel now i ops) = os_active ops"
  "j \<noteq> i \<Longrightarrow> os_phase (finish_cancel now i ops) j = os_phase ops j"
  by (simp_all add: finish_cancel_def control_finish_def send_event_def set_phase_def split: option.split prod.split bool.split)

lemma op_cancel_parts:
  assumes "fst (op_cancel i ops)"
  shows "map_of (os_active (snd (op_cancel i ops))) j = (if j = i then None else map_of (os_active ops) j)"
    and "j \<noteq> i \<Longrightarrow> os_phase (snd (op_cancel i ops)) j = os_phase ops j"
  using assms
  by (auto simp: op_cancel_def control_cancel_def set_phase_def map_of_without split: option.splits if_splits)

lemma cancellable_step:
  assumes "fst (op_cancel i ops)"
  shows "cancellable j (finish_cancel now i (reap i (snd (op_cancel i ops)))) = (cancellable j ops \<and> j \<noteq> i)"
  using op_cancel_parts[OF assms, of j] finish_cancel_parts(2)[of j i now "reap i (snd (op_cancel i ops))"]
  by (cases "j = i") (simp_all add: cancellable_def finish_cancel_parts(1))

lemma refused_cancel: "\<not> fst (op_cancel i ops) \<Longrightarrow> snd (op_cancel i ops) = ops \<and> \<not> cancellable i ops"
  by (auto simp: cancellable_def op_cancel_def control_cancel_def split: option.splits if_splits prod.splits)

abbreviation ops_of :: "api_service \<Rightarrow> operations" where
  "ops_of s \<equiv> ac_operations (ax_actions s)"

lemma api_refresh_cancellable [simp]: "cancellable j (ops_of (api_refresh i s)) = cancellable j (ops_of s)"
proof (cases "map_of (bk_records (ax_book s)) i")
  case (Some r)
  show ?thesis
  proof (cases "record_active r")
    case True
    obtain status ops where o: "op_status (ax_now s) i (ops_of s) = (status, ops)" by fastforce
    have "ops_of (api_refresh i s) = ops"
      using Some True o by (simp add: api_refresh_def Let_def emit_operation_def emit_event_def split: prod.split option.split)
    then show ?thesis using op_status_cancellable[of j "ax_now s" i "ops_of s"] o by simp
  qed (simp add: api_refresh_def Some)
qed (simp add: api_refresh_def)

lemma cancel_owned_cancellable: "cancellable j (ops_of (cancel_owned i s)) = (cancellable j (ops_of s) \<and> j \<noteq> i)"
proof (cases "fst (op_cancel i (ops_of s))")
  case True
  then show ?thesis
    by (simp add: cancel_owned_def backend_cancel_def service_cancel_def Let_def split_def cancellable_step)
next
  case False
  then have "cancellable j (ops_of s) = (cancellable j (ops_of s) \<and> j \<noteq> i)" using refused_cancel by blast
  then show ?thesis using False refused_cancel[of i "ops_of s"]
    by (simp add: cancel_owned_def backend_cancel_def service_cancel_def Let_def split_def)
qed

section \<open>Frames\<close>

text \<open>Refreshes and cancellations keep all but the operations; an operation of an owner never becomes active again.\<close>

definition same_holdings :: "api_service \<Rightarrow> api_service \<Rightarrow> bool" where
  "same_holdings s s' \<longleftrightarrow>
     ac_sessions (ax_actions s') = ac_sessions (ax_actions s) \<and> ac_edits (ax_actions s') = ac_edits (ax_actions s) \<and>
     ac_history (ax_actions s') = ac_history (ax_actions s) \<and> ac_drain (ax_actions s') = ac_drain (ax_actions s) \<and>
     ax_challenges s' = ax_challenges s \<and> ax_settings s' = ax_settings s \<and>
     (\<forall>owner. set (running_of owner s') \<subseteq> set (running_of owner s))"

lemma same_holdings_refl: "same_holdings s s"
  by (simp add: same_holdings_def)

lemma same_holdings_trans: "same_holdings s s' \<Longrightarrow> same_holdings s' s'' \<Longrightarrow> same_holdings s s''"
  unfolding same_holdings_def by (metis subset_trans)

lemma running_iff: "i \<in> set (running_of owner s) \<longleftrightarrow> (\<exists>r. (i, r) \<in> set (bk_records (ax_book s)) \<and> record_active r \<and> rc_owner r = Some owner)"
  by (force simp: running_of_def)

lemma running_update [simp]:
  "running_of owner (s\<lparr>ax_actions := c\<rparr>) = running_of owner s" "running_of owner (s\<lparr>ax_challenges := w\<rparr>) = running_of owner s"
  by (simp_all add: running_of_def)

lemma refresh_running:
  assumes "refresh_operation now status active i b = (emitted, b')" and "(j, r') \<in> set (bk_records b')" and "record_active r'"
  shows "\<exists>r. (j, r) \<in> set (bk_records b) \<and> record_active r \<and> rc_owner r = rc_owner r'"
proof (cases "b' = b")
  case False
  then obtain r current where r: "map_of (bk_records b) i = Some r" "record_active r"
    and b': "b' = b\<lparr>bk_records := (i, r\<lparr>rc_operation := current, rc_revision := rc_revision r + 1, rc_updated := now\<rparr>)
      # without i (bk_records b)\<rparr>"
    using assms(1) by (auto simp: refresh_operation_def Let_def split: option.splits if_splits)
  then show ?thesis using assms(2,3) map_of_SomeD[OF r(1)] by (auto simp: without_def)
qed (use assms in blast)

lemma api_refresh_same: "same_holdings s (api_refresh i s)"
proof (cases "\<exists>r. map_of (bk_records (ax_book s)) i = Some r \<and> record_active r")
  case True
  obtain status ops where o: "op_status (ax_now s) i (ops_of s) = (status, ops)" by fastforce
  obtain emitted b where b: "refresh_operation (ax_now s) (Inr status) (Inr (active_ids ops)) i (ax_book s) = (emitted, b)" by fastforce
  have "ax_book (api_refresh i s) = b" "ac_sessions (ax_actions (api_refresh i s)) = ac_sessions (ax_actions s)"
    "ac_edits (ax_actions (api_refresh i s)) = ac_edits (ax_actions s)" "ac_history (ax_actions (api_refresh i s)) = ac_history (ax_actions s)"
    "ac_drain (ax_actions (api_refresh i s)) = ac_drain (ax_actions s)"
    "ax_challenges (api_refresh i s) = ax_challenges s" "ax_settings (api_refresh i s) = ax_settings s"
    using True o b by (auto simp: api_refresh_def Let_def emit_operation_def emit_event_def split: option.split)
  then show ?thesis using refresh_running[OF b] by (fastforce simp: same_holdings_def running_iff)
next
  case False
  then have "api_refresh i s = s" by (auto simp: api_refresh_def split: option.split)
  then show ?thesis by (simp add: same_holdings_refl)
qed

lemma cancel_owned_same: "same_holdings s (cancel_owned i s)"
proof -
  have "same_holdings s (snd (backend_cancel i s))"
    by (simp add: same_holdings_def backend_cancel_def service_cancel_def Let_def split_def)
  then show ?thesis unfolding cancel_owned_def by (rule same_holdings_trans) (rule api_refresh_same)
qed

lemma cancel_all_same: "same_holdings s (fold cancel_owned ids s)"
  by (induction ids arbitrary: s) (auto simp: same_holdings_refl intro: same_holdings_trans[OF cancel_owned_same])

lemma cancel_all_cancellable:
  "cancellable j (ops_of (fold cancel_owned ids s)) = (cancellable j (ops_of s) \<and> j \<notin> set ids)"
  by (induction ids arbitrary: s) (auto simp: cancel_owned_cancellable)

section \<open>Release\<close>

lemma release_parts:
  "ac_sessions (ax_actions (api_release_owner owner s)) = release_owner owner (ac_sessions (ax_actions s))"
  "ac_edits (ax_actions (api_release_owner owner s)) = filter (\<lambda>(i, x). el_owner x \<noteq> Some owner) (ac_edits (ax_actions s))"
  "ax_challenges (api_release_owner owner s) = filter (\<lambda>(i, x). wc_owner x \<noteq> Some owner) (ax_challenges s)"
  "ax_settings (api_release_owner owner s) = ax_settings s"
  "ac_history (ax_actions (api_release_owner owner s)) = ac_history (ax_actions s)"
  "ac_drain (ax_actions (api_release_owner owner s)) = ac_drain (ax_actions s)"
  "cancellable j (ops_of (api_release_owner owner s)) = (cancellable j (ops_of s) \<and> j \<notin> set (running_of owner s))"
  "set (running_of o1 (api_release_owner owner s)) \<subseteq> set (running_of o1 s)"
proof -
  let ?s1 = "s\<lparr>ax_actions := service_release_owner owner (ax_actions s)\<rparr>"
  let ?s2 = "fold cancel_owned (running_of owner ?s1) ?s1"
  have r: "api_release_owner owner s = ?s2\<lparr>ax_challenges := filter (\<lambda>(i, w). wc_owner w \<noteq> Some owner) (ax_challenges ?s2)\<rparr>"
    by (simp add: api_release_owner_def Let_def running_of_def)
  have ids: "running_of o2 ?s1 = running_of o2 s" for o2 by (simp add: running_of_def)
  note f = cancel_all_same[of ?s1 "running_of owner ?s1", unfolded same_holdings_def]
  show "ac_sessions (ax_actions (api_release_owner owner s)) = release_owner owner (ac_sessions (ax_actions s))"
    "ac_edits (ax_actions (api_release_owner owner s)) = filter (\<lambda>(i, x). el_owner x \<noteq> Some owner) (ac_edits (ax_actions s))"
    "ax_challenges (api_release_owner owner s) = filter (\<lambda>(i, x). wc_owner x \<noteq> Some owner) (ax_challenges s)"
    "ax_settings (api_release_owner owner s) = ax_settings s"
    "ac_history (ax_actions (api_release_owner owner s)) = ac_history (ax_actions s)"
    "ac_drain (ax_actions (api_release_owner owner s)) = ac_drain (ax_actions s)"
    using f by (simp_all add: r service_release_owner_def)
  show "cancellable j (ops_of (api_release_owner owner s)) = (cancellable j (ops_of s) \<and> j \<notin> set (running_of owner s))"
    by (simp add: r cancel_all_cancellable ids service_release_owner_def)
  have "running_of o1 (api_release_owner owner s) = running_of o1 ?s2" by (simp add: r running_of_def)
  then show "set (running_of o1 (api_release_owner owner s)) \<subseteq> set (running_of o1 s)" using f ids by metis
qed

lemma filter_owner:
  "filter (\<lambda>(i, x). f x = q) (filter (\<lambda>(i, x). f x \<noteq> p) xs) = (if q = p then [] else filter (\<lambda>(i, x). f x = q) xs)"
  by (induction xs) auto

lemma release_holdings:
  "sessions_of q (api_release_owner owner s) = (if q = Some owner then [] else sessions_of q s)"
  "leases_of q (api_release_owner owner s) = (if q = Some owner then [] else leases_of q s)"
  "challenges_of q (api_release_owner owner s) = (if q = Some owner then [] else challenges_of q s)"
  by (simp_all add: sessions_of_def leases_of_def challenges_of_def release_parts release_owner_def retain_sessions_def filter_owner
      del: filter_filter)

lemma release_holds_nothing: "holds_nothing owner (api_release_owner owner s)"
  using release_parts(8)[of owner owner s]
  by (auto simp: holds_nothing_def release_holdings release_parts(7) list_all_iff)

lemma release_keeps_nothing: "holds_nothing q s \<Longrightarrow> holds_nothing q (api_release_owner owner s)"
  using release_parts(8)[of q owner s]
  by (auto simp: holds_nothing_def release_holdings release_parts(7) list_all_iff)

section \<open>Losses\<close>

lemma sessions_now [simp]: "ax_now (api_release_owner owner s) = ax_now s"
  by (simp add: ax_now_def ac_now_def release_parts release_owner_def retain_sessions_def)

lemma release_live: "q \<noteq> Some owner \<Longrightarrow> live_holdings q (api_release_owner owner s) = live_holdings q s"
  by (simp add: live_holdings_def release_holdings)

lemma resource_owners_parts:
  assumes "resource_owners s = (owners, s')"
  shows "ax_now s' = ax_now s" and "ops_of s' = ops_of s" and "running_of q s' = running_of q s" and "shared_history s' = shared_history s"
    and "sm_sessions (ac_sessions (ax_actions s')) = filter (\<lambda>(i, x). ps_expires x > ax_now s) (sm_sessions (ac_sessions (ax_actions s)))"
    and "ac_edits (ax_actions s') = filter (\<lambda>(i, x). el_expires x > ax_now s) (ac_edits (ax_actions s))"
    and "ax_challenges s' = filter (\<lambda>(i, x). wc_expires x > ax_now s) (ax_challenges s)"
  using assms
  by (auto simp: resource_owners_def service_owners_def session_owners_def live_edits_def live_challenges_def ax_now_def ac_now_def
      remove_expired_def retain_sessions_def running_of_def shared_history_def Let_def)

lemma map_filter_pair: "set (List.map_filter (\<lambda>(i, x). f x) xs) = {o1. \<exists>(i, x) \<in> set xs. f x = Some o1}"
  by (force simp: map_filter_def)

lemma in_map_filter: "q \<in> set (List.map_filter f xs) \<longleftrightarrow> (\<exists>x \<in> set xs. f x = Some q)"
  by (force simp: map_filter_def)

lemma resource_owners_set:
  assumes "resource_owners s = (owners, s')"
  shows "finite owners" and "q \<notin> owners \<Longrightarrow>
    sessions_of (Some q) s' = [] \<and> leases_of (Some q) s' = [] \<and> challenges_of (Some q) s' = [] \<and> running_of q s' = []"
proof -
  have o: "owners = set (List.map_filter (\<lambda>(i, x). ps_owner x) (sm_sessions (ac_sessions (ax_actions s')))
        @ List.map_filter (\<lambda>(i, x). el_owner x) (ac_edits (ax_actions s'))
        @ List.map_filter rc_owner (active_records (ax_book s')) @ List.map_filter (\<lambda>(i, x). wc_owner x) (ax_challenges s'))"
    using assms
    by (auto simp: resource_owners_def service_owners_def session_owners_def live_edits_def live_challenges_def Let_def)
  show "finite owners" by (simp add: o)
  assume q: "q \<notin> owners"
  have "rc_owner r \<noteq> Some q" if "(i, r) \<in> set (bk_records (ax_book s'))" "record_active r" for i r
  proof -
    have "r \<in> set (active_records (ax_book s'))" using that by (force simp: active_records_def)
    then show ?thesis using q unfolding o set_append in_map_filter Un_iff by blast
  qed
  then have "running_of q s' = []" by (auto simp: running_of_def filter_empty_conv)
  moreover have "sessions_of (Some q) s' = []" "leases_of (Some q) s' = []" "challenges_of (Some q) s' = []"
    using q by (auto simp: o sessions_of_def leases_of_def challenges_of_def filter_empty_conv map_filter_pair)
  ultimately show "sessions_of (Some q) s' = [] \<and> leases_of (Some q) s' = [] \<and> challenges_of (Some q) s' = [] \<and> running_of q s' = []"
    by simp
qed

lemma resource_owners_live:
  assumes "resource_owners s = (owners, s')" shows "live_holdings q s' = live_holdings q s"
  using resource_owners_parts[OF assms]
  by (simp add: live_holdings_def sessions_of_def leases_of_def challenges_of_def split_def)
    (auto intro!: filter_cong)

definition release_if :: "(str \<Rightarrow> bool) \<Rightarrow> str \<Rightarrow> api_service \<Rightarrow> api_service" where
  "release_if P owner s = (if P owner then api_release_owner owner s else s)"

lemma release_where_fold:
  "release_where order P s = (case resource_owners s of (owners, s1) \<Rightarrow> fold (release_if P) (filter bus_name (order owners)) s1)"
proof -
  have "(\<lambda>owner s. if P owner then api_release_owner owner s else s) = release_if P"
    by (intro ext) (simp add: release_if_def)
  then show ?thesis by (simp add: release_where_def)
qed

lemma release_fold_keeps: "holds_nothing q s \<Longrightarrow> holds_nothing q (fold (release_if P) owners s)"
  by (induction owners arbitrary: s) (auto simp: release_if_def intro: release_keeps_nothing)

lemma release_fold_takes: "q \<in> set owners \<Longrightarrow> P q \<Longrightarrow> holds_nothing q (fold (release_if P) owners s)"
proof (induction owners arbitrary: s)
  case (Cons o1 owners)
  show ?case
  proof (cases "o1 = q")
    case True
    then have "release_if P o1 s = api_release_owner q s" using Cons.prems by (simp add: release_if_def)
    then show ?thesis using release_fold_keeps release_holds_nothing by simp
  qed (use Cons in simp)
qed simp

text \<open>An operation that no owner on the bus started; its phase is left alone.\<close>

definition off_bus :: "str \<Rightarrow> api_service \<Rightarrow> bool" where
  "off_bus i s \<longleftrightarrow> (\<forall>owner. bus_name owner \<longrightarrow> i \<notin> set (running_of owner s))"

lemma release_spares:
  assumes "bus_name owner" and "\<And>o1. q = Some o1 \<Longrightarrow> \<not> bus_name o1"
  shows "live_holdings q (api_release_owner owner s) = live_holdings q s"
    and "off_bus i s \<Longrightarrow> off_bus i (api_release_owner owner s)"
    and "off_bus i s \<Longrightarrow> cancellable i (ops_of (api_release_owner owner s)) = cancellable i (ops_of s)"
proof -
  show "live_holdings q (api_release_owner owner s) = live_holdings q s" using assms by (intro release_live) auto
  show "off_bus i s \<Longrightarrow> off_bus i (api_release_owner owner s)" using release_parts(8) by (fastforce simp: off_bus_def)
  show "off_bus i s \<Longrightarrow> cancellable i (ops_of (api_release_owner owner s)) = cancellable i (ops_of s)"
    using assms(1) by (simp add: off_bus_def release_parts(7))
qed

definition spared :: "str option \<Rightarrow> api_service \<Rightarrow> api_service \<Rightarrow> bool" where
  "spared q s s' \<longleftrightarrow> live_holdings q s' = live_holdings q s \<and>
     (\<forall>i. off_bus i s \<longrightarrow> off_bus i s' \<and> cancellable i (ops_of s') = cancellable i (ops_of s))"

lemma spared_refl: "spared q s s" by (simp add: spared_def)

lemma spared_trans: "spared q s s' \<Longrightarrow> spared q s' s'' \<Longrightarrow> spared q s s''"
  by (auto simp: spared_def)

lemma fold_spares:
  assumes "\<And>o1. q = Some o1 \<Longrightarrow> \<not> bus_name o1"
  shows "list_all bus_name owners \<Longrightarrow> spared q s (fold (release_if P) owners s)"
proof (induction owners arbitrary: s)
  case (Cons o1 owners)
  then have "bus_name o1" by simp
  then have "spared q s (release_if P o1 s)"
    using release_spares[of o1 q] assms by (simp add: release_if_def spared_refl) (simp add: spared_def)
  with Cons show ?case by (auto intro: spared_trans)
qed (simp add: spared_refl)

lemma release_where_spares:
  assumes "\<And>o1. q = Some o1 \<Longrightarrow> \<not> bus_name o1"
  shows "spared q s (release_where order P s)"
proof -
  obtain owners s1 where r: "resource_owners s = (owners, s1)" by fastforce
  have "spared q s s1"
    using resource_owners_parts(2,3)[OF r] resource_owners_live[OF r] by (simp add: spared_def off_bus_def)
  moreover have "spared q s1 (fold (release_if P) (filter bus_name (order owners)) s1)"
    by (rule fold_spares[OF assms]) (simp_all add: list_all_iff)
  ultimately show ?thesis by (simp add: release_where_fold r) (rule spared_trans)
qed

lemma shutdown_holds_nothing:
  assumes "walks order" and "bus_name q" shows "holds_nothing q (owners_shutdown order s)"
proof -
  obtain owners s1 where r: "resource_owners s = (owners, s1)" by fastforce
  have fin: "finite owners" by (rule resource_owners_set(1)[OF r])
  let ?os = "filter bus_name (order owners)"
  have "holds_nothing q (fold (release_if (\<lambda>_. True)) ?os s1)"
  proof (cases "q \<in> owners")
    case True
    then show ?thesis using assms fin by (intro release_fold_takes) (simp_all add: walks_def)
  next
    case False
    then have "holds_nothing q s1" using resource_owners_set(2)[OF r] by (simp add: holds_nothing_def)
    then show ?thesis by (rule release_fold_keeps)
  qed
  then show ?thesis by (simp add: owners_shutdown_def release_where_fold r)
qed

lemma watch_spares:
  assumes "\<And>o1. q = Some o1 \<Longrightarrow> \<not> bus_name o1"
  shows "list_all bus_loss es \<Longrightarrow> spared q s (snd (watch_losses order es s))"
proof (induction order es s rule: watch_losses.induct)
  case (2 order owner es s)
  then have "bus_name owner" by (simp add: bus_loss_def)
  then have "spared q s (api_release_owner owner s)" using release_spares[of owner q] assms by (simp add: spared_def)
  then show ?case using 2 by (auto intro: spared_trans)
next
  case (3 order probes es s)
  have "spared q s (release_where order (\<lambda>owner. \<not> alive (probes owner)) s)" by (rule release_where_spares[OF assms])
  then show ?case using 3 by (simp add: spared_trans)
qed (simp_all add: spared_refl owners_shutdown_def release_where_spares[OF assms])

lemma watch_stopped:
  assumes "walks order" and "bus_name q"
  shows "fst (watch_losses order es s) \<Longrightarrow> holds_nothing q (snd (watch_losses order es s))"
  using assms by (induction order es s rule: watch_losses.induct) (simp_all add: shutdown_holds_nothing)

section \<open>Callers that have gone\<close>

lemma release_history [simp]: "shared_history (api_release_owner owner s) = shared_history s"
  by (simp add: shared_history_def release_parts(4))


lemma closed_session_refused:
  "lv_closed_first lv \<Longrightarrow> caller_dispatch lv env r (Socket owner) s = (Inl caller_unavailable, s)"
  by (simp add: caller_dispatch_def)





text \<open>
  C36. The loss of bus names never touches the owners of the socket: over any sequence of losses of bus names, lags
  of the monitor and its end, a caller without a name on the bus keeps every session, edit lease and challenge that
  has not expired, and an operation that no bus owner started stays cancellable exactly if it was.  When the
  monitor has ended, no owner on the bus holds anything, however the owners were walked.
\<close>

theorem bus_loss_spares_socket:
  assumes "walks order" and "list_all bus_loss es" and "\<And>o1. q = Some o1 \<Longrightarrow> \<not> bus_name o1"
    and "watch_losses order es s = (stopped, s')"
  shows "live_holdings q s' = live_holdings q s \<and>
    (\<forall>i. off_bus i s \<longrightarrow> cancellable i (ac_operations (ax_actions s')) = cancellable i (ac_operations (ax_actions s))) \<and>
    (stopped \<longrightarrow> (\<forall>owner. bus_name owner \<longrightarrow> holds_nothing owner s'))"
  using watch_spares[where q = q and order = order and s = s, OF assms(3) assms(2)] watch_stopped[OF assms(1), of _ es s] assms(4)
  by (simp add: spared_def)

lemma some_walk: "\<exists>order. walks order"
proof -
  have "\<forall>owners. \<exists>xs :: str list. finite owners \<longrightarrow> set xs = owners" using finite_list by blast
  then show ?thesis unfolding walks_def by (rule choice)
qed

definition demo_two_owners :: api_service where
  "demo_two_owners =
     demo_api\<lparr>ax_challenges := (''c'', \<lparr>wc_owner = Some '':1'', wc_expires = WIPE_TTL\<rparr>) # ax_challenges demo_api\<rparr>"

theorem bus_loss_spares_socket_witness:
  "\<exists>order s'. walks order \<and> watch_losses order [Lost '':2'', Stopped] demo_two_owners = (True, s') \<and>
     live_holdings (Some ''picker'') s' = live_holdings (Some ''picker'') demo_two_owners \<and>
     challenges_of (Some ''picker'') demo_two_owners \<noteq> [] \<and>
     challenges_of (Some '':1'') demo_two_owners \<noteq> [] \<and> challenges_of (Some '':1'') s' = []"
proof -
  obtain order where w: "walks order" using some_walk by blast
  obtain s' where r: "watch_losses order [Lost '':2'', Stopped] demo_two_owners = (True, s')" by simp
  have b: "list_all bus_loss [Lost '':2'', Stopped]" "\<not> bus_name ''picker''" "bus_name '':1''"
    by (simp_all add: bus_loss_def bus_name_def)
  have p: "live_holdings (Some ''picker'') s' = live_holdings (Some ''picker'') demo_two_owners"
    "holds_nothing '':1'' s'"
    using bus_loss_spares_socket[where q = "Some ''picker''", OF w b(1) _ r] b(2,3) by simp_all
  then have "challenges_of (Some '':1'') s' = []" by (simp add: holds_nothing_def)
  moreover have "challenges_of (Some ''picker'') demo_two_owners \<noteq> []" "challenges_of (Some '':1'') demo_two_owners \<noteq> []"
    by (simp_all add: challenges_of_def demo_two_owners_def demo_api_def)
  ultimately show ?thesis using w r p(1) by blast
qed

end
