(* ===== verification/Daemon_Process.thy ===== *)
theory Daemon_Process
  imports Daemon_Properties
begin

text \<open>
  The process of the daemon (\<open>run\<close> and \<open>serve\<close> of \<open>src/src/daemon.rs\<close>): its start, the order of its shutdown, and
  which failure it reports.  The bus, the socket listener and the signals of the system are in a script of their
  outcomes; what callers do while the daemon serves, and after capture has been stopped but before their resources
  are released, is any function of the state.  The lemmas show what a clean end means: capture cannot run again, the
  stored policy admits nothing, and no owner on the bus holds anything.
\<close>

section \<open>Serving\<close>

type_synonym outcome_of = "(str, unit) result"

definition and_result :: "outcome_of \<Rightarrow> outcome_of \<Rightarrow> outcome_of" where
  "and_result a b = (case a of Inl e \<Rightarrow> Inl e | Inr _ \<Rightarrow> b)"

record serve_script =
  sc_connection :: outcome_of
  sc_owners :: outcome_of
  sc_export :: outcome_of
  sc_name :: outcome_of
  sc_traffic :: "api_service \<Rightarrow> api_service"
  sc_end :: outcome_of
  sc_listener_ended :: bool
  sc_late :: "api_service \<Rightarrow> api_service"
  sc_listener :: outcome_of
  sc_close :: outcome_of

definition listen :: "str option \<Rightarrow> (str \<Rightarrow> outcome_of) \<Rightarrow> outcome_of \<Rightarrow> outcome_of" where
  "listen runtime bind served =
    (case runtime of
       None \<Rightarrow> Inl ''XDG_RUNTIME_DIR is required for the clipboard socket''
     | Some directory \<Rightarrow> and_result (bind directory) served)"

definition stop_result :: "(api_error, unit) result \<Rightarrow> outcome_of" where
  "stop_result r = (case r of Inl e \<Rightarrow> Inl (ae_message e) | Inr _ \<Rightarrow> Inr ())"

text \<open>From the end of the wait on: capture is stopped first, then the listener, the owners and the connection.\<close>

definition serve_shutdown :: "walk \<Rightarrow> serve_script \<Rightarrow> api_service \<Rightarrow> outcome_of \<times> api_service" where
  "serve_shutdown order sc s =
    (let (capture, s1) = api_stop_capture s;
         socket = (if sc_listener_ended sc then Inr () else sc_listener sc);
         s2 = owners_shutdown order (sc_late sc s1)
     in (and_result (and_result (and_result (sc_end sc) (stop_result capture)) socket) (sc_close sc), s2))"

definition serve_daemon :: "walk \<Rightarrow> serve_script \<Rightarrow> api_service \<Rightarrow> outcome_of \<times> api_service" where
  "serve_daemon order sc s =
    (case and_result (sc_connection sc) (and_result (sc_owners sc) (and_result (sc_export sc) (sc_name sc))) of
       Inl e \<Rightarrow> (Inl e, s)
     | Inr _ \<Rightarrow> serve_shutdown order sc (sc_traffic sc (api_initialize s)))"

section \<open>Running\<close>

text \<open>\<open>shutdown\<close> of the controller, and \<open>shutdown\<close> of the backend on the history it shares with capture.\<close>

definition capture_shutdown :: "api_service \<Rightarrow> outcome_of \<times> api_service" where
  "capture_shutdown s =
    (let m = ax_settings s; w = ms_world m;
         (r, rt) = controller_shutdown (script_verdict (next_script w) (cw_runtime w)) (cw_runtime w)
     in (r, s\<lparr>ax_settings := m\<lparr>ms_world := (advance w)\<lparr>cw_runtime := rt\<rparr>\<rparr>\<rparr>))"

definition drain_backend ::
    "(int \<times> int \<times> int) option bresult \<Rightarrow> unit bresult \<Rightarrow> api_service \<Rightarrow> outcome_of \<times> api_service" where
  "drain_backend checkpoint sidecars s =
    (let c = lend_history s;
         (stopped, ops) = ac_drain c (ac_operations c);
         (r, h) = backend_shutdown stopped checkpoint sidecars (ac_history c)
     in (case r of Inl e \<Rightarrow> Inl (be_message e) | Inr _ \<Rightarrow> Inr (),
         return_history (c\<lparr>ac_operations := ops, ac_history := h\<rparr>) s))"

definition run_daemon ::
    "outcome_of \<Rightarrow> walk \<Rightarrow> serve_script \<Rightarrow> (int \<times> int \<times> int) option bresult \<Rightarrow> unit bresult \<Rightarrow>
       api_service \<Rightarrow> outcome_of \<times> api_service" where
  "run_daemon store_open order sc checkpoint sidecars s =
    (case store_open of
       Inl e \<Rightarrow> (Inl e, s)
     | Inr _ \<Rightarrow>
         let (result, s1) = serve_daemon order sc s;
             (stopped, s2) = capture_shutdown s1;
             (drained, s3) = drain_backend checkpoint sidecars s2
         in (and_result (and_result result stopped) drained, s3))"

text \<open>\<open>run_with_capture\<close>: the backend is not the daemon's own and is left open.\<close>

definition run_with_capture :: "walk \<Rightarrow> serve_script \<Rightarrow> api_service \<Rightarrow> outcome_of \<times> api_service" where
  "run_with_capture order sc s =
    (let (result, s1) = serve_daemon order sc s; (stopped, s2) = capture_shutdown s1
     in (and_result result stopped, s2))"

section \<open>A clean end\<close>

lemma and_result_Inr: "and_result a b = Inr () \<longleftrightarrow> a = Inr () \<and> b = Inr ()"
  by (cases a) (auto simp: and_result_def)

lemma serve_Inr:
  assumes "serve_daemon order sc s = (Inr (), s')"
  shows "\<exists>s1 s2. api_stop_capture s1 = (Inr (), s2) \<and> s' = owners_shutdown order (sc_late sc s2)"
  using assms
  by (auto simp: serve_daemon_def serve_shutdown_def and_result_Inr stop_result_def Let_def split: sum.splits prod.splits)

lemma capture_shutdown_Inr:
  assumes "capture_shutdown s = (r, s')"
  shows "rt_terminal_error (cw_runtime (ms_world (ax_settings s'))) = Some ''Capture owner has shut down''"
    and "r = Inr () \<Longrightarrow> rt_worker (cw_runtime (ms_world (ax_settings s'))) = None"
    and "ax_actions s' = ax_actions s" and "ax_challenges s' = ax_challenges s" and "ax_book s' = ax_book s"
  using assms
  by (auto simp: capture_shutdown_def controller_shutdown_def runtime_stop_def Let_def split: prod.splits option.splits sum.splits)

lemma backend_shutdown_Inr:
  assumes "backend_shutdown stopped checkpoint sidecars h = (Inr (), h')"
  shows "hs_closed h' \<and> stopped = Inr () \<and> t_entries (tables_of h') = t_entries (tables_of h) \<and>
    \<not> sp_admission (t_policy (tables_of h'))"
  using assms
  by (auto simp: backend_shutdown_def hbind_def draw_def db_shutdown_def transaction_def run_body_def close_admission_body_def
      tables_of_def Let_def split: sum.splits if_splits prod.splits option.splits)

lemma owners_release_parts:
  "ax_settings (owners_shutdown order s) = ax_settings s" "shared_history (owners_shutdown order s) = shared_history s"
  "ac_history (ax_actions (owners_shutdown order s)) = ac_history (ax_actions s)"
  "ac_drain (ax_actions (owners_shutdown order s)) = ac_drain (ax_actions s)"
proof -
  obtain owners s1 where r: "resource_owners s = (owners, s1)" by fastforce
  have "ax_settings (fold (release_if P) os x) = ax_settings x \<and>
      ac_history (ax_actions (fold (release_if P) os x)) = ac_history (ax_actions x) \<and>
      ac_drain (ax_actions (fold (release_if P) os x)) = ac_drain (ax_actions x)" for P os x
    by (induction os arbitrary: x) (simp_all add: release_if_def release_parts(4-6))
  moreover have "ax_settings s1 = ax_settings s" "ac_history (ax_actions s1) = ac_history (ax_actions s)"
    "ac_drain (ax_actions s1) = ac_drain (ax_actions s)"
    using r by (auto simp: resource_owners_def live_challenges_def service_owners_def live_edits_def Let_def split: prod.splits)
  ultimately show "ax_settings (owners_shutdown order s) = ax_settings s"
    "ac_history (ax_actions (owners_shutdown order s)) = ac_history (ax_actions s)"
    "ac_drain (ax_actions (owners_shutdown order s)) = ac_drain (ax_actions s)"
    by (simp_all add: owners_shutdown_def release_where_fold r)
  then show "shared_history (owners_shutdown order s) = shared_history s" by (simp add: shared_history_def)
qed

lemma drain_Inr:
  assumes "drain_backend checkpoint sidecars s = (Inr (), s')"
  shows "hs_closed (shared_history s') \<and> \<not> sp_admission (t_policy (tables_of (shared_history s'))) \<and>
    t_entries (tables_of (shared_history s')) = t_entries (tables_of (shared_history s)) \<and>
    rt_worker (cw_runtime (ms_world (ax_settings s'))) = rt_worker (cw_runtime (ms_world (ax_settings s))) \<and>
    rt_terminal_error (cw_runtime (ms_world (ax_settings s'))) = rt_terminal_error (cw_runtime (ms_world (ax_settings s))) \<and>
    ac_sessions (ax_actions s') = ac_sessions (ax_actions s) \<and> ac_edits (ax_actions s') = ac_edits (ax_actions s) \<and>
    ax_challenges s' = ax_challenges s"
proof -
  let ?c = "lend_history s"
  obtain stopped ops where d: "ac_drain ?c (ac_operations ?c) = (stopped, ops)" by fastforce
  obtain r h where b: "backend_shutdown stopped checkpoint sidecars (ac_history ?c) = (r, h)" by fastforce
  have s': "s' = return_history (?c\<lparr>ac_operations := ops, ac_history := h\<rparr>) s" and r: "r = Inr ()"
    using assms by (auto simp: drain_backend_def d b split: sum.splits)
  have "tables_of (ac_history ?c) = tables_of (shared_history s)" by (simp add: lend_history_def)
  moreover have "rt_terminal_error (cw_runtime (ms_world (ax_settings s'))) = rt_terminal_error (cw_runtime (ms_world (ax_settings s)))"
    by (simp add: s' return_history_def Let_def)
  ultimately show ?thesis using backend_shutdown_Inr[OF b[unfolded r]]
    by (simp add: s' shared_history_def) (simp add: lend_history_def)
qed

lemma closed_backend_refuses: "hs_closed h \<Longrightarrow> fst (backend_call m h) = Inl (from_backend_error (unavailable ''Clipboard backend is shut down''))"
  by (simp add: backend_call_def run_backend_def smap_err_def hbind_def ensure_running_def split_def)

text \<open>
  C37. A daemon that ends without an error has ended: when \<open>run\<close> reports success, whatever callers did before and
  during the shutdown, there is no capture worker and none can be started again, the stored policy admits no new
  content, the backend refuses every further call, and no owner on the bus still has a session, an edit lease or a
  challenge.  The last part of the shutdown removes no entry.
\<close>

theorem clean_end_is_final:
  assumes "walks order" and "run_daemon store_open order sc checkpoint sidecars s = (Inr (), s')"
  shows "rt_worker (cw_runtime (ms_world (ax_settings s'))) = None \<and>
    fst (world_set_paused paused n (ms_world (ax_settings s'))) = Inl ''Capture owner has shut down'' \<and>
    \<not> sp_admission (t_policy (tables_of (shared_history s'))) \<and>
    \<not> is_ok (fst (backend_call m (shared_history s'))) \<and>
    (\<forall>owner. bus_name owner \<longrightarrow>
       sessions_of (Some owner) s' = [] \<and> leases_of (Some owner) s' = [] \<and> challenges_of (Some owner) s' = [])"
proof -
  obtain s1 s2 where serve: "serve_daemon order sc s = (Inr (), s1)" and stop: "capture_shutdown s1 = (Inr (), s2)"
    and drain: "drain_backend checkpoint sidecars s2 = (Inr (), s')"
    using assms(2) by (auto simp: run_daemon_def and_result_Inr Let_def split: sum.splits prod.splits)
  obtain s0 where s1: "s1 = owners_shutdown order s0" using serve_Inr[OF serve] by blast
  have held: "sessions_of (Some owner) s' = [] \<and> leases_of (Some owner) s' = [] \<and> challenges_of (Some owner) s' = []"
    if "bus_name owner" for owner
    using shutdown_holds_nothing[OF assms(1) that, of s0] capture_shutdown_Inr(3,4)[OF stop] drain_Inr[OF drain]
    by (simp add: s1 holds_nothing_def sessions_of_def leases_of_def challenges_of_def)
  have "fst (world_set_paused paused n (ms_world (ax_settings s'))) = Inl ''Capture owner has shut down''"
    using drain_Inr[OF drain] capture_shutdown_Inr(1)[OF stop]
    by (simp add: world_set_paused_def set_paused_def split_def Let_def)
  then show ?thesis
    using held drain_Inr[OF drain] capture_shutdown_Inr(2)[OF stop] closed_backend_refuses[of "shared_history s'" m]
    by simp
qed

section \<open>A daemon without readable settings\<close>

definition quiet_script :: serve_script where
  "quiet_script =
     \<lparr>sc_connection = Inr (), sc_owners = Inr (), sc_export = Inr (), sc_name = Inr (), sc_traffic = (\<lambda>s. s), sc_end = Inr (),
      sc_listener_ended = False, sc_late = (\<lambda>s. s), sc_listener = Inr (), sc_close = Inr ()\<rparr>"

definition demo_manager :: "capture_world manager_state" where
  "demo_manager = default_manager (\<lambda>_. None) UnreadableFile (\<lambda>_. Inr ()) demo_world"

definition demo_daemon :: api_service where
  "demo_daemon = demo_two_owners\<lparr>ax_settings := demo_manager\<rparr>"

lemma demo_initialize: "api_initialize demo_daemon = demo_daemon"
  by (simp add: api_initialize_def on_settings_def demo_daemon_def demo_manager_def default_manager_def load_settings_def
      initialize_retention_def reconcile_capture_def preferences_def validated_state_def sbind_def)

lemma demo_stop: "\<exists>m. api_stop_capture demo_daemon = (Inr (), demo_daemon\<lparr>ax_settings := m\<rparr>) \<and> ms_world m = demo_world"
proof -
  have p: "(t_policy closed_one)\<lparr>sp_admission := False\<rparr> = t_policy closed_one" by (simp add: closed_one_def)
  show ?thesis
    by (simp add: api_stop_capture_def stop_capture_def on_settings_def quiesce_locked_def close_admission_def record_capture_def
        sbind_def stry_def service_def daemon_services_def demo_daemon_def demo_manager_def default_manager_def load_settings_def
        demo_world_calls p) (intro exI conjI, rule refl, simp)
qed

lemma demo_backend_shutdown:
  "fst (backend_shutdown (Inr ()) (Inr (Some (0, 0, 0))) (Inr ()) (calm_state closed_one)) = Inr ()"
  by (simp add: backend_shutdown_def hbind_def draw_def db_shutdown_def transaction_def run_body_def close_admission_body_def
      calm_state_def calm_outcome_def sound_engine_def)

lemma demo_run:
  "\<exists>s'. run_daemon (Inr ()) order quiet_script (Inr (Some (0, 0, 0))) (Inr ()) demo_daemon = (Inr (), s')"
proof -
  obtain m where stop: "api_stop_capture demo_daemon = (Inr (), demo_daemon\<lparr>ax_settings := m\<rparr>)" and m: "ms_world m = demo_world"
    using demo_stop by blast
  let ?s1 = "owners_shutdown order (demo_daemon\<lparr>ax_settings := m\<rparr>)"
  have serve: "serve_daemon order quiet_script demo_daemon = (Inr (), ?s1)"
    by (simp add: serve_daemon_def serve_shutdown_def and_result_def quiet_script_def demo_initialize stop stop_result_def)
  obtain s2 where cap: "capture_shutdown ?s1 = (Inr (), s2)" and w: "shared_history s2 = calm_state closed_one"
    and a: "ax_actions s2 = ax_actions ?s1"
    by (simp add: capture_shutdown_def owners_release_parts m demo_world_def controller_shutdown_def runtime_stop_def shared_history_def)
  have act: "ac_history (ax_actions s2) = calm_state closed_one" "ac_drain (ax_actions s2) = (\<lambda>ops. (Inr (), ops))"
    by (simp_all add: a owners_release_parts demo_daemon_def demo_two_owners_def demo_api_def new_api_def demo_clip_service_def)
  have lent: "ac_history (lend_history s2) = calm_state closed_one" "ac_drain (lend_history s2) = (\<lambda>ops. (Inr (), ops))"
    by (simp_all add: lend_history_def w act calm_tape[simplified])
  have "fst (drain_backend (Inr (Some (0, 0, 0))) (Inr ()) s2) = Inr ()"
    using demo_backend_shutdown by (simp add: drain_backend_def lent split_def Let_def)
  then have "\<exists>s'. drain_backend (Inr (Some (0, 0, 0))) (Inr ()) s2 = (Inr (), s')" by (metis prod.collapse)
  then show ?thesis using serve cap by (auto simp: run_daemon_def and_result_def)
qed

theorem clean_end_is_final_witness:
  "\<exists>order s'. walks order \<and>
     run_daemon (Inr ()) order quiet_script (Inr (Some (0, 0, 0))) (Inr ()) demo_daemon = (Inr (), s') \<and>
     challenges_of (Some '':1'') demo_daemon \<noteq> [] \<and> challenges_of (Some '':1'') s' = [] \<and>
     fst (world_set_paused False 0 (ms_world (ax_settings s'))) = Inl ''Capture owner has shut down''"
proof -
  obtain order where w: "walks order" using some_walk by blast
  obtain s' where r: "run_daemon (Inr ()) order quiet_script (Inr (Some (0, 0, 0))) (Inr ()) demo_daemon = (Inr (), s')"
    using demo_run by blast
  have "challenges_of (Some '':1'') demo_daemon \<noteq> []"
    by (simp add: challenges_of_def demo_daemon_def demo_two_owners_def)
  moreover have "bus_name '':1''" by (simp add: bus_name_def)
  ultimately show ?thesis
    using clean_end_is_final[OF w r, where paused = False and n = 0 and m = store_revision] w r by blast
qed

end
