(* ===== verification/Store_Schema.thy ===== *)
theory Store_Schema
  imports History_Tables
begin

text \<open>
  The schema of the store as text (\<open>src/src/history_store/schema.rs\<close>) and how it is compared
  (\<open>normalize_schema\<close> and \<open>validate_schema\<close> of \<open>src/src/history_store/database.rs\<close>): the objects the engine
  lists must be exactly those of this text, up to blanks outside quotes, and the two the index creates.
\<close>

text \<open>The lines of the text, with a grave accent for the quote.\<close>

definition schema_lines :: "str list" where
  "schema_lines = [
     ''CREATE TABLE store_meta(id INTEGER PRIMARY KEY CHECK(id=1), identity TEXT NOT NULL '' @
       ''CHECK(identity=`clip-daemon-history-v1`), revision INTEGER NOT NULL CHECK(revision>=0 AND '' @
       ''revision<9007199254740991), sequence INTEGER NOT NULL CHECK(sequence>=0)) STRICT;'',
     ''INSERT INTO store_meta VALUES(1,`clip-daemon-history-v1`,0,0);'',
     ''CREATE TABLE effective_policy(id INTEGER PRIMARY KEY CHECK(id=1), admission INTEGER NOT NULL '' @
       ''CHECK(admission IN (0,1)), max_entries INTEGER NOT NULL CHECK(max_entries BETWEEN 0 AND 100000), '' @
       ''max_favorites INTEGER NOT NULL CHECK(max_favorites BETWEEN 0 AND 10000), max_entry_bytes INTEGER NOT '' @
       ''NULL CHECK(max_entry_bytes BETWEEN 1 AND 67108864), max_total_bytes INTEGER NOT NULL '' @
       ''CHECK(max_total_bytes>0)) STRICT;'',
     ''INSERT INTO effective_policy VALUES(1,0,1000,100,16777216,268435456);'',
     ''CREATE TABLE entries(id TEXT PRIMARY KEY, revision INTEGER NOT NULL CHECK(revision>0), favorite INTEGER '' @
       ''NOT NULL CHECK(favorite IN (0,1)), recency INTEGER NOT NULL CHECK(recency>0), mime TEXT NOT NULL '' @
       ''CHECK(length(mime)<=255), resolved_mime TEXT NOT NULL CHECK(length(resolved_mime)<=255), echo_source_id '' @
       ''TEXT REFERENCES entries(id) ON DELETE SET NULL, byte_size INTEGER NOT NULL CHECK(byte_size BETWEEN 0 '' @
       ''AND 67108864), digest BLOB NOT NULL CHECK(length(digest)=32), preview TEXT NOT NULL, kind TEXT NOT NULL '' @
       ''CHECK(kind IN (`Text`,`Link`,`Image`,`Files`,`Html`,`Json`,`Color`,`Binary`))) STRICT;'',
     ''CREATE INDEX entries_order ON entries(recency DESC,id);'',
     ''CREATE INDEX entries_favorite_order ON entries(favorite,recency DESC,id);'',
     ''CREATE INDEX entries_dedup ON entries(digest,mime,byte_size);'',
     ''CREATE INDEX entries_echo_source ON entries(echo_source_id);'',
     ''CREATE TABLE payloads(entry_id TEXT PRIMARY KEY REFERENCES entries(id) ON DELETE CASCADE, bytes BLOB '' @
       ''NOT NULL CHECK(length(bytes)<=67108864)) STRICT;'',
     ''CREATE TABLE search_content(entry_id TEXT PRIMARY KEY REFERENCES entries(id) ON DELETE CASCADE, content '' @
       ''TEXT NOT NULL, indexed_content TEXT NOT NULL, indexed_complete INTEGER NOT NULL CHECK(indexed_complete '' @
       ''IN (0,1))) STRICT;'',
     ''CREATE INDEX search_grams ON search_content USING fts(indexed_content) WITH (tokenizer=`ngram`, '' @
       ''min_gram=3, max_gram=3);'',
     ''CREATE INDEX search_unindexed ON search_content(indexed_complete,entry_id);'',
     ''CREATE TABLE artifacts(path TEXT PRIMARY KEY, source_entry_id TEXT NOT NULL, image_identity TEXT NOT '' @
       ''NULL, created_at INTEGER NOT NULL CHECK(created_at>=0), device INTEGER NOT NULL, inode INTEGER NOT '' @
       ''NULL, owner INTEGER NOT NULL CHECK(owner>=0)) STRICT;'',
     ''CREATE INDEX artifacts_source ON artifacts(source_entry_id);'',
     ''CREATE TABLE entry_artifacts(entry_id TEXT NOT NULL REFERENCES entries(id) ON DELETE CASCADE, path TEXT '' @
       ''NOT NULL, PRIMARY KEY(entry_id,path)) STRICT;'',
     ''CREATE INDEX entry_artifacts_path ON entry_artifacts(path,entry_id);'',
     ''CREATE TABLE inline_echoes(image_identity TEXT PRIMARY KEY, source_entry_id TEXT NOT NULL, created_at '' @
       ''INTEGER NOT NULL CHECK(created_at>=0)) STRICT;'',
     ''CREATE INDEX inline_echoes_source ON inline_echoes(source_entry_id);'']"

definition quoted_line :: "str \<Rightarrow> str" where
  "quoted_line = map (\<lambda>c. if c = CHR ''`'' then CHR 0x27 else c)"

definition SCHEMA :: str where
  "SCHEMA = CHR 0x0A # concat (map (\<lambda>line. quoted_line line @ [CHR 0x0A]) schema_lines)"

section \<open>Comparison\<close>

text \<open>\<open>trim_end_matches(';')\<close>, and the filter with its quote flag.\<close>

definition trim_semicolons :: "rchar list \<Rightarrow> rchar list" where
  "trim_semicolons cs = rev (dropWhile (\<lambda>c. snd c = '';'') (rev cs))"

fun unquoted_blanks :: "bool \<Rightarrow> rchar list \<Rightarrow> rchar list" where
  "unquoted_blanks quoted [] = []"
| "unquoted_blanks quoted (c # cs) =
     (let quoted' = (if snd c = [CHR 0x27] then \<not> quoted else quoted)
      in if quoted' \<or> \<not> is_whitespace (fst c) then c # unquoted_blanks quoted' cs else unquoted_blanks quoted' cs)"

definition normalize_schema :: "str \<Rightarrow> str" where
  "normalize_schema sql = of_chars (unquoted_blanks False (trim_semicolons (trim_chars (chars sql))))"

definition index_objects :: "str list" where
  "index_objects =
    [''CREATE TABLE __turso_internal_fts_dir_search_grams(path TEXT NOT NULL,chunk_no INTEGER NOT NULL,'' @
       ''bytes BLOB NOT NULL)'',
     ''CREATE INDEX IF NOT EXISTS __turso_internal_fts_dir_search_grams_key ON '' @
       ''__turso_internal_fts_dir_search_grams USING backing_btree(path,chunk_no,bytes)'']"

definition schema_objects :: "str list" where
  "schema_objects =
     filter (\<lambda>sql. starts_with sql ''CREATE '') (map trim (split_on (\<lambda>c. c = CHR '';'') SCHEMA)) @ index_objects"

definition expected_schema :: "str set" where
  "expected_schema = set (map normalize_schema schema_objects)"

end
