(* ===== verification/Store_Open.thy ===== *)
theory Store_Open
  imports Store_Schema Storage_Op Generated_Files Result_State
begin

text \<open>
  Opening the store (\<open>private_file\<close>, \<open>open_private\<close>, \<open>protect_sidecars\<close>, \<open>open\<close> of
  \<open>src/src/history_store/database.rs\<close> and \<open>open_default\<close> of \<open>src/src/history_store/mod.rs\<close>).  A volume tells what a
  path names without following a symbolic link, which paths the system refuses, and which files are locked.  What the
  engine answers about the file is an argument.  A path is a string with slashes; the bits of a mode are a number.
\<close>

section \<open>Volumes\<close>

datatype node_kind = RegularFile | DirectoryNode | SymbolicLink bool | SpecialNode

fun is_symlink :: "node_kind \<Rightarrow> bool" where
  "is_symlink (SymbolicLink _) = True"
| "is_symlink _ = False"

record node =
  nd_kind :: node_kind
  nd_uid :: nat
  nd_nlink :: nat
  nd_mode :: nat
  nd_len :: nat

record volume =
  vo_nodes :: "str \<Rightarrow> node option"
  vo_denied :: "str \<Rightarrow> bool"
  vo_euid :: nat
  vo_locked :: "str set"

type_synonym 'a fs = "(volume, backend_error, 'a) fallible"

definition MODE_FILE :: nat where "MODE_FILE = 6 * 64"
definition MODE_DIRECTORY :: nat where "MODE_DIRECTORY = 7 * 64"

definition os_error :: backend_error where
  "os_error = operation_error ''system call failed''"

definition put_node :: "str \<Rightarrow> node \<Rightarrow> volume \<Rightarrow> volume" where
  "put_node p n v = v\<lparr>vo_nodes := (vo_nodes v)(p \<mapsto> n)\<rparr>"

definition symlink_metadata :: "str \<Rightarrow> node option fs" where
  "symlink_metadata p v = (if vo_denied v p then (Inl os_error, v) else (Inr (vo_nodes v p), v))"

fun each :: "('a \<Rightarrow> unit fs) \<Rightarrow> 'a list \<Rightarrow> unit fs" where
  "each f [] = sreturn ()"
| "each f (x # xs) = sbind (f x) (\<lambda>_. each f xs)"

section \<open>Private files\<close>

text \<open>A file is opened without following a link; a directory cannot be opened for writing.\<close>

definition private_file :: "str \<Rightarrow> bool \<Rightarrow> unit fs" where
  "private_file p create_new v =
    (if vo_denied v p then (Inl os_error, v)
     else case vo_nodes v p of
       None \<Rightarrow>
         if create_new
         then (Inr (), put_node p \<lparr>nd_kind = RegularFile, nd_uid = vo_euid v, nd_nlink = 1, nd_mode = MODE_FILE, nd_len = 0\<rparr> v)
         else (Inl os_error, v)
     | Some n \<Rightarrow>
         if create_new \<or> nd_kind n = DirectoryNode \<or> is_symlink (nd_kind n) then (Inl os_error, v)
         else if nd_kind n \<noteq> RegularFile \<or> nd_nlink n \<noteq> 1 \<or> nd_uid n \<noteq> vo_euid v
         then (Inl (invalid_data ''Unsafe history file ownership or type''), v)
         else (Inr (), put_node p (n\<lparr>nd_mode := MODE_FILE\<rparr>) v))"

definition open_private :: "str \<Rightarrow> bool fs" where
  "open_private p =
     sbind (symlink_metadata p) (\<lambda>found. sbind (private_file p (found = None)) (\<lambda>_. sreturn (found = None)))"

definition sidecar :: "str \<Rightarrow> str \<Rightarrow> str" where
  "sidecar p extension = p @ extension"

definition protect_sidecar :: "str \<Rightarrow> unit fs" where
  "protect_sidecar side =
     sbind (symlink_metadata side) (\<lambda>found. if found = None then sreturn () else private_file side False)"

definition protect_sidecars :: "str \<Rightarrow> unit fs" where
  "protect_sidecars p = each (\<lambda>extension. protect_sidecar (sidecar p extension)) [''-wal'', ''-shm'']"

section \<open>The directory\<close>

text \<open>\<open>Path::ancestors\<close>, the path itself first, without the empty path.\<close>

definition path_ancestors :: "str \<Rightarrow> str list" where
  "path_ancestors p =
    (let cs = path_components p; root = (if path_is_absolute p then ''/'' else [])
     in filter (\<lambda>a. a \<noteq> []) (map (\<lambda>n. root @ join_strs ''/'' (take n cs)) (rev [0..<Suc (length cs)])))"

text \<open>The recursive builder makes what is missing, from the outermost directory on.\<close>

definition make_directory :: "str \<Rightarrow> unit fs" where
  "make_directory p v =
    (if vo_denied v p then (Inl os_error, v)
     else case vo_nodes v p of
       None \<Rightarrow>
         (Inr (), put_node p \<lparr>nd_kind = DirectoryNode, nd_uid = vo_euid v, nd_nlink = 2, nd_mode = MODE_DIRECTORY, nd_len = 0\<rparr> v)
     | Some n \<Rightarrow> if nd_kind n \<in> {DirectoryNode, SymbolicLink True} then (Inr (), v) else (Inl os_error, v))"

definition refuse_symlink :: "str \<Rightarrow> unit fs" where
  "refuse_symlink p =
     sbind (symlink_metadata p) (\<lambda>found.
       case found of
         None \<Rightarrow> sfail os_error
       | Some n \<Rightarrow>
           if is_symlink (nd_kind n) then sfail (invalid_data ''Symlink history directories are not allowed'')
           else sreturn ())"

definition secure_directory :: "str \<Rightarrow> unit fs" where
  "secure_directory p =
     sbind (symlink_metadata p) (\<lambda>found. \<lambda>v.
       case found of
         None \<Rightarrow> (Inl os_error, v)
       | Some n \<Rightarrow>
           if nd_kind n \<noteq> DirectoryNode \<or> nd_uid n \<noteq> vo_euid v
           then (Inl (invalid_data ''Unsafe history directory ownership''), v)
           else (Inr (), put_node p (n\<lparr>nd_mode := MODE_DIRECTORY\<rparr>) v))"

definition history_directory :: "str \<Rightarrow> (backend_error, str) result" where
  "history_directory p =
    (case path_parent p of
       None \<Rightarrow> Inl (invalid_data ''History database needs a parent directory'')
     | Some root \<Rightarrow> if root = [] then Inl (invalid_data ''History database needs a parent directory'') else Inr root)"

definition prepare_directory :: "str \<Rightarrow> unit fs" where
  "prepare_directory p =
     sbind (slift (history_directory p)) (\<lambda>root.
     sbind (each make_directory (rev (path_ancestors root))) (\<lambda>_.
     sbind (each refuse_symlink (path_ancestors root)) (\<lambda>_. secure_directory root)))"

section \<open>Ownership and the database file\<close>

definition acquire_lock :: "str \<Rightarrow> unit fs" where
  "acquire_lock p =
     sbind (open_private (sidecar p ''.lock'')) (\<lambda>_. \<lambda>v.
       if sidecar p ''.lock'' \<in> vo_locked v then (Inl (unavailable ''History database already has an owner''), v)
       else (Inr (), v\<lparr>vo_locked := insert (sidecar p ''.lock'') (vo_locked v)\<rparr>))"

definition release_lock :: "str \<Rightarrow> volume \<Rightarrow> volume" where
  "release_lock p v = v\<lparr>vo_locked := vo_locked v - {sidecar p ''.lock''}\<rparr>"

definition recovery_wal :: "str \<Rightarrow> volume \<Rightarrow> bool" where
  "recovery_wal p v \<longleftrightarrow>
     \<not> vo_denied v (sidecar p ''-wal'') \<and>
     (case vo_nodes v (sidecar p ''-wal'') of None \<Rightarrow> False | Some n \<Rightarrow> nd_kind n = RegularFile \<and> nd_len n > 0)"

definition empty_file :: "str \<Rightarrow> volume \<Rightarrow> bool" where
  "empty_file p v \<longleftrightarrow> (case vo_nodes v p of None \<Rightarrow> True | Some n \<Rightarrow> nd_len n = 0)"

definition open_file :: "str \<Rightarrow> bool fs" where
  "open_file p =
     sbind (open_private p) (\<lambda>fresh. \<lambda>v.
       if \<not> fresh \<and> empty_file p v \<and> \<not> recovery_wal p v
       then (Inl (invalid_data ''Existing empty history database without recovery WAL is not a fresh store''), v)
       else (Inr fresh, v))"

section \<open>The engine\<close>

text \<open>
  The answers of the engine: building and connecting, the identity of an existing file (with the errors of reading
  it), the durability settings, the objects and violated references it lists, and the outcomes of the transactions.
\<close>

record engine_answers =
  ea_built :: "unit bresult"
  ea_application_id :: "int bresult"
  ea_user_version :: "int bresult"
  ea_identity :: "str list bresult"
  ea_settings :: "unit bresult"
  ea_foreign_keys :: "int bresult"
  ea_synchronous :: "int bresult"
  ea_schema :: "str list bresult"
  ea_violations :: "nat bresult"
  ea_create :: engine
  ea_admission :: engine
  ea_reads :: engine

definition APP_ID :: int where "APP_ID = 0x434c4950"
definition SCHEMA_VERSION :: int where "SCHEMA_VERSION = 1"

definition check_identity :: "engine_answers \<Rightarrow> unit bresult" where
  "check_identity a =
     rbind (ea_application_id a) (\<lambda>application.
     rbind (if application \<noteq> APP_ID then Inr False else rbind (ea_user_version a) (\<lambda>version. Inr (version = SCHEMA_VERSION))) (\<lambda>known.
       if \<not> known then Inl (invalid_data ''Unrecognized history database identity or schema'')
       else rbind (ea_identity a) (\<lambda>rows.
         if length rows \<noteq> 1 \<or> hd rows \<noteq> ''clip-daemon-history-v1''
         then Inl (invalid_data ''Unrecognized history database identity'') else Inr ())))"

definition check_durability :: "engine_answers \<Rightarrow> unit bresult" where
  "check_durability a =
     rbind (ea_settings a) (\<lambda>_.
     rbind (ea_foreign_keys a) (\<lambda>keys.
     rbind (if keys \<noteq> 1 then Inr False else rbind (ea_synchronous a) (\<lambda>mode. Inr (mode = 2))) (\<lambda>applied.
       if \<not> applied then Inl (unavailable ''History durability settings were not applied'') else Inr ())))"

definition validate_schema :: "engine_answers \<Rightarrow> unit bresult" where
  "validate_schema a =
     rbind (ea_schema a) (\<lambda>objects.
       if normalize_schema ` set objects \<noteq> expected_schema then Inl (invalid_data ''Unrecognized or incomplete history schema'')
       else rbind (ea_violations a) (\<lambda>violations.
         if violations \<noteq> 0 then Inl (invalid_data ''History database referential integrity check failed'') else Inr ()))"

definition create_schema :: "bool \<Rightarrow> engine_answers \<Rightarrow> (database, backend_error, unit) fallible" where
  "create_schema fresh a = (if fresh then transaction (ea_create a) (\<lambda>_. Inr ((), fresh_tables)) else sreturn ())"

text \<open>From the connection on, over the tables the file holds.\<close>

definition open_connected :: "bool \<Rightarrow> engine_answers \<Rightarrow> (database, backend_error, unit) fallible" where
  "open_connected fresh a =
     sbind (slift (ea_built a)) (\<lambda>_.
     sbind (slift (if fresh then Inr () else check_identity a)) (\<lambda>_.
     sbind (slift (check_durability a)) (\<lambda>_.
     sbind (create_schema fresh a) (\<lambda>_.
     sbind (slift (validate_schema a)) (\<lambda>_.
     sbind (transaction (ea_admission a) close_admission_body) (\<lambda>_.
     sbind (db_read (ea_reads a) (\<lambda>t. Inr (t_policy t))) (\<lambda>_.
     sbind (db_read (ea_reads a) (\<lambda>t. Inr (t_revision t))) (\<lambda>_. sreturn ()))))))))"

section \<open>Open\<close>

record store_disk =
  sd_volume :: volume
  sd_database :: database

definition on_volume :: "'a fs \<Rightarrow> (store_disk, backend_error, 'a) fallible" where
  "on_volume m d = (let (r, v) = m (sd_volume d) in (r, d\<lparr>sd_volume := v\<rparr>))"

definition on_database :: "(database, backend_error, 'a) fallible \<Rightarrow> (store_disk, backend_error, 'a) fallible" where
  "on_database m d = (let (r, db) = m (sd_database d) in (r, d\<lparr>sd_database := db\<rparr>))"

text \<open>With the lock held; a path that is not UTF-8 cannot be handed to the engine.\<close>

definition open_locked :: "str \<Rightarrow> engine_answers \<Rightarrow> (store_disk, backend_error, unit) fallible" where
  "open_locked p a =
     sbind (on_volume (open_file p)) (\<lambda>fresh.
     sbind (on_volume (protect_sidecars p)) (\<lambda>_.
     sbind (slift (if valid_utf8 p then Inr () else Inl (invalid_data ''History path must be UTF-8''))) (\<lambda>_.
     sbind (on_database (open_connected fresh a)) (\<lambda>_. on_volume (protect_sidecars p)))))"

text \<open>The lock goes when the open fails; a new connection is not fenced.\<close>

definition db_open :: "str \<Rightarrow> engine_answers \<Rightarrow> (store_disk, backend_error, unit) fallible" where
  "db_open p a d =
    (case sbind (on_volume (prepare_directory p)) (\<lambda>_. on_volume (acquire_lock p)) d of
       (Inl e, d1) \<Rightarrow> (Inl e, d1)
     | (Inr _, d1) \<Rightarrow>
         (case open_locked p a (d1\<lparr>sd_database := (sd_database d1)\<lparr>db_blocked := False\<rparr>\<rparr>) of
            (Inl e, d2) \<Rightarrow> (Inl e, d2\<lparr>sd_volume := release_lock p (sd_volume d2)\<rparr>)
          | (Inr _, d2) \<Rightarrow> (Inr (), d2)))"

definition default_path :: "str option \<Rightarrow> str option \<Rightarrow> str bresult" where
  "default_path data_home home =
     ok_or
       (case (case data_home of Some v \<Rightarrow> if v \<noteq> [] \<and> path_is_absolute v then Some v else None | None \<Rightarrow> None) of
          Some v \<Rightarrow> Some (path_join v ''clip-daemon/history/history.db'')
        | None \<Rightarrow>
            (case home of
               Some h \<Rightarrow> if path_is_absolute h then Some (path_join (path_join h ''.local/share'') ''clip-daemon/history/history.db'') else None
             | None \<Rightarrow> None))
       (unavailable ''Clipboard data directory is unavailable'')"

end
