(* ===== verification/Open_Properties.thy ===== *)
theory Open_Properties
  imports Store_Open
begin

text \<open>
  What an opened store is: its files and directory belong to the user alone, it has one owner, its identity, schema
  and durability were checked, and its admission is closed; and what a refused open leaves behind.
\<close>

section \<open>Private places\<close>

definition private_at :: "volume \<Rightarrow> str \<Rightarrow> bool" where
  "private_at v p \<longleftrightarrow>
    (case vo_nodes v p of
       None \<Rightarrow> False
     | Some n \<Rightarrow> nd_kind n = RegularFile \<and> nd_uid n = vo_euid v \<and> nd_nlink n = 1 \<and> nd_mode n = MODE_FILE)"

definition user_directory :: "volume \<Rightarrow> str \<Rightarrow> bool" where
  "user_directory v p \<longleftrightarrow>
    (case vo_nodes v p of
       None \<Rightarrow> False
     | Some n \<Rightarrow> nd_kind n = DirectoryNode \<and> nd_uid n = vo_euid v \<and> nd_mode n = MODE_DIRECTORY)"

definition not_symlink :: "volume \<Rightarrow> str \<Rightarrow> bool" where
  "not_symlink v p \<longleftrightarrow> (case vo_nodes v p of None \<Rightarrow> False | Some n \<Rightarrow> \<not> is_symlink (nd_kind n))"

definition secure_store :: "str \<Rightarrow> volume \<Rightarrow> bool" where
  "secure_store p v \<longleftrightarrow>
     private_at v p \<and> private_at v (sidecar p ''.lock'') \<and>
     (vo_nodes v (sidecar p ''-wal'') = None \<or> private_at v (sidecar p ''-wal'')) \<and>
     (vo_nodes v (sidecar p ''-shm'') = None \<or> private_at v (sidecar p ''-shm'')) \<and>
     (case history_directory p of
        Inl e \<Rightarrow> False
      | Inr root \<Rightarrow> user_directory v root \<and> list_all (not_symlink v) (path_ancestors root))"

text \<open>Files are only made private; nothing else that exists is touched.\<close>

definition guarded :: "volume \<Rightarrow> volume \<Rightarrow> bool" where
  "guarded v v' \<longleftrightarrow> vo_euid v' = vo_euid v \<and>
     (\<forall>x n. vo_nodes v x = Some n \<longrightarrow>
        vo_nodes v' x = Some n \<or> (nd_kind n = RegularFile \<and> vo_nodes v' x = Some (n\<lparr>nd_mode := MODE_FILE\<rparr>)))"

lemma guarded_refl [simp]: "guarded v v"
  by (simp add: guarded_def)

lemma guarded_trans: "guarded v v' \<Longrightarrow> guarded v' v'' \<Longrightarrow> guarded v v''"
  unfolding guarded_def by (elim conjE, intro conjI allI impI) (simp, fastforce)

lemma guarded_private: "guarded v v' \<Longrightarrow> private_at v p \<Longrightarrow> private_at v' p"
  unfolding guarded_def private_at_def by (auto split: option.splits) fastforce+

lemma guarded_directory: "guarded v v' \<Longrightarrow> user_directory v p \<Longrightarrow> user_directory v' p"
  unfolding guarded_def user_directory_def by (auto split: option.splits) fastforce+

lemma guarded_not_symlink: "guarded v v' \<Longrightarrow> not_symlink v p \<Longrightarrow> not_symlink v' p"
  unfolding guarded_def not_symlink_def by (auto split: option.splits) fastforce+

lemma private_file_Inr:
  assumes "private_file p create v = (Inr (), v')"
  shows "guarded v v'" and "private_at v' p" and "vo_locked v' = vo_locked v" and "x \<noteq> p \<Longrightarrow> vo_nodes v' x = vo_nodes v x"
    and "create \<longleftrightarrow> vo_nodes v p = None"
  using assms
  by (auto simp: private_file_def put_node_def guarded_def private_at_def split: if_splits option.splits)

lemma private_file_fails:
  assumes "private_file p create v = (Inl e, v')" shows "v' = v"
  using assms by (auto simp: private_file_def split: if_splits option.splits)

lemma symlink_metadata_Inr: "symlink_metadata p v = (Inr x, v') \<longleftrightarrow> \<not> vo_denied v p \<and> x = vo_nodes v p \<and> v' = v"
  by (auto simp: symlink_metadata_def)

lemma open_private_Inr:
  assumes "open_private p v = (Inr fresh, v')"
  shows "guarded v v'" and "private_at v' p" and "vo_locked v' = vo_locked v" and "x \<noteq> p \<Longrightarrow> vo_nodes v' x = vo_nodes v x"
    and "fresh \<longleftrightarrow> vo_nodes v p = None"
  using assms private_file_Inr[of p _ v v']
  by (auto simp: open_private_def sbind_Inr symlink_metadata_Inr sreturn_def)

lemma protect_sidecar_Inr:
  assumes "protect_sidecar side v = (Inr (), v')"
  shows "guarded v v'" and "vo_locked v' = vo_locked v" and "x \<noteq> side \<Longrightarrow> vo_nodes v' x = vo_nodes v x"
    and "vo_nodes v' side = None \<or> private_at v' side"
  using assms private_file_Inr[of side False v v']
  by (auto simp: protect_sidecar_def sbind_Inr symlink_metadata_Inr sreturn_def split: if_splits)

lemma protect_sidecars_Inr:
  assumes "protect_sidecars p v = (Inr (), v')"
  shows "guarded v v'" and "vo_locked v' = vo_locked v"
    and "vo_nodes v' (sidecar p ''-wal'') = None \<or> private_at v' (sidecar p ''-wal'')"
    and "vo_nodes v' (sidecar p ''-shm'') = None \<or> private_at v' (sidecar p ''-shm'')"
proof -
  obtain v1 where w: "protect_sidecar (sidecar p ''-wal'') v = (Inr (), v1)" and s: "protect_sidecar (sidecar p ''-shm'') v1 = (Inr (), v')"
    using assms by (auto simp: protect_sidecars_def sbind_Inr sreturn_def)
  have ne: "sidecar p ''-wal'' \<noteq> sidecar p ''-shm''" by (simp add: sidecar_def)
  show "guarded v v'" using protect_sidecar_Inr(1)[OF w] protect_sidecar_Inr(1)[OF s] by (rule guarded_trans)
  show "vo_locked v' = vo_locked v" using protect_sidecar_Inr(2)[OF w] protect_sidecar_Inr(2)[OF s] by simp
  show "vo_nodes v' (sidecar p ''-shm'') = None \<or> private_at v' (sidecar p ''-shm'')" by (rule protect_sidecar_Inr(4)[OF s])
  show "vo_nodes v' (sidecar p ''-wal'') = None \<or> private_at v' (sidecar p ''-wal'')"
    using protect_sidecar_Inr(4)[OF w] protect_sidecar_Inr(3)[OF s ne] guarded_private[OF protect_sidecar_Inr(1)[OF s]] by metis
qed

section \<open>The directory and the lock\<close>

text \<open>Making directories adds directories only.\<close>

definition grown :: "volume \<Rightarrow> volume \<Rightarrow> bool" where
  "grown v v' \<longleftrightarrow> vo_locked v' = vo_locked v \<and>
     (\<forall>x. vo_nodes v' x = vo_nodes v x \<or> (\<exists>n. vo_nodes v' x = Some n \<and> nd_kind n = DirectoryNode \<and>
        (\<forall>m. vo_nodes v x = Some m \<longrightarrow> nd_kind m = DirectoryNode)))"

lemma grown_refl [simp]: "grown v v" by (simp add: grown_def)

lemma grown_trans: "grown v v' \<Longrightarrow> grown v' v'' \<Longrightarrow> grown v v''"
  unfolding grown_def by (elim conjE, intro conjI allI) (simp, metis)

lemma each_grown:
  assumes step: "\<And>x v r v'. f x v = (r, v') \<Longrightarrow> grown v v'"
  shows "each f xs v = (r, v') \<Longrightarrow> grown v v'"
proof (induction xs arbitrary: v)
  case (Cons x xs)
  obtain r1 v1 where f: "f x v = (r1, v1)" by fastforce
  note g = step[OF f]
  show ?case
  proof (cases r1)
    case (Inr u)
    then have "each f xs v1 = (r, v')" using Cons.prems f by (simp add: sbind_def)
    from Cons.IH[OF this] show ?thesis by (rule grown_trans[OF g])
  qed (use Cons.prems f g in \<open>simp add: sbind_def\<close>)
qed (simp add: sreturn_def)

lemma make_directory_grown: "make_directory p v = (r, v') \<Longrightarrow> grown v v'"
  by (auto simp: make_directory_def put_node_def grown_def split: if_splits option.splits)

lemma refuse_symlink_parts:
  "snd (refuse_symlink p v) = v" "fst (refuse_symlink p v) = Inr () \<Longrightarrow> not_symlink v p"
  by (auto simp: refuse_symlink_def sbind_def symlink_metadata_def not_symlink_def sfail_def sreturn_def split: option.splits if_splits)

lemma each_refuse: "each refuse_symlink ps v = (r, v') \<Longrightarrow> v' = v \<and> (r = Inr () \<longrightarrow> list_all (not_symlink v) ps)"
proof (induction ps)
  case (Cons p ps)
  obtain r1 v1 where f: "refuse_symlink p v = (r1, v1)" by fastforce
  then have "v1 = v" "r1 = Inr () \<Longrightarrow> not_symlink v p" using refuse_symlink_parts[of p v] by simp_all
  then show ?case using Cons f by (cases r1) (auto simp: sbind_def)
qed (simp add: sreturn_def)

lemma secure_directory_parts:
  assumes "secure_directory p v = (r, v')"
  shows "grown v v'" and "r = Inr () \<Longrightarrow> user_directory v' p \<and> (\<forall>a. not_symlink v a \<longrightarrow> not_symlink v' a)"
  using assms
  by (auto simp: secure_directory_def sbind_def symlink_metadata_def put_node_def grown_def user_directory_def not_symlink_def
      split: if_splits option.splits)

lemma prepare_directory_parts:
  assumes "prepare_directory p v = (r, v')"
  shows "grown v v'"
    and "r = Inr () \<Longrightarrow> \<exists>root. history_directory p = Inr root \<and> user_directory v' root \<and> list_all (not_symlink v') (path_ancestors root)"
proof -
  show g: "grown v v'"
  proof (cases "history_directory p")
    case (Inr root)
    obtain r1 v1 where m: "each make_directory (rev (path_ancestors root)) v = (r1, v1)" by fastforce
    have g1: "grown v v1" by (rule each_grown[OF make_directory_grown m])
    obtain r2 v2 where c: "each refuse_symlink (path_ancestors root) v1 = (r2, v2)" by fastforce
    have v2: "v2 = v1" using each_refuse[OF c] by simp
    obtain r3 v3 where s: "secure_directory root v1 = (r3, v3)" by fastforce
    have "v' = v1 \<or> v' = v3"
      using assms m c s v2 Inr by (auto simp: prepare_directory_def sbind_def slift_def split: sum.splits)
    then show ?thesis using g1 secure_directory_parts(1)[OF s] grown_trans by blast
  qed (use assms in \<open>simp add: prepare_directory_def sbind_def slift_def\<close>)
  assume "r = Inr ()"
  then obtain root v1 v2 where h: "history_directory p = Inr root"
    and c: "each refuse_symlink (path_ancestors root) v1 = (Inr (), v2)" and s: "secure_directory root v2 = (Inr (), v')"
    using assms by (auto simp: prepare_directory_def sbind_Inr slift_def)
  have "list_all (not_symlink v2) (path_ancestors root)" using each_refuse[OF c] by simp
  then have "list_all (not_symlink v') (path_ancestors root)"
    using secure_directory_parts(2)[OF s] by (auto simp: list_all_iff)
  then show "\<exists>root. history_directory p = Inr root \<and> user_directory v' root \<and> list_all (not_symlink v') (path_ancestors root)"
    using h secure_directory_parts(2)[OF s] by auto
qed

lemma acquire_lock_Inr:
  assumes "acquire_lock p v = (Inr (), v')"
  shows "guarded v v'" and "private_at v' (sidecar p ''.lock'')" and "sidecar p ''.lock'' \<notin> vo_locked v"
    and "sidecar p ''.lock'' \<in> vo_locked v'" and "x \<noteq> sidecar p ''.lock'' \<Longrightarrow> vo_nodes v' x = vo_nodes v x"
proof -
  obtain fresh v1 where o: "open_private (sidecar p ''.lock'') v = (Inr fresh, v1)" and n: "sidecar p ''.lock'' \<notin> vo_locked v1"
    and v': "v' = v1\<lparr>vo_locked := insert (sidecar p ''.lock'') (vo_locked v1)\<rparr>"
    using assms by (auto simp: acquire_lock_def sbind_Inr split: if_splits)
  note f = open_private_Inr[OF o]
  show "guarded v v'" using f(1) by (simp add: v' guarded_def)
  show "private_at v' (sidecar p ''.lock'')" using f(2) by (simp add: v' private_at_def split: option.splits)
  show "sidecar p ''.lock'' \<notin> vo_locked v" "sidecar p ''.lock'' \<in> vo_locked v'" using n f(3) by (simp_all add: v')
  show "x \<noteq> sidecar p ''.lock'' \<Longrightarrow> vo_nodes v' x = vo_nodes v x" using f(4) by (simp add: v')
qed

lemma lock_excludes:
  assumes "sidecar p ''.lock'' \<in> vo_locked v" shows "\<not> is_ok (fst (acquire_lock p v))"
proof
  assume "is_ok (fst (acquire_lock p v))"
  then obtain v' where "acquire_lock p v = (Inr (), v')" by (metis is_ok_iff prod.collapse unit.exhaust)
  from acquire_lock_Inr(3)[OF this] show False using assms by simp
qed

section \<open>The engine\<close>

lemma transaction_success:
  "transaction en f db = (Inr v, db') \<Longrightarrow> \<not> db_blocked db \<and> (\<exists>t. f (db_tables db) = Inr (v, t) \<and> db' = db\<lparr>db_tables := t\<rparr>)"
  using transaction_ok[of en f db v] by simp

lemma transaction_outcome:
  "transaction en f db = (r, db') \<Longrightarrow> db_tables db' = db_tables db \<or> (\<exists>v t. f (db_tables db) = Inr (v, t) \<and> db_tables db' = t)"
  by (auto simp: transaction_def run_body_def split: if_splits option.splits sum.splits prod.splits)

definition closed_tables :: "tables \<Rightarrow> tables" where
  "closed_tables t = t\<lparr>t_policy := (t_policy t)\<lparr>sp_admission := False\<rparr>\<rparr>"

lemma close_body: "close_admission_body t = Inr ((), closed_tables t)"
  by (simp add: close_admission_body_def closed_tables_def)

lemma create_schema_Inr:
  "create_schema fresh a db = (Inr u, db') \<Longrightarrow> db' = (if fresh then db\<lparr>db_tables := fresh_tables\<rparr> else db)"
  by (cases fresh) (auto simp: create_schema_def sreturn_def dest: transaction_success)

lemma open_connected_Inr:
  assumes "open_connected fresh a db = (Inr (), db')"
  shows "\<not> db_blocked db'" and "db_tables db' = closed_tables (if fresh then fresh_tables else db_tables db)"
    and "check_durability a = Inr ()" and "validate_schema a = Inr ()" and "\<not> fresh \<Longrightarrow> check_identity a = Inr ()"
proof -
  obtain u db1 where i: "(if fresh then Inr () else check_identity a) = Inr ()" and d: "check_durability a = Inr ()"
    and c: "create_schema fresh a db = (Inr u, db1)" and v: "validate_schema a = Inr ()"
    and t: "transaction (ea_admission a) close_admission_body db1 = (Inr (), db')"
    using assms by (auto simp: open_connected_def sbind_Inr slift_def sreturn_def db_read_def)
  show "check_durability a = Inr ()" "validate_schema a = Inr ()" "\<not> fresh \<Longrightarrow> check_identity a = Inr ()" using d v i by auto
  have s: "\<not> db_blocked db1" "db' = db1\<lparr>db_tables := closed_tables (db_tables db1)\<rparr>"
    using transaction_success[OF t] by (auto simp: close_body)
  then show "\<not> db_blocked db'" by simp
  show "db_tables db' = closed_tables (if fresh then fresh_tables else db_tables db)"
    using s(2) create_schema_Inr[OF c] by simp
qed

lemma open_connected_existing:
  assumes "open_connected False a db = (r, db')"
  shows "db_tables db' \<in> {db_tables db, closed_tables (db_tables db)}" and "check_identity a \<noteq> Inr () \<Longrightarrow> r \<noteq> Inr () \<and> db' = db"
proof -
  obtain r1 db1 where t: "transaction (ea_admission a) close_admission_body db = (r1, db1)" by fastforce
  have "db' = db \<or> db' = db1"
    using assms t by (auto simp: open_connected_def sbind_def slift_def sreturn_def create_schema_def db_read_def
        split: sum.splits prod.splits option.splits)
  moreover have "db_tables db1 \<in> {db_tables db, closed_tables (db_tables db)}"
    using transaction_outcome[OF t] by (auto simp: close_body)
  ultimately show "db_tables db' \<in> {db_tables db, closed_tables (db_tables db)}" by auto
  show "r \<noteq> Inr () \<and> db' = db" if "check_identity a \<noteq> Inr ()"
    using assms that by (auto simp: open_connected_def sbind_def slift_def split: sum.splits prod.splits)
qed

definition recognized :: "engine_answers \<Rightarrow> bool" where
  "recognized a \<longleftrightarrow>
     ea_application_id a = Inr APP_ID \<and> ea_user_version a = Inr SCHEMA_VERSION \<and> ea_identity a = Inr [''clip-daemon-history-v1'']"

lemma check_identity_Inr: "check_identity a = Inr () \<longleftrightarrow> recognized a"
  by (cases "ea_application_id a"; cases "ea_user_version a"; cases "ea_identity a")
    (auto simp: check_identity_def recognized_def length_Suc_conv)

lemma check_durability_Inr: "check_durability a = Inr () \<Longrightarrow> ea_foreign_keys a = Inr 1 \<and> ea_synchronous a = Inr 2"
  by (cases "ea_settings a"; cases "ea_foreign_keys a"; cases "ea_synchronous a") (auto simp: check_durability_def split: if_splits)

lemma validate_schema_Inr:
  "validate_schema a = Inr () \<Longrightarrow> (\<exists>objects. ea_schema a = Inr objects \<and> normalize_schema ` set objects = expected_schema) \<and> ea_violations a = Inr 0"
  by (cases "ea_schema a"; cases "ea_violations a") (auto simp: validate_schema_def split: if_splits)

section \<open>Open\<close>

lemma on_volume_Inr: "on_volume m d = (Inr x, d') \<longleftrightarrow> (\<exists>v. m (sd_volume d) = (Inr x, v) \<and> d' = d\<lparr>sd_volume := v\<rparr>)"
  by (auto simp: on_volume_def split: prod.splits)

lemma on_database_Inr: "on_database m d = (Inr x, d') \<longleftrightarrow> (\<exists>db. m (sd_database d) = (Inr x, db) \<and> d' = d\<lparr>sd_database := db\<rparr>)"
  by (auto simp: on_database_def split: prod.splits)

lemma open_file_Inr:
  assumes "open_file p v = (Inr fresh, v')" shows "open_private p v = (Inr fresh, v')"
  using assms by (auto simp: open_file_def sbind_Inr split: if_splits)

lemma open_locked_Inr:
  assumes "open_locked p a d = (Inr (), d')"
  shows "guarded (sd_volume d) (sd_volume d')" and "private_at (sd_volume d') p" and "vo_locked (sd_volume d') = vo_locked (sd_volume d)"
    and "vo_nodes (sd_volume d') (sidecar p ''-wal'') = None \<or> private_at (sd_volume d') (sidecar p ''-wal'')"
    and "vo_nodes (sd_volume d') (sidecar p ''-shm'') = None \<or> private_at (sd_volume d') (sidecar p ''-shm'')"
    and "open_connected (vo_nodes (sd_volume d) p = None) a (sd_database d) = (Inr (), sd_database d')"
proof -
  obtain fresh v1 v2 db v3 where o: "open_file p (sd_volume d) = (Inr fresh, v1)" and s1: "protect_sidecars p v1 = (Inr (), v2)"
    and c: "open_connected fresh a (sd_database d) = (Inr (), db)" and s2: "protect_sidecars p v2 = (Inr (), v3)"
    and d': "d' = d\<lparr>sd_volume := v3, sd_database := db\<rparr>"
    using assms by (auto simp: open_locked_def sbind_Inr on_volume_Inr on_database_Inr slift_def)
  note f = open_private_Inr[OF open_file_Inr[OF o]] and p1 = protect_sidecars_Inr[OF s1] and p2 = protect_sidecars_Inr[OF s2]
  have g: "guarded v1 v3" using p1(1) p2(1) by (rule guarded_trans)
  show "guarded (sd_volume d) (sd_volume d')" using guarded_trans[OF f(1) g] by (simp add: d')
  show "private_at (sd_volume d') p" using guarded_private[OF g f(2)] by (simp add: d')
  show "vo_locked (sd_volume d') = vo_locked (sd_volume d)" using f(3) p1(2) p2(2) by (simp add: d')
  show "vo_nodes (sd_volume d') (sidecar p ''-wal'') = None \<or> private_at (sd_volume d') (sidecar p ''-wal'')"
    "vo_nodes (sd_volume d') (sidecar p ''-shm'') = None \<or> private_at (sd_volume d') (sidecar p ''-shm'')"
    using p2(3,4) by (simp_all add: d')
  show "open_connected (vo_nodes (sd_volume d) p = None) a (sd_database d) = (Inr (), sd_database d')"
    using c f(5) by (simp add: d')
qed

lemma db_open_Inr:
  assumes "db_open p a d = (Inr (), d')"
  shows "\<exists>v1 v2. prepare_directory p (sd_volume d) = (Inr (), v1) \<and> acquire_lock p v1 = (Inr (), v2) \<and>
    open_locked p a (d\<lparr>sd_volume := v2, sd_database := (sd_database d)\<lparr>db_blocked := False\<rparr>\<rparr>) = (Inr (), d')"
proof -
  obtain d1 where s: "sbind (on_volume (prepare_directory p)) (\<lambda>_. on_volume (acquire_lock p)) d = (Inr (), d1)"
    and l: "open_locked p a (d1\<lparr>sd_database := (sd_database d1)\<lparr>db_blocked := False\<rparr>\<rparr>) = (Inr (), d')"
    using assms by (auto simp: db_open_def split: prod.splits sum.splits)
  obtain v1 v2 where "prepare_directory p (sd_volume d) = (Inr (), v1)" "acquire_lock p v1 = (Inr (), v2)" "d1 = d\<lparr>sd_volume := v2\<rparr>"
    using s by (auto simp: sbind_Inr on_volume_Inr)
  with l show ?thesis by auto
qed

lemma db_open_owned:
  assumes "sidecar p ''.lock'' \<in> vo_locked (sd_volume d)" and "db_open p a d = (r, d')"
  shows "r \<noteq> Inr () \<and> sd_database d' = sd_database d"
proof -
  obtain r1 v1 where m: "prepare_directory p (sd_volume d) = (r1, v1)" by fastforce
  have lk: "sidecar p ''.lock'' \<in> vo_locked v1" using assms(1) prepare_directory_parts(1)[OF m] by (simp add: grown_def)
  obtain r2 v2 where l: "acquire_lock p v1 = (r2, v2)" by fastforce
  then have "r2 \<noteq> Inr ()" using lock_excludes[OF lk] by auto
  then show ?thesis using assms(2) m l
    by (cases r1; cases r2) (auto simp: db_open_def sbind_def on_volume_def)
qed

lemma opened_tables:
  assumes "db_open p a d = (Inr (), d')"
  shows "\<not> db_blocked (sd_database d')" and "check_durability a = Inr ()" and "validate_schema a = Inr ()"
    and "vo_nodes (sd_volume d) p \<noteq> None \<Longrightarrow> check_identity a = Inr ()"
    and "db_tables (sd_database d') =
      closed_tables (if vo_nodes (sd_volume d) p = None then fresh_tables else db_tables (sd_database d))"
proof -
  obtain v1 v2 where prep: "prepare_directory p (sd_volume d) = (Inr (), v1)" and lock: "acquire_lock p v1 = (Inr (), v2)"
    and opn: "open_locked p a (d\<lparr>sd_volume := v2, sd_database := (sd_database d)\<lparr>db_blocked := False\<rparr>\<rparr>) = (Inr (), d')"
    using db_open_Inr[OF assms] by blast
  note l = acquire_lock_Inr[OF lock] and o = open_locked_Inr[OF opn, simplified]
  let ?v = "sd_volume d'"
  have g: "guarded v1 ?v" using l(1) o(1) by (rule guarded_trans)
  have gr: "grown (sd_volume d) v1" by (rule prepare_directory_parts(1)[OF prep])
  have "vo_nodes v2 p = vo_nodes v1 p" using l(5) by (simp add: sidecar_def)
  moreover have "vo_nodes v1 p = None" if none: "vo_nodes (sd_volume d) p = None"
  proof (rule ccontr)
    assume "vo_nodes v1 p \<noteq> None"
    then obtain n where n: "vo_nodes v1 p = Some n" "nd_kind n = DirectoryNode" using gr none unfolding grown_def by metis
    then have "vo_nodes ?v p = Some n" using g unfolding guarded_def by (metis node_kind.distinct(1))
    then show False using o(2) n(2) by (simp add: private_at_def)
  qed
  moreover have "vo_nodes v1 p \<noteq> None" if "vo_nodes (sd_volume d) p \<noteq> None"
    using gr that unfolding grown_def by (metis option.distinct(1))
  ultimately have fresh: "(vo_nodes v2 p = None) = (vo_nodes (sd_volume d) p = None)" by argo
  note c = open_connected_Inr[OF o(6), unfolded fresh]
  show "\<not> db_blocked (sd_database d')" "check_durability a = Inr ()" "validate_schema a = Inr ()"
    "vo_nodes (sd_volume d) p \<noteq> None \<Longrightarrow> check_identity a = Inr ()"
    "db_tables (sd_database d') = closed_tables (if vo_nodes (sd_volume d) p = None then fresh_tables else db_tables (sd_database d))"
    using c by auto
qed

text \<open>
  C38. A store that opens is the user's alone, is the one this program wrote, and accepts nothing yet: after a
  successful \<open>open\<close> the database, its lock and its sidecars are regular files of the user with one link and mode 0600
  in a directory of the user with mode 0700 below no symbolic link; nobody owned it before, and until the lock is
  released no other open succeeds or changes it; the engine runs with foreign keys and full synchronisation, its
  objects are exactly those of the schema, an existing file had the identity of this program; admission is closed,
  and beyond that the tables are the stored ones, or the fresh ones exactly when no file existed.
\<close>

theorem opened_store_is_private:
  assumes "db_open p a d = (Inr (), d')"
  shows "secure_store p (sd_volume d') \<and>
    sidecar p ''.lock'' \<notin> vo_locked (sd_volume d) \<and>
    (\<forall>a'. fst (db_open p a' d') \<noteq> Inr () \<and> sd_database (snd (db_open p a' d')) = sd_database d') \<and>
    ea_foreign_keys a = Inr 1 \<and> ea_synchronous a = Inr 2 \<and>
    (\<exists>objects. ea_schema a = Inr objects \<and> normalize_schema ` set objects = expected_schema) \<and> ea_violations a = Inr 0 \<and>
    (vo_nodes (sd_volume d) p \<noteq> None \<longrightarrow> recognized a) \<and>
    \<not> db_blocked (sd_database d') \<and>
    db_tables (sd_database d') =
      closed_tables (if vo_nodes (sd_volume d) p = None then fresh_tables else db_tables (sd_database d))"
proof -
  obtain v1 v2 where prep: "prepare_directory p (sd_volume d) = (Inr (), v1)" and lock: "acquire_lock p v1 = (Inr (), v2)"
    and opn: "open_locked p a (d\<lparr>sd_volume := v2, sd_database := (sd_database d)\<lparr>db_blocked := False\<rparr>\<rparr>) = (Inr (), d')"
    using db_open_Inr[OF assms] by blast
  note l = acquire_lock_Inr[OF lock] and o = open_locked_Inr[OF opn, simplified]
  let ?v = "sd_volume d'"
  have g: "guarded v1 ?v" using l(1) o(1) by (rule guarded_trans)
  obtain root where root: "history_directory p = Inr root" "user_directory v1 root" "list_all (not_symlink v1) (path_ancestors root)"
    using prepare_directory_parts(2)[OF prep] by blast
  have "user_directory ?v root" using g root(2) by (rule guarded_directory)
  moreover have "list_all (not_symlink ?v) (path_ancestors root)" using root(3) guarded_not_symlink[OF g] by (auto simp: list_all_iff)
  ultimately have secure: "secure_store p ?v"
    using o(2,4,5) guarded_private[OF o(1) l(2)] by (simp add: secure_store_def root(1))
  have gr: "grown (sd_volume d) v1" by (rule prepare_directory_parts(1)[OF prep])
  have free: "sidecar p ''.lock'' \<notin> vo_locked (sd_volume d)" using l(3) gr by (simp add: grown_def)
  have held: "sidecar p ''.lock'' \<in> vo_locked ?v" using l(4) o(3) by simp
  have excl: "fst (db_open p a' d') \<noteq> Inr () \<and> sd_database (snd (db_open p a' d')) = sd_database d'" for a'
    using db_open_owned[OF held, of a'] by (metis prod.collapse)
  note t = opened_tables[OF assms]
  show ?thesis using secure free excl t(1,4,5) check_durability_Inr[OF t(2)] validate_schema_Inr[OF t(3)]
    unfolding check_identity_Inr by blast
qed

text \<open>
  C39. An open that is refused takes nothing: for an existing database, whatever fails, its tables are afterwards
  the ones before, or these with admission closed; and a file whose identity or version is not this program's is
  refused with its tables untouched.
\<close>

theorem refused_open_keeps_store:
  assumes "vo_nodes (sd_volume d) p \<noteq> None" and "db_open p a d = (r, d')"
  shows "db_tables (sd_database d') \<in> {db_tables (sd_database d), closed_tables (db_tables (sd_database d))} \<and>
    (\<not> recognized a \<longrightarrow> r \<noteq> Inr () \<and> db_tables (sd_database d') = db_tables (sd_database d))"
proof -
  obtain r1 v1 where m: "prepare_directory p (sd_volume d) = (r1, v1)" by fastforce
  obtain r2 v2 where l: "acquire_lock p v1 = (r2, v2)" by fastforce
  let ?d = "d\<lparr>sd_volume := v2, sd_database := (sd_database d)\<lparr>db_blocked := False\<rparr>\<rparr>"
  obtain r3 v3 where o: "open_file p v2 = (r3, v3)" by fastforce
  obtain r4 v4 where s: "protect_sidecars p v3 = (r4, v4)" by fastforce
  show ?thesis
  proof (cases "r1 = Inr () \<and> r2 = Inr () \<and> (\<exists>fresh. r3 = Inr fresh) \<and> r4 = Inr () \<and> valid_utf8 p")
    case False
    then have "r \<noteq> Inr () \<and> db_tables (sd_database d') = db_tables (sd_database d)"
      using assms(2) m l o s
      by (cases r1; cases r2; cases r3; cases r4)
        (auto simp: db_open_def sbind_def on_volume_def open_locked_def slift_def split: prod.splits sum.splits)
    then show ?thesis by simp
  next
    case True
    then obtain fresh where o': "open_file p v2 = (Inr fresh, v3)" and l': "acquire_lock p v1 = (Inr (), v2)" using o l by auto
    have "vo_nodes v1 p \<noteq> None"
      using prepare_directory_parts(1)[OF m] assms(1) unfolding grown_def by (metis option.distinct(1))
    then have "\<not> fresh" using open_private_Inr(5)[OF open_file_Inr[OF o']] acquire_lock_Inr(5)[OF l', of p] by (simp add: sidecar_def)
    obtain r5 db where c: "open_connected False a ((sd_database d)\<lparr>db_blocked := False\<rparr>) = (r5, db)" by fastforce
    have d': "sd_database d' = db" and r: "r5 \<noteq> Inr () \<Longrightarrow> r \<noteq> Inr ()"
      using assms(2) m l o s True o' c \<open>\<not> fresh\<close>
      by (auto simp: db_open_def sbind_def on_volume_def on_database_def open_locked_def slift_def split: prod.splits sum.splits)
    show ?thesis using open_connected_existing[OF c, unfolded check_identity_Inr] r by (auto simp: d')
  qed
qed

section \<open>Examples\<close>

definition sound_answers :: engine_answers where
  "sound_answers =
     \<lparr>ea_built = Inr (), ea_application_id = Inr APP_ID, ea_user_version = Inr SCHEMA_VERSION,
      ea_identity = Inr [''clip-daemon-history-v1''], ea_settings = Inr (), ea_foreign_keys = Inr 1, ea_synchronous = Inr 2,
      ea_schema = Inr schema_objects, ea_violations = Inr 0, ea_create = sound_engine, ea_admission = sound_engine,
      ea_reads = sound_engine\<rparr>"

definition demo_volume :: volume where
  "demo_volume = \<lparr>vo_nodes = (\<lambda>_. None), vo_denied = (\<lambda>_. False), vo_euid = 1000, vo_locked = {}\<rparr>"

definition demo_path :: str where "demo_path = ''/d/h''"

definition empty_disk :: store_disk where
  "empty_disk = \<lparr>sd_volume = demo_volume, sd_database = \<lparr>db_tables = fresh_tables, db_blocked = True\<rparr>\<rparr>"

lemma sound_checks:
  "check_identity sound_answers = Inr ()" "check_durability sound_answers = Inr ()" "validate_schema sound_answers = Inr ()"
proof -
  show "check_identity sound_answers = Inr ()" by (simp add: check_identity_def sound_answers_def)
  show "check_durability sound_answers = Inr ()" by (simp add: check_durability_def sound_answers_def)
  have "normalize_schema ` set schema_objects = expected_schema" unfolding expected_schema_def by (simp only: set_map)
  then show "validate_schema sound_answers = Inr ()" by (simp add: validate_schema_def sound_answers_def)
qed

lemma sound_connected:
  assumes "\<not> db_blocked db"
  shows "open_connected fresh sound_answers db =
     (Inr (), db\<lparr>db_tables := closed_tables (if fresh then fresh_tables else db_tables db)\<rparr>)"
proof -
  have parts: "ea_built sound_answers = Inr ()" "ea_create sound_answers = sound_engine" "ea_admission sound_answers = sound_engine"
    "ea_reads sound_answers = sound_engine" by (simp_all add: sound_answers_def)
  have "en_stmt_fault sound_engine = None" by (simp add: sound_engine_def)
  then show ?thesis using assms
    by (cases fresh) (simp_all add: open_connected_def sbind_def slift_def sreturn_def sound_checks parts create_schema_def db_read_def
      transaction_sound close_body)
qed

lemma demo_history_directory: "history_directory demo_path = Inr ''/d''" by code_simp
lemma demo_ancestors: "path_ancestors ''/d'' = [''/d'', ''/'']" by code_simp
lemma demo_utf8: "valid_utf8 demo_path" by code_simp

lemma demo_sides: "sidecar demo_path ''.lock'' = ''/d/h.lock''" "sidecar demo_path ''-wal'' = ''/d/h-wal''" "sidecar demo_path ''-shm'' = ''/d/h-shm''"
  by (simp_all add: sidecar_def demo_path_def)

lemmas fs_defs = prepare_directory_def slift_def sbind_def sreturn_def make_directory_def put_node_def refuse_symlink_def
  symlink_metadata_def secure_directory_def acquire_lock_def open_private_def private_file_def

definition demo_directory :: node where
  "demo_directory = \<lparr>nd_kind = DirectoryNode, nd_uid = 1000, nd_nlink = 2, nd_mode = MODE_DIRECTORY, nd_len = 0\<rparr>"

definition demo_file :: node where
  "demo_file = \<lparr>nd_kind = RegularFile, nd_uid = 1000, nd_nlink = 1, nd_mode = MODE_FILE, nd_len = 0\<rparr>"

definition demo_locked :: volume where
  "demo_locked = demo_volume\<lparr>vo_nodes := [''/'' \<mapsto> demo_directory, ''/d'' \<mapsto> demo_directory, ''/d/h.lock'' \<mapsto> demo_file],
     vo_locked := {''/d/h.lock''}\<rparr>"

lemma demo_prepare:
  "prepare_directory demo_path demo_volume =
     (Inr (), demo_volume\<lparr>vo_nodes := [''/'' \<mapsto> demo_directory, ''/d'' \<mapsto> demo_directory]\<rparr>)"
  by (simp add: fs_defs demo_history_directory demo_ancestors demo_volume_def demo_directory_def)

lemma demo_lock:
  "acquire_lock demo_path (demo_volume\<lparr>vo_nodes := [''/'' \<mapsto> demo_directory, ''/d'' \<mapsto> demo_directory]\<rparr>) = (Inr (), demo_locked)"
  by (simp add: fs_defs demo_sides demo_volume_def demo_file_def demo_locked_def)

definition demo_opened :: volume where
  "demo_opened = demo_locked\<lparr>vo_nodes := (vo_nodes demo_locked)(''/d/h'' \<mapsto> demo_file)\<rparr>"

lemma demo_open_file: "open_file demo_path demo_locked = (Inr True, demo_opened)"
  by (simp add: fs_defs open_file_def demo_path_def demo_volume_def demo_file_def demo_locked_def demo_opened_def)

lemma demo_protect: "protect_sidecars demo_path demo_opened = (Inr (), demo_opened)"
  by (simp add: fs_defs protect_sidecars_def protect_sidecar_def demo_sides demo_volume_def demo_locked_def demo_opened_def)

lemma demo_open:
  "db_open demo_path sound_answers empty_disk =
     (Inr (), \<lparr>sd_volume = demo_opened, sd_database = \<lparr>db_tables = closed_tables fresh_tables, db_blocked = False\<rparr>\<rparr>)"
  by (simp add: db_open_def sbind_def on_volume_def on_database_def empty_disk_def demo_prepare demo_lock open_locked_def
      demo_open_file demo_protect slift_def demo_utf8 sound_connected)

theorem opened_store_is_private_witness:
  "\<exists>d'. db_open demo_path sound_answers empty_disk = (Inr (), d') \<and> secure_store demo_path (sd_volume d') \<and>
     fst (db_open demo_path sound_answers d') \<noteq> Inr ()"
  using opened_store_is_private[OF demo_open] demo_open by blast

definition foreign_disk :: store_disk where
  "foreign_disk =
     \<lparr>sd_volume = demo_volume\<lparr>vo_nodes := [''/d/h'' \<mapsto> demo_file]\<rparr>, sd_database = \<lparr>db_tables = fresh_tables, db_blocked = False\<rparr>\<rparr>"

theorem refused_open_keeps_store_witness:
  "\<exists>r d'. db_open demo_path (sound_answers\<lparr>ea_application_id := Inr 0\<rparr>) foreign_disk = (r, d') \<and> r \<noteq> Inr () \<and>
     db_tables (sd_database d') = db_tables (sd_database foreign_disk)"
proof -
  let ?a = "sound_answers\<lparr>ea_application_id := Inr 0\<rparr>"
  obtain r d' where o: "db_open demo_path ?a foreign_disk = (r, d')" by fastforce
  have "vo_nodes (sd_volume foreign_disk) demo_path \<noteq> None" by (simp add: foreign_disk_def demo_path_def)
  moreover have "\<not> recognized ?a" by (simp add: recognized_def APP_ID_def)
  ultimately show ?thesis using refused_open_keeps_store[OF _ o] o by blast
qed

text \<open>A store that opens is one of those the properties of the storage owner speak of.\<close>

lemma opened_reachable:
  assumes "db_open p a d = (Inr (), d')" and "vo_nodes (sd_volume d) p = None \<or> store_reachable pf (sd_database d)"
  shows "store_reachable pf (sd_database d')"
proof -
  have t: "\<not> db_blocked (sd_database d')"
    "db_tables (sd_database d') = closed_tables (if vo_nodes (sd_volume d) p = None then fresh_tables else db_tables (sd_database d))"
    using opened_tables[OF assms(1)] by blast+
  have "store_reachable pf (snd (transaction sound_engine close_admission_body (db\<lparr>db_blocked := False\<rparr>)))" if "store_reachable pf db" for db
    using reach_step[OF that step_reopen] .
  then have r: "store_reachable pf (db\<lparr>db_blocked := False, db_tables := closed_tables (db_tables db)\<rparr>)" if "store_reachable pf db" for db
    using that by (simp add: transaction_sound close_body)
  show ?thesis
  proof (cases "vo_nodes (sd_volume d) p = None")
    case True
    then have "sd_database d' = fresh_database\<lparr>db_blocked := False, db_tables := closed_tables (db_tables fresh_database)\<rparr>"
      using t by (simp add: fresh_database_def)
    then show ?thesis using r[OF reach_fresh] by simp
  next
    case False
    then have "db_tables (sd_database d') = closed_tables (db_tables (sd_database d))" using t(2) by (simp only: if_False)
    then have "sd_database d' = (sd_database d)\<lparr>db_blocked := False, db_tables := closed_tables (db_tables (sd_database d))\<rparr>"
      using t(1) by simp
    moreover have "store_reachable pf (sd_database d)" using False assms(2) by (elim disjE) (rule notE, assumption+)
    ultimately show ?thesis using r by simp
  qed
qed

end
