(* ===== verification/Thumbnails.thy ===== *)
theory Thumbnails
  imports Entry_Actions Rust_Numbers
begin

text \<open>
  Thumbnails of image entries and their cache (\<open>thumbnail_sync\<close>, \<open>thumbnail_directory\<close> and
  \<open>prune_thumbnail_cache\<close> of \<open>src/src/history/content.rs\<close>, and the request of \<open>src/src/actions.rs\<close>).  The cache is
  the list of files its directory lists; the image codec and the file calls answer through \<open>thumb_env\<close>.  The lemmas
  bound the cache, show that pruning removes the oldest thumbnails and nothing else, and state where the cache is.
\<close>

section \<open>The cache\<close>

record thumb_file =
  tf_name :: str
  tf_listed :: bool
  tf_regular :: bool
  tf_modified :: "nat option"
  tf_dimensions :: "(nat \<times> nat) option"
  tf_removable :: bool

record thumb_cache =
  tc_readable :: bool
  tc_files :: "thumb_file list"

record thumb_env =
  te_cache_home :: "str option"
  te_home :: "str option"
  te_created :: bool
  te_permitted :: bool
  te_format_ok :: "bytes \<Rightarrow> bool"
  te_decode :: "bytes \<Rightarrow> (nat \<times> nat) option"
  te_shrink :: "nat \<times> nat \<Rightarrow> nat \<Rightarrow> nat \<times> nat"
  te_saved :: bool
  te_partial :: bool
  te_protected :: bool
  te_now :: nat

definition MAX_LISTED :: nat where "MAX_LISTED = 1024"
definition KEPT_THUMBNAILS :: nat where "KEPT_THUMBNAILS = 255"

definition cache_unavailable :: backend_error where
  "cache_unavailable = unavailable ''Clipboard thumbnail cache is unavailable''"

definition cache_root :: "str option \<Rightarrow> str option \<Rightarrow> str bresult" where
  "cache_root cache_home home =
    (case cache_home of
       Some v \<Rightarrow> Inr v
     | None \<Rightarrow>
         (case home of
            Some h \<Rightarrow> Inr (path_join h ''.cache'')
          | None \<Rightarrow> Inl (unavailable ''Clipboard cache directory is unavailable'')))"

text \<open>The directory that \<open>clear_cache\<close> removes with all it holds.\<close>

definition cleared_directory :: "str option \<Rightarrow> str option \<Rightarrow> str bresult" where
  "cleared_directory cache_home home = rbind (cache_root cache_home home) (\<lambda>root. Inr (path_join root ''clip-daemon''))"

text \<open>\<open>str::get\<close> with a range up to, or from, an index.\<close>

definition get_to :: "nat \<Rightarrow> str \<Rightarrow> str option" where
  "get_to n s = (if n \<le> length s \<and> valid_utf8 (take n s) then Some (take n s) else None)"

definition get_from :: "nat \<Rightarrow> str \<Rightarrow> str option" where
  "get_from n s = (if n \<le> length s \<and> valid_utf8 (drop n s) then Some (drop n s) else None)"

definition strip_suffix :: "str \<Rightarrow> str \<Rightarrow> str option" where
  "strip_suffix s p = map_option rev (strip_prefix (rev s) (rev p))"

definition parse_u64 :: "str \<Rightarrow> nat option" where
  "parse_u64 s = parse_nat (2 ^ 64 - 1) (if s \<noteq> [] \<and> hd s = CHR ''+'' then tl s else s)"

definition thumbnail_name :: "platform \<Rightarrow> str \<Rightarrow> bool" where
  "thumbnail_name pf entry_name =
    (valid_utf8 entry_name \<and>
     (case Option.bind (strip_prefix entry_name ''entry-'') (\<lambda>n. strip_suffix n ''.png'') of
        None \<Rightarrow> False
      | Some n \<Rightarrow>
          (case get_to 36 n of
             None \<Rightarrow> False
           | Some i \<Rightarrow>
               pf_uuid_ok pf i \<and>
               (case Option.bind (get_from 37 n) (split_once ''-'') of
                  None \<Rightarrow> False
                | Some (revision, edge) \<Rightarrow> parse_u64 revision \<noteq> None \<and> parse_u32 edge \<noteq> None))))"

definition cached_thumbnail :: "platform \<Rightarrow> thumb_file \<Rightarrow> bool" where
  "cached_thumbnail pf f \<longleftrightarrow> thumbnail_name pf (tf_name f) \<and> tf_regular f"

text \<open>A file without a time sorts before all others.\<close>

definition modified_key :: "thumb_file \<Rightarrow> nat" where
  "modified_key f = (case tf_modified f of None \<Rightarrow> 0 | Some t \<Rightarrow> Suc t)"

definition excess_thumbnails :: "platform \<Rightarrow> thumb_file list \<Rightarrow> thumb_file list" where
  "excess_thumbnails pf files =
    (let cached = sort_key modified_key (filter (cached_thumbnail pf) (filter tf_listed (take MAX_LISTED files)))
     in take (length cached - KEPT_THUMBNAILS) cached)"

definition remove_file :: "thumb_file list \<Rightarrow> str \<Rightarrow> thumb_file list" where
  "remove_file files name = filter (\<lambda>f. tf_name f \<noteq> name \<or> \<not> tf_removable f) files"

definition prune_thumbnail_cache :: "platform \<Rightarrow> thumb_cache \<Rightarrow> thumb_cache" where
  "prune_thumbnail_cache pf c =
    (if \<not> tc_readable c then c
     else c\<lparr>tc_files := foldl remove_file (tc_files c) (map tf_name (excess_thumbnails pf (tc_files c)))\<rparr>)"

definition thumbnail_directory :: "platform \<Rightarrow> thumb_env \<Rightarrow> (thumb_cache, backend_error, str) fallible" where
  "thumbnail_directory pf env c =
    (case cache_root (te_cache_home env) (te_home env) of
       Inl e \<Rightarrow> (Inl e, c)
     | Inr root \<Rightarrow>
         if \<not> te_created env \<or> \<not> te_permitted env then (Inl cache_unavailable, c)
         else (Inr (path_join root ''clip-daemon/thumbnails''), prune_thumbnail_cache pf c))"

section \<open>Thumbnails\<close>

record entry_thumbnail =
  et_entry_id :: str
  et_revision :: nat
  et_path :: str
  et_width :: nat
  et_height :: nat

definition clamp :: "nat \<Rightarrow> nat \<Rightarrow> nat \<Rightarrow> nat" where
  "clamp n low high = max low (min n high)"

definition thumbnail_file_name :: "entry_summary \<Rightarrow> nat \<Rightarrow> str" where
  "thumbnail_file_name s edge = es_id s @ ''-'' @ nat_str (es_revision s) @ ''-'' @ nat_str edge @ ''.png''"

definition cached_dimensions :: "thumb_cache \<Rightarrow> str \<Rightarrow> (nat \<times> nat) option" where
  "cached_dimensions c name = Option.bind (find (\<lambda>f. tf_name f = name) (tc_files c)) tf_dimensions"

definition decode_image :: "thumb_env \<Rightarrow> bytes \<Rightarrow> (nat \<times> nat) bresult" where
  "decode_image env bs =
    (if \<not> te_format_ok env bs then Inl (invalid_data ''Clipboard image format is invalid'')
     else ok_or (te_decode env bs) (invalid_data ''Clipboard image could not be decoded''))"

definition thumbnail_source :: "platform \<Rightarrow> thumb_env \<Rightarrow> stored_entry \<Rightarrow> (nat \<times> nat) bresult" where
  "thumbnail_source pf env stored =
    (case rc_image (resolve pf (se_mime stored) (se_bytes stored) MAX_THUMBNAIL_BYTES) of
       Some (Inline _ _) \<Rightarrow>
         if es_byte_size (se_summary stored) \<le> MAX_THUMBNAIL_BYTES then decode_image env (se_bytes stored)
         else Inl (invalid_data ''Clipboard entry cannot be thumbnailed'')
     | Some (LocalFile source) \<Rightarrow>
         rbind (read_path pf (li_path source) MAX_THUMBNAIL_BYTES) (decode_image env)
     | None \<Rightarrow> Inl (invalid_data ''Clipboard entry cannot be thumbnailed''))"

text \<open>Writing replaces a file of the same name; a write that fails may leave a file that is no image.\<close>

definition write_thumbnail :: "thumb_env \<Rightarrow> str \<Rightarrow> (nat \<times> nat) option \<Rightarrow> thumb_cache \<Rightarrow> thumb_cache" where
  "write_thumbnail env name dimensions c =
     c\<lparr>tc_files := \<lparr>tf_name = name, tf_listed = True, tf_regular = True, tf_modified = Some (te_now env),
                   tf_dimensions = dimensions, tf_removable = True\<rparr> # filter (\<lambda>f. tf_name f \<noteq> name) (tc_files c)\<rparr>"

definition make_thumbnail :: "platform \<Rightarrow> thumb_env \<Rightarrow> stored_entry \<Rightarrow> nat \<Rightarrow> str \<Rightarrow> (thumb_cache, backend_error, nat \<times> nat) fallible" where
  "make_thumbnail pf env stored edge name c =
    (case thumbnail_source pf env stored of
       Inl e \<Rightarrow> (Inl e, c)
     | Inr decoded \<Rightarrow>
         let size = te_shrink env decoded edge in
         if \<not> te_saved env
         then (Inl (invalid_data ''Clipboard thumbnail could not be written''),
               if te_partial env then write_thumbnail env name None c else c)
         else (if te_protected env then Inr size else Inl cache_unavailable, write_thumbnail env name (Some size) c))"

definition thumbnail_of :: "platform \<Rightarrow> thumb_env \<Rightarrow> stored_entry \<Rightarrow> nat \<Rightarrow> (thumb_cache, backend_error, entry_thumbnail) fallible" where
  "thumbnail_of pf env stored wanted =
    (let edge = clamp wanted 32 1024; name = thumbnail_file_name (se_summary stored) edge in
     sbind (thumbnail_directory pf env) (\<lambda>directory.
     sbind (\<lambda>c. case cached_dimensions c name of Some d \<Rightarrow> (Inr d, c) | None \<Rightarrow> make_thumbnail pf env stored edge name c) (\<lambda>(w, h).
       sreturn \<lparr>et_entry_id = es_id (se_summary stored), et_revision = es_revision (se_summary stored),
                et_path = path_join directory name, et_width = w, et_height = h\<rparr>)))"

definition thumbnail_sync :: "thumb_env \<Rightarrow> str \<Rightarrow> nat option \<Rightarrow> nat \<Rightarrow> thumb_cache \<Rightarrow> (entry_thumbnail bresult \<times> thumb_cache) hist" where
  "thumbnail_sync env i expected edge c =
     hcase (selected i expected) (\<lambda>e. hreturn (Inl e, c)) (\<lambda>stored. hget (\<lambda>s. thumbnail_of (hs_pf s) env stored edge c))"

definition service_thumbnail ::
    "thumb_env \<Rightarrow> str \<Rightarrow> nat option \<Rightarrow> nat option \<Rightarrow> thumb_cache \<Rightarrow> ((api_error, entry_thumbnail) result \<times> thumb_cache) act" where
  "service_thumbnail env i revision edge c =
     sbind (slift (validate_entry_id i)) (\<lambda>_.
     sbind (on_history (thumbnail_sync env i revision (case edge of None \<Rightarrow> 512 | Some n \<Rightarrow> n) c)) (\<lambda>(r, c1).
       sreturn (case r of Inl e \<Rightarrow> Inl (from_backend_error e) | Inr t \<Rightarrow> Inr t, c1)))"

section \<open>Bounds\<close>

text \<open>A directory as the daemon leaves it: every file is listed and can be removed, and there are few.\<close>

definition tidy :: "thumb_cache \<Rightarrow> bool" where
  "tidy c \<longleftrightarrow> tc_readable c \<and> length (tc_files c) \<le> MAX_LISTED \<and> distinct (map tf_name (tc_files c)) \<and>
     list_all (\<lambda>f. tf_listed f \<and> tf_removable f) (tc_files c)"

definition thumbnail_count :: "platform \<Rightarrow> thumb_cache \<Rightarrow> nat" where
  "thumbnail_count pf c = length (filter (cached_thumbnail pf) (tc_files c))"

lemma remove_files:
  "foldl remove_file files names = filter (\<lambda>f. tf_name f \<notin> set names \<or> \<not> tf_removable f) files"
  by (induction names arbitrary: files) (auto simp: remove_file_def intro!: filter_cong)

lemma excess_subset: "set (excess_thumbnails pf files) \<subseteq> {f \<in> set files. cached_thumbnail pf f}"
  by (auto simp: excess_thumbnails_def Let_def dest!: in_set_takeD)

text \<open>Pruning keeps every file that is not a thumbnail of the cache, whatever else the directory holds.\<close>

lemma prune_keeps_others:
  assumes "\<not> thumbnail_name pf (tf_name f)"
  shows "f \<in> set (tc_files (prune_thumbnail_cache pf c)) \<longleftrightarrow> f \<in> set (tc_files c)"
proof -
  have "tf_name f \<noteq> tf_name g" if "g \<in> set (excess_thumbnails pf (tc_files c))" for g
    using that assms excess_subset[of pf "tc_files c"] by (auto simp: cached_thumbnail_def)
  then show ?thesis by (auto simp: prune_thumbnail_cache_def remove_files)
qed

lemma prune_subset: "set (tc_files (prune_thumbnail_cache pf c)) \<subseteq> set (tc_files c)"
  by (auto simp: prune_thumbnail_cache_def remove_files)

lemma prune_count:
  assumes "tidy c" shows "thumbnail_count pf (prune_thumbnail_cache pf c) \<le> KEPT_THUMBNAILS"
proof -
  let ?fs = "tc_files c" and ?E = "set (excess_thumbnails pf (tc_files c))"
  let ?C = "{f \<in> set ?fs. cached_thumbnail pf f}"
  have inj: "inj_on tf_name (set ?fs)" and dist: "distinct ?fs" using assms by (simp_all add: tidy_def distinct_map)
  have all: "filter tf_listed (take MAX_LISTED ?fs) = ?fs" using assms by (auto simp: tidy_def list_all_iff filter_id_conv)
  let ?s = "sort_key modified_key (filter (cached_thumbnail pf) ?fs)"
  have E: "?E = set (take (length ?s - KEPT_THUMBNAILS) ?s)" by (simp add: excess_thumbnails_def all Let_def)
  have "distinct ?s" using dist by simp
  then have cardE: "card ?E = length ?s - KEPT_THUMBNAILS" by (simp add: E distinct_card)
  have cardC: "card ?C = length ?s" using dist distinct_card[of "filter (cached_thumbnail pf) ?fs"] by simp
  have "tf_name f \<notin> set (map tf_name (excess_thumbnails pf ?fs)) \<longleftrightarrow> f \<notin> ?E" if "f \<in> set ?fs" for f
    using that excess_subset[of pf ?fs] inj by (auto dest: inj_onD)
  then have "tc_files (prune_thumbnail_cache pf c) = filter (\<lambda>f. f \<notin> ?E) ?fs"
    using assms unfolding prune_thumbnail_cache_def remove_files
    by (auto simp: tidy_def list_all_iff intro!: filter_cong)
  then have "thumbnail_count pf (prune_thumbnail_cache pf c) = length (filter (\<lambda>f. cached_thumbnail pf f \<and> f \<notin> ?E) ?fs)"
    by (simp add: thumbnail_count_def conj_commute)
  also have "\<dots> = card (?C - ?E)"
    using dist distinct_card[of "filter (\<lambda>f. cached_thumbnail pf f \<and> f \<notin> ?E) ?fs"] by (simp add: set_diff_eq conj_assoc)
  also have "\<dots> = card ?C - card ?E" using excess_subset[of pf ?fs] by (intro card_Diff_subset) auto
  finally show ?thesis by (simp add: cardC cardE)
qed

text \<open>The oldest go: a thumbnail that is removed is not newer than one that stays.\<close>

lemma excess_oldest:
  assumes "f \<in> set (excess_thumbnails pf files)" and "g \<in> set (filter (cached_thumbnail pf) (filter tf_listed (take MAX_LISTED files)))"
    and "g \<notin> set (excess_thumbnails pf files)"
  shows "modified_key f \<le> modified_key g"
proof -
  let ?s = "sort_key modified_key (filter (cached_thumbnail pf) (filter tf_listed (take MAX_LISTED files)))"
  let ?n = "length ?s - KEPT_THUMBNAILS"
  have f: "f \<in> set (take ?n ?s)" and ng: "g \<notin> set (take ?n ?s)" using assms(1,3) by (simp_all add: excess_thumbnails_def Let_def)
  have "g \<in> set ?s" using assms(2) by simp
  then have g: "g \<in> set (drop ?n ?s)" using ng by (metis Un_iff append_take_drop_id set_append)
  have "sorted (map modified_key (take ?n ?s @ drop ?n ?s))" by simp
  then show ?thesis using f g by (simp only: map_append sorted_append) auto
qed

lemma write_count: "thumbnail_count pf (write_thumbnail env name d c) \<le> Suc (thumbnail_count pf c)"
proof -
  have "length (filter (cached_thumbnail pf) (filter (\<lambda>f. tf_name f \<noteq> name) xs)) \<le> length (filter (cached_thumbnail pf) xs)" for xs
    by (induction xs) auto
  then show ?thesis by (simp add: thumbnail_count_def write_thumbnail_def le_SucI)
qed

lemma write_others: "tf_name f \<noteq> name \<Longrightarrow> f \<in> set (tc_files (write_thumbnail env name d c)) \<longleftrightarrow> f \<in> set (tc_files c)"
  by (auto simp: write_thumbnail_def)

lemma make_thumbnail_cache:
  "make_thumbnail pf env stored edge name c = (r, c') \<Longrightarrow> c' = c \<or> (\<exists>d. c' = write_thumbnail env name d c)"
  by (auto simp: make_thumbnail_def Let_def split: sum.splits if_splits)

lemma thumbnail_cache_cases:
  assumes "thumbnail_of pf env stored wanted c = (r, c')"
  shows "c' = c \<or> c' = prune_thumbnail_cache pf c \<or>
    (\<exists>d. c' = write_thumbnail env (thumbnail_file_name (se_summary stored) (clamp wanted 32 1024)) d (prune_thumbnail_cache pf c))"
  using assms make_thumbnail_cache
  by (fastforce simp: thumbnail_of_def thumbnail_directory_def sbind_def sreturn_def Let_def
      split: sum.splits if_splits option.splits prod.splits)

lemma thumbnail_cache_bounded:
  assumes "tidy c" and "thumbnail_of pf env stored wanted c = (r, c')"
  shows "(c' = c \<or> thumbnail_count pf c' \<le> 256) \<and>
    (\<forall>f. \<not> thumbnail_name pf (tf_name f) \<longrightarrow>
       tf_name f \<noteq> thumbnail_file_name (se_summary stored) (clamp wanted 32 1024) \<longrightarrow> (f \<in> set (tc_files c') \<longleftrightarrow> f \<in> set (tc_files c)))"
proof -
  let ?p = "prune_thumbnail_cache pf c" and ?n = "thumbnail_file_name (se_summary stored) (clamp wanted 32 1024)"
  have k: "thumbnail_count pf ?p \<le> 255" using prune_count[OF assms(1)] by (simp add: KEPT_THUMBNAILS_def)
  consider "c' = c" | "c' = ?p" | d where "c' = write_thumbnail env ?n d ?p" using thumbnail_cache_cases[OF assms(2)] by blast
  then show ?thesis
  proof cases
    case 3
    then show ?thesis using k write_count[of pf env ?n d ?p] by (simp add: write_others prune_keeps_others)
  qed (use k in \<open>auto simp: prune_keeps_others\<close>)
qed

text \<open>
  The cache has no guard on \<open>XDG_CACHE_HOME\<close>: when it is set but empty, what is cleared with all it holds is a
  directory \<open>clip-daemon\<close> below the working directory.  \<open>default_path\<close>, for the data, ignores an empty or relative value.
\<close>

lemma empty_cache_home_is_relative:
  "cleared_directory (Some []) home = Inr ''clip-daemon'' \<and> \<not> path_is_absolute ''clip-daemon''"
  by (simp add: cleared_directory_def cache_root_def path_join_def path_is_absolute_def starts_with_def)

end
