(* ===== verification/Stream_Properties.thy ===== *)
theory Stream_Properties
  imports Api_Streams Api_Properties
begin














lemma lag_reported:
  "receive_lifecycle streams owner (LaggedBy n # es) =
     map (\<lambda>x. \<lparr>em_stream = x, em_event = ''gap'', em_body = Gap n\<rparr>)
       (filter (\<lambda>x. x \<in> {STREAM_OPERATION, STREAM_CAPTURE, STREAM_SESSION}) streams) @ receive_lifecycle streams owner es"
  by (simp add: lag_events_def)




end
