(* ===== verification/Client_Commands.thy ===== *)
theory Client_Commands
  imports Api_Streams
begin

text \<open>
  The commands of the client (\<open>src/src/client.rs\<close>, \<open>src/src/main.rs\<close>): which events belong to a request of the
  bridge, publishing standard input, and a screenshot, whose success is that of its operation.  A message of the
  daemon is what the client reads of its JSON; the connection answers through a script.
\<close>

section \<open>Correlation\<close>

record client_operation =
  co_id :: "str option"
  co_status :: "str option"

record client_message =
  cm_ok :: bool
  cm_event :: "str option"
  cm_subscription :: "str option"
  cm_operation :: client_operation
  cm_error :: "str option"

definition operation_id :: "client_message \<Rightarrow> str option" where
  "operation_id response = co_id (cm_operation response)"

definition message_id :: "str \<Rightarrow> client_message \<Rightarrow> str option" where
  "message_id stream m = (if stream = STREAM_OPERATION then co_id (cm_operation m) else cm_subscription m)"

definition is_terminal_event :: "str \<Rightarrow> client_message \<Rightarrow> bool" where
  "is_terminal_event stream m \<longleftrightarrow>
     stream = STREAM_OPERATION \<and> cm_event m \<in> Some ` {''completed'', ''failed'', ''cancelled'', ''unknown''}"

section \<open>Publishing standard input\<close>

text \<open>A reply that could be sent and decoded, or the error of the connection.\<close>

definition client_publish :: "(bytes \<Rightarrow> (str, client_message) result) \<Rightarrow> bytes \<Rightarrow> (str, unit) result" where
  "client_publish send bs =
     rbind (send bs) (\<lambda>response.
       if cm_ok response then Inr ()
       else Inl (case cm_error response of Some e \<Rightarrow> e | None \<Rightarrow> ''clip-daemon rejected the clipboard content''))"

definition publish_stdin :: "(bytes \<Rightarrow> (str, client_message) result) \<Rightarrow> bytes \<Rightarrow> (str, unit) result" where
  "publish_stdin send stdin =
    (let bs = take (MAX_WAYLAND_SELECTION_BYTES + 1) stdin
     in if length bs \<le> MAX_WAYLAND_SELECTION_BYTES then client_publish send bs
        else Inl (''stdin exceeds the hard clipboard limit of '' @ nat_str MAX_WAYLAND_SELECTION_BYTES @ '' bytes''))"

section \<open>Screenshots\<close>

definition screenshot_unknown :: str where
  "screenshot_unknown = ''Screenshot outcome unknown; do not replay''"

text \<open>One turn of the wait: a message of the subscription (\<open>None\<close> when it ended), or the reply to a status request.\<close>

datatype screenshot_turn =
    Message "(str, client_message) result option"
  | StatusTimedOut
  | StatusReply "(str, client_message) result"

fun await_subscribed :: "str \<Rightarrow> (str, client_message) result option list \<Rightarrow> (str, unit) result option" where
  "await_subscribed i [] = None"
| "await_subscribed i (None # ms) = Some (Inl ''Screenshot observation ended'')"
| "await_subscribed i (Some (Inl e) # ms) = Some (Inl e)"
| "await_subscribed i (Some (Inr m) # ms) =
     (if cm_subscription m = Some i \<and> cm_event m = Some ''subscribed'' then Some (Inr ()) else await_subscribed i ms)"

definition screenshot_turn_step ::
    "str \<Rightarrow> str \<Rightarrow> screenshot_turn \<Rightarrow> client_operation \<Rightarrow> (str, client_operation) result" where
  "screenshot_turn_step subscription i turn operation =
    (case turn of
       Message None \<Rightarrow> Inl screenshot_unknown
     | Message (Some (Inl e)) \<Rightarrow> Inl e
     | Message (Some (Inr m)) \<Rightarrow>
         Inr (if cm_subscription m = Some subscription \<and> co_id (cm_operation m) = Some i then cm_operation m else operation)
     | StatusTimedOut \<Rightarrow> Inl screenshot_unknown
     | StatusReply (Inl e) \<Rightarrow> Inl e
     | StatusReply (Inr m) \<Rightarrow>
         if cm_ok m \<and> co_id (cm_operation m) = Some i then Inr (cm_operation m) else Inl screenshot_unknown)"

text \<open>\<open>None\<close>: the client still waits.\<close>

fun screenshot_wait :: "str \<Rightarrow> str \<Rightarrow> screenshot_turn list \<Rightarrow> client_operation \<Rightarrow> (str, client_operation) result option" where
  "screenshot_wait subscription i turns operation =
    (if co_status operation \<noteq> Some ''started'' then Some (Inr operation)
     else case turns of
       [] \<Rightarrow> None
     | turn # rest \<Rightarrow>
         (case screenshot_turn_step subscription i turn operation of
            Inl e \<Rightarrow> Some (Inl e)
          | Inr operation' \<Rightarrow> screenshot_wait subscription i rest operation'))"

declare screenshot_wait.simps [simp del]

definition screenshot_result :: "client_operation \<Rightarrow> (str, unit) result" where
  "screenshot_result operation =
    (if co_status operation = Some ''completed'' then Inr ()
     else Inl (''Screenshot did not complete: '' @ (case co_status operation of Some x \<Rightarrow> x | None \<Rightarrow> ''unknown'')))"

text \<open>The subscription's reply and its messages until it is confirmed, then the reply to the request and the wait.\<close>

definition client_screenshot ::
    "(str, client_message) result \<Rightarrow> (str, client_message) result option list \<Rightarrow> (str, client_message) result \<Rightarrow>
       screenshot_turn list \<Rightarrow> (str, unit) result option" where
  "client_screenshot subscribed opening reply turns =
    (case subscribed of
       Inl e \<Rightarrow> Some (Inl e)
     | Inr m \<Rightarrow>
         if \<not> cm_ok m then Some (Inl ''Could not observe screenshot completion'')
         else case cm_subscription m of
           None \<Rightarrow> Some (Inl ''Missing subscription identity'')
         | Some subscription \<Rightarrow>
             (case await_subscribed subscription opening of
                None \<Rightarrow> None
              | Some (Inl e) \<Rightarrow> Some (Inl e)
              | Some (Inr _) \<Rightarrow>
                  (case reply of
                     Inl e \<Rightarrow> Some (Inl e)
                   | Inr response \<Rightarrow>
                       if \<not> cm_ok response
                       then Some (Inl (case cm_error response of Some e \<Rightarrow> e | None \<Rightarrow> ''Screenshot request failed''))
                       else case co_id (cm_operation response) of
                         None \<Rightarrow> Some (Inl ''Missing screenshot operation identity'')
                       | Some i \<Rightarrow>
                           map_option (\<lambda>r. rbind r screenshot_result)
                             (screenshot_wait subscription i turns (cm_operation response)))))"

section \<open>Store status\<close>

definition store_status ::
    "(str, backend_status) result \<Rightarrow> (str, unit) result \<Rightarrow> (str, backend_status) result" where
  "store_status observed_status shutdown =
     rbind observed_status (\<lambda>status.
     rbind shutdown (\<lambda>_.
       if st_available status then Inr status else Inl ''History store is unavailable''))"

section \<open>Outcomes\<close>

text \<open>Every operation the wait returns is the one first reported, or one with the same identity.\<close>

lemma screenshot_wait_Inr:
  assumes "screenshot_wait subscription i turns operation = Some (Inr final)" and "co_id operation = Some i"
  shows "co_id final = Some i \<and> co_status final \<noteq> Some ''started''"
  using assms
proof (induction turns arbitrary: operation)
  case Nil
  then show ?case by (subst (asm) screenshot_wait.simps) (auto split: if_splits)
next
  case (Cons turn rest)
  show ?case
  proof (cases "co_status operation = Some ''started''")
    case True
    then obtain operation' where st: "screenshot_turn_step subscription i turn operation = Inr operation'"
      and w: "screenshot_wait subscription i rest operation' = Some (Inr final)"
      using Cons.prems(1) by (subst (asm) screenshot_wait.simps) (auto split: sum.splits)
    have "co_id operation' = Some i"
      using st Cons.prems(2) by (auto simp: screenshot_turn_step_def split: screenshot_turn.splits option.splits sum.splits if_splits)
    from Cons.IH[OF w this] show ?thesis .
  next
    case False
    then show ?thesis using Cons.prems by (subst (asm) screenshot_wait.simps) auto
  qed
qed

lemma screenshot_success:
  assumes "client_screenshot subscribed opening reply turns = Some (Inr ())"
  shows "\<exists>response i final subscription. reply = Inr response \<and> cm_ok response \<and> co_id (cm_operation response) = Some i \<and>
    screenshot_wait subscription i turns (cm_operation response) = Some (Inr final) \<and> co_id final = Some i \<and>
    co_status final = Some ''completed''"
proof -
  obtain subscription response i r where p: "reply = Inr response" "cm_ok response" "co_id (cm_operation response) = Some i"
    "screenshot_wait subscription i turns (cm_operation response) = Some r" "rbind r screenshot_result = Inr ()"
    using assms by (auto simp: client_screenshot_def split: sum.splits if_splits option.splits)
  then obtain final where f: "r = Inr final" "screenshot_result final = Inr ()" by (cases r) auto
  then have "co_status final = Some ''completed''" by (auto simp: screenshot_result_def split: if_splits)
  moreover have "co_id final = Some i" using screenshot_wait_Inr[OF _ p(3)] p(4) f(1) by blast
  ultimately show ?thesis using p f(1) by blast
qed

lemma publish_stdin_bounded:
  "publish_stdin send stdin = Inr () \<Longrightarrow> length stdin \<le> MAX_WAYLAND_SELECTION_BYTES \<and> client_publish send stdin = Inr ()"
  by (auto simp: publish_stdin_def Let_def split: if_splits)

end
