(* ===== verification/Wayland_Poll.thy ===== *)
theory Wayland_Poll
  imports Capture_Properties Secret_Selection
begin

text \<open>
  Bounded polling of the compositor connection (\<open>src/src/wayland_io.rs\<close>): one turn flushes the requests, waits on the
  connection and the transfers for at most 25 ms in a fixed number of slots, and reads.  The outcomes of the calls are
  arguments.  The lemmas compose it with its two callers: capture never has more transfers than slots, and the
  tick of the capture loop gets its error from here.
\<close>

datatype poll_answer = Polled bool | Interrupted | PollFailed

record poll_script =
  po_flushed :: bool
  po_prepared :: bool
  po_answer :: poll_answer
  po_read_ok :: bool

text \<open>Filling the slots: the first is the connection; \<open>None\<close> is the next slot missing.\<close>

fun fill_slots :: "nat \<Rightarrow> nat \<Rightarrow> 'fd list \<Rightarrow> nat option" where
  "fill_slots slots used [] = Some used"
| "fill_slots slots used (fd # fds) = (if used < slots then fill_slots slots (used + 1) fds else None)"

definition read_events :: "nat \<Rightarrow> poll_script \<Rightarrow> 'fd list \<Rightarrow> (str, unit) result" where
  "read_events slots po transfers =
    (if \<not> po_flushed po then Inl ''Wayland flush failed''
     else if \<not> po_prepared po then Inr ()
     else case fill_slots slots 1 transfers of
       None \<Rightarrow> Inl ''Too many Wayland transfers to poll''
     | Some used \<Rightarrow>
         if used > slots then Inl ''Missing Wayland poll slot''
         else (case po_answer po of
                 Polled ready \<Rightarrow> if ready \<and> \<not> po_read_ok po then Inl ''Wayland disconnected'' else Inr ()
               | Interrupted \<Rightarrow> Inr ()
               | PollFailed \<Rightarrow> Inl ''Wayland poll failed''))"

lemma fill_slots_iff:
  "fill_slots slots used fds = (if fds = [] \<or> used + length fds \<le> slots then Some (used + length fds) else None)"
proof (induction fds arbitrary: used)
  case (Cons fd fds)
  then show ?case by (cases "fds = []") auto
qed simp

text \<open>When the slots do not suffice.\<close>

lemma read_events_crowded:
  assumes "po_flushed po" and "po_prepared po" and "transfers \<noteq> []" and "slots \<le> length transfers"
  shows "read_events slots po transfers = Inl ''Too many Wayland transfers to poll''"
  using assms by (simp add: read_events_def fill_slots_iff)

lemma read_events_enough:
  assumes "length transfers < slots"
  shows "read_events slots po transfers = Inr () \<or>
    read_events slots po transfers \<in> Inl ` {''Wayland flush failed'', ''Wayland disconnected'', ''Wayland poll failed''}"
  using assms by (cases "po_answer po") (simp_all add: read_events_def fill_slots_iff)

section \<open>The callers\<close>

definition CAPTURE_SLOTS :: nat where "CAPTURE_SLOTS = MAX_TRANSFERS + 1"

definition capture_poll :: "poll_script \<Rightarrow> capture_state \<Rightarrow> (str, unit) result" where
  "capture_poll po s = read_events CAPTURE_SLOTS po (cs_transfers s)"

definition secret_poll :: "poll_script \<Rightarrow> (str, unit) result" where
  "secret_poll po = read_events 1 po ([] :: unit list)"

text \<open>A tick of the capture loop whose last step is the poll itself.\<close>

definition polled_tick :: "tick \<Rightarrow> poll_script \<Rightarrow> capture_state \<Rightarrow> (str, unit) result option \<times> capture_state" where
  "polled_tick k po s =
     run_tick (k\<lparr>tk_read_error := (case capture_poll po (snd (run_tick k s)) of Inl e \<Rightarrow> Some e | Inr _ \<Rightarrow> None)\<rparr>) s"

lemma capture_never_crowded:
  assumes "capture_reachable s"
  shows "capture_poll po s = Inr () \<or> capture_poll po s \<in> Inl ` {''Wayland flush failed'', ''Wayland disconnected'', ''Wayland poll failed''}"
proof -
  have few: "length (cs_transfers s) \<le> MAX_TRANSFERS"
    using capture_reachable_inv[OF assms] by (simp add: capture_inv_def sizes_ok_def)
  then show ?thesis unfolding capture_poll_def by (intro read_events_enough) (simp add: CAPTURE_SLOTS_def)
qed

lemma secret_never_crowded:
  "secret_poll po = Inr () \<or> secret_poll po \<in> Inl ` {''Wayland flush failed'', ''Wayland disconnected'', ''Wayland poll failed''}"
  unfolding secret_poll_def by (rule read_events_enough) simp

lemma fold_events_reachable: "capture_reachable s \<Longrightarrow> capture_reachable (fold handle_event evs s)"
  by (induction evs arbitrary: s) (auto intro: cr_step c_event)

lemma run_tick_reachable: "capture_reachable s \<Longrightarrow> capture_reachable (snd (run_tick k s))"
  using fold_events_reachable[of s "tk_events k"]
  by (auto simp: run_tick_def Let_def intro: cr_step c_receive split: option.splits)

text \<open>A reachable connection ends with an error of dispatch, of the protocol, of time, or of the poll, never for want of slots.\<close>

lemma polled_tick_error:
  assumes "capture_reachable s" and "polled_tick k po s = (Some (Inl e), s')"
  shows "e \<in> {''Wayland event dispatch failed'', ''Wayland capture initialization timed out'', ''Wayland flush failed'',
      ''Wayland disconnected'', ''Wayland poll failed''} \<or> cs_error (fold handle_event (tk_events k) s) = Some e"
proof -
  have "capture_poll po (snd (run_tick k s)) = Inr () \<or>
      capture_poll po (snd (run_tick k s)) \<in> Inl ` {''Wayland flush failed'', ''Wayland disconnected'', ''Wayland poll failed''}"
    by (rule capture_never_crowded[OF run_tick_reachable[OF assms(1)]])
  then show ?thesis using assms(2) unfolding polled_tick_def run_tick_def
    by (auto simp: Let_def split: if_splits option.splits)
qed

end
