(* ===== verification/Spec2Isabelle.thy ===== *)
theory Spec2Isabelle
  imports Storage_Properties Capture_Properties Backend_Properties Operation_Properties Settings_Properties Paste_Properties
    Search_Properties Service_Properties Screenshot_Properties Api_Properties Secret_Selection Daemon_Process Open_Properties
    Stream_Properties Client_Commands Wayland_Poll
begin

text \<open>
  A verification development for clip-daemon, a Wayland clipboard history daemon.

  \<^bold>\<open>The program.\<close>  One process captures what other programs copy, keeps it in a relational store, and serves a
  picker: search, details, copy back, paste, edit, favorites, removal, wipe, screenshots.  The storage owner thread
  is the only user of the database; the capture worker feeds it through an admission gate; the backend joins store,
  file system and selection; the entry service, the settings manager and the API stand on the backend and talk to
  owners (D-Bus names).

  \<^bold>\<open>Conventions.\<close>  A string or a byte sequence is a list of characters (bytes).  Fallible code returns the sum type
  \<open>result\<close> with the error on the left; \<open>rbind\<close>, \<open>hbind\<close> and \<open>sbind\<close> are the \<open>?\<close> operator without state, over the
  history state, and over any state.  Machine integers are \<open>nat\<close> or \<open>int\<close> with the bounds of their type written out
  where a bound or wrap-around matters, and words in the gate.  Hash maps are association lists with \<open>without\<close>.
  Whatever the repository does not contain (SQL engine, hash, URL, JSON and image crates, compositor, clocks,
  external commands) is a parameter: the record \<open>platform\<close>, a tape of outcomes, an oracle argument.  Nothing is
  assumed of a parameter except in the hypotheses of a theorem.

  \<^bold>\<open>Theories and sources\<close> (paths under src/src).

  \<^item> Foundations: \<open>Clip_Prelude\<close> (results, maps, hint collections), \<open>Rust_Str\<close> and \<open>Rust_Numbers\<close> (UTF-8, trimming,
    splitting, decimal numbers as the Rust library has them), \<open>Result_State\<close>, \<open>Platform\<close>, \<open>Backend_Types\<close>
    (model.rs, backend.rs).
  \<^item> Content: \<open>Classification\<close> (classification.rs), \<open>Selection\<close> (selection.rs), \<open>Secret_Selection\<close> (selection/secret.rs, the
    loop that owns a sensitive selection), \<open>Content\<close> (history/content.rs).
  \<^item> Store: \<open>History_Tables\<close>, \<open>History_Retention\<close>, \<open>History_Database\<close>, \<open>History_Query\<close>, \<open>Artifact_Tables\<close>
    (history_store/schema.rs and database.rs) hold the relations and every transaction body; \<open>History_Store\<close>,
    \<open>Store_Queue\<close> and \<open>Storage_Op\<close> (history_store/mod.rs) the requests, the bounded queue with its byte budget as
    an interleaving step relation, and the reachable databases; \<open>Store_Schema\<close> and
    \<open>Store_Open\<close> with \<open>Open_Properties\<close> how a database is opened.  \<open>History_Invariants\<close>, \<open>History_Bodies\<close> and
    \<open>History_Readback\<close> hold the lemmas: integrity of the relations under every body, the bounds of the policy after
    retention, and what is read back.  \<open>Storage_Examples\<close> and \<open>Storage_Properties\<close> state the properties.
  \<^item> Capture: \<open>Capture_Gate\<close> (capture.rs), \<open>Offered_Mimes\<close> (capture/policy.rs), \<open>Capture_Transfer\<close>
    (capture/transfer.rs), \<open>Wayland_Capture\<close> (capture/wayland.rs), \<open>Capture_Worker\<close> and \<open>Capture_Session\<close>
    (capture/worker.rs), with \<open>Capture_Invariants\<close> and \<open>Capture_Properties\<close>; \<open>History_Sink\<close> (history/capture.rs)
    instantiates the sink of the worker with the store; \<open>Wayland_Poll\<close> (wayland_io.rs) is the poll
    of a connection, for capture and for a sensitive selection.
  \<^item> Backend: \<open>History_Backend\<close> (the state one caller sees), \<open>Generated_Files\<close> (history/artifacts.rs),
    \<open>History_Mutation\<close> (history.rs, history/mutation.rs), \<open>History_Operations\<close> (history/operation.rs),
    \<open>Screenshots\<close> (history/screenshot.rs, editor.rs), \<open>Thumbnails\<close> (history/content.rs, the cache), with \<open>Backend_Facts\<close>, \<open>Image_Rollback\<close> and the
    property theories \<open>Backend_Properties\<close>, \<open>Operation_Properties\<close>, \<open>Screenshot_Properties\<close>.
  \<^item> Settings: \<open>Settings_Manager\<close>, \<open>Settings_Contract\<close>, \<open>Settings_World\<close>, \<open>Settings_Properties\<close> (settings.rs,
    settings/services.rs): the manager over the contract \<open>capture_services\<close>, interpreted on the capture controller
    and the store.
  \<^item> Services: \<open>Paste_Sessions\<close> with \<open>Paste_Facts\<close> and \<open>Paste_Properties\<close> (session.rs); \<open>History_Search\<close> with
    \<open>Search_Facts\<close> and \<open>Search_Properties\<close> (history_search.rs); \<open>Entry_Actions\<close>, \<open>Entry_Requests\<close> with
    \<open>Service_Facts\<close> and \<open>Service_Properties\<close> (actions.rs); \<open>Operation_Book\<close> (api/operations.rs,
    api/history.rs); \<open>Api_Service\<close>, \<open>Api_Dispatch\<close> with \<open>Api_Facts\<close> and \<open>Api_Properties\<close> (api.rs,
    protocol.rs); \<open>Api_Streams\<close> with \<open>Stream_Properties\<close> (daemon/subscription.rs and the loops of api.rs);
    \<open>Client_Commands\<close> (client.rs, main.rs).
  \<^item> Daemon: \<open>Daemon_Owners\<close> with \<open>Daemon_Properties\<close> (daemon/owner.rs, daemon/socket.rs, the calls of daemon.rs) and
    \<open>Daemon_Process\<close> (run and serve of daemon.rs, the shutdown of history.rs and of the capture controller).

  \<^bold>\<open>Interfaces.\<close>  The locales state what a client relies on and are interpreted in the theory of the provider: \<open>storage_op\<close>
  (what every transaction body promises, interpreted on each body), \<open>capture_sink\<close> (what the capture worker relies on,
  interpreted on the history sink), \<open>capture_services\<close> (what the settings manager drives, interpreted on the
  capture controller and the store).  The properties use the interpreted facts.

  \<^bold>\<open>What the lemmas show.\<close>  Store: integrity and policy bounds in every reachable database, atomic or fenced
  transactions, exact read back, deduplication by content, literal search, exact pages, first in first out service
  with an exact byte budget; a store that opens is private, owned once and recognized.  Capture: a paused daemon stores nothing, stale generations are refused, marked offers
  are never read, every resource is bounded.  Backend: what is published is what is stored, a replacement survives
  its publication, files are created and removed all or nothing.  Operations: one started and at most one terminal
  event, refinement of a lifecycle, possible settlement.  Services: a paste is injected once, after its owner armed
  it; cursors page exactly; an edit is committed once; a wipe needs its own fresh challenge; active operations are
  bounded; a screenshot publishes only after its commit; a
  sensitive text is never sent after its deadline.  Daemon: a caller that is gone holds nothing, the loss of the bus
  spares the owners of the socket, a clean end is final, and a
  subscription sees its own streams only.

  \<^bold>\<open>Bounds and fuel.\<close>  No definition uses fuel.  Recursion is structural or carries a termination proof; loops that
  wait for the outside (the worker's reconnection rounds, the polls of a connection) run over an explicit list of
  the rounds or events that happened, or are step relations over which the invariants are proved for any length.
  Limits are the constants of the code: 32 requests and 128 MiB in the queue, 16 seats, 64 offers, 4 transfers,
  64 active operations, 16 of one owner, 256 records, 5000 targets of a removal.

  \<^bold>\<open>Concurrency.\<close>  Critical sections are single functions; where the code interleaves them (gate, queue, operations,
  sessions, registry) a step relation interleaves them too.  The requests of the entry service and of the API are
  one function each: the code re-checks its guards after every wait, and the re-checks are modelled; the calls of a
  worker between its start and its end are taken in order when it is joined.  The cancellation of an operation is
  split in its parts in \<open>History_Operations\<close> and taken as waited for in \<open>Api_Service\<close>.

  \<^bold>\<open>Not modelled.\<close>  The parsing of arguments, the printing of fixtures and the start of the client's bridge (main.rs,
  client.rs); the vendored libraries under the daemon (service boundary, socket server, monitor of bus names,
  registry of subscription tasks), the SQL engine, the image codec and the system calls, whose answers are
  arguments; JSON decoding and the envelopes; the traits of backend.rs and capture.rs, which are interfaces, and
  the methods that only run a synchronous action off the executor; poisoned locks, which follow a panic;
  frontend_contract.rs, fake.rs and the examples (fixtures and tests); everything that is not Rust (the picker and
  its tools).
\<close>

end
